(* ===== verification/Prelude.thy ===== *)
theory Prelude
  imports Main "HOL-Library.Word" "HOL-Library.Char_ord" "HOL-Library.List_Lexorder"
    "HOL-Library.Code_Target_Nat"
begin

text \<open>
  Shared vocabulary of the development: Go's error values, panics, machine integers, byte
  slices and slice expressions, with the sequencing combinators of the error and panic
  results and the facts every component uses about them.

  A Go string and a byte slice are both lists of bytes (\<open>string\<close>, one \<open>char\<close> per byte).
  Where the code tells a nil slice from an empty one, the slice is a \<open>string option\<close>.
  A Go \<open>int\<close> and \<open>int64\<close> is a \<open>64 word\<close> read with \<open>sint\<close>; a \<open>uint64\<close> is a \<open>64 word\<close> read with
  \<open>unat\<close>; an \<open>int8\<close> is an \<open>8 word\<close>.
\<close>

named_theorems go_simps \<open>equations of the sequencing combinators and of slices\<close>

section \<open>Types\<close>

type_synonym bytes = string
type_synonym gint = "64 word"
type_synonym uint64 = "64 word"
type_synonym int32 = "32 word"
type_synonym int8 = "8 word"

datatype num_err = ErrSyntax | ErrRange

datatype json_err = JsonSyntax | JsonType

text \<open>
  Error values: a text made by the code (\<open>errors.New\<close>, \<open>fmt.Errorf\<close>), a wrapped error
  (\<open>errors.Wrap\<close>, \<open>errors.WithMessage\<close>), the errors of \<open>strconv\<close> and \<open>encoding/json\<close>, and an
  error handed over by a library the sources only call.
\<close>

datatype go_error =
    EText string
  | EWrap string go_error
  | ENum num_err
  | EJson json_err
  | ELib string

text \<open>A call returns normally or panics. The panic value is an error.\<close>

datatype 'a outcome = Done 'a | Panic go_error

section \<open>Sequencing\<close>

text \<open>\<open>x, err := m; if err != nil \<lbrace> return nil, err \<rbrace>; f x\<close>\<close>

definition res_bind :: "go_error + 'a \<Rightarrow> ('a \<Rightarrow> go_error + 'b) \<Rightarrow> go_error + 'b" where
  "res_bind m f = (case m of Inl e \<Rightarrow> Inl e | Inr x \<Rightarrow> f x)"

text \<open>A call inside a function: a panic of the callee unwinds the caller.\<close>

definition out_bind :: "'a outcome \<Rightarrow> ('a \<Rightarrow> 'b outcome) \<Rightarrow> 'b outcome" where
  "out_bind m f = (case m of Panic e \<Rightarrow> Panic e | Done x \<Rightarrow> f x)"

text \<open>\<open>x, err := m; if err != nil \<lbrace> return nil, err \<rbrace>\<close> in a function that may also panic.\<close>

definition try_bind :: "go_error + 'a \<Rightarrow> ('a \<Rightarrow> (go_error + 'b) outcome) \<Rightarrow> (go_error + 'b) outcome" where
  "try_bind m f = (case m of Inl e \<Rightarrow> Done (Inl e) | Inr x \<Rightarrow> f x)"

text \<open>\<open>errors.Wrap\<close> and \<open>errors.WithMessage\<close> return nil for a nil error.\<close>

definition wrap_err :: "string \<Rightarrow> go_error option \<Rightarrow> go_error option" where
  "wrap_err msg e = map_option (EWrap msg) e"

definition res_wrap :: "string \<Rightarrow> go_error + 'a \<Rightarrow> go_error + 'a" where
  "res_wrap msg m = (case m of Inl e \<Rightarrow> Inl (EWrap msg e) | Inr x \<Rightarrow> Inr x)"

text \<open>\<open>if err != nil \<lbrace> panic(err) \<rbrace>\<close>\<close>

definition or_panic :: "go_error + 'a \<Rightarrow> 'a outcome" where
  "or_panic m = (case m of Inl e \<Rightarrow> Panic e | Inr x \<Rightarrow> Done x)"

lemma res_bind_simps [simp, go_simps]:
  "res_bind (Inl e) f = Inl e"
  "res_bind (Inr x) f = f x"
  by (simp_all add: res_bind_def)

lemma out_bind_simps [simp, go_simps]:
  "out_bind (Panic e) f = Panic e"
  "out_bind (Done x) f = f x"
  by (simp_all add: out_bind_def)

lemma try_bind_simps [simp, go_simps]:
  "try_bind (Inl e) f = Done (Inl e)"
  "try_bind (Inr x) f = f x"
  by (simp_all add: try_bind_def)

lemma or_panic_simps [simp, go_simps]:
  "or_panic (Inl e) = Panic e"
  "or_panic (Inr x) = Done x"
  by (simp_all add: or_panic_def)

lemma wrap_err_simps [simp, go_simps]:
  "wrap_err msg None = None"
  "wrap_err msg (Some e) = Some (EWrap msg e)"
  by (simp_all add: wrap_err_def)

lemma res_wrap_simps [simp, go_simps]:
  "res_wrap msg (Inl e) = Inl (EWrap msg e)"
  "res_wrap msg (Inr x) = Inr x"
  by (simp_all add: res_wrap_def)

lemma res_bind_eq_Inr: "res_bind m f = Inr y \<longleftrightarrow> (\<exists>x. m = Inr x \<and> f x = Inr y)"
  by (cases m) auto

lemma res_bind_eq_Inl: "res_bind m f = Inl e \<longleftrightarrow> m = Inl e \<or> (\<exists>x. m = Inr x \<and> f x = Inl e)"
  by (cases m) auto

lemma out_bind_eq_Done: "out_bind m f = Done y \<longleftrightarrow> (\<exists>x. m = Done x \<and> f x = Done y)"
  by (cases m) auto

lemma out_bind_eq_Panic:
  "out_bind m f = Panic e \<longleftrightarrow> m = Panic e \<or> (\<exists>x. m = Done x \<and> f x = Panic e)"
  by (cases m) auto

lemma try_bind_eq_Inr: "try_bind m f = Done (Inr y) \<longleftrightarrow> (\<exists>x. m = Inr x \<and> f x = Done (Inr y))"
  by (cases m) auto

lemma or_panic_eq_Done: "or_panic m = Done x \<longleftrightarrow> m = Inr x"
  by (cases m) auto

lemma res_wrap_eq_Inr: "res_wrap msg m = Inr x \<longleftrightarrow> m = Inr x"
  by (cases m) auto

lemma wrap_err_eq_None: "wrap_err msg e = None \<longleftrightarrow> e = None"
  by (cases e) auto

lemmas go_inversions =
  res_bind_eq_Inr out_bind_eq_Done try_bind_eq_Inr or_panic_eq_Done res_wrap_eq_Inr wrap_err_eq_None

section \<open>Slices and indexes\<close>

text \<open>\<open>s[i:j]\<close> and \<open>s[i]\<close> panic outside the bounds.\<close>

definition index_panic :: go_error where
  "index_panic = ELib ''runtime error: index out of range''"

definition go_slice :: "'a list \<Rightarrow> nat \<Rightarrow> nat \<Rightarrow> 'a list outcome" where
  "go_slice s i j =
     (if i \<le> j \<and> j \<le> length s then Done (take (j - i) (drop i s)) else Panic index_panic)"

definition go_index :: "'a list \<Rightarrow> int \<Rightarrow> 'a outcome" where
  "go_index xs i =
     (if 0 \<le> i \<and> i < int (length xs) then Done (xs ! nat i) else Panic index_panic)"

text \<open>Reading through a nil pointer panics.\<close>

definition nil_panic :: go_error where
  "nil_panic = ELib ''runtime error: invalid memory address or nil pointer dereference''"

definition deref :: "'a option \<Rightarrow> 'a outcome" where
  "deref p = (case p of None \<Rightarrow> Panic nil_panic | Some x \<Rightarrow> Done x)"

lemma deref_simps [simp, go_simps]:
  "deref None = Panic nil_panic"
  "deref (Some x) = Done x"
  by (simp_all add: deref_def)

lemma deref_eq_Done: "deref p = Done x \<longleftrightarrow> p = Some x"
  by (cases p) auto

lemma go_slice_Done:
  "i \<le> j \<Longrightarrow> j \<le> length s \<Longrightarrow> go_slice s i j = Done (take (j - i) (drop i s))"
  by (simp add: go_slice_def)

lemma go_slice_Panic: "length s < j \<Longrightarrow> go_slice s i j = Panic index_panic"
  by (simp add: go_slice_def)

lemma go_index_Done: "0 \<le> i \<Longrightarrow> i < int (length xs) \<Longrightarrow> go_index xs i = Done (xs ! nat i)"
  by (simp add: go_index_def)

lemma go_index_Done_in_set: "go_index xs i = Done x \<Longrightarrow> x \<in> set xs"
  by (auto simp: go_index_def split: if_splits)

text \<open>A nil slice reads as the empty one wherever the code only reads its bytes.\<close>

definition slice_bytes :: "'a list option \<Rightarrow> 'a list" where
  "slice_bytes s = (case s of None \<Rightarrow> [] | Some b \<Rightarrow> b)"

lemma slice_bytes_simps [simp, go_simps]:
  "slice_bytes None = []"
  "slice_bytes (Some b) = b"
  by (simp_all add: slice_bytes_def)

text \<open>A loop over a slice that stops at the first panic.\<close>

fun out_map :: "('a \<Rightarrow> 'b outcome) \<Rightarrow> 'a list \<Rightarrow> 'b list outcome" where
  "out_map f [] = Done []"
| "out_map f (x # xs) = out_bind (f x) (\<lambda>y. out_bind (out_map f xs) (\<lambda>ys. Done (y # ys)))"

lemma out_map_Done: "(\<And>x. x \<in> set xs \<Longrightarrow> f x = Done (g x)) \<Longrightarrow> out_map f xs = Done (map g xs)"
  by (induction xs) auto

text \<open>The loop that stops at the first error.\<close>

fun res_map :: "('a \<Rightarrow> go_error + 'b) \<Rightarrow> 'a list \<Rightarrow> go_error + 'b list" where
  "res_map f [] = Inr []"
| "res_map f (x # xs) = res_bind (f x) (\<lambda>y. res_bind (res_map f xs) (\<lambda>ys. Inr (y # ys)))"

lemma res_map_Inr: "(\<And>x. x \<in> set xs \<Longrightarrow> f x = Inr (g x)) \<Longrightarrow> res_map f xs = Inr (map g xs)"
  by (induction xs) auto

lemma res_map_eq_Inr:
  "res_map f xs = Inr ys \<longleftrightarrow> list_all2 (\<lambda>x y. f x = Inr y) xs ys"
  by (induction xs arbitrary: ys) (auto simp: res_bind_eq_Inr list_all2_Cons1)

section \<open>Signed words\<close>

lemma sint_bounds64: "- (2 ^ 63) \<le> sint (w :: 64 word)" "sint (w :: 64 word) < 2 ^ 63"
  using sint_greater_eq [of w] sint_less [of w] by simp_all

lemma sint_of_int64: "- (2 ^ 63) \<le> i \<Longrightarrow> i < 2 ^ 63 \<Longrightarrow> sint (word_of_int i :: 64 word) = i"
  by (simp add: int_word_sint)

lemma sint_plus64:
  "- (2 ^ 63) \<le> sint a + sint b \<Longrightarrow> sint a + sint b < 2 ^ 63 \<Longrightarrow>
   sint (a + b :: 64 word) = sint a + sint b"
  by (simp add: sint_word_add signed_take_bit_int_eq_self)

lemma sint_minus64:
  "- (2 ^ 63) \<le> sint a - sint b \<Longrightarrow> sint a - sint b < 2 ^ 63 \<Longrightarrow>
   sint (a - b :: 64 word) = sint a - sint b"
  by (simp add: sint_word_diff signed_take_bit_int_eq_self)

end
