(* ===== verification/Go_Strconv.thy ===== *)
theory Go_Strconv
  imports Prelude
begin

text \<open>
  The functions of Go's package \<open>strconv\<close> that the sources call: \<open>Atoi\<close>, \<open>ParseInt\<close>,
  \<open>ParseUint\<close>, \<open>ParseBool\<close>, \<open>Itoa\<close>, \<open>FormatUint\<close> and \<open>FormatBool\<close>, at base 10 and 64 bits.
  A parser returns its value together with its error, because the sources often drop the error
  and keep the value: 0 for a syntax error, the nearest bound for a range error.
\<close>

section \<open>Digits\<close>

definition is_digit :: "char \<Rightarrow> bool" where
  "is_digit c \<longleftrightarrow> CHR ''0'' \<le> c \<and> c \<le> CHR ''9''"

definition digit_val :: "char \<Rightarrow> nat" where
  "digit_val c = of_char c - 48"

definition digit_char :: "nat \<Rightarrow> char" where
  "digit_char d = char_of (48 + d)"

lemma is_digit_code [code]: "is_digit c \<longleftrightarrow> 48 \<le> (of_char c :: nat) \<and> (of_char c :: nat) \<le> 57"
  by (simp add: is_digit_def less_eq_char_def)

lemma is_digit_digit_char: "d < 10 \<Longrightarrow> is_digit (digit_char d)"
  by (simp add: is_digit_def digit_char_def less_eq_char_def)

lemma digit_val_digit_char: "d < 10 \<Longrightarrow> digit_val (digit_char d) = d"
  by (simp add: digit_val_def digit_char_def)

lemma digit_char_not_sign: "d < 10 \<Longrightarrow> digit_char d \<noteq> CHR ''-'' \<and> digit_char d \<noteq> CHR ''+''"
  using is_digit_digit_char [of d] by (auto simp: is_digit_def less_eq_char_def)

section \<open>Printing\<close>

fun nat_dec :: "nat \<Rightarrow> string" where
  "nat_dec n = (if n < 10 then [digit_char n] else nat_dec (n div 10) @ [digit_char (n mod 10)])"

declare nat_dec.simps [simp del]

definition itoa :: "gint \<Rightarrow> string" where
  "itoa w = (if sint w < 0 then CHR ''-'' # nat_dec (nat (- sint w)) else nat_dec (nat (sint w)))"

definition format_uint :: "uint64 \<Rightarrow> string" where
  "format_uint w = nat_dec (unat w)"

definition format_bool :: "bool \<Rightarrow> string" where
  "format_bool b = (if b then ''true'' else ''false'')"

section \<open>Parsing\<close>

text \<open>
  The loop of \<open>ParseUint\<close>: the first character that is no digit is a syntax error, the first
  digit that takes the value past 64 bits is a range error, whichever comes first.
\<close>

fun uint_loop :: "nat \<Rightarrow> string \<Rightarrow> nat \<times> num_err option" where
  "uint_loop n [] = (n, None)"
| "uint_loop n (c # cs) =
     (if \<not> is_digit c then (0, Some ErrSyntax)
      else if 2 ^ 64 \<le> n * 10 + digit_val c then (2 ^ 64 - 1, Some ErrRange)
      else uint_loop (n * 10 + digit_val c) cs)"

definition parse_uint_nat :: "string \<Rightarrow> nat \<times> num_err option" where
  "parse_uint_nat s = (if s = [] then (0, Some ErrSyntax) else uint_loop 0 s)"

definition parse_uint :: "string \<Rightarrow> uint64 \<times> num_err option" where
  "parse_uint s = (case parse_uint_nat s of (n, e) \<Rightarrow> (word_of_nat n, e))"

definition strip_sign :: "string \<Rightarrow> bool \<times> string" where
  "strip_sign s =
     (case s of
        [] \<Rightarrow> (False, [])
      | c # cs \<Rightarrow> if c = CHR ''+'' then (False, cs) else if c = CHR ''-'' then (True, cs) else (False, s))"

definition parse_int :: "string \<Rightarrow> int \<times> num_err option" where
  "parse_int s =
     (case strip_sign s of (neg, digits) \<Rightarrow>
      case parse_uint_nat digits of (un, e) \<Rightarrow>
        if e = Some ErrSyntax then (0, Some ErrSyntax)
        else if \<not> neg \<and> 2 ^ 63 \<le> un then (2 ^ 63 - 1, Some ErrRange)
        else if neg \<and> 2 ^ 63 < un then (- (2 ^ 63), Some ErrRange)
        else (if neg then - int un else int un, None))"

definition atoi :: "string \<Rightarrow> gint \<times> num_err option" where
  "atoi s = (case parse_int s of (i, e) \<Rightarrow> (word_of_int i, e))"

definition parse_bool :: "string \<Rightarrow> bool \<times> num_err option" where
  "parse_bool s =
     (if s \<in> {''1'', ''t'', ''T'', ''TRUE'', ''true'', ''True''} then (True, None)
      else if s \<in> {''0'', ''f'', ''F'', ''FALSE'', ''false'', ''False''} then (False, None)
      else (False, Some ErrSyntax))"

section \<open>Round trips\<close>

lemma nat_dec_nonempty: "nat_dec n \<noteq> []"
  by (subst nat_dec.simps) simp

lemma nat_dec_digits: "c \<in> set (nat_dec n) \<Longrightarrow> is_digit c"
proof (induction n rule: nat_dec.induct)
  case (1 n)
  then show ?case
    by (cases "n < 10") (auto simp: nat_dec.simps [of n] is_digit_digit_char)
qed

lemma uint_loop_append:
  "uint_loop n xs = (m, None) \<Longrightarrow> uint_loop n (xs @ ys) = uint_loop m ys"
  by (induction n xs rule: uint_loop.induct) (auto split: if_splits)

lemma uint_loop_nat_dec: "n < 2 ^ 64 \<Longrightarrow> uint_loop 0 (nat_dec n) = (n, None)"
proof (induction n rule: nat_dec.induct)
  case (1 n)
  show ?case
  proof (cases "n < 10")
    case True
    then show ?thesis
      by (simp add: nat_dec.simps [of n] is_digit_digit_char digit_val_digit_char)
  next
    case False
    with 1 have "uint_loop 0 (nat_dec (n div 10)) = (n div 10, None)" by simp
    then have "uint_loop 0 (nat_dec n) = uint_loop (n div 10) [digit_char (n mod 10)]"
      using False by (simp add: nat_dec.simps [of n] uint_loop_append)
    then show ?thesis
      using "1.prems" by (simp add: is_digit_digit_char digit_val_digit_char)
  qed
qed

lemma parse_uint_nat_dec: "n < 2 ^ 64 \<Longrightarrow> parse_uint_nat (nat_dec n) = (n, None)"
  by (simp add: parse_uint_nat_def nat_dec_nonempty uint_loop_nat_dec)

lemma strip_sign_nat_dec: "strip_sign (nat_dec n) = (False, nat_dec n)"
proof -
  obtain c cs where "nat_dec n = c # cs"
    using nat_dec_nonempty by (cases "nat_dec n") auto
  moreover from this have "is_digit c"
    using nat_dec_digits [of c n] by simp
  ultimately show ?thesis
    by (auto simp: strip_sign_def is_digit_def less_eq_char_def)
qed

lemma parse_int_itoa: "parse_int (itoa w) = (sint w, None)"
proof (cases "sint w < 0")
  case True
  have "nat (- sint w) \<le> 2 ^ 63" using sint_bounds64 [of w] by (simp add: nat_le_iff)
  with True show ?thesis
    by (simp add: itoa_def parse_int_def strip_sign_def parse_uint_nat_dec)
next
  case False
  have "nat (sint w) < 2 ^ 63" using sint_bounds64 [of w] by (simp add: nat_less_iff)
  with False show ?thesis
    by (simp add: itoa_def parse_int_def strip_sign_nat_dec parse_uint_nat_dec)
qed

lemma atoi_itoa: "atoi (itoa w) = (w, None)"
  by (simp add: atoi_def parse_int_itoa)

lemma parse_uint_format: "parse_uint (format_uint w) = (w, None)"
proof -
  have "unat w < 2 ^ 64" using unsigned_less [of w] by simp
  then show ?thesis by (simp add: parse_uint_def format_uint_def parse_uint_nat_dec)
qed

lemma parse_bool_format: "parse_bool (format_bool b) = (b, None)"
  by (simp add: parse_bool_def format_bool_def)

section \<open>Bounds and errors\<close>

lemma uint_loop_bound: "n < 2 ^ 64 \<Longrightarrow> fst (uint_loop n cs) < 2 ^ 64"
  by (induction n cs rule: uint_loop.induct) auto

lemma parse_int_bounds: "- (2 ^ 63) \<le> fst (parse_int s) \<and> fst (parse_int s) < 2 ^ 63"
  by (auto simp: parse_int_def split: prod.splits)

lemma sint_atoi: "sint (fst (atoi s)) = fst (parse_int s)"
  using parse_int_bounds [of s] by (auto simp: atoi_def sint_of_int64 split: prod.split)

lemma atoi_syntax: "snd (atoi s) = Some ErrSyntax \<Longrightarrow> fst (atoi s) = 0"
  by (auto simp: atoi_def parse_int_def split: prod.splits if_splits)

lemma itoa_nonempty: "itoa w \<noteq> []"
  by (simp add: itoa_def nat_dec_nonempty)

lemma itoa_inject: "itoa v = itoa w \<Longrightarrow> v = w"
  using atoi_itoa by (metis fst_conv)

end
