(* ===== verification/Go_Map.thy ===== *)
theory Go_Map
  imports Prelude "HOL-Library.Multiset"
begin

text \<open>
  Go maps with string keys. A map is the list of its entries in increasing key order, so that
  equal maps are equal lists and \<open>encoding/json\<close>, which prints the keys of a map in byte order,
  reads it off directly. Go's own iteration order is unspecified: code that ranges over a map
  is modelled over an arbitrary reordering of the entries. A nil map is \<open>None\<close>.
\<close>

type_synonym 'v gmap = "(string \<times> 'v) list"

definition gmap_get :: "'v gmap \<Rightarrow> string \<Rightarrow> 'v option" where
  "gmap_get m k = map_of m k"

fun gmap_put :: "string \<Rightarrow> 'v \<Rightarrow> 'v gmap \<Rightarrow> 'v gmap" where
  "gmap_put k v [] = [(k, v)]"
| "gmap_put k v ((k', v') # m) =
     (if k = k' then (k, v) # m
      else if k < k' then (k, v) # (k', v') # m
      else (k', v') # gmap_put k v m)"

definition gmap_ok :: "'v gmap \<Rightarrow> bool" where
  "gmap_ok m \<longleftrightarrow> sorted_wrt (<) (map fst m)"

text \<open>Reading a missing key, or any key of a nil map, yields the zero value.\<close>

definition gmap_read :: "'v \<Rightarrow> 'v gmap option \<Rightarrow> string \<Rightarrow> 'v" where
  "gmap_read z m k =
     (case m of None \<Rightarrow> z | Some es \<Rightarrow> (case gmap_get es k of None \<Rightarrow> z | Some v \<Rightarrow> v))"

text \<open>Writing to a nil map panics.\<close>

definition nil_map_panic :: go_error where
  "nil_map_panic = ELib ''assignment to entry in nil map''"

definition gmap_write :: "string \<Rightarrow> 'v \<Rightarrow> 'v gmap option \<Rightarrow> 'v gmap option outcome" where
  "gmap_write k v m = (case m of None \<Rightarrow> Panic nil_map_panic | Some es \<Rightarrow> Done (Some (gmap_put k v es)))"

section \<open>The map contract\<close>

locale string_map =
  fixes look :: "'m \<Rightarrow> string \<Rightarrow> 'v option"
    and upd :: "string \<Rightarrow> 'v \<Rightarrow> 'm \<Rightarrow> 'm"
    and items :: "'m \<Rightarrow> (string \<times> 'v) list"
    and ok :: "'m \<Rightarrow> bool"
  assumes look_upd: "ok m \<Longrightarrow> look (upd k v m) = (look m)(k \<mapsto> v)"
    and ok_upd: "ok m \<Longrightarrow> ok (upd k v m)"
    and look_items: "ok m \<Longrightarrow> look m = map_of (items m)"
    and distinct_items: "ok m \<Longrightarrow> distinct (map fst (items m))"
begin

lemma finite_dom: "ok m \<Longrightarrow> finite (dom (look m))"
  by (simp add: look_items finite_dom_map_of)

lemma items_total:
  "ok m \<Longrightarrow> (\<Sum>e\<leftarrow>items m. f (fst e) (snd e)) = (\<Sum>k\<in>dom (look m). f k (the (look m k)))"
proof -
  assume m: "ok m"
  have "(\<Sum>e\<leftarrow>items m. f (fst e) (snd e)) = (\<Sum>e\<in>set (items m). f (fst e) (snd e))"
    using distinct_items [OF m] by (simp add: distinct_map sum_list_distinct_conv_sum_set)
  also have "\<dots> = (\<Sum>k\<in>fst ` set (items m). f k (the (look m k)))"
    using distinct_items [OF m]
    by (subst sum.reindex) (auto simp: distinct_map look_items [OF m] intro!: sum.cong)
  also have "fst ` set (items m) = dom (look m)"
    using look_items [OF m] by (simp add: dom_map_of_conv_image_fst)
  finally show ?thesis .
qed

text \<open>An update replaces one term of a total over the entries.\<close>

lemma total_upd:
  fixes g :: "'v \<Rightarrow> int"
  assumes m: "ok m"
  shows "(\<Sum>e\<leftarrow>items (upd k v m). g (snd e)) =
    (\<Sum>e\<leftarrow>items m. g (snd e)) + g v - (case look m k of None \<Rightarrow> 0 | Some u \<Rightarrow> g u)"
proof -
  let ?D = "dom (look m) - {k}"
  have fin: "finite ?D" using finite_dom [OF m] by simp
  have new: "(\<Sum>e\<leftarrow>items (upd k v m). g (snd e)) = g v + (\<Sum>x\<in>?D. g (the (look m x)))"
    using items_total [OF ok_upd [OF m], of "\<lambda>_. g" k v] fin
    by (simp add: look_upd [OF m] sum.insert_remove finite_dom [OF m])
  have old: "(\<Sum>e\<leftarrow>items m. g (snd e)) =
      (case look m k of None \<Rightarrow> 0 | Some u \<Rightarrow> g u) + (\<Sum>x\<in>?D. g (the (look m x)))"
    using items_total [OF m, of "\<lambda>_. g"] sum.remove [OF finite_dom [OF m], of k "\<lambda>x. g (the (look m x))"]
    by (auto split: option.split simp: domIff)
  show ?thesis using new old by simp
qed

lemma upd_values:
  assumes m: "ok m" and "e \<in> set (items (upd k v m))"
  shows "snd e = v \<and> fst e = k \<or> e \<in> set (items m)"
proof -
  have "look (upd k v m) (fst e) = Some (snd e)"
    using assms distinct_items [OF ok_upd [OF m]] by (simp add: look_items [OF ok_upd [OF m]])
  then show ?thesis
    using distinct_items [OF m]
    by (cases "fst e = k") (auto simp: look_upd [OF m] look_items [OF m] dest: map_of_SomeD)
qed

end

section \<open>The sorted entry list meets the contract\<close>

lemma gmap_put_keys: "fst ` set (gmap_put k v m) = insert k (fst ` set m)"
  by (induction k v m rule: gmap_put.induct) auto

lemma gmap_ok_put: "gmap_ok m \<Longrightarrow> gmap_ok (gmap_put k v m)"
proof (induction k v m rule: gmap_put.induct)
  case (2 k v k' v' m)
  have later: "\<And>a b. (a, b) \<in> set m \<Longrightarrow> k' < a" using "2.prems" by (force simp: gmap_ok_def)
  have keys: "\<And>a b. (a, b) \<in> set (gmap_put k v m) \<Longrightarrow> a = k \<or> a \<in> fst ` set m"
    using gmap_put_keys [of k v m] by (metis fst_conv image_eqI insertE)
  show ?case
    using 2 later by (auto simp: gmap_ok_def dest!: keys intro: less_trans)
qed (simp add: gmap_ok_def)

lemma gmap_get_put: "gmap_ok m \<Longrightarrow> gmap_get (gmap_put k v m) = (gmap_get m)(k \<mapsto> v)"
proof (induction k v m rule: gmap_put.induct)
  case (2 k v k' v' m)
  then show ?case by (auto simp: gmap_get_def gmap_ok_def fun_eq_iff)
qed (simp add: gmap_get_def fun_eq_iff)

lemma gmap_ok_distinct: "gmap_ok m \<Longrightarrow> distinct (map fst m)"
  unfolding gmap_ok_def using strict_sorted_iff sorted_wrt_iff_nth_less by (metis distinct_conv_nth nat_neq_iff order_less_irrefl)

interpretation gm: string_map gmap_get gmap_put "\<lambda>m. m" gmap_ok
  by unfold_locales (simp_all add: gmap_get_put gmap_ok_put gmap_ok_distinct gmap_get_def fun_eq_iff)

lemmas gmap_laws = gmap_get_put gmap_ok_put gmap_ok_distinct

lemma gmap_get_map_of: "gmap_get m = map_of m"
  by (simp add: gmap_get_def fun_eq_iff)

lemma gmap_ok_empty [simp]: "gmap_ok []"
  by (simp add: gmap_ok_def)

lemma gmap_get_empty [simp]: "gmap_get [] k = None"
  by (simp add: gmap_get_def)

lemma gmap_read_put:
  "gmap_ok m \<Longrightarrow> gmap_read z (Some (gmap_put k v m)) j = (if j = k then v else gmap_read z (Some m) j)"
  by (simp add: gmap_read_def gmap_get_put)

lemma gmap_write_Some [simp]: "gmap_write k v (Some m) = Done (Some (gmap_put k v m))"
  by (simp add: gmap_write_def)

text \<open>Two canonical maps with the same entries are the same list.\<close>

lemma gmap_eqI: "gmap_ok m \<Longrightarrow> gmap_ok n \<Longrightarrow> gmap_get m = gmap_get n \<Longrightarrow> m = n"
proof -
  assume m: "gmap_ok m" and n: "gmap_ok n" and eq: "gmap_get m = gmap_get n"
  have "set m = set n"
    using eq gmap_ok_distinct [OF m] gmap_ok_distinct [OF n]
    by (auto simp: gmap_get_def fun_eq_iff) (metis map_of_eq_Some_iff)+
  moreover from this have "inj_on fst (set m \<union> set n)"
    using gmap_ok_distinct [OF m] by (simp add: distinct_map)
  ultimately show "m = n"
    using m n gmap_ok_distinct [OF m] gmap_ok_distinct [OF n]
    by (intro map_sorted_distinct_set_unique [of fst])
      (simp_all add: gmap_ok_def strict_sorted_iff)
qed

text \<open>Rebuilding a canonical map entry by entry gives it back.\<close>

lemma gmap_put_last:
  "gmap_ok (m @ [(k, v)]) \<Longrightarrow> gmap_put k v m = m @ [(k, v)]"
  by (induction m) (auto simp: gmap_ok_def)

lemma gmap_rebuild_aux:
  "gmap_ok (acc @ m) \<Longrightarrow> foldl (\<lambda>a e. gmap_put (fst e) (snd e) a) acc m = acc @ m"
proof (induction m arbitrary: acc)
  case (Cons e m)
  have "gmap_ok (acc @ [e])" using Cons.prems by (auto simp: gmap_ok_def sorted_wrt_append)
  then have "gmap_put (fst e) (snd e) acc = acc @ [e]" using gmap_put_last [of acc "fst e" "snd e"] by simp
  then show ?case using Cons.IH [of "acc @ [e]"] Cons.prems by simp
qed simp

lemma gmap_rebuild: "gmap_ok m \<Longrightarrow> foldl (\<lambda>a e. gmap_put (fst e) (snd e) a) [] m = m"
  using gmap_rebuild_aux [of "[]" m] by simp

end
