(* ===== verification/Go_Json.thy ===== *)
theory Go_Json
  imports Go_Strconv Go_Map
begin

text \<open>
  The part of Go's \<open>encoding/json\<close> the sources use. \<open>Marshal\<close> is \<open>json_print\<close> of a document
  tree; \<open>Unmarshal\<close> is a scan of the whole input (\<open>json_parse\<close>: a lexer and a push-down machine
  over its tokens, which rejects any syntax error before anything is decoded) followed by
  decoding the tree into the target. As in Go, a value of the wrong type is recorded as an
  error, the rest of the document is still decoded, and the error is returned at the end.
  Strings are bytes: bytes that are no valid UTF-8 are replaced by U+FFFD when printed and when
  read, and \<open>Marshal\<close> escapes the characters Go escapes.
\<close>

section \<open>UTF-8\<close>

definition code :: "char \<Rightarrow> nat" where
  "code c = of_char c"

lemma code_inject: "code c = code d \<longleftrightarrow> c = d"
  by (simp add: code_def)

lemma code_char_of: "n < 256 \<Longrightarrow> code (char_of n) = n"
  by (simp add: code_def)

lemma code_less: "code c < 256"
  by (simp add: code_def)

definition in_range :: "nat \<Rightarrow> nat \<Rightarrow> char \<Rightarrow> bool" where
  "in_range lo hi c \<longleftrightarrow> lo \<le> code c \<and> code c \<le> hi"

definition ascii :: "char \<Rightarrow> bool" where
  "ascii c \<longleftrightarrow> code c < 128"

text \<open>The length of the valid multi-byte sequence at the head of the input, 0 if there is none.\<close>

definition cont :: "char \<Rightarrow> bool" where
  "cont c \<longleftrightarrow> in_range 128 191 c"

definition lead2 :: "char \<Rightarrow> char \<Rightarrow> bool" where
  "lead2 a b \<longleftrightarrow> in_range 194 223 a \<and> cont b"

definition lead3 :: "char \<Rightarrow> char \<Rightarrow> bool" where
  "lead3 a b \<longleftrightarrow>
     code a = 224 \<and> in_range 160 191 b \<or>
     (in_range 225 236 a \<or> in_range 238 239 a) \<and> cont b \<or>
     code a = 237 \<and> in_range 128 159 b"

definition lead4 :: "char \<Rightarrow> char \<Rightarrow> bool" where
  "lead4 a b \<longleftrightarrow>
     code a = 240 \<and> in_range 144 191 b \<or>
     in_range 241 243 a \<and> cont b \<or>
     code a = 244 \<and> in_range 128 143 b"

fun utf8_seq :: "string \<Rightarrow> nat" where
  "utf8_seq (a # b # s) =
     (if lead2 a b then 2
      else case s of
        [] \<Rightarrow> 0
      | c # s' \<Rightarrow>
          if lead3 a b \<and> cont c then 3
          else case s' of [] \<Rightarrow> 0 | d # _ \<Rightarrow> if lead4 a b \<and> cont c \<and> cont d then 4 else 0)"
| "utf8_seq _ = 0"

lemma utf8_seq_cases: "utf8_seq s = 0 \<or> 2 \<le> utf8_seq s \<and> utf8_seq s \<le> length s"
  by (cases s rule: utf8_seq.cases) (auto split: list.splits)

text \<open>Every byte of a multi-byte sequence is at least 128.\<close>

lemma lead_not_ascii:
  "cont c \<Longrightarrow> \<not> ascii c"
  "lead2 a b \<Longrightarrow> \<not> ascii a \<and> \<not> ascii b"
  "lead3 a b \<Longrightarrow> \<not> ascii a \<and> \<not> ascii b"
  "lead4 a b \<Longrightarrow> \<not> ascii a \<and> \<not> ascii b"
  by (auto simp: lead2_def lead3_def lead4_def cont_def in_range_def ascii_def)

lemma utf8_seq_bytes: "x \<in> set (take (utf8_seq s) s) \<Longrightarrow> \<not> ascii x"
  by (cases s rule: utf8_seq.cases)
    (auto dest: lead_not_ascii split: list.splits if_splits)

lemma utf8_seq_append: "utf8_seq s \<noteq> 0 \<Longrightarrow> utf8_seq (s @ t) = utf8_seq s"
  by (cases s rule: utf8_seq.cases) (auto split: list.splits if_splits)

function valid_utf8 :: "string \<Rightarrow> bool" where
  "valid_utf8 [] = True"
| "valid_utf8 (c # cs) =
     (if ascii c then valid_utf8 cs
      else utf8_seq (c # cs) \<noteq> 0 \<and> valid_utf8 (drop (utf8_seq (c # cs) - 1) cs))"
  by pat_completeness auto
termination by (relation "measure length") auto

section \<open>Documents and tokens\<close>

datatype json =
    JNull
  | JBool bool
  | JNum string
  | JStr string
  | JArr "json list"
  | JObj "(string \<times> json) list"

datatype tok = TLBrace | TRBrace | TLBrack | TRBrack | TComma | TColon | TStr string | TWord string

section \<open>Printing\<close>

abbreviation "quote_char \<equiv> CHR 0x22"
abbreviation "backslash \<equiv> CHR 0x5C"

definition hex_digit :: "nat \<Rightarrow> char" where
  "hex_digit d = (if d < 10 then char_of (48 + d) else char_of (87 + d))"

definition html_escaped :: "char \<Rightarrow> bool" where
  "html_escaped c \<longleftrightarrow> c = CHR ''<'' \<or> c = CHR ''>'' \<or> c = CHR ''&''"

definition esc_u00 :: "char \<Rightarrow> string" where
  "esc_u00 c = [backslash, CHR ''u'', CHR ''0'', CHR ''0'', hex_digit (code c div 16), hex_digit (code c mod 16)]"

definition esc_byte :: "char \<Rightarrow> string" where
  "esc_byte c =
     (if c = quote_char \<or> c = backslash then [backslash, c]
      else if code c = 10 then [backslash, CHR ''n'']
      else if code c = 13 then [backslash, CHR ''r'']
      else if code c = 9 then [backslash, CHR ''t'']
      else if code c < 32 \<or> html_escaped c then esc_u00 c
      else [c])"

definition esc_fffd :: string where
  "esc_fffd = backslash # ''ufffd''"

text \<open>U+2028 and U+2029 are printed as escapes, other multi-byte sequences as they are.\<close>

definition esc_multi :: "string \<Rightarrow> string" where
  "esc_multi u =
     (if map code u = [226, 128, 168] then backslash # ''u2028''
      else if map code u = [226, 128, 169] then backslash # ''u2029''
      else u)"

function quote_body :: "string \<Rightarrow> string" where
  "quote_body [] = []"
| "quote_body (c # cs) =
     (if ascii c then esc_byte c @ quote_body cs
      else if utf8_seq (c # cs) = 0 then esc_fffd @ quote_body cs
      else esc_multi (take (utf8_seq (c # cs)) (c # cs))
             @ quote_body (drop (utf8_seq (c # cs) - 1) cs))"
  by pat_completeness auto
termination by (relation "measure length") auto

definition quote :: "string \<Rightarrow> string" where
  "quote s = quote_char # quote_body s @ [quote_char]"

fun comma_sep :: "string list \<Rightarrow> string" where
  "comma_sep [] = []"
| "comma_sep [x] = x"
| "comma_sep (x # y # ys) = x @ CHR '','' # comma_sep (y # ys)"

fun json_print :: "json \<Rightarrow> string" where
  "json_print JNull = ''null''"
| "json_print (JBool b) = format_bool b"
| "json_print (JNum s) = s"
| "json_print (JStr s) = quote s"
| "json_print (JArr js) = CHR ''['' # comma_sep (map json_print js) @ '']''"
| "json_print (JObj ms) =
     CHR ''{'' # comma_sep (map (\<lambda>(k, v). quote k @ CHR '':'' # json_print v) ms) @ ''}''"

section \<open>Scanning\<close>

definition hex_val :: "char \<Rightarrow> nat option" where
  "hex_val c =
     (if is_digit c then Some (code c - 48)
      else if in_range 97 102 c then Some (code c - 87)
      else if in_range 65 70 c then Some (code c - 55)
      else None)"

definition hex4 :: "string \<Rightarrow> (nat \<times> string) option" where
  "hex4 s =
     (case s of
        a # b # c # d # r \<Rightarrow>
          (case (hex_val a, hex_val b, hex_val c, hex_val d) of
             (Some w, Some x, Some y, Some z) \<Rightarrow> Some (((w * 16 + x) * 16 + y) * 16 + z, r)
           | _ \<Rightarrow> None)
      | _ \<Rightarrow> None)"

definition utf8_encode :: "nat \<Rightarrow> string" where
  "utf8_encode r =
     (if r < 128 then [char_of r]
      else if r < 2048 then [char_of (192 + r div 64), char_of (128 + r mod 64)]
      else if r < 65536 then
        [char_of (224 + r div 4096), char_of (128 + r div 64 mod 64), char_of (128 + r mod 64)]
      else
        [char_of (240 + r div 262144), char_of (128 + r div 4096 mod 64),
         char_of (128 + r div 64 mod 64), char_of (128 + r mod 64)])"

definition replacement :: string where
  "replacement = utf8_encode 65533"

definition surrogate :: "nat \<Rightarrow> bool" where
  "surrogate r \<longleftrightarrow> 55296 \<le> r \<and> r < 57344"

text \<open>The second half of a surrogate pair, when one follows.\<close>

definition low_half :: "string \<Rightarrow> (nat \<times> string) option" where
  "low_half s =
     (case s of
        a # b # r \<Rightarrow> if a = backslash \<and> b = CHR ''u'' then hex4 r else None
      | _ \<Rightarrow> None)"

definition rune_escape :: "nat \<Rightarrow> string \<Rightarrow> string \<times> string" where
  "rune_escape r rest =
     (if \<not> surrogate r then (utf8_encode r, rest)
      else case low_half rest of
        None \<Rightarrow> (replacement, rest)
      | Some (r1, rest') \<Rightarrow>
          if r < 56320 \<and> 56320 \<le> r1 \<and> r1 < 57344
          then (utf8_encode ((r - 55296) * 1024 + (r1 - 56320) + 65536), rest')
          else (replacement, rest))"

definition simple_escape :: "char \<Rightarrow> char option" where
  "simple_escape e =
     (if e = quote_char \<or> e = backslash \<or> e = CHR ''/'' then Some e
      else if e = CHR ''b'' then Some (CHR 0x08)
      else if e = CHR ''f'' then Some (CHR 0x0C)
      else if e = CHR ''n'' then Some (CHR 0x0A)
      else if e = CHR ''r'' then Some (CHR 0x0D)
      else if e = CHR ''t'' then Some (CHR 0x09)
      else None)"

text \<open>One step of unquoting: the bytes produced and the input that is left.\<close>

definition unquote_step :: "char \<Rightarrow> string \<Rightarrow> (string \<times> string) option" where
  "unquote_step c cs =
     (if c = backslash then
        (case cs of
           [] \<Rightarrow> None
         | e # es \<Rightarrow>
             if e = CHR ''u'' then map_option (\<lambda>(r, es'). rune_escape r es') (hex4 es)
             else map_option (\<lambda>x. ([x], es)) (simple_escape e))
      else if ascii c then Some ([c], cs)
      else if utf8_seq (c # cs) = 0 then Some (replacement, cs)
      else Some (take (utf8_seq (c # cs)) (c # cs), drop (utf8_seq (c # cs) - 1) cs))"

lemma hex4_length: "hex4 s = Some (r, t) \<Longrightarrow> length t < length s"
  by (auto simp: hex4_def split: list.splits option.splits)

lemma low_half_length: "low_half s = Some (r, t) \<Longrightarrow> length t < length s"
  by (auto simp: low_half_def dest: hex4_length split: list.splits if_splits)

lemma rune_escape_length: "rune_escape r s = (u, t) \<Longrightarrow> length t \<le> length s"
  by (auto simp: rune_escape_def dest: low_half_length split: option.splits if_splits)

lemma unquote_step_length: "unquote_step c cs = Some (u, t) \<Longrightarrow> length t \<le> length cs"
  by (cases cs)
    (auto simp: unquote_step_def dest!: hex4_length rune_escape_length split: if_splits)

function unquote :: "string \<Rightarrow> string option" where
  "unquote [] = Some []"
| "unquote (c # cs) =
     (case unquote_step c cs of
        None \<Rightarrow> None
      | Some (u, rest) \<Rightarrow> map_option ((@) u) (unquote rest))"
  by pat_completeness auto
termination
  by (relation "measure length") (auto dest: unquote_step_length simp: le_imp_less_Suc)

text \<open>
  The lexer reads one character at a time: between tokens, inside a string, after a backslash
  in a string, or inside a word (a number or a literal). Control characters inside strings are
  rejected, and so is a string whose escapes are malformed.
\<close>

datatype lex_state = LIdle | LStr string | LEsc string | LWord string

definition is_ws :: "char \<Rightarrow> bool" where
  "is_ws c \<longleftrightarrow> code c \<in> {32, 9, 13, 10}"

definition word_char :: "char \<Rightarrow> bool" where
  "word_char c \<longleftrightarrow>
     is_digit c \<or> in_range 97 122 c \<or> in_range 65 90 c \<or> c = CHR ''+'' \<or> c = CHR ''-'' \<or> c = CHR ''.''"

definition punct :: "char \<Rightarrow> tok option" where
  "punct c =
     (if c = CHR ''{'' then Some TLBrace
      else if c = CHR ''}'' then Some TRBrace
      else if c = CHR ''['' then Some TLBrack
      else if c = CHR '']'' then Some TRBrack
      else if c = CHR '','' then Some TComma
      else if c = CHR '':'' then Some TColon
      else None)"

definition exp_ok :: "string \<Rightarrow> bool" where
  "exp_ok s =
     (case s of
        [] \<Rightarrow> True
      | c # r \<Rightarrow>
          (c = CHR ''e'' \<or> c = CHR ''E'') \<and>
          (case r of
             [] \<Rightarrow> False
           | d # r' \<Rightarrow>
               if d = CHR ''+'' \<or> d = CHR ''-'' then r' \<noteq> [] \<and> list_all is_digit r'
               else list_all is_digit r))"

definition frac_ok :: "string \<Rightarrow> bool" where
  "frac_ok s =
     (case s of
        [] \<Rightarrow> True
      | c # r \<Rightarrow>
          if c = CHR ''.'' then takeWhile is_digit r \<noteq> [] \<and> exp_ok (dropWhile is_digit r)
          else exp_ok s)"

definition num_ok :: "string \<Rightarrow> bool" where
  "num_ok s =
     (case (if s \<noteq> [] \<and> hd s = CHR ''-'' then tl s else s) of
        [] \<Rightarrow> False
      | c # r \<Rightarrow>
          if c = CHR ''0'' then frac_ok r
          else is_digit c \<and> frac_ok (dropWhile is_digit r))"

definition word_value :: "string \<Rightarrow> json option" where
  "word_value w =
     (if w = ''null'' then Some JNull
      else if w = ''true'' then Some (JBool True)
      else if w = ''false'' then Some (JBool False)
      else if num_ok w then Some (JNum w)
      else None)"

function json_lex :: "lex_state \<Rightarrow> string \<Rightarrow> tok list option" where
  "json_lex LIdle [] = Some []"
| "json_lex (LWord w) [] = (if word_value (rev w) = None then None else Some [TWord (rev w)])"
| "json_lex (LStr w) [] = None"
| "json_lex (LEsc w) [] = None"
| "json_lex LIdle (c # cs) =
     (if is_ws c then json_lex LIdle cs
      else if c = quote_char then json_lex (LStr []) cs
      else if word_char c then json_lex (LWord [c]) cs
      else case punct c of None \<Rightarrow> None | Some t \<Rightarrow> map_option (Cons t) (json_lex LIdle cs))"
| "json_lex (LWord w) (c # cs) =
     (if word_char c then json_lex (LWord (c # w)) cs
      else if word_value (rev w) = None then None
      else map_option (Cons (TWord (rev w))) (json_lex LIdle (c # cs)))"
| "json_lex (LStr w) (c # cs) =
     (if c = quote_char then
        (case unquote (rev w) of None \<Rightarrow> None | Some s \<Rightarrow> map_option (Cons (TStr s)) (json_lex LIdle cs))
      else if c = backslash then json_lex (LEsc (c # w)) cs
      else if code c < 32 then None
      else json_lex (LStr (c # w)) cs)"
| "json_lex (LEsc w) (c # cs) = json_lex (LStr (c # w)) cs"
  by pat_completeness auto
termination
  by (relation "measure (\<lambda>(st, s). 2 * length s + (if st = LIdle then 0 else 1))") auto

section \<open>Parsing\<close>

text \<open>
  A push-down machine. The stack holds the arrays and object members that wait for a value; the
  state says what comes next.
\<close>

datatype ctx = CArr "json list" | CMem "(string \<times> json) list" string

datatype pstate =
    PVal
  | PFirst
  | PKeyFirst
  | PKey "(string \<times> json) list"
  | PColon "(string \<times> json) list" string
  | PDone json

definition start_value :: "tok \<Rightarrow> pstate option" where
  "start_value t =
     (case t of
        TLBrace \<Rightarrow> Some PKeyFirst
      | TLBrack \<Rightarrow> Some PFirst
      | TStr s \<Rightarrow> Some (PDone (JStr s))
      | TWord w \<Rightarrow> map_option PDone (word_value w)
      | _ \<Rightarrow> None)"

fun run_parser :: "pstate \<Rightarrow> ctx list \<Rightarrow> tok list \<Rightarrow> json option" where
  "run_parser (PDone v) [] [] = Some v"
| "run_parser (PDone v) (CArr acc # st) (TComma # ts) = run_parser PVal (CArr (v # acc) # st) ts"
| "run_parser (PDone v) (CArr acc # st) (TRBrack # ts) = run_parser (PDone (JArr (rev (v # acc)))) st ts"
| "run_parser (PDone v) (CMem acc k # st) (TComma # ts) = run_parser (PKey ((k, v) # acc)) st ts"
| "run_parser (PDone v) (CMem acc k # st) (TRBrace # ts) =
     run_parser (PDone (JObj (rev ((k, v) # acc)))) st ts"
| "run_parser PVal st (t # ts) =
     (case start_value t of None \<Rightarrow> None | Some p \<Rightarrow> run_parser p st ts)"
| "run_parser PFirst st (t # ts) =
     (if t = TRBrack then run_parser (PDone (JArr [])) st ts
      else case start_value t of None \<Rightarrow> None | Some p \<Rightarrow> run_parser p (CArr [] # st) ts)"
| "run_parser PKeyFirst st (t # ts) =
     (case t of
        TRBrace \<Rightarrow> run_parser (PDone (JObj [])) st ts
      | TStr k \<Rightarrow> run_parser (PColon [] k) st ts
      | _ \<Rightarrow> None)"
| "run_parser (PKey acc) st (t # ts) =
     (case t of TStr k \<Rightarrow> run_parser (PColon acc k) st ts | _ \<Rightarrow> None)"
| "run_parser (PColon acc k) st (t # ts) =
     (if t = TColon then run_parser PVal (CMem acc k # st) ts else None)"
| "run_parser _ _ _ = None"

definition json_parse :: "string \<Rightarrow> json option" where
  "json_parse s = (case json_lex LIdle s of None \<Rightarrow> None | Some ts \<Rightarrow> run_parser PVal [] ts)"

section \<open>Decoding\<close>

text \<open>
  A decoder takes the document and the old content of the target and returns the new content
  and whether a value of the wrong type was met. \<open>null\<close> leaves scalars as they are and sets a
  map to nil. Each member of an object is decoded into a fresh zero element of the map, which
  is stored even when the member had the wrong type.
\<close>

type_synonym 'a decoder = "json \<Rightarrow> 'a \<Rightarrow> 'a \<times> bool"

definition dec_string :: "string decoder" where
  "dec_string j old = (case j of JNull \<Rightarrow> (old, False) | JStr s \<Rightarrow> (s, False) | _ \<Rightarrow> (old, True))"

definition dec_bool :: "bool decoder" where
  "dec_bool j old = (case j of JNull \<Rightarrow> (old, False) | JBool b \<Rightarrow> (b, False) | _ \<Rightarrow> (old, True))"

definition dec_int :: "gint decoder" where
  "dec_int j old =
     (case j of
        JNull \<Rightarrow> (old, False)
      | JNum s \<Rightarrow> (case atoi s of (w, e) \<Rightarrow> if e = None then (w, False) else (old, True))
      | _ \<Rightarrow> (old, True))"

fun dec_members :: "'v decoder \<Rightarrow> 'v \<Rightarrow> (string \<times> json) list \<Rightarrow> 'v gmap \<times> bool \<Rightarrow> 'v gmap \<times> bool" where
  "dec_members d z [] acc = acc"
| "dec_members d z ((k, j) # ms) (m, bad) =
     (case d j z of (v, b) \<Rightarrow> dec_members d z ms (gmap_put k v m, bad \<or> b))"

definition dec_map :: "'v decoder \<Rightarrow> 'v \<Rightarrow> 'v gmap option decoder" where
  "dec_map d z j old =
     (case j of
        JNull \<Rightarrow> (None, False)
      | JObj ms \<Rightarrow>
          (case dec_members d z ms (case old of None \<Rightarrow> [] | Some m \<Rightarrow> m, False) of
             (m, bad) \<Rightarrow> (Some m, bad))
      | _ \<Rightarrow> (old, True))"

text \<open>\<open>json.Unmarshal\<close>: the target's content after the call and the error.\<close>

definition json_unmarshal :: "'a decoder \<Rightarrow> string \<Rightarrow> 'a \<Rightarrow> 'a \<times> go_error option" where
  "json_unmarshal d s old =
     (case json_parse s of
        None \<Rightarrow> (old, Some (EJson JsonSyntax))
      | Some j \<Rightarrow> (case d j old of (v, bad) \<Rightarrow> (v, if bad then Some (EJson JsonType) else None)))"

text \<open>
  The field of a struct an object key selects: the field of exactly that name, else one whose
  name agrees up to case (with the long s and the Kelvin sign, as \<open>encoding/json\<close> folds them).
\<close>

definition lower :: "char \<Rightarrow> char" where
  "lower c = (if in_range 65 90 c then char_of (code c + 32) else c)"

fun fold_key :: "string \<Rightarrow> string" where
  "fold_key [] = []"
| "fold_key (a # s) =
     (if code a = 197 \<and> map code (take 1 s) = [191] then CHR ''s'' # fold_key (drop 1 s)
      else if code a = 226 \<and> map code (take 2 s) = [132, 170] then CHR ''k'' # fold_key (drop 2 s)
      else lower a # fold_key s)"

definition find_field :: "string list \<Rightarrow> string \<Rightarrow> string option" where
  "find_field names key =
     (case find (\<lambda>n. n = key) names of
        Some n \<Rightarrow> Some n
      | None \<Rightarrow> find (\<lambda>n. fold_key n = fold_key key) names)"

end
