(* ===== verification/Json_Roundtrip.thy ===== *)
theory Json_Roundtrip
  imports Go_Json
begin

text \<open>
  What \<open>Marshal\<close> prints, \<open>Unmarshal\<close> reads back: for every document whose strings are valid
  UTF-8 and whose numbers are JSON numbers, \<open>json_parse (json_print j) = Some j\<close>. The proof
  follows the two stages of the reader: the lexer gives the tokens of the document, and the
  push-down machine rebuilds the document from them.
\<close>

section \<open>Strings\<close>

lemma char_of_code [simp]: "char_of (code c) = c"
  by (simp add: code_def)

lemma hex_val_digit: "d < 16 \<Longrightarrow> hex_val (hex_digit d) = Some d"
proof -
  assume d: "d < 16"
  show ?thesis
  proof (cases "d < 10")
    case True
    then show ?thesis
      by (simp add: hex_digit_def hex_val_def is_digit_def less_eq_char_def code_def)
  next
    case False
    with d show ?thesis
      by (simp add: hex_digit_def hex_val_def is_digit_def less_eq_char_def in_range_def code_def)
  qed
qed

lemma hex_val_0: "hex_val CHR ''0'' = Some 0"
  by (simp add: hex_val_def is_digit_def code_def)

lemma hex4_u00:
  "ascii c \<Longrightarrow>
   hex4 (CHR ''0'' # CHR ''0'' # hex_digit (code c div 16) # hex_digit (code c mod 16) # r) =
     Some (code c, r)"
  by (simp add: hex4_def hex_val_0 hex_val_digit ascii_def)

lemma unquote_u00: "ascii c \<Longrightarrow> unquote (esc_u00 c @ r) = map_option (Cons c) (unquote r)"
  by (simp add: esc_u00_def unquote_step_def hex4_u00 rune_escape_def surrogate_def
      utf8_encode_def ascii_def option.case_eq_if map_option_case)

lemma code_control:
  "code c = 10 \<longleftrightarrow> c = CHR 0x0A" "code c = 13 \<longleftrightarrow> c = CHR 0x0D" "code c = 9 \<longleftrightarrow> c = CHR 0x09"
  using code_inject [of c "CHR 0x0A"] code_inject [of c "CHR 0x0D"] code_inject [of c "CHR 0x09"]
  by (simp_all add: code_def)

lemma unquote_simple:
  "e \<noteq> CHR ''u'' \<Longrightarrow> simple_escape e = Some x \<Longrightarrow>
   unquote (backslash # e # r) = map_option (Cons x) (unquote r)"
  by (simp add: unquote_step_def option.case_eq_if map_option_case)

lemma unquote_plain:
  "ascii c \<Longrightarrow> c \<noteq> backslash \<Longrightarrow> unquote (c # r) = map_option (Cons c) (unquote r)"
  by (simp add: unquote_step_def option.case_eq_if map_option_case)

lemma esc_byte_cases:
  "(c = quote_char \<or> c = backslash) \<and> esc_byte c = [backslash, c] \<or>
   c = CHR 0x0A \<and> esc_byte c = backslash # ''n'' \<or>
   c = CHR 0x0D \<and> esc_byte c = backslash # ''r'' \<or>
   c = CHR 0x09 \<and> esc_byte c = backslash # ''t'' \<or>
   esc_byte c = esc_u00 c \<or>
   esc_byte c = [c] \<and> c \<noteq> quote_char \<and> c \<noteq> backslash \<and> 32 \<le> code c"
  unfolding esc_byte_def by (simp add: code_control)

lemma unquote_esc_byte:
  assumes "ascii c"
  shows "unquote (esc_byte c @ r) = map_option (Cons c) (unquote r)"
  using esc_byte_cases [of c]
  by (elim disjE conjE)
    (simp_all add: unquote_simple simple_escape_def unquote_u00 unquote_plain assms del: unquote.simps)

text \<open>A multi-byte sequence is copied, or printed as an escape that stands for it.\<close>

lemma utf8_seq_take: "utf8_seq s \<noteq> 0 \<Longrightarrow> utf8_seq (take (utf8_seq s) s @ r) = utf8_seq s"
  by (cases s rule: utf8_seq.cases) (auto split: list.splits if_splits)

lemma hex_val_2028: "hex_val CHR ''2'' = Some 2" "hex_val CHR ''8'' = Some 8" "hex_val CHR ''9'' = Some 9"
  by (simp_all add: hex_val_def is_digit_def less_eq_char_def code_def)

lemma unquote_2028:
  "unquote (backslash # ''u2028'' @ r) = map_option ((@) (map char_of [226, 128, 168 :: nat])) (unquote r)"
  "unquote (backslash # ''u2029'' @ r) = map_option ((@) (map char_of [226, 128, 169 :: nat])) (unquote r)"
  by (simp_all add: unquote_step_def hex4_def hex_val_2028 hex_val_0 rune_escape_def
      surrogate_def utf8_encode_def option.case_eq_if map_option_case)

lemma map_code_eq: "map code u = ns \<longleftrightarrow> u = map char_of ns \<and> list_all (\<lambda>n. n < 256) ns"
proof (induction u arbitrary: ns)
  case (Cons c u)
  have "code c < 256" by (simp add: code_def)
  with Cons show ?case by (cases ns) (auto simp: code_char_of)
qed auto

lemma unquote_multi:
  assumes "\<not> ascii c" "utf8_seq (c # cs) = n" "n \<noteq> 0"
  shows "unquote (esc_multi (take n (c # cs)) @ r) = map_option ((@) (take n (c # cs))) (unquote r)"
proof -
  let ?u = "take n (c # cs)"
  have n: "2 \<le> n" "n \<le> length (c # cs)" using utf8_seq_cases [of "c # cs"] assms by auto
  then obtain u' where u: "?u = c # u'" "length u' = n - 1" by (cases n) auto
  have plain: "unquote (?u @ r) = map_option ((@) ?u) (unquote r)"
  proof -
    have "utf8_seq (c # u' @ r) = n"
      using utf8_seq_take [of "c # cs" r] assms u by simp
    moreover have "c \<noteq> backslash" using assms(1) by (auto simp: ascii_def code_def)
    ultimately show ?thesis
      using assms(1,3) u n(1)
      by (simp add: unquote_step_def option.case_eq_if map_option_case take_Cons')
  qed
  show ?thesis
  proof (cases "map code ?u = [226, 128, 168] \<or> map code ?u = [226, 128, 169]")
    case True
    then show ?thesis
      using unquote_2028 [of r] by (auto simp: esc_multi_def map_code_eq simp del: unquote.simps)
  next
    case False
    then show ?thesis using plain by (simp add: esc_multi_def del: unquote.simps)
  qed
qed

lemma unquote_quote_body: "valid_utf8 s \<Longrightarrow> unquote (quote_body s) = Some s"
proof (induction s rule: valid_utf8.induct)
  case (2 c cs)
  show ?case
  proof (cases "ascii c")
    case True
    then show ?thesis using 2 by (simp add: unquote_esc_byte del: unquote.simps)
  next
    case False
    let ?n = "utf8_seq (c # cs)"
    have "?n \<noteq> 0" using "2.prems" False by simp
    moreover from this have "take ?n (c # cs) @ drop (?n - 1) cs = c # cs"
      by (cases ?n) (simp_all del: utf8_seq.simps)
    ultimately show ?thesis
      using 2 False by (simp add: unquote_multi del: unquote.simps utf8_seq.simps)
  qed
qed simp

section \<open>Lexing\<close>

text \<open>The lexer walks over a quoted string without leaving it.\<close>

lemma lex_str_esc: "json_lex (LStr acc) (backslash # e # r) = json_lex (LStr (e # backslash # acc)) r"
  by simp

lemma lex_str_plain:
  "c \<noteq> quote_char \<Longrightarrow> c \<noteq> backslash \<Longrightarrow> 32 \<le> code c \<Longrightarrow>
   json_lex (LStr acc) (c # r) = json_lex (LStr (c # acc)) r"
  by simp

lemma lex_hex_digit:
  assumes "d < 16"
  shows "json_lex (LStr acc) (hex_digit d # r) = json_lex (LStr (hex_digit d # acc)) r"
proof (rule lex_str_plain)
  have "code (hex_digit d) \<in> {48..57} \<union> {97..102}" using assms by (auto simp: hex_digit_def code_def)
  then show "hex_digit d \<noteq> quote_char" "hex_digit d \<noteq> backslash" "32 \<le> code (hex_digit d)"
    by (auto simp: code_def)
qed

lemma lex_esc_byte:
  assumes "ascii c"
  shows "json_lex (LStr acc) (esc_byte c @ r) = json_lex (LStr (rev (esc_byte c) @ acc)) r"
proof -
  have "code c div 16 < 16" using assms by (simp add: ascii_def)
  then have "json_lex (LStr acc) (esc_u00 c @ r) = json_lex (LStr (rev (esc_u00 c) @ acc)) r"
    by (simp add: esc_u00_def lex_hex_digit lex_str_esc
        lex_str_plain [of "CHR ''0''"] code_def [of "CHR ''0''"] del: json_lex.simps)
  then show ?thesis
    using esc_byte_cases [of c]
    by (elim disjE conjE) (simp_all add: lex_str_esc lex_str_plain del: json_lex.simps)
qed

lemma lex_multi_raw:
  "(\<And>x. x \<in> set u \<Longrightarrow> \<not> ascii x) \<Longrightarrow> json_lex (LStr acc) (u @ r) = json_lex (LStr (rev u @ acc)) r"
proof (induction u arbitrary: acc)
  case (Cons x u)
  then have "\<not> ascii x" by simp
  then have "x \<noteq> quote_char" "x \<noteq> backslash" "\<not> code x < 32" by (auto simp: ascii_def code_def)
  with Cons show ?case by simp
qed simp

lemma lex_esc_multi:
  assumes "\<And>x. x \<in> set u \<Longrightarrow> \<not> ascii x"
  shows "json_lex (LStr acc) (esc_multi u @ r) = json_lex (LStr (rev (esc_multi u) @ acc)) r"
  using lex_multi_raw [OF assms]
  by (simp add: esc_multi_def lex_str_esc lex_str_plain code_def [of "CHR ''2''"]
      code_def [of "CHR ''0''"] code_def [of "CHR ''8''"] code_def [of "CHR ''9''"]
      del: json_lex.simps)

lemma lex_quote_body: "json_lex (LStr acc) (quote_body s @ r) = json_lex (LStr (rev (quote_body s) @ acc)) r"
proof (induction s arbitrary: acc rule: quote_body.induct)
  case (2 c cs)
  let ?n = "utf8_seq (c # cs)"
  consider "ascii c" | "\<not> ascii c" "?n = 0" | "\<not> ascii c" "?n \<noteq> 0" by blast
  then show ?case
  proof cases
    case 1
    then show ?thesis using 2 by (simp add: lex_esc_byte)
  next
    case 2
    have "json_lex (LStr acc') (esc_fffd @ r') = json_lex (LStr (rev esc_fffd @ acc')) r'" for acc' r'
      by (simp add: esc_fffd_def lex_str_esc lex_str_plain code_def [of "CHR ''f''"]
          code_def [of "CHR ''d''"] del: json_lex.simps)
    with 2 "2.IH"(2) show ?thesis by (simp del: utf8_seq.simps)
  next
    case 3
    then show ?thesis
      using "2.IH"(3) lex_esc_multi [of "take ?n (c # cs)"] utf8_seq_bytes [of _ "c # cs"]
      by (simp del: utf8_seq.simps)
  qed
qed simp

lemma lex_quote:
  "valid_utf8 s \<Longrightarrow> json_lex LIdle (quote s @ r) = map_option (Cons (TStr s)) (json_lex LIdle r)"
  by (simp add: quote_def lex_quote_body unquote_quote_body is_ws_def code_def)

text \<open>Words end at the first character that is no word character.\<close>

definition delimited :: "string \<Rightarrow> bool" where
  "delimited r \<longleftrightarrow> r = [] \<or> \<not> word_char (hd r)"

lemma lex_word_aux:
  "list_all word_char w \<Longrightarrow> word_value (rev acc @ w) \<noteq> None \<Longrightarrow> delimited r \<Longrightarrow>
   json_lex (LWord acc) (w @ r) = map_option (Cons (TWord (rev acc @ w))) (json_lex LIdle r)"
proof (induction w arbitrary: acc)
  case Nil
  then show ?case by (cases r) (auto simp: delimited_def simp del: json_lex.simps(5))
next
  case (Cons x w)
  then show ?case using Cons.IH [of "x # acc"] by simp
qed

lemma word_char_sep: "word_char c \<Longrightarrow> \<not> is_ws c \<and> c \<noteq> quote_char"
  by (auto simp: word_char_def is_ws_def is_digit_code in_range_def code_def)

lemma lex_word:
  assumes "list_all word_char w" "word_value w \<noteq> None" "delimited r"
  shows "json_lex LIdle (w @ r) = map_option (Cons (TWord w)) (json_lex LIdle r)"
proof (cases w)
  case Nil
  then show ?thesis using assms(2) by (simp add: word_value_def num_ok_def)
next
  case (Cons c cs)
  then show ?thesis
    using assms lex_word_aux [of cs "[c]" r] word_char_sep [of c] by simp
qed

lemma lex_punct:
  "json_lex LIdle (CHR ''{'' # r) = map_option (Cons TLBrace) (json_lex LIdle r)"
  "json_lex LIdle (CHR ''}'' # r) = map_option (Cons TRBrace) (json_lex LIdle r)"
  "json_lex LIdle (CHR ''['' # r) = map_option (Cons TLBrack) (json_lex LIdle r)"
  "json_lex LIdle (CHR '']'' # r) = map_option (Cons TRBrack) (json_lex LIdle r)"
  "json_lex LIdle (CHR '','' # r) = map_option (Cons TComma) (json_lex LIdle r)"
  "json_lex LIdle (CHR '':'' # r) = map_option (Cons TColon) (json_lex LIdle r)"
  by (simp_all add: is_ws_def word_char_def is_digit_code in_range_def code_def punct_def)

lemma delimited_punct:
  "delimited (CHR ''}'' # r)" "delimited (CHR '']'' # r)" "delimited (CHR '','' # r)" "delimited []"
  by (simp_all add: delimited_def word_char_def is_digit_code in_range_def code_def)

section \<open>The tokens of a document\<close>

fun tok_sep :: "tok list list \<Rightarrow> tok list" where
  "tok_sep [] = []"
| "tok_sep (x # xs) = x @ concat (map (Cons TComma) xs)"

fun tokens_of :: "json \<Rightarrow> tok list" where
  "tokens_of JNull = [TWord ''null'']"
| "tokens_of (JBool b) = [TWord (format_bool b)]"
| "tokens_of (JNum s) = [TWord s]"
| "tokens_of (JStr s) = [TStr s]"
| "tokens_of (JArr js) = TLBrack # tok_sep (map tokens_of js) @ [TRBrack]"
| "tokens_of (JObj ms) =
     TLBrace # tok_sep (map (\<lambda>(k, v). TStr k # TColon # tokens_of v) ms) @ [TRBrace]"

text \<open>Documents \<open>Marshal\<close> can print without losing anything.\<close>

fun json_ok :: "json \<Rightarrow> bool" where
  "json_ok (JNum s) = (num_ok s \<and> list_all word_char s)"
| "json_ok (JStr s) = valid_utf8 s"
| "json_ok (JArr js) = list_all json_ok js"
| "json_ok (JObj ms) = list_all (\<lambda>(k, v). valid_utf8 k \<and> json_ok v) ms"
| "json_ok _ = True"

lemma comma_sep_Cons: "comma_sep (x # xs) = x @ concat (map (Cons CHR '','') xs)"
  by (induction xs arbitrary: x) auto

text \<open>
  A printed text \<open>s\<close> has the tokens \<open>ts\<close> when the lexer yields them in front of anything that
  can follow a value.
\<close>

definition lexes_to :: "string \<Rightarrow> tok list \<Rightarrow> bool" where
  "lexes_to s ts \<longleftrightarrow>
     (\<forall>r. delimited r \<longrightarrow> json_lex LIdle (s @ r) = map_option ((@) ts) (json_lex LIdle r))"

lemma append_fun: "(@) (a @ b) = (\<lambda>x. a @ b @ x)" "(@) (t # b) = (\<lambda>x. t # b @ x)"
  by (simp_all add: fun_eq_iff)

lemma lexes_toD:
  "lexes_to s ts \<Longrightarrow> delimited r \<Longrightarrow> json_lex LIdle (s @ r) = map_option ((@) ts) (json_lex LIdle r)"
  by (simp add: lexes_to_def)

lemma lexes_concat:
  "list_all2 lexes_to xs tss \<Longrightarrow> delimited r \<Longrightarrow>
   json_lex LIdle (concat (map (Cons CHR '','') xs) @ r) =
     map_option ((@) (concat (map (Cons TComma) tss))) (json_lex LIdle r) \<and>
   delimited (concat (map (Cons CHR '','') xs) @ r)"
proof (induction xs tss rule: list_all2_induct)
  case Nil
  then show ?case by (cases "json_lex LIdle r") auto
next
  case (Cons x xs ts tss)
  then show ?case
    by (simp add: lex_punct lexes_toD delimited_punct option.map_comp comp_def del: json_lex.simps)
qed

lemma lexes_comma_sep:
  assumes "list_all2 lexes_to xs tss" "delimited r"
  shows "json_lex LIdle (comma_sep xs @ r) = map_option ((@) (tok_sep tss)) (json_lex LIdle r)"
proof (cases xs)
  case Nil
  then show ?thesis using assms by (cases "json_lex LIdle r") auto
next
  case (Cons y ys)
  then obtain t ts where tss: "tss = t # ts" "lexes_to y t" "list_all2 lexes_to ys ts"
    using assms(1) by (auto simp: list_all2_Cons1)
  show ?thesis
    using lexes_concat [OF tss(3) assms(2)] lexes_toD [OF tss(2)]
    by (simp add: Cons tss(1) comma_sep_Cons append_fun option.map_comp comp_def del: json_lex.simps)
qed

lemma word_value_bool: "word_value (format_bool b) \<noteq> None" "list_all word_char (format_bool b)"
  by (auto simp: word_value_def format_bool_def word_char_def is_digit_code in_range_def code_def)

lemma word_value_null: "word_value ''null'' \<noteq> None" "list_all word_char ''null''"
  by (auto simp: word_value_def word_char_def is_digit_code in_range_def code_def)

lemma word_value_num: "num_ok s \<Longrightarrow> word_value s = Some (JNum s)"
  by (auto simp: word_value_def num_ok_def is_digit_code)

lemma lexes_word: "list_all word_char w \<Longrightarrow> word_value w \<noteq> None \<Longrightarrow> lexes_to w [TWord w]"
  by (simp add: lexes_to_def lex_word option.case_eq_if map_option_case)

lemma lexes_json: "json_ok j \<Longrightarrow> lexes_to (json_print j) (tokens_of j)"
proof (induction j)
  case JNull
  show ?case using lexes_word [OF word_value_null(2,1)] by simp
next
  case (JBool b)
  then show ?case by (simp add: lexes_word word_value_bool)
next
  case (JNum s)
  then show ?case by (simp add: lexes_word word_value_num)
next
  case (JStr s)
  then show ?case
    by (simp add: lexes_to_def lex_quote option.case_eq_if map_option_case del: json_lex.simps)
next
  case (JArr js)
  then have "list_all2 lexes_to (map json_print js) (map tokens_of js)"
    by (auto simp: list_all2_conv_all_nth list_all_length)
  then show ?case
    by (simp add: lexes_to_def lex_punct lexes_comma_sep delimited_punct append_fun option.map_comp comp_def
        del: json_lex.simps)
next
  case (JObj ms)
  have "lexes_to (quote k @ CHR '':'' # json_print v) (TStr k # TColon # tokens_of v)"
    if "(k, v) \<in> set ms" for k v
  proof -
    have "lexes_to (json_print v) (tokens_of v)" "valid_utf8 k"
      using that JObj by (force simp: list_all_iff)+
    then show ?thesis
      by (simp add: lexes_to_def lex_punct lex_quote append_fun option.map_comp comp_def del: json_lex.simps)
  qed
  then have "list_all2 lexes_to (map (\<lambda>(k, v). quote k @ CHR '':'' # json_print v) ms)
      (map (\<lambda>(k, v). TStr k # TColon # tokens_of v) ms)"
    by (auto simp: list_all2_map1 list_all2_map2 intro!: list.rel_refl_strong)
  then show ?case
    by (simp add: lexes_to_def lex_punct lexes_comma_sep delimited_punct append_fun option.map_comp comp_def
        del: json_lex.simps)
qed

section \<open>The machine rebuilds the document\<close>

definition builds :: "tok list \<Rightarrow> json \<Rightarrow> bool" where
  "builds toks j \<longleftrightarrow>
     (\<exists>t r p. toks = t # r \<and> t \<noteq> TRBrack \<and> start_value t = Some p \<and>
       (\<forall>st ts. run_parser p st (r @ ts) = run_parser (PDone j) st ts))"

lemma buildsI:
  "t \<noteq> TRBrack \<Longrightarrow> start_value t = Some p \<Longrightarrow>
   (\<And>st ts. run_parser p st (r @ ts) = run_parser (PDone j) st ts) \<Longrightarrow> builds (t # r) j"
  by (auto simp: builds_def)

lemma builds_PVal: "builds toks j \<Longrightarrow> run_parser PVal st (toks @ ts) = run_parser (PDone j) st ts"
  by (auto simp: builds_def)

lemma builds_PFirst:
  "builds toks j \<Longrightarrow> run_parser PFirst st (toks @ ts) = run_parser (PDone j) (CArr [] # st) ts"
  by (auto simp: builds_def)

lemma run_array_rest:
  "list_all2 builds tss js \<Longrightarrow>
   run_parser (PDone v) (CArr acc # st) (concat (map (Cons TComma) tss) @ TRBrack # ts) =
     run_parser (PDone (JArr (rev acc @ v # js))) st ts"
proof (induction tss js arbitrary: v acc rule: list_all2_induct)
  case (Cons toks tss j js)
  then show ?case using Cons.IH [of j "v # acc"] by (simp add: builds_PVal)
qed simp

lemma run_object_rest:
  "list_all2 (\<lambda>toks (k, j). \<exists>b. toks = TStr k # TColon # b \<and> builds b j) tss ms \<Longrightarrow>
   run_parser (PDone v) (CMem acc k # st) (concat (map (Cons TComma) tss) @ TRBrace # ts) =
     run_parser (PDone (JObj (rev acc @ (k, v) # ms))) st ts"
proof (induction tss ms arbitrary: v k acc rule: list_all2_induct)
  case (Cons toks tss m ms)
  obtain k' j where m: "m = (k', j)" by (cases m)
  with Cons obtain b where "toks = TStr k' # TColon # b" "builds b j" by auto
  with m show ?case using Cons.IH [of j "(k, v) # acc" k'] by (simp add: builds_PVal)
qed simp

lemma builds_word: "word_value w = Some j \<Longrightarrow> builds [TWord w] j"
  by (rule buildsI [where p = "PDone j"]) (simp_all add: start_value_def)

lemma builds_json: "json_ok j \<Longrightarrow> builds (tokens_of j) j"
proof (induction j)
  case JNull
  show ?case by (simp add: builds_word word_value_def)
next
  case (JBool b)
  show ?case by (simp add: builds_word word_value_def format_bool_def)
next
  case (JNum s)
  then show ?case by (simp add: builds_word word_value_num)
next
  case (JStr s)
  show ?case by (auto simp: start_value_def intro!: buildsI)
next
  case (JArr js)
  then have all: "list_all2 builds (map tokens_of js) js"
    by (auto simp: list_all2_map1 list_all_iff intro!: list.rel_refl_strong)
  show ?case
  proof (cases js)
    case Nil
    then show ?thesis by (auto intro!: buildsI simp: start_value_def)
  next
    case (Cons j' js')
    with all show ?thesis
      by (auto intro!: buildsI simp: start_value_def builds_PFirst run_array_rest simp del: map_map)
  qed
next
  case (JObj ms)
  then have all: "list_all2 (\<lambda>toks (k, j). \<exists>b. toks = TStr k # TColon # b \<and> builds b j)
      (map (\<lambda>(k, v). TStr k # TColon # tokens_of v) ms) ms"
    by (force simp: list_all2_map1 list_all_iff intro!: list.rel_refl_strong)
  show ?case
  proof (cases ms)
    case Nil
    then show ?thesis by (auto intro!: buildsI simp: start_value_def)
  next
    case (Cons m ms')
    with all show ?thesis
      by (auto intro!: buildsI simp: start_value_def builds_PVal run_object_rest simp del: map_map
          split: prod.splits)
  qed
qed

theorem json_parse_print: "json_ok j \<Longrightarrow> json_parse (json_print j) = Some j"
proof -
  assume j: "json_ok j"
  have "json_lex LIdle (json_print j) = Some (tokens_of j)"
    using lexes_toD [OF lexes_json [OF j] delimited_punct(4)] by simp
  moreover have "run_parser PVal [] (tokens_of j) = Some j"
    using builds_PVal [OF builds_json [OF j], of "[]" "[]"] by simp
  ultimately show ?thesis by (simp add: json_parse_def)
qed

end
