(* ===== verification/Codec.thy ===== *)
theory Codec
  imports Json_Roundtrip
begin

text \<open>
  The contract between a component that stores a value as bytes and the format it uses: an
  encoder, a decoder and the values the format carries without loss. Decimal integers and JSON
  documents are the formats of the two chaincodes.
\<close>

locale codec =
  fixes enc :: "'a \<Rightarrow> bytes"
    and dec :: "bytes \<Rightarrow> go_error + 'a"
    and fit :: "'a \<Rightarrow> bool"
  assumes dec_enc: "fit x \<Longrightarrow> dec (enc x) = Inr x"
begin

lemma enc_inject: "fit x \<Longrightarrow> fit y \<Longrightarrow> enc x = enc y \<Longrightarrow> x = y"
  by (metis dec_enc sum.inject(2))

lemma dec_enc_update: "fit (f x) \<Longrightarrow> fit x \<Longrightarrow> res_bind (dec (enc x)) (\<lambda>y. dec (enc (f y))) = Inr (f x)"
  by (simp add: dec_enc)

end

section \<open>Decimal integers\<close>

definition atoi_strict :: "bytes \<Rightarrow> go_error + gint" where
  "atoi_strict s = (case atoi s of (w, None) \<Rightarrow> Inr w | (w, Some e) \<Rightarrow> Inl (ENum e))"

interpretation dec_int_codec: codec itoa atoi_strict "\<lambda>_. True"
  by unfold_locales (simp add: atoi_strict_def atoi_itoa)

section \<open>JSON documents\<close>

definition json_read :: "bytes \<Rightarrow> go_error + json" where
  "json_read s = (case json_parse s of None \<Rightarrow> Inl (EJson JsonSyntax) | Some j \<Rightarrow> Inr j)"

interpretation json_codec: codec json_print json_read json_ok
  by unfold_locales (simp add: json_read_def json_parse_print)

section \<open>Numbers and maps in documents\<close>

definition enc_map :: "('v \<Rightarrow> json) \<Rightarrow> 'v gmap option \<Rightarrow> json" where
  "enc_map f m = (case m of None \<Rightarrow> JNull | Some es \<Rightarrow> JObj (map (\<lambda>(k, v). (k, f v)) es))"

definition enc_int :: "gint \<Rightarrow> json" where
  "enc_int w = JNum (itoa w)"

lemma word_char_digit: "is_digit c \<Longrightarrow> word_char c"
  by (simp add: word_char_def)

lemma itoa_word: "list_all word_char (itoa w)"
  by (auto simp: itoa_def list_all_iff word_char_def dest: nat_dec_digits)

text \<open>Decimal printing makes no leading zero, so the result is a JSON number.\<close>

lemma nat_dec_head: "\<exists>c cs. nat_dec n = c # cs \<and> is_digit c \<and> (c = CHR ''0'' \<longrightarrow> n = 0 \<and> cs = [])"
proof (induction n rule: nat_dec.induct)
  case (1 n)
  show ?case
  proof (cases "n < 10")
    case True
    have "digit_char n = CHR ''0'' \<Longrightarrow> n = 0"
      using True digit_val_digit_char [of n] by (auto simp: digit_val_def)
    with True show ?thesis by (simp add: nat_dec.simps [of n] is_digit_digit_char)
  next
    case False
    with 1 obtain c cs where "nat_dec (n div 10) = c # cs" "is_digit c"
      "c = CHR ''0'' \<longrightarrow> n div 10 = 0" by blast
    with False show ?thesis by (auto simp: nat_dec.simps [of n])
  qed
qed

lemma num_ok_digits:
  assumes "list_all is_digit (c # cs)" "c = CHR ''0'' \<longrightarrow> cs = []"
  shows "num_ok (c # cs)" "num_ok (CHR ''-'' # c # cs)"
proof -
  have "c \<noteq> CHR ''-''" using assms(1) by (auto simp: is_digit_def less_eq_char_def)
  moreover have "dropWhile is_digit cs = []" using assms(1) by (simp add: list_all_iff)
  then have "frac_ok (dropWhile is_digit cs)" by (simp only:) (simp add: frac_ok_def)
  ultimately show "num_ok (c # cs)" "num_ok (CHR ''-'' # c # cs)"
    using assms by (auto simp: num_ok_def frac_ok_def [of "[]"])
qed

lemma num_ok_itoa: "num_ok (itoa w)"
proof -
  have "num_ok (nat_dec n) \<and> num_ok (CHR ''-'' # nat_dec n)" for n
  proof -
    obtain c cs where n: "nat_dec n = c # cs" "c = CHR ''0'' \<longrightarrow> cs = []"
      using nat_dec_head [of n] by blast
    then have "list_all is_digit (c # cs)"
      using nat_dec_digits [of _ n] by (auto simp: list_all_iff)
    with n show ?thesis using num_ok_digits by simp
  qed
  then show ?thesis by (simp add: itoa_def)
qed

lemma json_ok_int: "json_ok (enc_int w)"
  by (simp add: enc_int_def num_ok_itoa itoa_word)

lemma dec_int_enc: "dec_int (enc_int w) old = (w, False)"
  by (simp add: dec_int_def enc_int_def atoi_itoa)

lemma dec_members_enc:
  assumes "\<And>v old. d (f v) old = (v, False)"
  shows "dec_members d z (map (\<lambda>(k, v). (k, f v)) es) (m, bad) =
    (foldl (\<lambda>a e. gmap_put (fst e) (snd e) a) m es, bad)"
  by (induction es arbitrary: m) (auto simp: assms)

lemma dec_map_enc:
  assumes "\<And>v old. d (f v) old = (v, False)" "gmap_ok es" "old = None \<or> old = Some []"
  shows "dec_map d z (enc_map f (Some es)) old = (Some es, False)"
  using assms(3) by (auto simp: dec_map_def enc_map_def dec_members_enc [OF assms(1)] gmap_rebuild assms(2))

lemma json_ok_map:
  "(\<And>k v. (k, v) \<in> set es \<Longrightarrow> valid_utf8 k \<and> json_ok (f v)) \<Longrightarrow> json_ok (enc_map f (Some es))"
  by (auto simp: enc_map_def list_all_iff)

end
