(* ===== verification/Shim.thy ===== *)
theory Shim
  imports Codec
begin

text \<open>
  The chaincode shim as the two chaincodes use it (\<open>core/chaincode/shim\<close>): responses, the
  arguments of an invocation, and the key-value state of the ledger. During one invocation the
  stub reads the committed state only and collects the writes; they reach the ledger when the
  transaction commits. The peer can fail any call: \<open>st_faults\<close> holds what happens to the
  next calls, one entry per call, and an empty list stands for a peer that does not fail.

  A response's message is the text of an error, which is kept as the error itself.
\<close>

section \<open>Responses\<close>

record cc_response =
  resp_status :: int32
  resp_message :: "go_error option"
  resp_payload :: "bytes option"

definition shim_Success :: "bytes option \<Rightarrow> cc_response" where
  "shim_Success payload = \<lparr>resp_status = 200, resp_message = None, resp_payload = payload\<rparr>"

definition shim_Error :: "go_error \<Rightarrow> cc_response" where
  "shim_Error msg = \<lparr>resp_status = 500, resp_message = Some msg, resp_payload = None\<rparr>"

text \<open>The endorser endorses a response whose status is below \<open>ERRORTHRESHOLD\<close>.\<close>

definition endorsed :: "cc_response \<Rightarrow> bool" where
  "endorsed r \<longleftrightarrow> sint (resp_status r) < 400"

lemma endorsed_simps [simp]:
  "endorsed (shim_Success p)" "\<not> endorsed (shim_Error e)"
  by (simp_all add: endorsed_def shim_Success_def shim_Error_def)

lemma shim_payload [simp]: "resp_payload (shim_Success p) = p" "resp_payload (shim_Error e) = None"
  by (simp_all add: shim_Success_def shim_Error_def)

lemma shim_distinct [simp]: "shim_Success p \<noteq> shim_Error e" "shim_Error e \<noteq> shim_Success p"
  by (simp_all add: shim_Success_def shim_Error_def)

lemma shim_inject [simp]:
  "shim_Success p = shim_Success q \<longleftrightarrow> p = q" "shim_Error e = shim_Error f \<longleftrightarrow> e = f"
  by (simp_all add: shim_Success_def shim_Error_def)

section \<open>The stub\<close>

type_synonym world = "string \<Rightarrow> bytes option"

record stub =
  st_args :: "bytes list"
  st_committed :: world
  st_writes :: "(string \<times> bytes option) list"
  st_faults :: "go_error option list"

definition new_stub :: "bytes list \<Rightarrow> world \<Rightarrow> go_error option list \<Rightarrow> stub" where
  "new_stub args w faults =
     \<lparr>st_args = args, st_committed = w, st_writes = [], st_faults = faults\<rparr>"

text \<open>One call to the peer.\<close>

definition peer_call :: "stub \<Rightarrow> go_error option \<times> stub" where
  "peer_call s =
     (case st_faults s of [] \<Rightarrow> (None, s) | f # fs \<Rightarrow> (f, s\<lparr>st_faults := fs\<rparr>))"

definition GetState :: "stub \<Rightarrow> string \<Rightarrow> (go_error + bytes option) \<times> stub" where
  "GetState s key =
     (case peer_call s of
        (Some e, s') \<Rightarrow> (Inl e, s')
      | (None, s') \<Rightarrow> (Inr (st_committed s key), s'))"

definition PutState :: "stub \<Rightarrow> string \<Rightarrow> bytes \<Rightarrow> (go_error + unit) \<times> stub" where
  "PutState s key value =
     (if key = [] then (Inl (EText ''key must not be an empty string''), s)
      else case peer_call s of
        (Some e, s') \<Rightarrow> (Inl e, s')
      | (None, s') \<Rightarrow> (Inr (), s'\<lparr>st_writes := st_writes s' @ [(key, Some value)]\<rparr>))"

definition DelState :: "stub \<Rightarrow> string \<Rightarrow> (go_error + unit) \<times> stub" where
  "DelState s key =
     (case peer_call s of
        (Some e, s') \<Rightarrow> (Inl e, s')
      | (None, s') \<Rightarrow> (Inr (), s'\<lparr>st_writes := st_writes s' @ [(key, None)]\<rparr>))"

definition GetFunctionAndParameters :: "stub \<Rightarrow> string \<times> string list" where
  "GetFunctionAndParameters s =
     (case st_args s of [] \<Rightarrow> ([], []) | f # params \<Rightarrow> (f, params))"

text \<open>What a commit of the collected writes makes of the ledger.\<close>

definition apply_writes :: "(string \<times> bytes option) list \<Rightarrow> world \<Rightarrow> world" where
  "apply_writes ws w = foldl (\<lambda>w (k, v). w(k := v)) w ws"

definition pending :: "stub \<Rightarrow> world" where
  "pending s = apply_writes (st_writes s) (st_committed s)"

section \<open>The contract of the key-value interface\<close>

locale kv_stub =
  fixes get :: "'s \<Rightarrow> string \<Rightarrow> (go_error + bytes option) \<times> 's"
    and put :: "'s \<Rightarrow> string \<Rightarrow> bytes \<Rightarrow> (go_error + unit) \<times> 's"
    and del :: "'s \<Rightarrow> string \<Rightarrow> (go_error + unit) \<times> 's"
    and committed :: "'s \<Rightarrow> world"
    and after :: "'s \<Rightarrow> world"
  assumes get_value: "get s k = (Inr x, s') \<Longrightarrow> x = committed s k"
    and get_frame: "get s k = (r, s') \<Longrightarrow> committed s' = committed s \<and> after s' = after s"
    and put_ok: "put s k v = (Inr u, s') \<Longrightarrow> committed s' = committed s \<and> after s' = (after s)(k \<mapsto> v)"
    and put_err: "put s k v = (Inl e, s') \<Longrightarrow> committed s' = committed s \<and> after s' = after s"
    and del_ok: "del s k = (Inr u, s') \<Longrightarrow> committed s' = committed s \<and> after s' = (after s)(k := None)"
    and del_err: "del s k = (Inl e, s') \<Longrightarrow> committed s' = committed s \<and> after s' = after s"
begin

text \<open>A read after a write still sees the committed value.\<close>

lemma no_read_your_writes:
  assumes "put s k v = (r, s1)" "get s1 k = (Inr x, s2)"
  shows "x = committed s k"
proof (cases r)
  case (Inl e)
  with assms show ?thesis using get_value [of s1 k x s2] put_err [of s k v e s1] by simp
next
  case (Inr u)
  with assms show ?thesis using get_value [of s1 k x s2] put_ok [of s k v u s1] by simp
qed

text \<open>A read followed by a write of the same key changes that key only.\<close>

lemma read_modify_write:
  assumes "get s k = (Inr x, s1)" "put s1 k v = (Inr u, s2)"
  shows "x = committed s k \<and> committed s2 = committed s \<and> after s2 = (after s)(k \<mapsto> v)"
  using get_value [OF assms(1)] get_frame [OF assms(1)] put_ok [OF assms(2)] by simp

text \<open>Two writes: the later one wins on a common key.\<close>

lemma two_writes:
  assumes "put s j x = (Inr u, s1)" "put s1 k y = (Inr v, s2)"
  shows "committed s2 = committed s \<and> after s2 = (after s)(j \<mapsto> x, k \<mapsto> y)"
  using put_ok [OF assms(1)] put_ok [OF assms(2)] by simp

end

section \<open>The stub meets the contract\<close>

lemma apply_writes_snoc [simp]: "apply_writes (ws @ [(k, v)]) w = (apply_writes ws w)(k := v)"
  by (simp add: apply_writes_def)

lemma apply_writes_Nil [simp]: "apply_writes [] w = w"
  by (simp add: apply_writes_def)

lemma peer_call_frame:
  "peer_call s = (f, s') \<Longrightarrow>
   st_committed s' = st_committed s \<and> st_writes s' = st_writes s \<and> st_args s' = st_args s"
  by (auto simp: peer_call_def split: list.splits)

interpretation kv: kv_stub GetState PutState DelState st_committed pending
  by unfold_locales
    (auto simp: GetState_def PutState_def DelState_def pending_def dest!: peer_call_frame
      split: prod.splits option.splits if_splits)

lemma pending_new [simp]: "pending (new_stub args w fs) = w"
  by (simp add: pending_def new_stub_def)

lemma new_stub_simps [simp]:
  "st_args (new_stub args w fs) = args" "st_committed (new_stub args w fs) = w"
  "st_writes (new_stub args w fs) = []"
  by (simp_all add: new_stub_def)

text \<open>A peer that does not fail.\<close>

lemma no_fault_simps:
  "st_faults s = [] \<Longrightarrow> GetState s k = (Inr (st_committed s k), s)"
  "st_faults s = [] \<Longrightarrow> k \<noteq> [] \<Longrightarrow>
     PutState s k v = (Inr (), s\<lparr>st_writes := st_writes s @ [(k, Some v)]\<rparr>)"
  "st_faults s = [] \<Longrightarrow> DelState s k = (Inr (), s\<lparr>st_writes := st_writes s @ [(k, None)]\<rparr>)"
  by (simp_all add: GetState_def PutState_def DelState_def peer_call_def)

end
