(* ===== verification/Token_Chaincode.thy ===== *)
theory Token_Chaincode
  imports Shim
begin

text \<open>
  The token chaincode, \<open>chaincode/src/token/token.go\<close>: a token with the balances of its holders
  and the ten peers marked normal (true) or byzantine (false), stored as one JSON document
  under the token's name. Each handler reads the document, works on the struct, and writes the
  document back. A handler returns the response and the stub with the writes it proposed;
  a Go panic, which kills the chaincode process, is an outcome of its own.
\<close>

section \<open>The token and its document\<close>

record Token =
  Owner :: string
  TotalSupply :: gint
  TokenName :: string
  BalanceOf :: "gint gmap option"
  Peers :: "bool gmap option"
  Flag :: bool

definition token_doc :: "Token \<Rightarrow> json" where
  "token_doc t =
     JObj [(''Owner'', JStr (Owner t)), (''TotalSupply'', enc_int (TotalSupply t)),
           (''TokenName'', JStr (TokenName t)), (''BalanceOf'', enc_map enc_int (BalanceOf t)),
           (''Peers'', enc_map JBool (Peers t)), (''Flag'', JBool (Flag t))]"

definition token_marshal :: "Token \<Rightarrow> bytes" where
  "token_marshal t = json_print (token_doc t)"

definition token_fields :: "string list" where
  "token_fields = [''Owner'', ''TotalSupply'', ''TokenName'', ''BalanceOf'', ''Peers'', ''Flag'']"

definition dec_token_field :: "string \<Rightarrow> json \<Rightarrow> Token \<Rightarrow> Token \<times> bool" where
  "dec_token_field f j t =
     (if f = ''Owner'' then map_prod (\<lambda>x. t\<lparr>Owner := x\<rparr>) id (dec_string j (Owner t))
      else if f = ''TotalSupply'' then map_prod (\<lambda>x. t\<lparr>TotalSupply := x\<rparr>) id (dec_int j (TotalSupply t))
      else if f = ''TokenName'' then map_prod (\<lambda>x. t\<lparr>TokenName := x\<rparr>) id (dec_string j (TokenName t))
      else if f = ''BalanceOf'' then map_prod (\<lambda>x. t\<lparr>BalanceOf := x\<rparr>) id (dec_map dec_int 0 j (BalanceOf t))
      else if f = ''Peers'' then map_prod (\<lambda>x. t\<lparr>Peers := x\<rparr>) id (dec_map dec_bool False j (Peers t))
      else map_prod (\<lambda>x. t\<lparr>Flag := x\<rparr>) id (dec_bool j (Flag t)))"

fun dec_token_members :: "(string \<times> json) list \<Rightarrow> Token \<times> bool \<Rightarrow> Token \<times> bool" where
  "dec_token_members [] acc = acc"
| "dec_token_members ((k, j) # ms) (t, bad) =
     (case find_field token_fields k of
        None \<Rightarrow> dec_token_members ms (t, bad)
      | Some f \<Rightarrow> (case dec_token_field f j t of (t', b) \<Rightarrow> dec_token_members ms (t', bad \<or> b)))"

definition dec_token :: "Token decoder" where
  "dec_token j old =
     (case j of
        JNull \<Rightarrow> (old, False)
      | JObj ms \<Rightarrow> dec_token_members ms (old, False)
      | _ \<Rightarrow> (old, True))"

definition token_unmarshal :: "bytes option \<Rightarrow> Token \<Rightarrow> Token \<times> go_error option" where
  "token_unmarshal b old = json_unmarshal dec_token (slice_bytes b) old"

text \<open>\<open>Token\<lbrace>... make(map ...) ...\<rbrace>\<close>, and \<open>&Token\<lbrace>\<rbrace>\<close> with nil maps.\<close>

definition blank_token :: Token where
  "blank_token = \<lparr>Owner = [], TotalSupply = 0, TokenName = [], BalanceOf = Some [],
                  Peers = Some [], Flag = False\<rparr>"

definition zero_token :: Token where
  "zero_token = \<lparr>Owner = [], TotalSupply = 0, TokenName = [], BalanceOf = None,
                 Peers = None, Flag = False\<rparr>"

section \<open>The methods of the token\<close>

definition Token_transfer :: "Token \<Rightarrow> string \<Rightarrow> string \<Rightarrow> gint \<Rightarrow> Token outcome" where
  "Token_transfer token from to amount =
     (if sint amount \<le> sint (gmap_read 0 (BalanceOf token) from) then
        out_bind (gmap_write from (gmap_read 0 (BalanceOf token) from - amount) (BalanceOf token)) (\<lambda>b1.
        out_bind (gmap_write to (gmap_read 0 b1 to + amount) b1) (\<lambda>b2.
        Done (token\<lparr>BalanceOf := b2\<rparr>)))
      else Done token)"

definition Token_balance :: "Token \<Rightarrow> string \<Rightarrow> gint" where
  "Token_balance token from = gmap_read 0 (BalanceOf token) from"

section \<open>The handlers of the contract\<close>

definition TokenContract_Init :: "stub \<Rightarrow> (cc_response \<times> stub) outcome" where
  "TokenContract_Init stub = Done (shim_Success None, stub)"

definition issue_peers :: "gint \<Rightarrow> bool gmap" where
  "issue_peers n =
     (let put = (\<lambda>name bound. gmap_put name (\<not> bound < sint n)) in
      put ''peer0.org10.example.com'' 0
     (put ''peer0.org9.example.com'' 1
     (put ''peer0.org8.example.com'' 2
     (put ''peer0.org7.example.com'' 3
     (put ''peer0.org6.example.com'' 4
     (put ''peer0.org5.example.com'' 5
     (put ''peer0.org4.example.com'' 6
     (put ''peer0.org3.example.com'' 7
     (put ''peer0.org2.example.com'' 8
     (put ''peer0.org1.example.com'' 9 []))))))))))"

definition TokenContract_issue :: "stub \<Rightarrow> string list \<Rightarrow> (cc_response \<times> stub) outcome" where
  "TokenContract_issue stub args =
     (if length args \<noteq> 4
      then Done (shim_Error (EText ''Incorrect number of arguments. Expecting 4''), stub)
      else
        let owner = args ! 0; name = args ! 1;
            supply = fst (atoi (args ! 2)); byzantineNum = fst (atoi (args ! 3));
            token = \<lparr>Owner = owner, TotalSupply = supply, TokenName = name,
                     BalanceOf = Some (gmap_put owner supply []),
                     Peers = Some (issue_peers byzantineNum), Flag = False\<rparr>;
            tokenAsBytes = token_marshal token
        in case PutState stub name tokenAsBytes of
             (Inl e, stub1) \<Rightarrow> Done (shim_Error e, stub1)
           | (Inr _, stub1) \<Rightarrow> Done (shim_Success (Some tokenAsBytes), stub1))"

definition TokenContract_transfer :: "stub \<Rightarrow> string list \<Rightarrow> (cc_response \<times> stub) outcome" where
  "TokenContract_transfer stub args =
     (if length args \<noteq> 5
      then Done (shim_Error (EText ''Incorrect number of arguments. Expecting 5''), stub)
      else
        let from = args ! 1; to = args ! 2; amount = fst (atoi (args ! 3)) in
        if sint amount \<le> 0
        then Done (shim_Error (EText ''Incorrect number of amount''), stub)
        else case GetState stub (args ! 0) of
          (Inl e, stub1) \<Rightarrow> Done (shim_Error e, stub1)
        | (Inr tokenAsBytes, stub1) \<Rightarrow>
            let flag = fst (parse_bool (args ! 4)) in
            case token_unmarshal tokenAsBytes blank_token of
              (_, Some e) \<Rightarrow> Done (shim_Error e, stub1)
            | (token, None) \<Rightarrow>
                out_bind (Token_transfer (token\<lparr>Flag := flag\<rparr>) from to amount) (\<lambda>token'.
                let tokenAsBytes' = token_marshal token' in
                case PutState stub1 (args ! 0) tokenAsBytes' of
                  (Inl e, stub2) \<Rightarrow> Done (shim_Error e, stub2)
                | (Inr _, stub2) \<Rightarrow> Done (shim_Success (Some tokenAsBytes'), stub2)))"

text \<open>
  The loop of \<open>setPeer\<close> over the decoded parameter, in the order Go happens to give the
  entries: every named peer must exist already.
\<close>

fun set_peer_loop :: "(string \<times> string) list \<Rightarrow> bool gmap option \<Rightarrow> go_error + bool gmap option" where
  "set_peer_loop [] peers = Inr peers"
| "set_peer_loop ((k, v) # es) peers =
     (case gmap_get (slice_bytes peers) k of
        None \<Rightarrow> Inl (EText ''invaild peer params'')
      | Some _ \<Rightarrow> set_peer_loop es (map_option (gmap_put k (fst (parse_bool v))) peers))"

definition peer_params :: "bytes \<Rightarrow> string gmap option \<times> go_error option" where
  "peer_params s = json_unmarshal (dec_map dec_string []) s None"

definition TokenContract_setPeer ::
    "(string gmap \<Rightarrow> (string \<times> string) list) \<Rightarrow> stub \<Rightarrow> string list \<Rightarrow> (cc_response \<times> stub) outcome" where
  "TokenContract_setPeer iter stub args =
     (if length args \<noteq> 3
      then Done (shim_Error (EText ''Incorrect number of arguments. Expecting 3''), stub)
      else case GetState stub (args ! 0) of
        (Inl e, stub1) \<Rightarrow> Done (shim_Error e, stub1)
      | (Inr tokenAsBytes, stub1) \<Rightarrow>
          (case token_unmarshal tokenAsBytes blank_token of
             (_, Some e) \<Rightarrow> Done (shim_Error e, stub1)
           | (token, None) \<Rightarrow>
               (case peer_params (args ! 1) of
                  (_, Some e) \<Rightarrow> Done (shim_Error e, stub1)
                | (peers, None) \<Rightarrow>
                    (case set_peer_loop (iter (slice_bytes peers)) (Peers token) of
                       Inl e \<Rightarrow> Done (shim_Error e, stub1)
                     | Inr peers' \<Rightarrow>
                         let flag = fst (parse_bool (args ! 2));
                             tokenAsBytes' = token_marshal (token\<lparr>Peers := peers', Flag := flag\<rparr>)
                         in case PutState stub1 (args ! 0) tokenAsBytes' of
                              (Inl e, stub2) \<Rightarrow> Done (shim_Error e, stub2)
                            | (Inr _, stub2) \<Rightarrow> Done (shim_Success (Some tokenAsBytes'), stub2)))))"

definition TokenContract_getPeers :: "stub \<Rightarrow> string list \<Rightarrow> (cc_response \<times> stub) outcome" where
  "TokenContract_getPeers stub args =
     (if length args \<noteq> 1
      then Done (shim_Error (EText ''Incorrect number of arguments. Expecting 1''), stub)
      else case GetState stub (args ! 0) of
        (Inl e, stub1) \<Rightarrow> Done (shim_Error e, stub1)
      | (Inr tokenAsBytes, stub1) \<Rightarrow>
          (case token_unmarshal tokenAsBytes blank_token of
             (_, Some e) \<Rightarrow> Done (shim_Error e, stub1)
           | (token, None) \<Rightarrow>
               Done (shim_Success (Some (json_print (enc_map JBool (Peers token)))), stub1)))"

definition TokenContract_balance :: "stub \<Rightarrow> string list \<Rightarrow> (cc_response \<times> stub) outcome" where
  "TokenContract_balance stub args =
     (if length args \<noteq> 2
      then Done (shim_Error (EText ''Incorrect number of arguments. Expecting 2''), stub)
      else case GetState stub (args ! 0) of
        (Inl e, stub1) \<Rightarrow> Done (shim_Error e, stub1)
      | (Inr tokenAsBytes, stub1) \<Rightarrow>
          (case token_unmarshal tokenAsBytes zero_token of
             (_, Some e) \<Rightarrow> Done (shim_Error e, stub1)
           | (token, None) \<Rightarrow>
               Done (shim_Success (Some (itoa (Token_balance token (args ! 1)))), stub1)))"

definition TokenContract_Invoke ::
    "(string gmap \<Rightarrow> (string \<times> string) list) \<Rightarrow> stub \<Rightarrow> (cc_response \<times> stub) outcome" where
  "TokenContract_Invoke iter stub =
     (case GetFunctionAndParameters stub of (function, args) \<Rightarrow>
        if function = ''issue'' then TokenContract_issue stub args
        else if function = ''transfer'' then TokenContract_transfer stub args
        else if function = ''balance'' then TokenContract_balance stub args
        else if function = ''setPeer'' then TokenContract_setPeer iter stub args
        else if function = ''getPeers'' then TokenContract_getPeers stub args
        else Done (shim_Error (EText (''Invalid Token Contract function name:'' @ function)), stub))"

end
