(* ===== verification/Token_Document.thy ===== *)
theory Token_Document
  imports Token_Chaincode
begin

text \<open>
  The stored document of a token: which tokens it carries without loss, and that \<open>Unmarshal\<close>
  gives back what \<open>Marshal\<close> stored, into a struct with fresh maps as well as with nil maps.
\<close>

section \<open>Tokens that survive storage\<close>

definition map_fit :: "'v gmap option \<Rightarrow> bool" where
  "map_fit m \<longleftrightarrow>
     (case m of None \<Rightarrow> False | Some es \<Rightarrow> gmap_ok es \<and> list_all (\<lambda>e. valid_utf8 (fst e)) es)"

definition token_fit :: "Token \<Rightarrow> bool" where
  "token_fit t \<longleftrightarrow>
     valid_utf8 (Owner t) \<and> valid_utf8 (TokenName t) \<and> map_fit (BalanceOf t) \<and> map_fit (Peers t)"

lemma map_fit_Some: "map_fit m \<longleftrightarrow> (\<exists>es. m = Some es \<and> gmap_ok es \<and> (\<forall>e\<in>set es. valid_utf8 (fst e)))"
  by (cases m) (auto simp: map_fit_def list_all_iff)

lemma map_fit_put: "map_fit (Some es) \<Longrightarrow> valid_utf8 k \<Longrightarrow> map_fit (Some (gmap_put k v es))"
  using gm.upd_values [of es _ k v] by (auto simp: map_fit_Some gmap_ok_put)

lemma map_fit_singleton: "valid_utf8 k \<Longrightarrow> map_fit (Some (gmap_put k v []))"
  by (rule map_fit_put) (simp_all add: map_fit_def)

section \<open>The field names\<close>

lemma find_token_fields:
  "find_field token_fields ''Owner'' = Some ''Owner''"
  "find_field token_fields ''TotalSupply'' = Some ''TotalSupply''"
  "find_field token_fields ''TokenName'' = Some ''TokenName''"
  "find_field token_fields ''BalanceOf'' = Some ''BalanceOf''"
  "find_field token_fields ''Peers'' = Some ''Peers''"
  "find_field token_fields ''Flag'' = Some ''Flag''"
  by (simp_all add: find_field_def token_fields_def)

lemma valid_utf8_ascii: "list_all ascii s \<Longrightarrow> valid_utf8 s"
  by (induction s) auto

lemma ascii_names: "list_all (\<lambda>n. valid_utf8 n) token_fields"
  unfolding token_fields_def by (simp add: ascii_def code_def)

section \<open>The round trip\<close>

lemma json_ok_token_doc: "token_fit t \<Longrightarrow> json_ok (token_doc t)"
proof -
  assume t: "token_fit t"
  then obtain b p where b: "BalanceOf t = Some b" "\<forall>e\<in>set b. valid_utf8 (fst e)"
    and p: "Peers t = Some p" "\<forall>e\<in>set p. valid_utf8 (fst e)"
    by (auto simp: token_fit_def map_fit_Some)
  have "json_ok (enc_map enc_int (BalanceOf t))" "json_ok (enc_map JBool (Peers t))"
    unfolding b(1) p(1) using b(2) p(2) by (intro json_ok_map; force simp: json_ok_int)+
  then show ?thesis
    using t ascii_names by (simp add: token_doc_def token_fit_def token_fields_def json_ok_int)
qed

lemma dec_token_doc:
  assumes "token_fit t"
    and "BalanceOf old = None \<or> BalanceOf old = Some []"
    and "Peers old = None \<or> Peers old = Some []"
  shows "dec_token (token_doc t) old = (t, False)"
proof -
  obtain b p where b: "BalanceOf t = Some b" "gmap_ok b" and p: "Peers t = Some p" "gmap_ok p"
    using assms(1) by (auto simp: token_fit_def map_fit_Some)
  have "dec_map dec_int 0 (enc_map enc_int (Some b)) (BalanceOf old) = (Some b, False)"
    using assms(2) b(2) by (intro dec_map_enc) (auto simp: dec_int_enc)
  moreover have "dec_map dec_bool False (enc_map JBool (Some p)) (Peers old) = (Some p, False)"
    using assms(3) p(2) by (intro dec_map_enc) (auto simp: dec_bool_def)
  ultimately show ?thesis
    by (simp add: dec_token_def token_doc_def find_token_fields dec_token_field_def
        dec_string_def dec_bool_def dec_int_enc b(1) p(1))
qed

lemma token_unmarshal_marshal:
  assumes "token_fit t"
  shows "token_unmarshal (Some (token_marshal t)) blank_token = (t, None)"
    and "token_unmarshal (Some (token_marshal t)) zero_token = (t, None)"
  using assms
  by (simp_all add: token_unmarshal_def json_unmarshal_def token_marshal_def json_parse_print
      json_ok_token_doc dec_token_doc blank_token_def zero_token_def)

definition token_read :: "bytes \<Rightarrow> go_error + Token" where
  "token_read s =
     (case token_unmarshal (Some s) blank_token of (t, None) \<Rightarrow> Inr t | (_, Some e) \<Rightarrow> Inl e)"

interpretation token_codec: codec token_marshal token_read token_fit
  by unfold_locales (simp add: token_read_def token_unmarshal_marshal)

text \<open>Reading a key that was never written is a syntax error: the document is empty.\<close>

lemma token_unmarshal_None: "token_unmarshal None old = (old, Some (EJson JsonSyntax))"
  by (simp add: token_unmarshal_def json_unmarshal_def json_parse_def)

text \<open>The peer map as \<open>getPeers\<close> prints it and the server reads it.\<close>

lemma peer_map_roundtrip:
  assumes "gmap_ok p" "\<forall>e\<in>set p. valid_utf8 (fst e)"
  shows "json_unmarshal (dec_map dec_bool False) (json_print (enc_map JBool (Some p))) (Some []) = (Some p, None)"
proof -
  have "json_ok (enc_map JBool (Some p))" using assms(2) by (intro json_ok_map) auto
  moreover have "dec_map dec_bool False (enc_map JBool (Some p)) (Some []) = (Some p, False)"
    by (rule dec_map_enc) (simp_all add: dec_bool_def assms(1))
  ultimately show ?thesis by (simp add: json_unmarshal_def json_parse_print)
qed

end
