(* ===== verification/Token_Ledger.thy ===== *)
theory Token_Ledger
  imports Token_Contract
begin

text \<open>
  The token contract over time. A step of the ledger is one endorsed invocation of the chaincode
  whose writes commit; invocations that are refused, not endorsed or not committed leave the
  ledger as it is. In every ledger reached from the empty one, whatever peers fail and
  whatever order Go gives map entries, each stored document is the document of a token whose
  balances sum to its supply.
\<close>

section \<open>Steps and reachable ledgers\<close>

inductive token_step ::
    "(string gmap \<Rightarrow> (string \<times> string) list) \<Rightarrow> world \<Rightarrow> world \<Rightarrow> bool" for iter where
  commit: "TokenContract_Invoke iter (new_stub args w faults) = Done (r, s) \<Longrightarrow> endorsed r \<Longrightarrow>
     list_all valid_utf8 args \<Longrightarrow> token_step iter w (pending s)"

inductive token_reach :: "(string gmap \<Rightarrow> (string \<times> string) list) \<Rightarrow> world \<Rightarrow> bool" for iter where
  empty: "token_reach iter (\<lambda>_. None)"
| step: "token_reach iter w \<Longrightarrow> token_step iter w w' \<Longrightarrow> token_reach iter w'"

inductive_cases token_stepE: "token_step iter w w'"

definition world_ok :: "world \<Rightarrow> bool" where
  "world_ok w \<longleftrightarrow>
     (\<forall>k v. w k = Some v \<longrightarrow> (\<exists>t. v = token_marshal t \<and> books t \<and> TokenName t = k))"

section \<open>Loading and storing a token\<close>

lemma books_fit: "books t \<Longrightarrow> token_fit t"
  by (simp add: books_def)

lemma load_token:
  assumes "GetState s k = (Inr x, s1)" "world_ok (st_committed s)"
    and "token_unmarshal x old = (t, None)" "old = blank_token \<or> old = zero_token"
  shows "books t \<and> TokenName t = k \<and> x = Some (token_marshal t)"
proof -
  have x: "x = st_committed s k" by (rule kv.get_value [OF assms(1)])
  show ?thesis
  proof (cases x)
    case None
    then show ?thesis using assms(3) by (simp add: token_unmarshal_None)
  next
    case (Some v)
    then obtain t0 where t0: "v = token_marshal t0" "books t0" "TokenName t0 = k"
      using assms(2) x by (auto simp: world_ok_def)
    then show ?thesis
      using assms(3,4) Some token_unmarshal_marshal [OF books_fit [OF t0(2)]] by auto
  qed
qed

lemma store_token:
  assumes "PutState s k (token_marshal t) = (r, s')" "world_ok (pending s)" "books t" "TokenName t = k"
  shows "world_ok (pending s')"
  using assms kv.put_ok [of s k "token_marshal t" _ s'] kv.put_err [of s k "token_marshal t" _ s']
  by (cases r) (auto simp: world_ok_def)

section \<open>Every handler keeps the ledger in order\<close>

definition quiet :: "stub \<Rightarrow> bool" where
  "quiet s \<longleftrightarrow> world_ok (st_committed s) \<and> world_ok (pending s)"

lemma quiet_get: "quiet s \<Longrightarrow> GetState s k = (x, s') \<Longrightarrow> quiet s'"
  using kv.get_frame [of s k x s'] by (simp add: quiet_def)

lemma issue_peers_ok: "gmap_ok (issue_peers n)" "map_fit (Some (issue_peers n))"
proof -
  have names: "valid_utf8 ''peer0.org1.example.com''" "valid_utf8 ''peer0.org2.example.com''"
    "valid_utf8 ''peer0.org3.example.com''" "valid_utf8 ''peer0.org4.example.com''"
    "valid_utf8 ''peer0.org5.example.com''" "valid_utf8 ''peer0.org6.example.com''"
    "valid_utf8 ''peer0.org7.example.com''" "valid_utf8 ''peer0.org8.example.com''"
    "valid_utf8 ''peer0.org9.example.com''" "valid_utf8 ''peer0.org10.example.com''"
    by (simp_all add: ascii_def code_def)
  have "map_fit (Some [])" by (simp add: map_fit_def)
  then show "map_fit (Some (issue_peers n))"
    unfolding issue_peers_def Let_def by (intro map_fit_put names)
  then show "gmap_ok (issue_peers n)" by (simp add: map_fit_Some)
qed

lemma issued_books:
  "valid_utf8 owner \<Longrightarrow> valid_utf8 name \<Longrightarrow>
   books \<lparr>Owner = owner, TotalSupply = amount, TokenName = name,
     BalanceOf = Some (gmap_put owner amount []), Peers = Some (issue_peers n), Flag = f\<rparr>"
  using map_fit_singleton [of owner amount] issue_peers_ok(2) [of n]
  by (simp add: books_def token_fit_def entry_total_def)

lemma issue_keeps:
  assumes "TokenContract_issue s args = Done (r, s')" "quiet s" "list_all valid_utf8 args"
  shows "world_ok (pending s')"
proof (cases "length args = 4")
  case True
  then have "valid_utf8 (args ! 0)" "valid_utf8 (args ! 1)"
    using assms(3) by (auto simp: list_all_length)
  then show ?thesis
    using assms True by (auto simp: TokenContract_issue_def Let_def quiet_def
        intro: store_token issued_books simp del: gmap_put.simps split: prod.splits sum.splits)
qed (use assms in \<open>simp add: TokenContract_issue_def quiet_def\<close>)

lemma books_flag: "books t \<Longrightarrow> books (t\<lparr>Flag := f\<rparr>)"
  by (simp add: books_def token_fit_def)

text \<open>The branches of \<open>transfer\<close>, one equation each.\<close>

lemma transfer_branches:
  "length args \<noteq> 5 \<Longrightarrow>
     TokenContract_transfer s args =
       Done (shim_Error (EText ''Incorrect number of arguments. Expecting 5''), s)"
  "length args = 5 \<Longrightarrow> sint (fst (atoi (args ! 3))) \<le> 0 \<Longrightarrow>
     TokenContract_transfer s args = Done (shim_Error (EText ''Incorrect number of amount''), s)"
  "length args = 5 \<Longrightarrow> 0 < sint (fst (atoi (args ! 3))) \<Longrightarrow> GetState s (args ! 0) = (Inl e, s1) \<Longrightarrow>
     TokenContract_transfer s args = Done (shim_Error e, s1)"
  "length args = 5 \<Longrightarrow> 0 < sint (fst (atoi (args ! 3))) \<Longrightarrow> GetState s (args ! 0) = (Inr x, s1) \<Longrightarrow>
   token_unmarshal x blank_token = (t, Some e) \<Longrightarrow>
     TokenContract_transfer s args = Done (shim_Error e, s1)"
  "length args = 5 \<Longrightarrow> 0 < sint (fst (atoi (args ! 3))) \<Longrightarrow> GetState s (args ! 0) = (Inr x, s1) \<Longrightarrow>
   token_unmarshal x blank_token = (t, None) \<Longrightarrow>
   Token_transfer (t\<lparr>Flag := fst (parse_bool (args ! 4))\<rparr>) (args ! 1) (args ! 2) (fst (atoi (args ! 3))) = Done t' \<Longrightarrow>
     TokenContract_transfer s args =
       (case PutState s1 (args ! 0) (token_marshal t') of
          (Inl e, s2) \<Rightarrow> Done (shim_Error e, s2)
        | (Inr _, s2) \<Rightarrow> Done (shim_Success (Some (token_marshal t')), s2))"
  by (simp_all add: TokenContract_transfer_def Let_def)

lemma transfer_keeps:
  assumes run: "TokenContract_transfer s args = Done (r, s')" and q: "quiet s"
    and args: "list_all valid_utf8 args"
  shows "world_ok (pending s')"
proof (cases "length args = 5 \<and> 0 < sint (fst (atoi (args ! 3)))")
  case True
  let ?n = "fst (atoi (args ! 3))" and ?f = "fst (parse_bool (args ! 4))"
  have utf: "valid_utf8 (args ! 1)" "valid_utf8 (args ! 2)"
    using args True by (auto simp: list_all_length)
  obtain g s1 where get: "GetState s (args ! 0) = (g, s1)" by fastforce
  note q1 = quiet_get [OF q get]
  show ?thesis
  proof (cases g)
    case (Inl e)
    then show ?thesis using run True get q1 by (simp add: transfer_branches(3) quiet_def)
  next
    case (Inr x)
    obtain t e where um: "token_unmarshal x blank_token = (t, e)" by fastforce
    show ?thesis
    proof (cases e)
      case (Some e')
      then show ?thesis using run True get q1 um Inr by (simp add: transfer_branches(4) quiet_def)
    next
      case None
      have t: "books t" "TokenName t = args ! 0"
        using load_token [of s "args ! 0" x s1 blank_token t] get Inr q um None
        by (auto simp: quiet_def)
      obtain t' where t': "Token_transfer (t\<lparr>Flag := ?f\<rparr>) (args ! 1) (args ! 2) ?n = Done t'"
        "books t'" "t'\<lparr>BalanceOf := BalanceOf (t\<lparr>Flag := ?f\<rparr>)\<rparr> = t\<lparr>Flag := ?f\<rparr>"
        using transfer_keeps_books [OF books_flag [OF t(1)] conjunct2 [OF True] utf] by blast
      have "TokenName t' = args ! 0"
        using arg_cong [OF t'(3), of TokenName] t(2) by simp
      then show ?thesis
        using run True get q1 um Inr None t'
        by (auto simp: transfer_branches(5) quiet_def intro: store_token
            split: prod.splits sum.splits)
    qed
  qed
next
  case False
  then show ?thesis
    using run q transfer_branches(1,2) [of args s] by (auto simp: quiet_def not_less)
qed

text \<open>\<open>setPeer\<close> only touches entries that are there.\<close>

lemma gmap_get_key: "gmap_get m k = Some v \<Longrightarrow> k \<in> fst ` set m"
  by (force simp: gmap_get_def dest: map_of_SomeD)

lemma set_peer_loop_fit:
  "set_peer_loop es peers = Inr q \<Longrightarrow> map_fit peers \<Longrightarrow> map_fit q"
proof (induction es peers rule: set_peer_loop.induct)
  case (2 k v es peers)
  obtain p where p: "peers = Some p" "map_fit (Some p)"
    using "2.prems"(2) by (auto simp: map_fit_Some)
  then obtain u where u: "gmap_get p k = Some u"
    using "2.prems"(1) by (auto split: option.splits)
  then have "valid_utf8 k" using p(2) gmap_get_key [OF u] by (auto simp: map_fit_Some)
  then show ?case using 2 p u by (simp add: map_fit_put)
qed simp

lemma books_peers: "books t \<Longrightarrow> map_fit p \<Longrightarrow> books (t\<lparr>Peers := p, Flag := f\<rparr>)"
  by (simp add: books_def token_fit_def)

lemma setPeer_branches:
  "length args \<noteq> 3 \<Longrightarrow>
     TokenContract_setPeer iter s args =
       Done (shim_Error (EText ''Incorrect number of arguments. Expecting 3''), s)"
  "length args = 3 \<Longrightarrow> GetState s (args ! 0) = (Inl e, s1) \<Longrightarrow>
     TokenContract_setPeer iter s args = Done (shim_Error e, s1)"
  "length args = 3 \<Longrightarrow> GetState s (args ! 0) = (Inr x, s1) \<Longrightarrow>
   token_unmarshal x blank_token = (t, Some e) \<Longrightarrow>
     TokenContract_setPeer iter s args = Done (shim_Error e, s1)"
  "length args = 3 \<Longrightarrow> GetState s (args ! 0) = (Inr x, s1) \<Longrightarrow>
   token_unmarshal x blank_token = (t, None) \<Longrightarrow> peer_params (args ! 1) = (ps, Some e) \<Longrightarrow>
     TokenContract_setPeer iter s args = Done (shim_Error e, s1)"
  "length args = 3 \<Longrightarrow> GetState s (args ! 0) = (Inr x, s1) \<Longrightarrow>
   token_unmarshal x blank_token = (t, None) \<Longrightarrow> peer_params (args ! 1) = (ps, None) \<Longrightarrow>
   set_peer_loop (iter (slice_bytes ps)) (Peers t) = Inl e \<Longrightarrow>
     TokenContract_setPeer iter s args = Done (shim_Error e, s1)"
  "length args = 3 \<Longrightarrow> GetState s (args ! 0) = (Inr x, s1) \<Longrightarrow>
   token_unmarshal x blank_token = (t, None) \<Longrightarrow> peer_params (args ! 1) = (ps, None) \<Longrightarrow>
   set_peer_loop (iter (slice_bytes ps)) (Peers t) = Inr q \<Longrightarrow>
   t\<lparr>Peers := q, Flag := fst (parse_bool (args ! 2))\<rparr> = t' \<Longrightarrow>
     TokenContract_setPeer iter s args =
       (case PutState s1 (args ! 0) (token_marshal t') of
          (Inl e, s2) \<Rightarrow> Done (shim_Error e, s2)
        | (Inr _, s2) \<Rightarrow> Done (shim_Success (Some (token_marshal t')), s2))"
  by (auto simp: TokenContract_setPeer_def Let_def)

lemma setPeer_keeps:
  assumes run: "TokenContract_setPeer iter s args = Done (r, s')" and q: "quiet s"
  shows "world_ok (pending s')"
proof (cases "length args = 3")
  case True
  obtain g s1 where get: "GetState s (args ! 0) = (g, s1)" by fastforce
  note q1 = quiet_get [OF q get]
  show ?thesis
  proof (cases g)
    case (Inl e)
    then show ?thesis using run True get q1 by (simp add: setPeer_branches(2) quiet_def)
  next
    case (Inr x)
    obtain t e where um: "token_unmarshal x blank_token = (t, e)" by fastforce
    obtain ps pe where pp: "peer_params (args ! 1) = (ps, pe)" by fastforce
    consider e1 where "e = Some e1" | e2 where "e = None" "pe = Some e2"
      | e3 where "e = None" "pe = None" "set_peer_loop (iter (slice_bytes ps)) (Peers t) = Inl e3"
      | q where "e = None" "pe = None" "set_peer_loop (iter (slice_bytes ps)) (Peers t) = Inr q"
      by (metis not_None_eq sum.exhaust)
    then show ?thesis
    proof cases
      case 1
      then show ?thesis using run True get q1 um Inr by (simp add: setPeer_branches(3) quiet_def)
    next
      case 2
      then show ?thesis using run True get q1 um pp Inr by (simp add: setPeer_branches(4) quiet_def)
    next
      case 3
      then show ?thesis using run True get q1 um pp Inr by (simp add: setPeer_branches(5) quiet_def)
    next
      case (4 p)
      have t: "books t" "TokenName t = args ! 0"
        using load_token [of s "args ! 0" x s1 blank_token t] get Inr q um 4
        by (auto simp: quiet_def)
      have "map_fit p"
        using set_peer_loop_fit [OF 4(3)] t(1) by (simp add: books_def token_fit_def)
      then have "books (t\<lparr>Peers := p, Flag := fst (parse_bool (args ! 2))\<rparr>)"
        by (rule books_peers [OF t(1)])
      then show ?thesis
        using run True get q1 um pp Inr 4 t(2)
        by (auto simp: setPeer_branches(6) quiet_def intro: store_token split: prod.splits sum.splits)
    qed
  qed
next
  case False
  then show ?thesis using run q setPeer_branches(1) [of args iter s] by (simp add: quiet_def)
qed

text \<open>The readers propose no write.\<close>

lemma readers_keep:
  "TokenContract_balance s args = Done (r, s') \<Longrightarrow> quiet s \<Longrightarrow> world_ok (pending s')"
  "TokenContract_getPeers s args = Done (r, s') \<Longrightarrow> quiet s \<Longrightarrow> world_ok (pending s')"
  unfolding TokenContract_balance_def TokenContract_getPeers_def
  using quiet_get [of s "args ! 0"]
  by (auto simp: quiet_def split: if_splits prod.splits sum.splits option.splits)

lemma Invoke_keeps:
  assumes "TokenContract_Invoke iter s = Done (r, s')" "quiet s" "list_all valid_utf8 (st_args s)"
  shows "world_ok (pending s')"
proof -
  obtain f args where fa: "GetFunctionAndParameters s = (f, args)" by fastforce
  then have "list_all valid_utf8 args"
    using assms(3) by (auto simp: GetFunctionAndParameters_def split: list.splits)
  then show ?thesis
    using assms(1,2) fa issue_keeps [of s args r s'] transfer_keeps [of s args r s']
      setPeer_keeps [of iter s args r s'] readers_keep [of s args r s']
    by (auto simp: TokenContract_Invoke_def quiet_def split: if_splits)
qed

lemma token_step_ok: "token_step iter w w' \<Longrightarrow> world_ok w \<Longrightarrow> world_ok w'"
  by (elim token_stepE) (force intro: Invoke_keeps simp: quiet_def)

lemma token_reach_ok: "token_reach iter w \<Longrightarrow> world_ok w"
proof (induction rule: token_reach.induct)
  case empty
  show ?case by (simp add: world_ok_def)
next
  case (step w w')
  then show ?case by (blast intro: token_step_ok)
qed

end
