(* ===== verification/Token_Handlers.thy ===== *)
theory Token_Handlers
  imports Token_Ledger
begin

text \<open>
  Facts about the handlers of the token chaincode one by one: the loop of \<open>setPeer\<close> as an
  override of the peer map that no iteration order changes, the peer map of an issued token,
  the writes each handler may propose, and that every handler returns.
\<close>

section \<open>Decoded maps are canonical\<close>

lemma dec_members_ok: "gmap_ok m \<Longrightarrow> gmap_ok (fst (dec_members d z ms (m, bad)))"
  by (induction ms arbitrary: m bad) (auto simp: gmap_ok_put split: prod.split)

lemma dec_map_ok:
  assumes "gmap_ok (slice_bytes old)"
  shows "gmap_ok (slice_bytes (fst (dec_map d z j old)))"
proof (cases j)
  case (JObj ms)
  have "(case old of None \<Rightarrow> [] | Some m \<Rightarrow> m) = slice_bytes old" by (cases old) simp_all
  then show ?thesis
    using dec_members_ok [OF assms, of d z ms False] JObj
    by (simp add: dec_map_def case_prod_beta)
qed (use assms in \<open>simp_all add: dec_map_def\<close>)

lemma peer_params_ok: "peer_params s = (ps, e) \<Longrightarrow> gmap_ok (slice_bytes ps)"
  using dec_map_ok [of None dec_string "[]"]
  by (auto simp: peer_params_def json_unmarshal_def split: option.splits prod.splits)
    (metis fst_conv gmap_ok_empty slice_bytes_simps(1))

lemma dec_token_field_peers:
  "gmap_ok (slice_bytes (Peers t)) \<Longrightarrow> dec_token_field f j t = (t', b) \<Longrightarrow> gmap_ok (slice_bytes (Peers t'))"
  using dec_map_ok [of "Peers t" dec_bool False j]
  by (auto simp: dec_token_field_def map_prod_def split: if_splits prod.splits)

lemma dec_token_members_peers:
  "gmap_ok (slice_bytes (Peers t)) \<Longrightarrow>
   gmap_ok (slice_bytes (Peers (fst (dec_token_members ms (t, bad)))))"
proof (induction ms arbitrary: t bad)
  case (Cons e ms)
  obtain k j where e: "e = (k, j)" by (cases e)
  show ?case
  proof (cases "find_field token_fields k")
    case (Some f)
    obtain t' b where d: "dec_token_field f j t = (t', b)" by fastforce
    then show ?thesis using Cons.IH [OF dec_token_field_peers [OF Cons.prems d]] e Some by simp
  qed (use Cons e in simp)
qed simp

lemma token_unmarshal_peers:
  "token_unmarshal x blank_token = (t, e) \<Longrightarrow> gmap_ok (slice_bytes (Peers t))"
  using dec_token_members_peers [of blank_token _ False]
  by (auto simp: token_unmarshal_def json_unmarshal_def dec_token_def blank_token_def
      split: option.splits json.splits prod.splits) (metis fst_conv)+

section \<open>The loop of setPeer\<close>

text \<open>The peer map after the loop, when every named peer is there.\<close>

definition mark_all :: "(string \<times> string) list \<Rightarrow> bool gmap \<Rightarrow> bool gmap" where
  "mark_all es p = foldl (\<lambda>p e. gmap_put (fst e) (fst (parse_bool (snd e))) p) p es"

definition known_peers :: "(string \<times> string) list \<Rightarrow> bool gmap \<Rightarrow> bool" where
  "known_peers es p \<longleftrightarrow> list_all (\<lambda>e. gmap_get p (fst e) \<noteq> None) es"

lemma known_peers_put:
  "gmap_ok p \<Longrightarrow> gmap_get p k \<noteq> None \<Longrightarrow> known_peers es (gmap_put k v p) = known_peers es p"
  by (auto simp: known_peers_def list_all_iff gmap_get_put)

lemma set_peer_loop_eq:
  "gmap_ok p \<Longrightarrow>
   set_peer_loop es (Some p) =
     (if known_peers es p then Inr (Some (mark_all es p)) else Inl (EText ''invaild peer params''))"
proof (induction es arbitrary: p)
  case (Cons e es)
  obtain k v where e: "e = (k, v)" by (cases e)
  show ?case
    using Cons e known_peers_put [OF Cons.prems, of k es "fst (parse_bool v)"]
    by (cases "gmap_get p k") (auto simp: known_peers_def mark_all_def gmap_ok_put)
qed (simp add: known_peers_def mark_all_def)

lemma set_peer_loop_nil:
  "set_peer_loop es None = (if es = [] then Inr None else Inl (EText ''invaild peer params''))"
  by (cases es) auto

lemma mark_all_ok: "gmap_ok p \<Longrightarrow> gmap_ok (mark_all es p)"
  by (induction es arbitrary: p) (simp_all add: mark_all_def gmap_ok_put)

lemma mark_all_get:
  "gmap_ok p \<Longrightarrow> distinct (map fst es) \<Longrightarrow>
   gmap_get (mark_all es p) = gmap_get p ++ (map_option (fst \<circ> parse_bool) \<circ> map_of es)"
proof (induction es arbitrary: p)
  case (Cons e es)
  have "map_of es (fst e) = None" using Cons.prems(2) by (simp add: map_of_eq_None_iff)
  then show ?case
    using Cons by (auto simp: mark_all_def gmap_get_put gmap_ok_put fun_eq_iff map_add_def
        split: option.split)
qed (simp add: mark_all_def fun_eq_iff map_add_def)

text \<open>Reordering the entries of a map changes neither the outcome nor the resulting map.\<close>

lemma set_peer_loop_perm:
  assumes "distinct (map fst es)" "mset fs = mset es" "gmap_ok (slice_bytes peers)"
  shows "set_peer_loop fs peers = set_peer_loop es peers"
proof (cases peers)
  case None
  then show ?thesis using assms(2) by (auto simp: set_peer_loop_nil)
next
  case (Some p)
  have p: "gmap_ok p" using assms(3) Some by simp
  have fs: "distinct (map fst fs)" "set fs = set es"
    using assms(1) mset_eq_imp_distinct_iff [of "map fst fs" "map fst es"] mset_eq_setD [OF assms(2)]
    by (simp_all add: assms(2))
  have "map_of fs = map_of es" using map_of_inject_set [of fs es] fs assms(1) by simp
  then have "mark_all fs p = mark_all es p"
    using mark_all_get [OF p fs(1)] mark_all_get [OF p assms(1)]
    by (intro gmap_eqI mark_all_ok p) simp
  moreover have "known_peers fs p = known_peers es p"
    using fs(2) by (simp add: known_peers_def list_all_iff)
  ultimately show ?thesis using Some p by (simp add: set_peer_loop_eq)
qed

section \<open>The peers of an issued token\<close>

definition byzantine_count :: "bool gmap \<Rightarrow> nat" where
  "byzantine_count p = length (filter (\<lambda>e. \<not> snd e) p)"

lemma byzantine_count_sum: "int (byzantine_count p) = (\<Sum>e\<leftarrow>p. if snd e then 0 else 1)"
  by (induction p) (auto simp: byzantine_count_def)

lemma byzantine_count_put:
  "gmap_ok p \<Longrightarrow> gmap_get p k = None \<Longrightarrow>
   int (byzantine_count (gmap_put k v p)) = int (byzantine_count p) + (if v then 0 else 1)"
  using gm.total_upd [of p "\<lambda>v. if v then 0 else 1" k v] by (simp add: byzantine_count_sum)

lemma ten_thresholds:
  "(if 9 < n then 1 else 0) + (if 8 < n then 1 else 0) + (if 7 < n then 1 else 0) +
   (if 6 < n then 1 else 0) + (if 5 < n then 1 else 0) + (if 4 < n then 1 else 0) +
   (if 3 < n then 1 else 0) + (if 2 < n then 1 else 0) + (if 1 < n then 1 else 0) +
   (if 0 < n then 1 else 0) = max 0 (min 10 (n :: int))"
proof -
  consider "n \<le> 0" | "10 \<le> n" | "n \<in> {1..9}" by fastforce
  then show ?thesis by cases (auto simp: atLeastAtMost_insertL [symmetric] atLeastAtMost_iff)
qed

lemma issue_peers_get:
  "gmap_get (issue_peers n) = Map.empty
     (''peer0.org1.example.com'' \<mapsto> sint n \<le> 9, ''peer0.org2.example.com'' \<mapsto> sint n \<le> 8,
      ''peer0.org3.example.com'' \<mapsto> sint n \<le> 7, ''peer0.org4.example.com'' \<mapsto> sint n \<le> 6,
      ''peer0.org5.example.com'' \<mapsto> sint n \<le> 5, ''peer0.org6.example.com'' \<mapsto> sint n \<le> 4,
      ''peer0.org7.example.com'' \<mapsto> sint n \<le> 3, ''peer0.org8.example.com'' \<mapsto> sint n \<le> 2,
      ''peer0.org9.example.com'' \<mapsto> sint n \<le> 1, ''peer0.org10.example.com'' \<mapsto> sint n \<le> 0)"
  unfolding issue_peers_def Let_def not_less
  by (simp add: gmap_get_put gmap_ok_put gmap_get_def [of "[]", abs_def] del: gmap_put.simps)

lemma byzantine_count_issue: "int (byzantine_count (issue_peers n)) = max 0 (min 10 (sint n))"
proof -
  have "byzantine_count [] = 0" by (simp add: byzantine_count_def)
  moreover have flip: "(if \<not> b then 0 else 1) = (if b then 1 else (0 :: int))" for b by simp
  ultimately have "int (byzantine_count (issue_peers n)) =
    (if 9 < sint n then 1 else 0) + (if 8 < sint n then 1 else 0) + (if 7 < sint n then 1 else 0) +
    (if 6 < sint n then 1 else 0) + (if 5 < sint n then 1 else 0) + (if 4 < sint n then 1 else 0) +
    (if 3 < sint n then 1 else 0) + (if 2 < sint n then 1 else 0) + (if 1 < sint n then 1 else 0) +
    (if 0 < sint n then 1 else 0)"
    unfolding issue_peers_def Let_def
    by (simp add: byzantine_count_put gmap_get_put gmap_ok_put flip del: gmap_put.simps
        split del: if_split)
  then show ?thesis by (simp only: ten_thresholds)
qed

section \<open>Every handler returns\<close>

lemma Token_transfer_total: "0 < sint n \<Longrightarrow> \<exists>t'. Token_transfer t from to n = Done t'"
  by (cases "BalanceOf t") (auto simp: Token_transfer_def gmap_read_def [of _ None])

lemma transfer_total: "\<exists>r s'. TokenContract_transfer s args = Done (r, s')"
proof (cases "length args = 5 \<and> 0 < sint (fst (atoi (args ! 3)))")
  case True
  obtain g s1 where get: "GetState s (args ! 0) = (g, s1)" by fastforce
  show ?thesis
  proof (cases g)
    case (Inl e)
    then show ?thesis using True get by (simp add: transfer_branches(3))
  next
    case (Inr x)
    obtain t e where um: "token_unmarshal x blank_token = (t, e)" by fastforce
    obtain t' where "Token_transfer (t\<lparr>Flag := fst (parse_bool (args ! 4))\<rparr>) (args ! 1) (args ! 2)
        (fst (atoi (args ! 3))) = Done t'"
      using Token_transfer_total True by blast
    then show ?thesis
      using True get Inr um
      by (cases e) (auto simp: transfer_branches(4,5) split: prod.splits sum.splits)
  qed
next
  case False
  then show ?thesis using transfer_branches(1,2) [of args s] by (auto simp: not_less)
qed

lemma other_handlers_total:
  "\<exists>r s'. TokenContract_issue s args = Done (r, s')"
  "\<exists>r s'. TokenContract_balance s args = Done (r, s')"
  "\<exists>r s'. TokenContract_getPeers s args = Done (r, s')"
  "\<exists>r s'. TokenContract_setPeer iter s args = Done (r, s')"
  by (auto simp: TokenContract_issue_def TokenContract_balance_def TokenContract_getPeers_def
      TokenContract_setPeer_def Let_def split: prod.splits sum.splits option.splits)

section \<open>What a handler may write\<close>

text \<open>
  The shape of a handler's answer: an error and nothing written, or a success whose payload is
  the one value written, under the key the handler is about.
\<close>

definition writes_only :: "string \<Rightarrow> stub \<Rightarrow> (cc_response \<times> stub) outcome \<Rightarrow> bool" where
  "writes_only k s out =
     (case out of
        Panic _ \<Rightarrow> False
      | Done (r, s') \<Rightarrow>
          st_committed s' = st_committed s \<and>
          (if endorsed r then (\<exists>v. r = shim_Success (Some v) \<and> pending s' = (pending s)(k \<mapsto> v))
           else pending s' = pending s))"

definition writes_nothing :: "stub \<Rightarrow> (cc_response \<times> stub) outcome \<Rightarrow> bool" where
  "writes_nothing s out =
     (case out of
        Panic _ \<Rightarrow> False
      | Done (r, s') \<Rightarrow> st_committed s' = st_committed s \<and> pending s' = pending s)"

lemma writes_only_error: "st_committed s' = st_committed s \<Longrightarrow> pending s' = pending s \<Longrightarrow>
  writes_only k s (Done (shim_Error e, s'))"
  by (simp add: writes_only_def)

lemma writes_only_put:
  "writes_only k s (case PutState s k v of
       (Inl e, s2) \<Rightarrow> Done (shim_Error e, s2)
     | (Inr _, s2) \<Rightarrow> Done (shim_Success (Some v), s2))"
proof -
  obtain r s2 where put: "PutState s k v = (r, s2)" by fastforce
  then show ?thesis
    using kv.put_ok [of s k v _ s2] kv.put_err [of s k v _ s2]
    by (cases r) (simp_all add: writes_only_def)
qed

lemma writes_only_frame:
  "st_committed s1 = st_committed s \<Longrightarrow> pending s1 = pending s \<Longrightarrow> writes_only k s1 out \<Longrightarrow> writes_only k s out"
  by (cases out) (auto simp: writes_only_def)

lemma writes_only_get_put:
  assumes "GetState s k = (g, s1)"
  shows "writes_only k s (case PutState s1 k v of
       (Inl e, s2) \<Rightarrow> Done (shim_Error e, s2)
     | (Inr _, s2) \<Rightarrow> Done (shim_Success (Some v), s2))"
  using kv.get_frame [OF assms] by (intro writes_only_frame [OF _ _ writes_only_put]) simp_all

lemma issue_writes: "writes_only (args ! 1) s (TokenContract_issue s args)"
  by (simp only: TokenContract_issue_def Let_def split: if_split)
    (intro conjI impI writes_only_put writes_only_error refl)

lemma transfer_writes: "writes_only (args ! 0) s (TokenContract_transfer s args)"
proof (cases "length args = 5 \<and> 0 < sint (fst (atoi (args ! 3)))")
  case True
  obtain g s1 where get: "GetState s (args ! 0) = (g, s1)" by fastforce
  note fr = kv.get_frame [OF get]
  show ?thesis
  proof (cases g)
    case (Inl e)
    then show ?thesis using True get fr by (simp add: transfer_branches(3) writes_only_error)
  next
    case (Inr x)
    obtain t e where um: "token_unmarshal x blank_token = (t, e)" by fastforce
    obtain t' where "Token_transfer (t\<lparr>Flag := fst (parse_bool (args ! 4))\<rparr>) (args ! 1) (args ! 2)
        (fst (atoi (args ! 3))) = Done t'"
      using Token_transfer_total True by blast
    then show ?thesis
      using True get Inr um fr writes_only_get_put [OF get, of "token_marshal t'"]
      by (cases e) (simp_all add: transfer_branches(4,5) writes_only_error)
  qed
next
  case False
  then show ?thesis
    using transfer_branches(1,2) [of args s]
    by (cases "length args = 5") (simp_all add: not_less writes_only_error)
qed

lemma setPeer_writes: "writes_only (args ! 0) s (TokenContract_setPeer iter s args)"
proof (cases "length args = 3")
  case True
  obtain g s1 where get: "GetState s (args ! 0) = (g, s1)" by fastforce
  note fr = kv.get_frame [OF get]
  show ?thesis
    using True get fr writes_only_get_put [OF get]
    by (auto simp: TokenContract_setPeer_def Let_def writes_only_error split: sum.split prod.split option.split)
next
  case False
  then show ?thesis by (simp add: setPeer_branches(1) writes_only_error)
qed

lemma readers_write_nothing:
  "writes_nothing s (TokenContract_balance s args)"
  "writes_nothing s (TokenContract_getPeers s args)"
  using kv.get_frame [of s "args ! 0"]
  by (auto simp: TokenContract_balance_def TokenContract_getPeers_def writes_nothing_def
      split: sum.splits prod.splits option.splits)

end
