(* ===== verification/Token_Properties.thy ===== *)
theory Token_Properties
  imports Token_Handlers
begin

text \<open>
  The properties of the token chaincode: conservation of the supply over every history of the
  ledger, refinement of the abstract transfer, the behaviour of each handler on its branches,
  independence of Go's map order, and what each invocation may write.
\<close>

section \<open>Conservation\<close>

text \<open>A concrete issue from the empty ledger, used by the witnesses.\<close>

definition fab :: Token where
  "fab = \<lparr>Owner = ''alice'', TotalSupply = 1000, TokenName = ''fab'',
          BalanceOf = Some (gmap_put ''alice'' 1000 []), Peers = Some (issue_peers 0), Flag = False\<rparr>"

lemma utf8_examples:
  "valid_utf8 ''issue''" "valid_utf8 ''alice''" "valid_utf8 ''bob''" "valid_utf8 ''fab''"
  "valid_utf8 ''1000''" "valid_utf8 ''0''" "valid_utf8 ''10''" "valid_utf8 ''false''"
  by (simp_all add: ascii_def code_def)

lemma atoi_examples: "fst (atoi ''1000'') = 1000" "fst (atoi ''0'') = 0" "fst (atoi ''10'') = 10"
  by (simp_all add: atoi_def parse_int_def strip_sign_def parse_uint_nat_def is_digit_def
      less_eq_char_def digit_val_def)

lemma books_fab: "books fab"
  unfolding fab_def by (rule issued_books) (rule utf8_examples)+

lemma issue_fab:
  "TokenContract_Invoke iter (new_stub [''issue'', ''alice'', ''fab'', ''1000'', ''0''] w []) =
     Done (shim_Success (Some (token_marshal fab)),
       (new_stub [''issue'', ''alice'', ''fab'', ''1000'', ''0''] w [])
         \<lparr>st_writes := [(''fab'', Some (token_marshal fab))]\<rparr>)"
  by (simp add: TokenContract_Invoke_def GetFunctionAndParameters_def TokenContract_issue_def
      atoi_examples PutState_def peer_call_def new_stub_def fab_def Let_def del: gmap_put.simps)

lemma reach_fab: "token_reach iter (Map.empty(''fab'' \<mapsto> token_marshal fab))"
proof -
  have "token_step iter (\<lambda>_. None) (Map.empty(''fab'' \<mapsto> token_marshal fab))"
    using token_step.commit [OF issue_fab [of iter "\<lambda>_. None"]] utf8_examples
    by (simp add: pending_def apply_writes_def new_stub_def)
  then show ?thesis by (rule token_reach.step [OF token_reach.empty])
qed

text \<open>
  C1: In every ledger reached from the empty one by committed invocations with UTF-8 arguments,
  whatever the peers' failures and Go's map order, every stored document decodes to a token that
  carries the name it is stored under and whose balances sum, as unbounded integers, to exactly
  its total supply; and no balance is negative unless the token was issued with a negative supply.
\<close>

theorem ledger_conservation:
  assumes "token_reach iter w" and "w k = Some v"
  shows "\<exists>t. token_read v = Inr t \<and> TokenName t = k \<and>
    entry_total (slice_bytes (BalanceOf t)) = sint (TotalSupply t) \<and>
    (0 \<le> sint (TotalSupply t) \<longrightarrow> (\<forall>a. 0 \<le> accounts_of t a))"
proof -
  obtain t where t: "v = token_marshal t" "books t" "TokenName t = k"
    using token_reach_ok [OF assms(1)] assms(2) by (auto simp: world_ok_def)
  obtain es where es: "BalanceOf t = Some es"
    using t(2) by (auto simp: books_def token_fit_def map_fit_Some)
  have "(\<forall>e\<in>set es. 0 \<le> sint (snd e))" if "0 \<le> sint (TotalSupply t)"
    using t(2) es that by (auto simp: books_def)
  then have "0 \<le> sint (TotalSupply t) \<longrightarrow> (\<forall>a. 0 \<le> accounts_of t a)"
    using gmap_read_nonneg [of es] es by (simp add: accounts_of_def Token_balance_def)
  then show ?thesis
    using t token_codec.dec_enc [OF books_fit [OF t(2)]] by (auto simp: books_def)
qed

theorem ledger_conservation_witness:
  "\<exists>t. token_read (token_marshal fab) = Inr t \<and> TokenName t = ''fab'' \<and>
    entry_total (slice_bytes (BalanceOf t)) = sint (TotalSupply t) \<and>
    (0 \<le> sint (TotalSupply t) \<longrightarrow> (\<forall>a. 0 \<le> accounts_of t a))"
  by (rule ledger_conservation [OF reach_fab [of "\<lambda>m. m"]]) simp

text \<open>The run of a transfer on a token in order.\<close>

lemma transfer_run:
  assumes "length args = 5" "args ! 0 \<noteq> []" "0 < sint (fst (atoi (args ! 3)))"
    and "valid_utf8 (args ! 1)" "valid_utf8 (args ! 2)" "st_faults s = []"
    and "st_committed s (args ! 0) = Some (token_marshal t)" "books t"
  shows "\<exists>t' s'. TokenContract_transfer s args = Done (shim_Success (Some (token_marshal t')), s') \<and>
    pending s' = (pending s)(args ! 0 \<mapsto> token_marshal t') \<and> books t' \<and>
    accounts_of t' = move (args ! 1) (args ! 2) (sint (fst (atoi (args ! 3)))) (accounts_of t) \<and>
    Flag t' = fst (parse_bool (args ! 4))"
proof -
  let ?n = "fst (atoi (args ! 3))" and ?t = "t\<lparr>Flag := fst (parse_bool (args ! 4))\<rparr>"
  have get: "GetState s (args ! 0) = (Inr (Some (token_marshal t)), s)"
    using assms(6,7) by (simp add: no_fault_simps)
  have um: "token_unmarshal (Some (token_marshal t)) blank_token = (t, None)"
    by (rule token_unmarshal_marshal [OF books_fit [OF assms(8)]])
  obtain t' where t': "Token_transfer ?t (args ! 1) (args ! 2) ?n = Done t'" "books t'"
    "accounts_of t' = move (args ! 1) (args ! 2) (sint ?n) (accounts_of ?t)"
    "t'\<lparr>BalanceOf := BalanceOf ?t\<rparr> = ?t"
    using transfer_keeps_books [OF books_flag [OF assms(8)] assms(3-5)] by blast
  have "Flag t' = fst (parse_bool (args ! 4))" using arg_cong [OF t'(4), of Flag] by simp
  moreover have "accounts_of ?t = accounts_of t" by (simp add: accounts_of_def [abs_def] Token_balance_def)
  ultimately show ?thesis
    using transfer_branches(5) [OF assms(1,3) get um t'(1)] t'(2,3) assms(2,6)
    by (auto simp: no_fault_simps pending_def)
qed

text \<open>
  C2: On a token whose books are in order, a transfer of a positive amount on a peer that does
  not fail is answered with success, writes the new document under the token's name and nothing
  else, and changes the accounts exactly as the abstract transfer on unbounded integers does:
  no 64-bit addition or subtraction wraps, and a short balance changes nothing.
\<close>

theorem transfer_refines:
  assumes "length args = 5" "args ! 0 \<noteq> []" "0 < sint (fst (atoi (args ! 3)))"
    and "valid_utf8 (args ! 1)" "valid_utf8 (args ! 2)" "st_faults s = []"
    and "st_committed s (args ! 0) = Some (token_marshal t)" "books t"
  shows "\<exists>t' s'. TokenContract_transfer s args = Done (shim_Success (Some (token_marshal t')), s') \<and>
    pending s' = (pending s)(args ! 0 \<mapsto> token_marshal t') \<and> books t' \<and>
    accounts_of t' = move (args ! 1) (args ! 2) (sint (fst (atoi (args ! 3)))) (accounts_of t) \<and>
    Flag t' = fst (parse_bool (args ! 4))"
  by (rule transfer_run [OF assms])

theorem transfer_refines_witness:
  "\<exists>t' s'. TokenContract_transfer (new_stub [] (Map.empty(''fab'' \<mapsto> token_marshal fab)) [])
      [''fab'', ''alice'', ''bob'', ''10'', ''false''] = Done (shim_Success (Some (token_marshal t')), s') \<and>
    pending s' = (Map.empty(''fab'' \<mapsto> token_marshal fab))(''fab'' \<mapsto> token_marshal t') \<and> books t' \<and>
    accounts_of t' = move ''alice'' ''bob'' 10 (accounts_of fab) \<and> Flag t' = False"
  using transfer_refines [of "[''fab'', ''alice'', ''bob'', ''10'', ''false'']"
      "new_stub [] (Map.empty(''fab'' \<mapsto> token_marshal fab)) []" fab]
  by (simp add: atoi_examples utf8_examples books_fab new_stub_def pending_def parse_bool_def
      del: valid_utf8.simps)

text \<open>
  C12: \<open>Unmarshal\<close> of what \<open>Marshal\<close> printed gives back every token whose strings are UTF-8 and
  whose maps are not nil, both into the struct with fresh maps of the writing handlers and into
  the struct with nil maps of \<open>balance\<close>.
\<close>

theorem token_document_roundtrip:
  assumes "token_fit t"
  shows "token_unmarshal (Some (token_marshal t)) blank_token = (t, None) \<and>
    token_unmarshal (Some (token_marshal t)) zero_token = (t, None)"
  using token_unmarshal_marshal [OF assms] by blast

theorem token_document_roundtrip_witness:
  "token_unmarshal (Some (token_marshal fab)) blank_token = (fab, None) \<and>
   token_unmarshal (Some (token_marshal fab)) zero_token = (fab, None)"
  by (rule token_document_roundtrip [OF books_fit [OF books_fab]])

section \<open>The handlers\<close>

text \<open>
  C17: \<open>issue\<close> on a peer that does not fail, for UTF-8 names, is answered with success and
  replaces whatever is stored under the token's name by a token that can be read back, whose
  owner holds the whole supply and everybody else nothing, and in which the number of byzantine
  peers is the requested one clamped to the ten peers of the network.
\<close>

theorem issue_establishes:
  assumes "length args = 4" "args ! 1 \<noteq> []" "valid_utf8 (args ! 0)" "valid_utf8 (args ! 1)"
    and "st_faults s = []"
  shows "\<exists>t s'. TokenContract_issue s args = Done (shim_Success (Some (token_marshal t)), s') \<and>
    pending s' = (pending s)(args ! 1 \<mapsto> token_marshal t) \<and>
    token_read (token_marshal t) = Inr t \<and> books t \<and>
    accounts_of t = (\<lambda>_. 0)(args ! 0 := sint (fst (atoi (args ! 2)))) \<and>
    int (byzantine_count (slice_bytes (Peers t))) = max 0 (min 10 (sint (fst (atoi (args ! 3)))))"
proof -
  let ?n = "fst (atoi (args ! 2))" and ?b = "fst (atoi (args ! 3))"
  define t where "t = \<lparr>Owner = args ! 0, TotalSupply = ?n, TokenName = args ! 1,
     BalanceOf = Some (gmap_put (args ! 0) ?n []), Peers = Some (issue_peers ?b), Flag = False\<rparr>"
  have "books t" unfolding t_def by (rule issued_books) (use assms in simp_all)
  moreover have "token_read (token_marshal t) = Inr t"
    by (rule token_codec.dec_enc [OF books_fit [OF \<open>books t\<close>]])
  moreover have "accounts_of t = (\<lambda>_. 0)(args ! 0 := sint ?n)"
    by (auto simp: t_def accounts_of_def Token_balance_def gmap_read_def gmap_get_def fun_eq_iff)
  moreover have "int (byzantine_count (slice_bytes (Peers t))) = max 0 (min 10 (sint ?b))"
    by (simp add: t_def byzantine_count_issue)
  moreover have "TokenContract_issue s args =
      Done (shim_Success (Some (token_marshal t)),
        s\<lparr>st_writes := st_writes s @ [(args ! 1, Some (token_marshal t))]\<rparr>)"
    using assms unfolding TokenContract_issue_def Let_def t_def [symmetric]
    by (simp add: no_fault_simps)
  ultimately show ?thesis by (auto simp: pending_def)
qed

theorem issue_establishes_witness:
  "\<exists>t s'. TokenContract_issue (new_stub [] (\<lambda>_. None) []) [''alice'', ''fab'', ''1000'', ''10''] =
      Done (shim_Success (Some (token_marshal t)), s') \<and>
    pending s' = [''fab'' \<mapsto> token_marshal t] \<and> token_read (token_marshal t) = Inr t \<and> books t \<and>
    accounts_of t = (\<lambda>_. 0)(''alice'' := 1000) \<and>
    int (byzantine_count (slice_bytes (Peers t))) = 10"
  using issue_establishes [of "[''alice'', ''fab'', ''1000'', ''10'']" "new_stub [] (\<lambda>_. None) []"]
  by (simp add: atoi_examples utf8_examples new_stub_def pending_def del: valid_utf8.simps)

text \<open>
  C11: Every invocation of the token chaincode returns, whatever the arguments, the stored bytes,
  the peer's failures and the map order: it never panics, although a stored document may set a
  map to null. It never touches the committed state; an endorsed \<open>issue\<close>, \<open>transfer\<close> or
  \<open>setPeer\<close> proposes to write exactly its response's payload under the token it names, and every
  other invocation, refused ones included, proposes nothing.
\<close>

theorem invoke_frame:
  "\<exists>r s'. TokenContract_Invoke iter s = Done (r, s') \<and> st_committed s' = st_committed s \<and>
    pending s' =
      (if endorsed r \<and> fst (GetFunctionAndParameters s) \<in> {''issue'', ''transfer'', ''setPeer''}
       then (pending s)
         (snd (GetFunctionAndParameters s) !
            (if fst (GetFunctionAndParameters s) = ''issue'' then 1 else 0) := resp_payload r)
       else pending s)"
proof -
  obtain f args where fa: "GetFunctionAndParameters s = (f, args)" by fastforce
  have w: "\<exists>r s'. out = Done (r, s') \<and> st_committed s' = st_committed s \<and>
      pending s' = (if endorsed r then (pending s)(k := resp_payload r) else pending s)"
    if wo: "writes_only k s out" for k out
  proof -
    obtain r s' where o: "out = Done (r, s')" using wo by (cases out) (auto simp: writes_only_def)
    then show ?thesis
      using wo by (intro exI [of _ r] exI [of _ s']) (auto simp: writes_only_def split: if_splits)
  qed
  have n: "\<exists>r s'. out = Done (r, s') \<and> st_committed s' = st_committed s \<and> pending s' = pending s"
    if "writes_nothing s out" for out
    using that by (auto simp: writes_nothing_def split: outcome.splits)
  show ?thesis
    using w [OF issue_writes [of args s]] w [OF transfer_writes [of args s]] w [OF setPeer_writes [of args s iter]]
      n [OF readers_write_nothing(1) [of s args]] n [OF readers_write_nothing(2) [of s args]]
    by (elim exE conjE) (simp add: TokenContract_Invoke_def fa)
qed

text \<open>
  C19: The answer of the chaincode, its writes included, does not depend on the order in which Go
  iterates over the entries of the \<open>setPeer\<close> parameter, although the loop stops at the first
  unknown peer: endorsing peers that iterate differently agree.
\<close>

theorem invoke_order_independent:
  assumes "\<And>m. mset (iter1 m) = mset m" and "\<And>m. mset (iter2 m) = mset m"
  shows "TokenContract_Invoke iter1 s = TokenContract_Invoke iter2 s"
proof -
  have "set_peer_loop (iter1 (slice_bytes ps)) (Peers t) = set_peer_loop (iter2 (slice_bytes ps)) (Peers t)"
    if "token_unmarshal x blank_token = (t, e)" "peer_params a = (ps, e')" for x t e a ps e'
    using set_peer_loop_perm [OF gmap_ok_distinct [OF peer_params_ok [OF that(2)]] _ token_unmarshal_peers [OF that(1)]]
      assms by metis
  then have "TokenContract_setPeer iter1 s args = TokenContract_setPeer iter2 s args" for args
    by (auto simp: TokenContract_setPeer_def split: prod.split sum.split option.split)
  then show ?thesis by (simp add: TokenContract_Invoke_def split: prod.split)
qed

theorem invoke_order_independent_witness:
  "TokenContract_Invoke (\<lambda>m. m) (new_stub [''setPeer'', ''fab'', ''{}'', ''false''] (\<lambda>_. None) []) =
   TokenContract_Invoke rev (new_stub [''setPeer'', ''fab'', ''{}'', ''false''] (\<lambda>_. None) [])"
  by (rule invoke_order_independent) simp_all

text \<open>
  C18: \<open>setPeer\<close> is all or nothing. If its parameter decodes and names only peers of the token,
  the token is stored with exactly those peers set to the parsed values; if it names an unknown
  peer, nothing at all is written and the error is returned.
\<close>

theorem setPeer_all_or_nothing:
  assumes "length args = 3" "args ! 0 \<noteq> []" "st_faults s = []" "token_fit t" "Peers t = Some p"
    and "st_committed s (args ! 0) = Some (token_marshal t)"
    and "peer_params (args ! 1) = (ps, None)" and "\<And>m. mset (iter m) = mset m"
  shows "if fst ` set (slice_bytes ps) \<subseteq> dom (gmap_get p)
    then \<exists>p' s'. TokenContract_setPeer iter s args =
        Done (shim_Success (Some (token_marshal (t\<lparr>Peers := Some p', Flag := fst (parse_bool (args ! 2))\<rparr>))), s') \<and>
      pending s' = (pending s)(args ! 0 \<mapsto> token_marshal (t\<lparr>Peers := Some p', Flag := fst (parse_bool (args ! 2))\<rparr>)) \<and>
      gmap_get p' = gmap_get p ++ (map_option (fst \<circ> parse_bool) \<circ> gmap_get (slice_bytes ps))
    else TokenContract_setPeer iter s args = Done (shim_Error (EText ''invaild peer params''), s)"
proof -
  have get: "GetState s (args ! 0) = (Inr (Some (token_marshal t)), s)"
    using assms(3,6) by (simp add: no_fault_simps)
  have um: "token_unmarshal (Some (token_marshal t)) blank_token = (t, None)"
    by (rule token_unmarshal_marshal [OF assms(4)])
  have p: "gmap_ok p" using assms(4,5) by (auto simp: token_fit_def map_fit_Some)
  note d = gmap_ok_distinct [OF peer_params_ok [OF assms(7)]]
  have loop: "set_peer_loop (iter (slice_bytes ps)) (Peers t) = set_peer_loop (slice_bytes ps) (Some p)"
    using set_peer_loop_perm [OF d, of "iter (slice_bytes ps)" "Some p"] p assms(5,8) by simp
  have known: "known_peers (slice_bytes ps) p \<longleftrightarrow> fst ` set (slice_bytes ps) \<subseteq> dom (gmap_get p)"
    by (auto simp: known_peers_def list_all_iff)
  have got: "gmap_get (mark_all (slice_bytes ps) p) =
      gmap_get p ++ (map_option (fst \<circ> parse_bool) \<circ> gmap_get (slice_bytes ps))"
    using mark_all_get [OF p d] by (simp add: gmap_get_map_of)
  note loop' = loop [unfolded set_peer_loop_eq [OF p]]
  show ?thesis
  proof (cases "known_peers (slice_bytes ps) p")
    case True
    note run = setPeer_branches(6) [where iter = iter, OF assms(1) get um assms(7) trans [OF loop' if_P [OF True]] refl]
    show ?thesis
      using True known run got assms(2,3)
      by (auto simp: no_fault_simps pending_def intro!: exI [of _ "mark_all (slice_bytes ps) p"])
  next
    case False
    then show ?thesis
      using known setPeer_branches(5) [where iter = iter, OF assms(1) get um assms(7) trans [OF loop' if_not_P [OF False]]]
      by simp
  qed
qed

definition duo :: Token where
  "duo = \<lparr>Owner = ''alice'', TotalSupply = 5, TokenName = ''fab'', BalanceOf = Some [(''alice'', 5)],
          Peers = Some [(''p1'', True), (''p2'', False)], Flag = False\<rparr>"

lemma duo_fit: "token_fit duo"
  by (simp add: duo_def token_fit_def map_fit_def ascii_def code_def gmap_ok_def less_char_def)

lemma peer_params_example: "peer_params ''{\"p1\":\"false\"}'' = (Some [(''p1'', ''false'')], None)"
  by code_simp

theorem setPeer_all_or_nothing_witness:
  "\<exists>p' s'. TokenContract_setPeer rev (new_stub [] [''fab'' \<mapsto> token_marshal duo] [])
       [''fab'', ''{\"p1\":\"false\"}'', ''1''] =
      Done (shim_Success (Some (token_marshal (duo\<lparr>Peers := Some p', Flag := True\<rparr>))), s') \<and>
    pending s' = [''fab'' \<mapsto> token_marshal (duo\<lparr>Peers := Some p', Flag := True\<rparr>)] \<and>
    gmap_get p' = [''p1'' \<mapsto> False, ''p2'' \<mapsto> False]"
proof -
  have eq: "gmap_get [(''p1'', True), (''p2'', False)] ++ (map_option (fst \<circ> parse_bool) \<circ> gmap_get [(''p1'', ''false'')])
      = [''p1'' \<mapsto> False, ''p2'' \<mapsto> False]"
    by (auto simp: gmap_get_def fun_eq_iff map_add_def parse_bool_def)
  show ?thesis
    using setPeer_all_or_nothing [of "[''fab'', ''{\"p1\":\"false\"}'', ''1'']"
        "new_stub [] [''fab'' \<mapsto> token_marshal duo] []" duo "[(''p1'', True), (''p2'', False)]"
        "Some [(''p1'', ''false'')]" rev, unfolded slice_bytes_simps eq]
    by (simp add: duo_fit peer_params_example new_stub_def pending_def parse_bool_def gmap_get_map_of
        duo_def [THEN arg_cong, of Peers])
qed



text \<open>
  The payload of \<open>getPeers\<close> decodes, with the decoder the server applies to it, to exactly
  the peer map of the stored token: the server counts the byzantine peers the ledger has.
\<close>

lemma getPeers_answers:
  assumes "length args = 1" "st_faults s = []" "token_fit t"
    and "st_committed s (args ! 0) = Some (token_marshal t)"
  shows "\<exists>v. TokenContract_getPeers s args = Done (shim_Success (Some v), s) \<and>
    json_unmarshal (dec_map dec_bool False) v (Some []) = (Peers t, None)"
proof -
  obtain p where p: "Peers t = Some p" "gmap_ok p" "\<forall>e\<in>set p. valid_utf8 (fst e)"
    using assms(3) by (auto simp: token_fit_def map_fit_Some)
  have "json_unmarshal (dec_map dec_bool False) (json_print (enc_map JBool (Peers t))) (Some []) = (Peers t, None)"
    using peer_map_roundtrip [OF p(2,3)] by (simp add: p(1))
  then show ?thesis
    using assms by (simp add: TokenContract_getPeers_def no_fault_simps token_unmarshal_marshal(1))
qed

lemma getPeers_answers_witness:
  "\<exists>v. TokenContract_getPeers (new_stub [] [''fab'' \<mapsto> token_marshal duo] []) [''fab''] =
      Done (shim_Success (Some v), new_stub [] [''fab'' \<mapsto> token_marshal duo] []) \<and>
    json_unmarshal (dec_map dec_bool False) v (Some []) = (Some [(''p1'', True), (''p2'', False)], None)"
  using getPeers_answers [of "[''fab'']" "new_stub [] [''fab'' \<mapsto> token_marshal duo] []" duo]
  by (simp add: duo_fit new_stub_def duo_def [THEN arg_cong, of Peers])




end
