(* ===== verification/Example_CC.thy ===== *)
theory Example_CC
  imports Shim
begin

text \<open>
  The example chaincode, \<open>chaincode/src/example_cc/go/example_cc.go\<close>: integer holdings stored in
  decimal under their entity's name, with \<open>Init\<close>, \<open>move\<close>, \<open>delete\<close> and \<open>query\<close>. A read inside an
  invocation never sees the invocation's own writes, which decides what a move from an entity
  to itself does.
\<close>

section \<open>The handlers\<close>

definition holding_error :: go_error where
  "holding_error = EText ''Expecting integer value for asset holding''"

definition SimpleChaincode_Init :: "stub \<Rightarrow> (cc_response \<times> stub) outcome" where
  "SimpleChaincode_Init stub =
     (case GetFunctionAndParameters stub of (_, args) \<Rightarrow>
      out_bind (go_index args 0) (\<lambda>A.
      out_bind (go_index args 1) (\<lambda>a.
      case atoi a of
        (_, Some _) \<Rightarrow> Done (shim_Error holding_error, stub)
      | (Aval, None) \<Rightarrow>
          out_bind (go_index args 2) (\<lambda>B.
          out_bind (go_index args 3) (\<lambda>b.
          case atoi b of
            (_, Some _) \<Rightarrow> Done (shim_Error holding_error, stub)
          | (Bval, None) \<Rightarrow>
              (case PutState stub A (itoa Aval) of
                 (Inl e, stub1) \<Rightarrow> Done (shim_Error e, stub1)
               | (Inr _, stub1) \<Rightarrow>
                   (case PutState stub1 B (itoa Bval) of
                      (Inl e, stub2) \<Rightarrow> Done (shim_Error e, stub2)
                    | (Inr _, stub2) \<Rightarrow> Done (shim_Success None, stub2))))))))"

definition SimpleChaincode_move :: "stub \<Rightarrow> string list \<Rightarrow> cc_response \<times> stub" where
  "SimpleChaincode_move stub args =
     (if length args \<noteq> 3
      then (shim_Error (EText ''Incorrect number of arguments. Expecting 4, function followed by 2 names and 1 value''), stub)
      else case GetState stub (args ! 0) of
        (Inl _, stub1) \<Rightarrow> (shim_Error (EText ''Failed to get state''), stub1)
      | (Inr None, stub1) \<Rightarrow> (shim_Error (EText ''Entity not found''), stub1)
      | (Inr (Some Avalbytes), stub1) \<Rightarrow>
          (case GetState stub1 (args ! 1) of
             (Inl _, stub2) \<Rightarrow> (shim_Error (EText ''Failed to get state''), stub2)
           | (Inr None, stub2) \<Rightarrow> (shim_Error (EText ''Entity not found''), stub2)
           | (Inr (Some Bvalbytes), stub2) \<Rightarrow>
               (case atoi (args ! 2) of
                  (_, Some _) \<Rightarrow>
                    (shim_Error (EText ''Invalid transaction amount, expecting a integer value''), stub2)
                | (X, None) \<Rightarrow>
                    (case PutState stub2 (args ! 0) (itoa (fst (atoi Avalbytes) - X)) of
                       (Inl e, stub3) \<Rightarrow> (shim_Error e, stub3)
                     | (Inr _, stub3) \<Rightarrow>
                         (case PutState stub3 (args ! 1) (itoa (fst (atoi Bvalbytes) + X)) of
                            (Inl e, stub4) \<Rightarrow> (shim_Error e, stub4)
                          | (Inr _, stub4) \<Rightarrow> (shim_Success None, stub4))))))"

definition SimpleChaincode_delete :: "stub \<Rightarrow> string list \<Rightarrow> cc_response \<times> stub" where
  "SimpleChaincode_delete stub args =
     (if length args \<noteq> 1
      then (shim_Error (EText ''Incorrect number of arguments. Expecting 1''), stub)
      else case DelState stub (args ! 0) of
        (Inl _, stub1) \<Rightarrow> (shim_Error (EText ''Failed to delete state''), stub1)
      | (Inr _, stub1) \<Rightarrow> (shim_Success None, stub1))"

definition query_failure :: "string \<Rightarrow> string \<Rightarrow> string" where
  "query_failure what A =
     CHR ''{'' # CHR 0x22 # ''Error'' @ CHR 0x22 # CHR '':'' # CHR 0x22 # what @ A @ [CHR 0x22, CHR ''}'']"

definition SimpleChaincode_query :: "stub \<Rightarrow> string list \<Rightarrow> cc_response \<times> stub" where
  "SimpleChaincode_query stub args =
     (if length args \<noteq> 1
      then (shim_Error (EText ''Incorrect number of arguments. Expecting name of the person to query''), stub)
      else case GetState stub (args ! 0) of
        (Inl _, stub1) \<Rightarrow> (shim_Error (EText (query_failure ''Failed to get state for '' (args ! 0))), stub1)
      | (Inr None, stub1) \<Rightarrow> (shim_Error (EText (query_failure ''Nil amount for '' (args ! 0))), stub1)
      | (Inr (Some Avalbytes), stub1) \<Rightarrow> (shim_Success (Some Avalbytes), stub1))"

text \<open>An unknown function is reported with its first argument, which may not be there.\<close>

definition unknown_action :: string where
  "unknown_action =
     ''Unknown action, check the first argument, must be one of '' @
     CHR 0x27 # ''delete'' @ CHR 0x27 # '', '' @ CHR 0x27 # ''query'' @ CHR 0x27 # '', or '' @
     CHR 0x27 # ''move'' @ CHR 0x27 # ''. But got: ''"

definition SimpleChaincode_Invoke :: "stub \<Rightarrow> (cc_response \<times> stub) outcome" where
  "SimpleChaincode_Invoke stub =
     (case GetFunctionAndParameters stub of (function, args) \<Rightarrow>
        if function = ''delete'' then Done (SimpleChaincode_delete stub args)
        else if function = ''query'' then Done (SimpleChaincode_query stub args)
        else if function = ''move'' then Done (SimpleChaincode_move stub args)
        else out_bind (go_index args 0) (\<lambda>a. Done (shim_Error (EText (unknown_action @ a)), stub)))"

section \<open>The ledger of holdings\<close>

text \<open>A holding as the handlers read it: the decimal prefix rules of \<open>Atoi\<close>, with errors dropped.\<close>

definition holding :: "world \<Rightarrow> string \<Rightarrow> gint option" where
  "holding w k = map_option (\<lambda>b. fst (atoi b)) (w k)"

lemma holding_put: "holding (w(k \<mapsto> itoa v)) = (holding w)(k \<mapsto> v)"
  by (auto simp: holding_def fun_eq_iff atoi_itoa)

lemma itoa_nonnil [simp]: "fst (atoi (itoa v)) = v"
  by (simp add: atoi_itoa)

text \<open>What a successful move makes of the ledger, the read values taken before any write.\<close>

lemma move_success:
  assumes "SimpleChaincode_move s args = (r, s')" "endorsed r"
  obtains a b X where "length args = 3" "st_committed s (args ! 0) = Some a"
    "st_committed s (args ! 1) = Some b" "atoi (args ! 2) = (X, None)"
    "st_committed s' = st_committed s"
    "pending s' = (pending s)(args ! 0 \<mapsto> itoa (fst (atoi a) - X), args ! 1 \<mapsto> itoa (fst (atoi b) + X))"
proof -
  have len: "length args = 3" using assms by (auto simp: SimpleChaincode_move_def split: if_splits)
  obtain g1 s1 where g1: "GetState s (args ! 0) = (g1, s1)" by fastforce
  then obtain a where a: "g1 = Inr (Some a)"
    using assms len by (auto simp: SimpleChaincode_move_def split: sum.splits option.splits)
  obtain g2 s2 where g2: "GetState s1 (args ! 1) = (g2, s2)" by fastforce
  then obtain b where b: "g2 = Inr (Some b)"
    using assms len g1 a by (auto simp: SimpleChaincode_move_def split: sum.splits option.splits)
  obtain X where X: "atoi (args ! 2) = (X, None)"
    using assms len g1 a g2 b
    by (cases "atoi (args ! 2)") (auto simp: SimpleChaincode_move_def split: option.splits)
  obtain u s3 where p1: "PutState s2 (args ! 0) (itoa (fst (atoi a) - X)) = (Inr u, s3)"
    using assms len g1 a g2 b X
    by (cases "PutState s2 (args ! 0) (itoa (fst (atoi a) - X))")
      (auto simp: SimpleChaincode_move_def split: sum.splits)
  obtain v s4 where p2: "PutState s3 (args ! 1) (itoa (fst (atoi b) + X)) = (Inr v, s4)" "s' = s4"
    using assms len g1 a g2 b X p1
    by (cases "PutState s3 (args ! 1) (itoa (fst (atoi b) + X))")
      (auto simp: SimpleChaincode_move_def split: sum.splits)
  note fr = kv.get_frame [OF g1] kv.get_frame [OF g2]
  show ?thesis
    using fr p2(2) kv.get_value [OF g1 [unfolded a]] kv.get_value [OF g2 [unfolded b]]
      kv.two_writes [OF p1 p2(1)]
    by (intro that [OF len _ _ X, of a b]) simp_all
qed

text \<open>A run of invocations, each on the ledger the endorsed ones before it left.\<close>

definition committed_by :: "world \<Rightarrow> cc_response \<times> stub \<Rightarrow> world" where
  "committed_by w out = (case out of (r, s) \<Rightarrow> if endorsed r then pending s else w)"

fun run_moves :: "(string list \<times> go_error option list) list \<Rightarrow> world \<Rightarrow> world" where
  "run_moves [] w = w"
| "run_moves ((args, faults) # ms) w =
     run_moves ms (committed_by w (SimpleChaincode_move (new_stub [] w faults) args))"

definition holding_total :: "string set \<Rightarrow> world \<Rightarrow> gint" where
  "holding_total S w = (\<Sum>k\<in>S. case holding w k of None \<Rightarrow> 0 | Some v \<Rightarrow> v)"

lemma holding_total_put:
  assumes "finite S" "k \<in> S"
  shows "holding_total S (w(k \<mapsto> itoa v)) =
    holding_total S w + v - (case holding w k of None \<Rightarrow> 0 | Some u \<Rightarrow> u)"
proof -
  have "(\<Sum>j\<in>S - {k}. case holding (w(k \<mapsto> itoa v)) j of None \<Rightarrow> 0 | Some v \<Rightarrow> v) =
      (\<Sum>j\<in>S - {k}. case holding w j of None \<Rightarrow> 0 | Some v \<Rightarrow> v)"
    by (intro sum.cong) (auto simp: holding_put)
  then show ?thesis
    using assms by (simp add: holding_total_def sum.remove [of S k] holding_put)
qed

lemma move_total:
  assumes "finite S" "args ! 0 \<in> S" "args ! 1 \<in> S" "args ! 0 \<noteq> args ! 1"
  shows "holding_total S (committed_by w (SimpleChaincode_move (new_stub [] w faults) args)) =
    holding_total S w"
proof -
  obtain r s' where out: "SimpleChaincode_move (new_stub [] w faults) args = (r, s')" by fastforce
  show ?thesis
  proof (cases "endorsed r")
    case True
    then obtain a b X where "w (args ! 0) = Some a" "w (args ! 1) = Some b"
      "pending s' = w(args ! 0 \<mapsto> itoa (fst (atoi a) - X), args ! 1 \<mapsto> itoa (fst (atoi b) + X))"
      by (rule move_success [OF out]) simp
    then show ?thesis
      using assms out True
      by (simp add: committed_by_def holding_total_put holding_put) (simp add: holding_def)
  qed (simp add: committed_by_def out)
qed

end
