(* ===== verification/Example_Properties.thy ===== *)
theory Example_Properties
  imports Example_CC
begin

text \<open>
  The properties of the example chaincode: conservation over runs of moves between different
  entities, the units a move to oneself makes up, and the life of an entity from \<open>Init\<close> to
  \<open>delete\<close>.
\<close>

lemma cc_atoi_examples: "atoi ''100'' = (100, None)" "atoi ''200'' = (200, None)" "atoi ''10'' = (10, None)"
  by code_simp+

text \<open>
  C30: Over every run of moves, each on the ledger that the endorsed ones before it left and with
  whatever faults of the peer, the sum of all holdings is unchanged modulo two to the 64, as long
  as no move has the same entity on both sides.
\<close>

theorem moves_conserve:
  assumes "finite S" and "\<forall>(args, faults)\<in>set ms. args ! 0 \<in> S \<and> args ! 1 \<in> S \<and> args ! 0 \<noteq> args ! 1"
  shows "holding_total S (run_moves ms w) = holding_total S w"
  using assms(2) by (induction ms w rule: run_moves.induct) (auto simp: move_total [OF assms(1)])

theorem moves_conserve_witness:
  "holding_total {''a'', ''b''} (run_moves [([''a'', ''b'', ''10''], []), ([''b'', ''a'', ''x''], [])]
      [''a'' \<mapsto> ''100'', ''b'' \<mapsto> ''200'']) =
   holding_total {''a'', ''b''} [''a'' \<mapsto> ''100'', ''b'' \<mapsto> ''200'']"
  by (rule moves_conserve) simp_all



text \<open>
  On a peer that does not fail, a move between two existing entities with a decimal amount
  succeeds and changes exactly their two holdings, by 64-bit subtraction and addition; a missing
  entity, an amount that is no number and a wrong argument count are errors that write nothing.
\<close>

lemma move_functional:
  assumes "st_faults s = []" "A \<noteq> []" "B \<noteq> []"
  shows "SimpleChaincode_move s [A, B, x] =
    (case (st_committed s A, st_committed s B, atoi x) of
       (Some a, Some b, (X, None)) \<Rightarrow>
         (shim_Success None,
          s\<lparr>st_writes := st_writes s @ [(A, Some (itoa (fst (atoi a) - X))), (B, Some (itoa (fst (atoi b) + X)))]\<rparr>)
     | (Some a, Some b, (X, Some _)) \<Rightarrow>
         (shim_Error (EText ''Invalid transaction amount, expecting a integer value''), s)
     | _ \<Rightarrow> (shim_Error (EText ''Entity not found''), s))"
  using assms by (simp add: SimpleChaincode_move_def no_fault_simps split: option.split prod.split)

lemma move_functional_witness:
  "SimpleChaincode_move (new_stub [] [''a'' \<mapsto> ''100'', ''b'' \<mapsto> ''200''] []) [''a'', ''b'', ''10''] =
    (shim_Success None, (new_stub [] [''a'' \<mapsto> ''100'', ''b'' \<mapsto> ''200''] [])
       \<lparr>st_writes := [(''a'', Some (itoa 90)), (''b'', Some (itoa 210))]\<rparr>)"
  using move_functional [of "new_stub [] [''a'' \<mapsto> ''100'', ''b'' \<mapsto> ''200''] []" "''a''" "''b''" "''10''"]
  by (simp add: new_stub_def cc_atoi_examples)

text \<open>
  After \<open>Init\<close> with two decimal holdings commits, \<open>query\<close> answers each entity's holding in
  canonical decimal (the second one's, when both have the same name), and after a \<open>delete\<close> of an
  entity commits, \<open>query\<close> reports it as gone and the other entity is as before.
\<close>

lemma init_query_delete:
  assumes "atoi a = (x, None)" "atoi b = (y, None)" "A \<noteq> []" "B \<noteq> []"
  shows "\<exists>s. SimpleChaincode_Init (new_stub [f, A, a, B, b] w []) = Done (shim_Success None, s) \<and>
    fst (SimpleChaincode_query (new_stub [] (pending s) []) [A]) =
      shim_Success (Some (itoa (if A = B then y else x))) \<and>
    fst (SimpleChaincode_query (new_stub [] (pending s) []) [B]) = shim_Success (Some (itoa y)) \<and>
    (\<exists>d. SimpleChaincode_delete (new_stub [] (pending s) []) [A] = (shim_Success None, d) \<and>
      fst (SimpleChaincode_query (new_stub [] (pending d) []) [A]) =
        shim_Error (EText (query_failure ''Nil amount for '' A)) \<and>
      (A = B \<or> fst (SimpleChaincode_query (new_stub [] (pending d) []) [B]) = shim_Success (Some (itoa y))))"
  using assms
  by (simp add: SimpleChaincode_Init_def GetFunctionAndParameters_def go_index_def new_stub_def
      no_fault_simps SimpleChaincode_query_def SimpleChaincode_delete_def pending_def apply_writes_def)

lemma init_query_delete_witness:
  "\<exists>s. SimpleChaincode_Init (new_stub [''init'', ''a'', ''100'', ''b'', ''200''] (\<lambda>_. None) []) =
      Done (shim_Success None, s) \<and>
    fst (SimpleChaincode_query (new_stub [] (pending s) []) [''a'']) = shim_Success (Some (itoa 100)) \<and>
    fst (SimpleChaincode_query (new_stub [] (pending s) []) [''b'']) = shim_Success (Some (itoa 200)) \<and>
    (\<exists>d. SimpleChaincode_delete (new_stub [] (pending s) []) [''a''] = (shim_Success None, d) \<and>
      fst (SimpleChaincode_query (new_stub [] (pending d) []) [''a'']) =
        shim_Error (EText (query_failure ''Nil amount for '' ''a'')) \<and>
      fst (SimpleChaincode_query (new_stub [] (pending d) []) [''b'']) = shim_Success (Some (itoa 200)))"
  using init_query_delete [OF cc_atoi_examples(1,2), of "''a''" "''b''" "''init''" "\<lambda>_. None"] by simp

text \<open>
  The chaincode panics, and takes its process down, exactly when it reads an argument that is
  not there: \<open>Init\<close> with fewer than two arguments, or with fewer than four when the first holding
  is a number, and an unknown function without arguments.
\<close>

lemma example_panics:
  "((\<exists>e. SimpleChaincode_Init s = Panic e) \<longleftrightarrow>
     length (snd (GetFunctionAndParameters s)) < 2 \<or>
     length (snd (GetFunctionAndParameters s)) < 4 \<and>
       snd (atoi (snd (GetFunctionAndParameters s) ! 1)) = None) \<and>
   ((\<exists>e. SimpleChaincode_Invoke s = Panic e) \<longleftrightarrow>
     fst (GetFunctionAndParameters s) \<notin> {''delete'', ''query'', ''move''} \<and>
     snd (GetFunctionAndParameters s) = [])"
proof -
  obtain f args where fa: "GetFunctionAndParameters s = (f, args)" by fastforce
  have "(\<exists>e. SimpleChaincode_Invoke s = Panic e) \<longleftrightarrow> f \<notin> {''delete'', ''query'', ''move''} \<and> args = []"
    by (auto simp: SimpleChaincode_Invoke_def fa go_index_def)
  moreover have "(\<exists>e. SimpleChaincode_Init s = Panic e) \<longleftrightarrow>
     length args < 2 \<or> length args < 4 \<and> snd (atoi (args ! 1)) = None"
    by (auto simp: SimpleChaincode_Init_def fa go_index_def split: prod.split option.split sum.split)
  ultimately show ?thesis by (simp add: fa)
qed

end
