(* ===== verification/Proto_Wire.thy ===== *)
theory Proto_Wire
  imports Go_Map Go_Json
begin

text \<open>
  The protobuf wire format as the vendored \<open>github.com/golang/protobuf\<close> 1.3.2 reads and writes
  it (\<open>proto/table_marshal.go\<close>, \<open>proto/table_unmarshal.go\<close>) for the field kinds the Fabric
  messages use. A message is the list of its fields by number, and the bytes of the fields it
  does not know, which the library keeps and writes back (\<open>XXX_unrecognized\<close>).

  \<open>Unmarshal\<close> fills the message as far as it gets and returns the error beside it. \<open>Marshal\<close>
  returns an error or the bytes; the incomplete bytes the library hands out beside an error are
  not modelled, as no caller looks at them.
\<close>

section \<open>Messages\<close>

datatype pb_val =
    VInt uint64
  | VStr string
  | VBytes "bytes option"
  | VBlobs "bytes option list"
  | VMsg "pb_msg option"
  | VMsgs "pb_msg option list"
  | VMap "bytes option gmap option"
and pb_msg = PMsg "(nat \<times> pb_val) list" bytes

datatype pb_type =
    TInt
  | TText
  | TBytes
  | TBlobs
  | TMap
  | TMsg "(nat \<times> pb_type) list"
  | TMsgs "(nat \<times> pb_type) list"

type_synonym schema = "(nat \<times> pb_type) list"

fun zero_val :: "pb_type \<Rightarrow> pb_val" where
  "zero_val TInt = VInt 0"
| "zero_val TText = VStr []"
| "zero_val TBytes = VBytes None"
| "zero_val TBlobs = VBlobs []"
| "zero_val TMap = VMap None"
| "zero_val (TMsg _) = VMsg None"
| "zero_val (TMsgs _) = VMsgs []"

definition zero_msg :: "schema \<Rightarrow> pb_msg" where
  "zero_msg sch = PMsg (map (\<lambda>(n, t). (n, zero_val t)) sch) []"

fun field :: "pb_msg \<Rightarrow> nat \<Rightarrow> pb_val option" where
  "field (PMsg fs u) n = map_of fs n"

fun set_field :: "nat \<Rightarrow> pb_val \<Rightarrow> pb_msg \<Rightarrow> pb_msg" where
  "set_field n v (PMsg fs u) = PMsg (map (\<lambda>(k, w). (k, if k = n then v else w)) fs) u"

fun unknown :: "pb_msg \<Rightarrow> bytes" where
  "unknown (PMsg fs u) = u"

fun add_unknown :: "bytes \<Rightarrow> pb_msg \<Rightarrow> pb_msg" where
  "add_unknown b (PMsg fs u) = PMsg fs (u @ b)"

section \<open>Errors\<close>

definition eof :: go_error where "eof = ELib ''unexpected EOF''"

definition cannot_skip :: go_error where
  "cannot_skip = ELib ''proto: can not skip unknown wire type''"

definition bad_map_wire :: go_error where
  "bad_map_wire = ELib ''proto: bad wiretype for map field''"

definition invalid_utf8 :: go_error where
  "invalid_utf8 = ELib ''proto: field contains invalid UTF-8''"

definition nil_element :: go_error where
  "nil_element = ELib ''proto: repeated field has nil element''"

definition marshal_nil :: go_error where
  "marshal_nil = ELib ''proto: Marshal called with nil''"

section \<open>Varints\<close>

fun encodeVarint :: "nat \<Rightarrow> bytes" where
  "encodeVarint x = (if x < 128 then [char_of x] else char_of (x mod 128 + 128) # encodeVarint (x div 128))"

declare encodeVarint.simps [simp del]

text \<open>
  The value and the number of bytes; \<open>i\<close> counts the bytes read, of which there are at most ten,
  the tenth being 0 or 1.
\<close>

fun varint_from :: "nat \<Rightarrow> bytes \<Rightarrow> (nat \<times> nat) option" where
  "varint_from i [] = None"
| "varint_from i (c # cs) =
     (if i = 9 then (if code c < 2 then Some (code c, 1) else None)
      else if code c < 128 then Some (code c, 1)
      else map_option (\<lambda>(x, n). (code c - 128 + 128 * x, n + 1)) (varint_from (i + 1) cs))"

definition decodeVarint :: "bytes \<Rightarrow> (nat \<times> nat) option" where
  "decodeVarint b = varint_from 0 b"

lemma varint_from_length: "varint_from i b = Some (x, n) \<Longrightarrow> 0 < n \<and> n \<le> length b"
  by (induction i b arbitrary: x n rule: varint_from.induct) (fastforce split: if_splits)+

lemma decodeVarint_length: "decodeVarint b = Some (x, n) \<Longrightarrow> 0 < n \<and> n \<le> length b"
  by (simp add: decodeVarint_def varint_from_length)

section \<open>Skipping fields nobody knows\<close>

text \<open>A length-delimited value: the bytes and what follows.\<close>

definition take_len :: "bytes \<Rightarrow> (bytes \<times> bytes) option" where
  "take_len b =
     (case decodeVarint b of
        None \<Rightarrow> None
      | Some (x, n) \<Rightarrow> if length b - n < x then None else Some (take x (drop n b), drop (n + x) b))"

lemma take_len_length:
  "take_len b = Some (s, r) \<Longrightarrow> length s < length b \<and> length r < length b"
  by (auto simp: take_len_def dest!: decodeVarint_length split: option.splits if_splits)

text \<open>\<open>findEndGroup\<close>: the number of bytes up to and including the end of the group.\<close>

function findEndGroup :: "nat \<Rightarrow> bytes \<Rightarrow> nat option" where
  "findEndGroup depth b =
     (case decodeVarint b of
        None \<Rightarrow> None
      | Some (x, n) \<Rightarrow>
          (let r = drop n b; after = \<lambda>k. map_option ((+) (n + k)) (findEndGroup depth (drop k r)) in
           if x mod 8 = 0 then (case decodeVarint r of None \<Rightarrow> None | Some (_, k) \<Rightarrow> after k)
           else if x mod 8 = 5 then (if length r < 4 then None else after 4)
           else if x mod 8 = 1 then (if length r < 8 then None else after 8)
           else if x mod 8 = 2 then
             (case decodeVarint r of
                None \<Rightarrow> None
              | Some (m, k) \<Rightarrow> if length r - k < m then None else after (k + m))
           else if x mod 8 = 3 then map_option ((+) n) (findEndGroup (depth + 1) r)
           else if x mod 8 = 4 then
             (if depth \<le> 1 then Some n else map_option ((+) n) (findEndGroup (depth - 1) r))
           else None))"
  by pat_completeness auto
termination
  by (relation "measure (\<lambda>(d, b). length b)") (auto dest: decodeVarint_length)

declare findEndGroup.simps [simp del]

definition skipField :: "bytes \<Rightarrow> nat \<Rightarrow> go_error + nat" where
  "skipField b wire =
     (if wire = 0 then (case decodeVarint b of None \<Rightarrow> Inl eof | Some (_, k) \<Rightarrow> Inr k)
      else if wire = 5 then (if length b < 4 then Inl eof else Inr 4)
      else if wire = 1 then (if length b < 8 then Inl eof else Inr 8)
      else if wire = 2 then
        (case decodeVarint b of
           None \<Rightarrow> Inl eof
         | Some (m, k) \<Rightarrow> if length b - k < m then Inl eof else Inr (k + m))
      else if wire = 3 then (case findEndGroup 1 b of None \<Rightarrow> Inl eof | Some i \<Rightarrow> Inr i)
      else Inl cannot_skip)"

section \<open>Reading one field\<close>

datatype field_read = Bad_wire | Fatal go_error | Got pb_val bytes bool

text \<open>An entry of a map field: a string key and a bytes value, in any order and number.\<close>

function map_entry :: "bytes \<Rightarrow> string \<times> bytes option \<Rightarrow> bool \<Rightarrow> go_error + (string \<times> bytes option) \<times> bool" where
  "map_entry b (k, v) bad =
     (if b = [] then Inr ((k, v), bad)
      else case decodeVarint b of
        None \<Rightarrow> Inl eof
      | Some (x, n) \<Rightarrow>
          (let r = drop n b;
               skip = (case skipField r (x mod 8) of Inl e \<Rightarrow> Inl e | Inr m \<Rightarrow> map_entry (drop m r) (k, v) bad)
           in if x mod 8 = 2 \<and> (x div 8 = 1 \<or> x div 8 = 2) then
                (case take_len r of
                   None \<Rightarrow> Inl eof
                 | Some (s, r') \<Rightarrow>
                     if x div 8 = 1 then map_entry r' (s, v) (bad \<or> \<not> valid_utf8 s)
                     else map_entry r' (k, Some s) bad)
              else skip))"
  by pat_completeness auto
termination
  by (relation "measure (\<lambda>(b, kv, bad). length b)") (auto dest: decodeVarint_length take_len_length)

declare map_entry.simps [simp del]

fun read_scalar :: "pb_type \<Rightarrow> pb_val option \<Rightarrow> nat \<Rightarrow> bytes \<Rightarrow> field_read" where
  "read_scalar TInt old wire b =
     (if wire \<noteq> 0 then Bad_wire
      else case decodeVarint b of None \<Rightarrow> Fatal eof | Some (x, n) \<Rightarrow> Got (VInt (word_of_nat x)) (drop n b) False)"
| "read_scalar TText old wire b =
     (if wire \<noteq> 2 then Bad_wire
      else case take_len b of None \<Rightarrow> Fatal eof | Some (s, r) \<Rightarrow> Got (VStr s) r (\<not> valid_utf8 s))"
| "read_scalar TBytes old wire b =
     (if wire \<noteq> 2 then Bad_wire
      else case take_len b of None \<Rightarrow> Fatal eof | Some (s, r) \<Rightarrow> Got (VBytes (Some s)) r False)"
| "read_scalar TBlobs old wire b =
     (if wire \<noteq> 2 then Bad_wire
      else case take_len b of
        None \<Rightarrow> Fatal eof
      | Some (s, r) \<Rightarrow> Got (VBlobs ((case old of Some (VBlobs bs) \<Rightarrow> bs | _ \<Rightarrow> []) @ [Some s])) r False)"
| "read_scalar TMap old wire b =
     (if wire \<noteq> 2 then Fatal bad_map_wire
      else case take_len b of
        None \<Rightarrow> Fatal eof
      | Some (s, r) \<Rightarrow>
          (case map_entry s ([], None) False of
             Inl e \<Rightarrow> Fatal e
           | Inr ((k, v), bad) \<Rightarrow>
               Got (VMap (Some (gmap_put k v (case old of Some (VMap (Some m)) \<Rightarrow> m | _ \<Rightarrow> [])))) r bad))"
| "read_scalar _ old wire b = Bad_wire"

lemma read_scalar_length: "read_scalar t old wire b = Got v r bad \<Longrightarrow> length r < length b"
  by (cases t) (auto dest!: decodeVarint_length take_len_length split: if_splits option.splits sum.splits)

declare read_scalar.simps [simp del]

section \<open>Reading a message\<close>

text \<open>
  The loop of \<open>unmarshal\<close>. A string that is not UTF-8 is reported at the end, unless a worse
  error ends the loop; a field with the wrong wire type is kept as an unknown one; an error
  inside a submessage ends the loop with the submessage as far as it was read.
\<close>

definition old_msg :: "schema \<Rightarrow> pb_val option \<Rightarrow> pb_msg" where
  "old_msg s v = (case v of Some (VMsg (Some m)) \<Rightarrow> m | _ \<Rightarrow> zero_msg s)"

definition old_msgs :: "pb_val option \<Rightarrow> pb_msg option list" where
  "old_msgs v = (case v of Some (VMsgs ms) \<Rightarrow> ms | _ \<Rightarrow> [])"

function unmarshal :: "schema \<Rightarrow> bytes \<Rightarrow> pb_msg \<Rightarrow> bool \<Rightarrow> pb_msg \<times> go_error option" where
  "unmarshal sch b m bad =
     (if b = [] then (m, if bad then Some invalid_utf8 else None)
      else case decodeVarint b of
        None \<Rightarrow> (m, Some eof)
      | Some (x, n) \<Rightarrow>
          (let r = drop n b; tag = x div 8; wire = x mod 8;
               unknown_field =
                 (case skipField r wire of
                    Inl e \<Rightarrow> (m, Some e)
                  | Inr k \<Rightarrow> unmarshal sch (drop k r) (add_unknown (encodeVarint x @ take k r) m) bad)
           in case map_of sch tag of
                None \<Rightarrow> unknown_field
              | Some (TMsg s) \<Rightarrow>
                  if wire \<noteq> 2 then unknown_field
                  else (case take_len r of
                    None \<Rightarrow> (m, Some eof)
                  | Some (sub, r') \<Rightarrow>
                      (case unmarshal s sub (old_msg s (field m tag)) False of
                         (v, None) \<Rightarrow> unmarshal sch r' (set_field tag (VMsg (Some v)) m) bad
                       | (v, Some e) \<Rightarrow> (set_field tag (VMsg (Some v)) m, Some e)))
              | Some (TMsgs s) \<Rightarrow>
                  if wire \<noteq> 2 then unknown_field
                  else (case take_len r of
                    None \<Rightarrow> (m, Some eof)
                  | Some (sub, r') \<Rightarrow>
                      (case unmarshal s sub (zero_msg s) False of
                         (v, None) \<Rightarrow> unmarshal sch r' (set_field tag (VMsgs (old_msgs (field m tag) @ [Some v])) m) bad
                       | (v, Some e) \<Rightarrow> (m, Some e)))
              | Some t \<Rightarrow>
                  (case read_scalar t (field m tag) wire r of
                     Bad_wire \<Rightarrow> unknown_field
                   | Fatal e \<Rightarrow> (m, Some e)
                   | Got v r' ill \<Rightarrow> unmarshal sch r' (set_field tag v m) (bad \<or> ill))))"
  by pat_completeness auto
termination
  by (relation "measure (\<lambda>(sch, b, m, bad). length b)")
    (auto dest!: decodeVarint_length take_len_length read_scalar_length)

declare unmarshal.simps [simp del]

text \<open>\<open>proto.Unmarshal\<close> resets the message first.\<close>

definition proto_Unmarshal :: "schema \<Rightarrow> bytes option \<Rightarrow> pb_msg \<times> go_error option" where
  "proto_Unmarshal sch b = unmarshal sch (slice_bytes b) (zero_msg sch) False"

section \<open>Writing a message\<close>

definition delimited :: "nat \<Rightarrow> bytes \<Rightarrow> bytes" where
  "delimited n b = encodeVarint (8 * n + 2) @ encodeVarint (length b) @ b"

definition map_entry_bytes :: "string \<Rightarrow> bytes option \<Rightarrow> bytes" where
  "map_entry_bytes k v = delimited 1 k @ (case v of None \<Rightarrow> [] | Some b \<Rightarrow> delimited 2 b)"

text \<open>
  The bytes of the fields in their order, and whether a string among them is not UTF-8. The
  iteration order of a map is the argument \<open>iter\<close>. Among repeated submessages a UTF-8 error is
  only reported after the loop, a nil element at once.
\<close>

type_synonym map_iter = "bytes option gmap \<Rightarrow> (string \<times> bytes option) list"

fun marshal :: "map_iter \<Rightarrow> pb_msg \<Rightarrow> go_error + bytes"
  and marshal_fields :: "map_iter \<Rightarrow> (nat \<times> pb_val) list \<Rightarrow> go_error + bytes \<times> bool"
  and marshal_val :: "map_iter \<Rightarrow> nat \<Rightarrow> pb_val \<Rightarrow> go_error + bytes \<times> bool"
  and marshal_msgs :: "map_iter \<Rightarrow> nat \<Rightarrow> pb_msg option list \<Rightarrow> go_error option \<Rightarrow> go_error + bytes" where
  "marshal iter (PMsg fs u) =
     (case marshal_fields iter fs of
        Inl e \<Rightarrow> Inl e
      | Inr (b, bad) \<Rightarrow> if bad then Inl invalid_utf8 else Inr (b @ u))"
| "marshal_fields iter [] = Inr ([], False)"
| "marshal_fields iter ((n, v) # fs) =
     (case marshal_val iter n v of
        Inl e \<Rightarrow> Inl e
      | Inr (b, bad) \<Rightarrow>
          (case marshal_fields iter fs of Inl e \<Rightarrow> Inl e | Inr (b', bad') \<Rightarrow> Inr (b @ b', bad \<or> bad')))"
| "marshal_val iter n (VInt w) = Inr (if w = 0 then [] else encodeVarint (8 * n) @ encodeVarint (unat w), False)"
| "marshal_val iter n (VStr s) = Inr (if s = [] then [] else delimited n s, \<not> valid_utf8 s)"
| "marshal_val iter n (VBytes b) = Inr (if slice_bytes b = [] then [] else delimited n (slice_bytes b), False)"
| "marshal_val iter n (VBlobs bs) = Inr (concat (map (\<lambda>b. delimited n (slice_bytes b)) bs), False)"
| "marshal_val iter n (VMap m) =
     (case m of
        None \<Rightarrow> Inr ([], False)
      | Some es \<Rightarrow>
          Inr (concat (map (\<lambda>(k, v). delimited n (map_entry_bytes k v)) (iter es)),
               \<not> list_all (\<lambda>e. valid_utf8 (fst e)) (iter es)))"
| "marshal_val iter n (VMsg None) = Inr ([], False)"
| "marshal_val iter n (VMsg (Some m)) =
     (case marshal iter m of Inl e \<Rightarrow> Inl e | Inr b \<Rightarrow> Inr (delimited n b, False))"
| "marshal_val iter n (VMsgs ms) =
     (case marshal_msgs iter n ms None of Inl e \<Rightarrow> Inl e | Inr b \<Rightarrow> Inr (b, False))"
| "marshal_msgs iter n [] later = (case later of None \<Rightarrow> Inr [] | Some e \<Rightarrow> Inl e)"
| "marshal_msgs iter n (None # ms) later = Inl nil_element"
| "marshal_msgs iter n (Some m # ms) later =
     (case marshal iter m of
        Inr b \<Rightarrow> (case marshal_msgs iter n ms later of Inl e \<Rightarrow> Inl e | Inr b' \<Rightarrow> Inr (delimited n b @ b'))
      | Inl e \<Rightarrow>
          if e = invalid_utf8
          then marshal_msgs iter n ms (case later of None \<Rightarrow> Some e | Some _ \<Rightarrow> later)
          else Inl e)"

text \<open>\<open>proto.Marshal\<close> refuses a nil message.\<close>

definition proto_Marshal :: "map_iter \<Rightarrow> pb_msg option \<Rightarrow> go_error + bytes" where
  "proto_Marshal iter m = (case m of None \<Rightarrow> Inl marshal_nil | Some x \<Rightarrow> marshal iter x)"

end
