(* ===== verification/Proto_Roundtrip.thy ===== *)
theory Proto_Roundtrip
  imports Proto_Wire
begin

text \<open>
  \<open>Unmarshal\<close> of what \<open>Marshal\<close> wrote, once for all messages: a message of the schema without
  unknown fields comes back with its empty byte slices as nil, its repeated slices as non-nil and
  its empty maps as nil, in whatever order the entries of a map were written.
\<close>

section \<open>Varints\<close>

lemma varint_from_encode:
  "i \<le> 9 \<Longrightarrow> x < 2 ^ (64 - 7 * i) \<Longrightarrow>
   varint_from i (encodeVarint x @ r) = Some (x, length (encodeVarint x))"
proof (induction x arbitrary: i rule: encodeVarint.induct)
  case (1 x)
  show ?case
  proof (cases "x < 128")
    case True
    then show ?thesis
      using "1.prems" by (auto simp: encodeVarint.simps [of x] code_char_of)
  next
    case False
    have i: "i < 9"
    proof (rule ccontr)
      assume "\<not> i < 9"
      then have "i = 9" using "1.prems"(1) by simp
      then show False using "1.prems"(2) False by simp
    qed
    have "(2 :: nat) ^ (64 - 7 * i) = 2 ^ (64 - 7 * (i + 1)) * 128"
    proof -
      have "64 - 7 * i = (64 - 7 * (i + 1)) + 7" using i by simp
      then have "(2 :: nat) ^ (64 - 7 * i) = 2 ^ (64 - 7 * (i + 1)) * 2 ^ 7" by (metis power_add)
      then show ?thesis by simp
    qed
    then have "x div 128 < 2 ^ (64 - 7 * (i + 1))"
      using "1.prems"(2) by (simp add: less_mult_imp_div_less)
    then have "varint_from (i + 1) (encodeVarint (x div 128) @ r) =
        Some (x div 128, length (encodeVarint (x div 128)))"
      using "1.IH" [OF False, of "i + 1"] i by simp
    moreover have "code (char_of (x mod 128 + 128)) = x mod 128 + 128"
      by (rule code_char_of) (use mod_less_divisor [of 128 x] in linarith)
    ultimately show ?thesis
      using False i by (simp add: encodeVarint.simps [of x])
  qed
qed

lemma decode_encode_varint:
  "x < 2 ^ 64 \<Longrightarrow> decodeVarint (encodeVarint x @ r) = Some (x, length (encodeVarint x))"
  using varint_from_encode [of 0 x r] by (simp add: decodeVarint_def)

lemma encodeVarint_nonempty [simp]: "encodeVarint x \<noteq> []"
  by (subst encodeVarint.simps) simp

lemma take_len_encode:
  "length s < 2 ^ 64 \<Longrightarrow> take_len (encodeVarint (length s) @ s @ r) = Some (s, r)"
  by (simp add: take_len_def decode_encode_varint)

section \<open>One field at a time\<close>

definition tag_ok :: "nat \<Rightarrow> bool" where
  "tag_ok n \<longleftrightarrow> 8 * n + 7 < 2 ^ 64"

lemma read_tag:
  "tag_ok n \<Longrightarrow> w < 8 \<Longrightarrow>
   decodeVarint (encodeVarint (8 * n + w) @ r) = Some (8 * n + w, length (encodeVarint (8 * n + w)))"
  by (rule decode_encode_varint) (simp add: tag_ok_def)

lemma tag_wire:
  "Suc (Suc (8 * n)) div 8 = n" "Suc (Suc (8 * n)) mod 8 = 2"
  by presburger+

lemma step_delimited:
  assumes "tag_ok n" "length s < 2 ^ 64" "map_of sch n = Some t"
    and "read_scalar t (field m n) 2 (encodeVarint (length s) @ s @ r) = Got v r ill"
    and "\<forall>x. t \<noteq> TMsg x \<and> t \<noteq> TMsgs x"
  shows "unmarshal sch (delimited n s @ r) m bad = unmarshal sch r (set_field n v m) (bad \<or> ill)"
  using assms read_tag [of n 2 "encodeVarint (length s) @ s @ r"]
  by (subst unmarshal.simps) (cases t; simp add: delimited_def tag_wire Let_def)

lemma unat_small: "unat (w :: uint64) < 2 ^ 64"
proof -
  have "unat w < 2 ^ LENGTH(64)" by (rule unsigned_less)
  then show ?thesis by simp
qed

lemma step_varint:
  assumes "tag_ok n" "map_of sch n = Some TInt"
  shows "unmarshal sch (encodeVarint (8 * n) @ encodeVarint (unat w) @ r) m bad =
    unmarshal sch r (set_field n (VInt w) m) bad"
  using assms read_tag [of n 0 "encodeVarint (unat w) @ r"] decode_encode_varint [of "unat w" r]
    unat_small [of w]
  by (subst unmarshal.simps) (simp add: read_scalar.simps Let_def)

lemma step_msg:
  assumes "tag_ok n" "length s < 2 ^ 64" "map_of sch n = Some (TMsg sub)"
    and "unmarshal sub s (old_msg sub (field m n)) False = (v, None)"
  shows "unmarshal sch (delimited n s @ r) m bad = unmarshal sch r (set_field n (VMsg (Some v)) m) bad"
  using assms read_tag [of n 2 "encodeVarint (length s) @ s @ r"] take_len_encode [of s r]
  by (subst unmarshal.simps) (simp add: delimited_def tag_wire Let_def)

lemma step_msgs:
  assumes "tag_ok n" "length s < 2 ^ 64" "map_of sch n = Some (TMsgs sub)"
    and "unmarshal sub s (zero_msg sub) False = (v, None)"
  shows "unmarshal sch (delimited n s @ r) m bad =
    unmarshal sch r (set_field n (VMsgs (old_msgs (field m n) @ [Some v])) m) bad"
  using assms read_tag [of n 2 "encodeVarint (length s) @ s @ r"] take_len_encode [of s r]
  by (subst unmarshal.simps) (simp add: delimited_def tag_wire Let_def)

section \<open>Fields of a message under updates\<close>

lemma field_set: "field (set_field n v m) k = (if k = n \<and> field m n \<noteq> None then Some v else field m k)"
proof (cases m)
  case (PMsg fs u)
  have "map_of (map (\<lambda>(j, w). (j, if j = n then v else w)) fs) k =
      (if k = n \<and> map_of fs n \<noteq> None then Some v else map_of fs k)"
    by (induction fs) auto
  then show ?thesis using PMsg by simp
qed

lemma set_set: "set_field n v (set_field n w m) = set_field n v m"
  by (cases m) (auto simp: case_prod_beta)

section \<open>Repeated bytes and maps\<close>

lemma run_blobs:
  assumes "tag_ok n" "map_of sch n = Some TBlobs" "\<forall>b\<in>set bs. length (slice_bytes b) < 2 ^ 64"
  shows "field m n = Some (VBlobs old) \<Longrightarrow>
    unmarshal sch (concat (map (\<lambda>b. delimited n (slice_bytes b)) bs) @ r) m bad =
    unmarshal sch r (if bs = [] then m else set_field n (VBlobs (old @ map (\<lambda>b. Some (slice_bytes b)) bs)) m) bad"
  using assms(3)
proof (induction bs arbitrary: m old)
  case (Cons b bs)
  let ?rest = "concat (map (\<lambda>b. delimited n (slice_bytes b)) bs) @ r"
  let ?m = "set_field n (VBlobs (old @ [Some (slice_bytes b)])) m"
  have "read_scalar TBlobs (field m n) 2 (encodeVarint (length (slice_bytes b)) @ slice_bytes b @ ?rest) =
      Got (VBlobs (old @ [Some (slice_bytes b)])) ?rest False"
    using Cons.prems take_len_encode [of "slice_bytes b" ?rest] by (simp add: read_scalar.simps)
  then have "unmarshal sch (delimited n (slice_bytes b) @ ?rest) m bad = unmarshal sch ?rest ?m (bad \<or> False)"
    using Cons.prems(2) by (intro step_delimited [OF assms(1) _ assms(2)]) simp_all
  moreover have "field ?m n = Some (VBlobs (old @ [Some (slice_bytes b)]))"
    using Cons.prems(1) by (simp add: field_set)
  ultimately show ?case
    using Cons.IH [of ?m] Cons.prems(2) by (simp add: set_set)
qed simp

lemma map_entry_bytes_read:
  assumes "length k < 2 ^ 64" "length (slice_bytes v) < 2 ^ 64" "valid_utf8 k"
  shows "map_entry (map_entry_bytes k v) ([], None) False = Inr ((k, v), False)"
proof -
  have t1: "decodeVarint (encodeVarint 10 @ r) = Some (10, length (encodeVarint 10))"
    and t2: "decodeVarint (encodeVarint 18 @ r) = Some (18, length (encodeVarint 18))" for r
    by (simp_all add: decode_encode_varint)
  have val: "map_entry (case v of None \<Rightarrow> [] | Some b \<Rightarrow> delimited 2 b) (k, None) False = Inr ((k, v), False)"
  proof (cases v)
    case None
    then show ?thesis by (subst map_entry.simps) simp
  next
    case (Some b)
    have "map_entry [] (k, Some b) False = Inr ((k, Some b), False)" by (subst map_entry.simps) simp
    then show ?thesis
      using Some assms(2) t2 [of "encodeVarint (length b) @ b"] take_len_encode [of b "[]"]
      by (subst map_entry.simps) (simp add: delimited_def)
  qed
  let ?r = "case v of None \<Rightarrow> [] | Some b \<Rightarrow> delimited 2 b"
  have "map_entry (delimited 1 k @ ?r) ([], None) False = map_entry ?r (k, None) False"
    using t1 [of "encodeVarint (length k) @ k @ ?r"] take_len_encode [OF assms(1), of ?r] assms(3)
    by (subst map_entry.simps) (simp add: delimited_def)
  then show ?thesis using val by (simp add: map_entry_bytes_def)
qed

definition entries_small :: "(string \<times> bytes option) list \<Rightarrow> bool" where
  "entries_small es \<longleftrightarrow>
     (\<forall>e\<in>set es. length (fst e) < 2 ^ 64 \<and> length (slice_bytes (snd e)) < 2 ^ 64 \<and>
        length (map_entry_bytes (fst e) (snd e)) < 2 ^ 64 \<and> valid_utf8 (fst e))"

definition map_val :: "pb_val option \<Rightarrow> bytes option gmap" where
  "map_val v = (case v of Some (VMap (Some m)) \<Rightarrow> m | _ \<Rightarrow> [])"

lemma run_map:
  assumes "tag_ok n" "map_of sch n = Some TMap"
  shows "entries_small es \<Longrightarrow> field m n \<noteq> None \<Longrightarrow>
    unmarshal sch (concat (map (\<lambda>(k, v). delimited n (map_entry_bytes k v)) es) @ r) m bad =
    unmarshal sch r (if es = [] then m else
      set_field n (VMap (Some (foldl (\<lambda>a e. gmap_put (fst e) (snd e) a) (map_val (field m n)) es))) m) bad"
proof (induction es arbitrary: m)
  case (Cons e es)
  obtain k v where e: "e = (k, v)" by (cases e)
  let ?s = "map_entry_bytes k v"
  let ?rest = "concat (map (\<lambda>(k, v). delimited n (map_entry_bytes k v)) es) @ r"
  let ?new = "VMap (Some (gmap_put k v (map_val (field m n))))"
  have small: "length k < 2 ^ 64" "length (slice_bytes v) < 2 ^ 64" "length ?s < 2 ^ 64" "valid_utf8 k"
    "entries_small es"
    using Cons.prems(1) e by (auto simp: entries_small_def)
  have "read_scalar TMap (field m n) 2 (encodeVarint (length ?s) @ ?s @ ?rest) = Got ?new ?rest False"
    using take_len_encode [OF small(3), of ?rest] map_entry_bytes_read [OF small(1,2,4)]
    by (simp add: read_scalar.simps map_val_def)
  then have "unmarshal sch (delimited n ?s @ ?rest) m bad = unmarshal sch ?rest (set_field n ?new m) (bad \<or> False)"
    by (intro step_delimited [OF assms(1) small(3) assms(2)]) simp_all
  then show ?case
    using Cons.IH [OF small(5), of "set_field n ?new m"] Cons.prems(2) e
    by (auto simp: field_set set_set map_val_def)
qed simp

text \<open>Whatever the order of the entries, writing them into an empty map gives the map.\<close>

lemma fold_put_get:
  "gmap_ok a \<Longrightarrow> distinct (map fst es) \<Longrightarrow>
   gmap_ok (foldl (\<lambda>a e. gmap_put (fst e) (snd e) a) a es) \<and>
   gmap_get (foldl (\<lambda>a e. gmap_put (fst e) (snd e) a) a es) = gmap_get a ++ map_of es"
proof (induction es arbitrary: a)
  case (Cons e es)
  have "map_of es (fst e) = None" using Cons.prems(2) by (simp add: map_of_eq_None_iff)
  then show ?case
    using Cons by (auto simp: gmap_ok_put gmap_get_put fun_eq_iff map_add_def split: option.split)
qed (simp add: map_add_def)

lemma fold_put_perm:
  assumes "gmap_ok es" "mset fs = mset es"
  shows "foldl (\<lambda>a e. gmap_put (fst e) (snd e) a) [] fs = es"
proof -
  have fs: "distinct (map fst fs)" "set fs = set es"
    using gmap_ok_distinct [OF assms(1)] mset_eq_imp_distinct_iff [of "map fst fs" "map fst es"]
      mset_eq_setD [OF assms(2)]
    by (simp_all add: assms(2))
  have "map_of fs = map_of es"
    using map_of_inject_set [of fs es] fs gmap_ok_distinct [OF assms(1)] by simp
  then show ?thesis
    using fold_put_get [OF gmap_ok_empty fs(1)] assms(1)
    by (intro gmap_eqI) (auto simp: gmap_get_map_of fun_eq_iff map_add_def)
qed

section \<open>Messages of a schema and their normal form\<close>

definition schema_ok :: "schema \<Rightarrow> bool" where
  "schema_ok s \<longleftrightarrow> distinct (map fst s) \<and> list_all (\<lambda>e. tag_ok (fst e)) s"

fun typed_msg :: "schema \<Rightarrow> pb_msg \<Rightarrow> bool"
  and typed_fields :: "schema \<Rightarrow> (nat \<times> pb_val) list \<Rightarrow> bool"
  and typed_val :: "pb_type \<Rightarrow> pb_val \<Rightarrow> bool"
  and typed_msgs :: "schema \<Rightarrow> pb_msg option list \<Rightarrow> bool" where
  "typed_msg s (PMsg fs u) \<longleftrightarrow> u = [] \<and> schema_ok s \<and> typed_fields s fs"
| "typed_fields s [] \<longleftrightarrow> s = []"
| "typed_fields s ((n, v) # fs) \<longleftrightarrow>
     (case s of [] \<Rightarrow> False | e # s' \<Rightarrow> fst e = n \<and> typed_val (snd e) v \<and> typed_fields s' fs)"
| "typed_val t (VInt w) \<longleftrightarrow> t = TInt"
| "typed_val t (VStr s) \<longleftrightarrow> t = TText"
| "typed_val t (VBytes b) \<longleftrightarrow> t = TBytes"
| "typed_val t (VBlobs bs) \<longleftrightarrow> t = TBlobs"
| "typed_val t (VMap m) \<longleftrightarrow> t = TMap \<and> gmap_ok (case m of None \<Rightarrow> [] | Some es \<Rightarrow> es)"
| "typed_val t (VMsg m) \<longleftrightarrow>
     (case t of TMsg s \<Rightarrow> (case m of None \<Rightarrow> True | Some x \<Rightarrow> typed_msg s x) | _ \<Rightarrow> False)"
| "typed_val t (VMsgs ms) \<longleftrightarrow> (case t of TMsgs s \<Rightarrow> typed_msgs s ms | _ \<Rightarrow> False)"
| "typed_msgs s [] \<longleftrightarrow> True"
| "typed_msgs s (m # ms) \<longleftrightarrow> (case m of None \<Rightarrow> True | Some x \<Rightarrow> typed_msg s x) \<and> typed_msgs s ms"

fun norm_msg :: "pb_msg \<Rightarrow> pb_msg"
  and norm_fields :: "(nat \<times> pb_val) list \<Rightarrow> (nat \<times> pb_val) list"
  and norm_val :: "pb_val \<Rightarrow> pb_val"
  and norm_msgs :: "pb_msg option list \<Rightarrow> pb_msg option list" where
  "norm_msg (PMsg fs u) = PMsg (norm_fields fs) u"
| "norm_fields [] = []"
| "norm_fields ((n, v) # fs) = (n, norm_val v) # norm_fields fs"
| "norm_val (VInt w) = VInt w"
| "norm_val (VStr s) = VStr s"
| "norm_val (VBytes b) = VBytes (if slice_bytes b = [] then None else b)"
| "norm_val (VBlobs bs) = VBlobs (map (\<lambda>b. Some (slice_bytes b)) bs)"
| "norm_val (VMap m) = VMap (if slice_bytes m = [] then None else m)"
| "norm_val (VMsg m) = VMsg (case m of None \<Rightarrow> None | Some x \<Rightarrow> Some (norm_msg x))"
| "norm_val (VMsgs ms) = VMsgs (norm_msgs ms)"
| "norm_msgs [] = []"
| "norm_msgs (m # ms) = (case m of None \<Rightarrow> None | Some x \<Rightarrow> Some (norm_msg x)) # norm_msgs ms"

section \<open>The round trip\<close>

fun keys :: "pb_msg \<Rightarrow> nat list" where
  "keys (PMsg fs u) = map fst fs"

lemma keys_set [simp]: "keys (set_field n v m) = keys m"
  by (cases m) (simp add: case_prod_beta comp_def)

lemma set_same: "distinct (keys m) \<Longrightarrow> field m n = Some v \<Longrightarrow> set_field n v m = m"
proof (cases m)
  case (PMsg fs u)
  assume "distinct (keys m)" "field m n = Some v"
  then have "\<And>k w. (k, w) \<in> set fs \<Longrightarrow> (k, if k = n then v else w) = (k, w)"
    using PMsg by (auto dest!: map_of_SomeD dest: eq_key_imp_eq_value)
  then show ?thesis using PMsg by (auto intro!: map_idI)
qed

definition put_fields :: "(nat \<times> pb_val) list \<Rightarrow> pb_msg \<Rightarrow> pb_msg" where
  "put_fields fs m = foldl (\<lambda>m e. set_field (fst e) (snd e) m) m fs"

lemma put_fields_simps [simp]:
  "put_fields [] m = m"
  "put_fields ((n, v) # fs) m = put_fields fs (set_field n v m)"
  by (simp_all add: put_fields_def)

lemma put_fields_all_aux:
  "distinct (map fst pre @ map fst fs) \<Longrightarrow> map fst ws = map fst fs \<Longrightarrow>
   put_fields fs (PMsg (pre @ ws) u) = PMsg (pre @ fs) u"
proof (induction fs arbitrary: pre ws)
  case (Cons e fs)
  obtain n v where e: "e = (n, v)" by (cases e)
  obtain w ws' where ws: "ws = (n, w) # ws'" "map fst ws' = map fst fs"
    using Cons.prems(2) e by (cases ws) auto
  have "set_field n v (PMsg (pre @ ws) u) = PMsg ((pre @ [(n, v)]) @ ws') u"
  proof -
    have "map (\<lambda>(k, w). (k, if k = n then v else w)) xs = xs" if "n \<notin> fst ` set xs" for xs
      using that by (induction xs) auto
    moreover have "n \<notin> fst ` set pre" "n \<notin> fst ` set ws'"
      using Cons.prems(1) e ws(2) by (auto simp flip: set_map)
    ultimately show ?thesis using ws(1) by simp
  qed
  then show ?case
    using Cons.IH [of "pre @ [(n, v)]" ws'] Cons.prems(1) e ws(2) by simp
qed simp

lemma put_fields_all:
  "distinct (map fst fs) \<Longrightarrow> map fst ws = map fst fs \<Longrightarrow> put_fields fs (PMsg ws u) = PMsg fs u"
  using put_fields_all_aux [of "[]" fs ws u] by simp

lemma norm_fields_keys: "map fst (norm_fields fs) = map fst fs"
  by (induction fs) auto

lemma typed_fields_keys: "typed_fields s fs \<Longrightarrow> map fst fs = map fst s"
  by (induction fs arbitrary: s) (auto split: list.splits)

lemma marshal_msgs_later: "marshal_msgs iter n ms (Some e) \<noteq> Inr b"
proof (induction ms arbitrary: e b)
  case (Cons m ms)
  then show ?case by (cases m) (auto split: sum.splits)
qed simp

lemma delimited_length: "length s < length (delimited n s)" "length (delimited n s) < k \<Longrightarrow> length s < k"
  by (simp_all add: delimited_def)

lemma entries_small_iter:
  assumes "length (concat (map (\<lambda>(k, v). delimited n (map_entry_bytes k v)) es)) < 2 ^ 64"
    and "list_all (\<lambda>e. valid_utf8 (fst e)) es"
  shows "entries_small es"
  using assms
proof (induction es)
  case (Cons e es)
  have "length k \<le> length (map_entry_bytes k v) \<and> length (slice_bytes v) \<le> length (map_entry_bytes k v)" for k v
    by (cases v) (auto simp: map_entry_bytes_def delimited_def)
  moreover have "length (map_entry_bytes (fst e) (snd e)) < 2 ^ 64"
    using Cons.prems(1) delimited_length(1) [of "map_entry_bytes (fst e) (snd e)" n]
    by (simp add: case_prod_beta)
  ultimately show ?case
    using Cons by (simp add: entries_small_def case_prod_beta) (meson le_less_trans)
qed (simp add: entries_small_def)

definition order_free :: "map_iter \<Rightarrow> bool" where
  "order_free iter \<longleftrightarrow> (\<forall>es. mset (iter es) = mset es)"

lemma marshal_unmarshal_all:
  assumes iter: "order_free iter"
  shows
  "marshal iter m = Inr b \<Longrightarrow> length b < 2 ^ 64 \<Longrightarrow> typed_msg sch m \<Longrightarrow>
     unmarshal sch b (zero_msg sch) False = (norm_msg m, None)"
  "marshal_fields iter fs = Inr (b, False) \<Longrightarrow> length b < 2 ^ 64 \<Longrightarrow> typed_fields s fs \<Longrightarrow>
     distinct (map fst s) \<Longrightarrow> distinct (keys acc) \<Longrightarrow>
     (\<And>n t. (n, t) \<in> set s \<Longrightarrow> map_of sch n = Some t \<and> field acc n = Some (zero_val t) \<and> tag_ok n) \<Longrightarrow>
     unmarshal sch (b @ r) acc False = unmarshal sch r (put_fields (norm_fields fs) acc) False"
  "marshal_val iter n v = Inr (b, False) \<Longrightarrow> length b < 2 ^ 64 \<Longrightarrow> typed_val t v \<Longrightarrow>
     distinct (keys acc) \<Longrightarrow> map_of sch n = Some t \<Longrightarrow> field acc n = Some (zero_val t) \<Longrightarrow> tag_ok n \<Longrightarrow>
     unmarshal sch (b @ r) acc False = unmarshal sch r (set_field n (norm_val v) acc) False"
  "marshal_msgs iter n ms later = Inr b \<Longrightarrow> length b < 2 ^ 64 \<Longrightarrow> typed_msgs sub ms \<Longrightarrow>
     distinct (keys acc) \<Longrightarrow> map_of sch n = Some (TMsgs sub) \<Longrightarrow> field acc n = Some (VMsgs old) \<Longrightarrow> tag_ok n \<Longrightarrow>
     unmarshal sch (b @ r) acc False = unmarshal sch r (set_field n (VMsgs (old @ norm_msgs ms)) acc) False"
  using assms
proof (induction iter m and iter fs and iter n v and iter n ms later
    arbitrary: sch b and s sch b acc r and t sch b acc r and sub sch b acc r old
    rule: marshal_marshal_fields_marshal_val_marshal_msgs.induct)
  case (1 iter fs u)
  have b: "marshal_fields iter fs = Inr (b, False)" and t: "typed_fields sch fs" "schema_ok sch" "u = []"
    using "1.prems" by (auto split: sum.splits if_splits)
  have keys: "map fst fs = map fst sch" by (rule typed_fields_keys [OF t(1)])
  have d: "distinct (map fst sch)" using t(2) by (simp add: schema_ok_def)
  have z: "map_of sch n = Some x \<and> field (zero_msg sch) n = Some (zero_val x) \<and> tag_ok n"
    if "(n, x) \<in> set sch" for n x
  proof -
    have "map_of sch n = Some x" using that d by simp
    moreover have "map_of (map (\<lambda>(n, t). (n, zero_val t)) sch) n = map_option zero_val (map_of sch n)"
      by (induction sch) auto
    ultimately show ?thesis
      using that t(2) by (auto simp: zero_msg_def schema_ok_def list_all_iff)
  qed
  have "unmarshal sch (b @ []) (zero_msg sch) False =
      unmarshal sch [] (put_fields (norm_fields fs) (zero_msg sch)) False"
    by (rule "1.IH" [OF b "1.prems"(2) t(1) d _ z "1.prems"(4)])
      (simp_all add: zero_msg_def d case_prod_beta comp_def)
  also have "put_fields (norm_fields fs) (zero_msg sch) = norm_msg (PMsg fs u)"
    using put_fields_all [of "norm_fields fs" "map (\<lambda>(n, t). (n, zero_val t)) sch" "[]"] keys d t(3)
    by (simp add: norm_fields_keys zero_msg_def case_prod_beta comp_def)
  finally show ?case by (simp add: unmarshal.simps [of sch "[]"])
next
  case (2 iter)
  then show ?case by simp
next
  case (3 iter n v fs)
  obtain b1 b2 where b: "marshal_val iter n v = Inr (b1, False)" "marshal_fields iter fs = Inr (b2, False)"
    "b = b1 @ b2"
    using "3.prems"(1)
    by (cases "marshal_val iter n v"; cases "marshal_fields iter fs") (auto split: prod.splits)
  obtain t s' where s: "s = (n, t) # s'" "typed_val t v" "typed_fields s' fs"
    using "3.prems"(3) by (cases s) auto
  have n: "map_of sch n = Some t" "field acc n = Some (zero_val t)" "tag_ok n"
    using "3.prems"(6) [of n t] s(1) by auto
  have small: "length b1 < 2 ^ 64" "length b2 < 2 ^ 64" using "3.prems"(2) b(3) by auto
  have 1: "unmarshal sch (b1 @ b2 @ r) acc False = unmarshal sch (b2 @ r) (set_field n (norm_val v) acc) False"
    by (rule "3.IH"(1) [OF b(1) small(1) s(2) "3.prems"(5) n "3.prems"(7)])
  have "unmarshal sch (b2 @ r) (set_field n (norm_val v) acc) False =
      unmarshal sch r (put_fields (norm_fields fs) (set_field n (norm_val v) acc)) False"
  proof (rule "3.IH"(2) [OF b(1) refl b(2) small(2) s(3)])
    show "distinct (map fst s')" "distinct (keys (set_field n (norm_val v) acc))"
      using "3.prems"(4,5) s(1) by simp_all
    show "map_of sch k = Some x \<and> field (set_field n (norm_val v) acc) k = Some (zero_val x) \<and> tag_ok k"
      if "(k, x) \<in> set s'" for k x
    proof -
      have "k \<noteq> n" using that "3.prems"(4) s(1) by force
      then show ?thesis using "3.prems"(6) [of k x] that s(1) by (simp add: field_set)
    qed
  qed (rule "3.prems"(7))
  then show ?case using 1 b(3) by simp
next
  case (4 iter n w)
  then show ?case
    using step_varint [of n sch w r acc False] set_same [of acc n "VInt 0"] by auto
next
  case (5 iter n x)
  have t: "t = TText" "valid_utf8 x" using "5.prems" by auto
  show ?case
  proof (cases "x = []")
    case True
    then show ?thesis using "5.prems" t set_same [of acc n "VStr []"] by auto
  next
    case False
    then have b: "b = delimited n x" using "5.prems"(1) by simp
    then have small: "length x < 2 ^ 64" using "5.prems"(2) by (simp add: delimited_length(2))
    have "read_scalar TText (field acc n) 2 (encodeVarint (length x) @ x @ r) = Got (VStr x) r False"
      using t(2) take_len_encode [OF small, of r] by (simp add: read_scalar.simps)
    then have "unmarshal sch (delimited n x @ r) acc False =
        unmarshal sch r (set_field n (VStr x) acc) (False \<or> False)"
      using "5.prems"(5) t(1) by (intro step_delimited [OF "5.prems"(7) small, of sch TText]) auto
    then show ?thesis using b by simp
  qed
next
  case (6 iter n c)
  show ?case
  proof (cases "slice_bytes c = []")
    case True
    then show ?thesis using "6.prems" set_same [of acc n "VBytes None"] by auto
  next
    case False
    let ?x = "slice_bytes c"
    have c: "c = Some ?x" using False by (cases c) auto
    have b: "b = delimited n ?x" using "6.prems"(1) False by simp
    then have small: "length ?x < 2 ^ 64" using "6.prems"(2) by (simp add: delimited_length(2))
    have t: "t = TBytes" using "6.prems"(3) by simp
    have "read_scalar TBytes (field acc n) 2 (encodeVarint (length ?x) @ ?x @ r) =
        Got (VBytes (Some ?x)) r False"
      using take_len_encode [OF small, of r] by (simp add: read_scalar.simps)
    then have "unmarshal sch (delimited n ?x @ r) acc False =
        unmarshal sch r (set_field n (VBytes (Some ?x)) acc) (False \<or> False)"
      using "6.prems"(5) t by (intro step_delimited [OF "6.prems"(7) small, of sch TBytes]) auto
    then show ?thesis using b c False by (metis norm_val.simps(3))
  qed
next
  case (7 iter n bs)
  have b: "b = concat (map (\<lambda>c. delimited n (slice_bytes c)) bs)" using "7.prems"(1) by simp
  have "\<forall>c\<in>set bs. length (slice_bytes c) < 2 ^ 64"
    using "7.prems"(2) unfolding b
  proof (induction bs)
    case (Cons c bs)
    then show ?case using delimited_length(1) [of "slice_bytes c" n] by auto
  qed simp
  then show ?case
    using run_blobs [of n sch bs acc "[]" r False] "7.prems" b set_same [of acc n "VBlobs []"] by auto
next
  case (8 iter n m)
  show ?case
  proof (cases m)
    case None
    then show ?thesis using "8.prems" set_same [of acc n "VMap None"] by auto
  next
    case (Some es)
    have b: "b = concat (map (\<lambda>(k, v). delimited n (map_entry_bytes k v)) (iter es))"
      "list_all (\<lambda>e. valid_utf8 (fst e)) (iter es)"
      using "8.prems"(1) Some by auto
    have small: "entries_small (iter es)"
      using entries_small_iter [of n "iter es"] b "8.prems"(2) by simp
    have t: "t = TMap" "gmap_ok es" using "8.prems"(3) Some by auto
    have perm: "mset (iter es) = mset es" using "8.prems"(8) by (simp add: order_free_def)
    then have empty: "iter es = [] \<longleftrightarrow> es = []" by (metis mset_zero_iff)
    show ?thesis
      using run_map [of n sch "iter es" acc r False] small "8.prems"(4-7) t b(1) Some empty
        fold_put_perm [OF t(2) perm] set_same [of acc n "VMap None"]
      by (auto simp: map_val_def)
  qed
next
  case (9 iter n)
  then show ?case using set_same [of acc n "VMsg None"] by (auto split: pb_type.splits)
next
  case (10 iter n m)
  obtain b' where b': "marshal iter m = Inr b'" "b = delimited n b'"
    using "10.prems"(1) by (auto split: sum.splits)
  obtain s where s: "t = TMsg s" "typed_msg s m" using "10.prems"(3) by (auto split: pb_type.splits)
  have small: "length b' < 2 ^ 64" using "10.prems"(2) b'(2) by (simp add: delimited_length(2))
  have sub: "unmarshal s b' (old_msg s (field acc n)) False = (norm_msg m, None)"
    using "10.IH" [OF b'(1) small s(2) "10.prems"(8)] "10.prems"(6) s(1) by (simp add: old_msg_def)
  then show ?case
    using step_msg [OF "10.prems"(7) small _ sub] "10.prems"(5) s(1) b'(2) by simp
next
  case (11 iter n ms)
  obtain s where s: "t = TMsgs s" "typed_msgs s ms" using "11.prems"(3) by (auto split: pb_type.splits)
  show ?case
    using "11.IH" [of b s acc sch "[]" r] "11.prems" s by (auto split: sum.splits)
next
  case (12 iter n later)
  then show ?case using set_same [of acc n "VMsgs old"] by (auto split: option.splits)
next
  case (13 iter n ms later)
  then show ?case by simp
next
  case (14 iter n m ms later)
  obtain b1 b2 where b: "marshal iter m = Inr b1" "marshal_msgs iter n ms later = Inr b2"
    "b = delimited n b1 @ b2"
    using "14.prems"(1) marshal_msgs_later
    by (auto split: sum.splits if_splits option.splits)
  have small: "length b1 < 2 ^ 64" "length b2 < 2 ^ 64"
    using "14.prems"(2) b(3) delimited_length(1) [of b1 n] by auto
  have t: "typed_msg sub m" "typed_msgs sub ms" using "14.prems"(3) by auto
  let ?acc = "set_field n (VMsgs (old @ [Some (norm_msg m)])) acc"
  have 1: "unmarshal sch (delimited n b1 @ b2 @ r) acc False = unmarshal sch (b2 @ r) ?acc False"
    using step_msgs [OF "14.prems"(7) small(1) "14.prems"(5) "14.IH"(1) [OF b(1) small(1) t(1) "14.prems"(8)], of "b2 @ r" acc False]
      "14.prems"(6)
    by (simp add: old_msgs_def)
  have "unmarshal sch (b2 @ r) ?acc False =
      unmarshal sch r (set_field n (VMsgs ((old @ [Some (norm_msg m)]) @ norm_msgs ms)) ?acc) False"
    using "14.prems"(4-8)
    by (intro "14.IH"(3) [OF b(1) b(2) small(2) t(2)]) (simp_all add: field_set)
  then show ?case using 1 b(3) by (simp add: set_set)
qed

theorem marshal_unmarshal:
  assumes "order_free iter" "typed_msg sch m" "proto_Marshal iter (Some m) = Inr b" "length b < 2 ^ 64"
  shows "proto_Unmarshal sch (Some b) = (norm_msg m, None)"
  using marshal_unmarshal_all(1) [OF assms(1) _ assms(4,2)] assms(3)
  by (simp add: proto_Unmarshal_def proto_Marshal_def)

end
