(* ===== verification/Proto_Messages.thy ===== *)
theory Proto_Messages
  imports Proto_Roundtrip
begin

text \<open>
  The Fabric messages that the server reads and writes, from the vendored \<open>fabric-protos-go\<close>
  (and the well-known \<open>Timestamp\<close>): for each a record with the fields of the Go struct and the
  bytes of unknown fields, its schema, and the conversions between the record and a wire
  message. A nil pointer is \<open>None\<close>; an enum is its number.
\<close>

section \<open>Fields of a wire message\<close>

definition get_int :: "pb_msg \<Rightarrow> nat \<Rightarrow> uint64" where
  "get_int m n = (case field m n of Some (VInt w) \<Rightarrow> w | _ \<Rightarrow> 0)"

definition get_str :: "pb_msg \<Rightarrow> nat \<Rightarrow> string" where
  "get_str m n = (case field m n of Some (VStr s) \<Rightarrow> s | _ \<Rightarrow> [])"

definition get_bytes :: "pb_msg \<Rightarrow> nat \<Rightarrow> bytes option" where
  "get_bytes m n = (case field m n of Some (VBytes b) \<Rightarrow> b | _ \<Rightarrow> None)"

definition get_blobs :: "pb_msg \<Rightarrow> nat \<Rightarrow> bytes option list" where
  "get_blobs m n = (case field m n of Some (VBlobs bs) \<Rightarrow> bs | _ \<Rightarrow> [])"

definition get_map :: "pb_msg \<Rightarrow> nat \<Rightarrow> bytes option gmap option" where
  "get_map m n = (case field m n of Some (VMap es) \<Rightarrow> es | _ \<Rightarrow> None)"

definition get_msg :: "pb_msg \<Rightarrow> nat \<Rightarrow> pb_msg option" where
  "get_msg m n = (case field m n of Some (VMsg x) \<Rightarrow> x | _ \<Rightarrow> None)"

definition get_msgs :: "pb_msg \<Rightarrow> nat \<Rightarrow> pb_msg option list" where
  "get_msgs m n = (case field m n of Some (VMsgs xs) \<Rightarrow> xs | _ \<Rightarrow> [])"

lemmas getters = get_int_def get_str_def get_bytes_def get_blobs_def get_map_def get_msg_def get_msgs_def

lemma of_int32 [simp]: "(ucast (scast (w :: int32) :: uint64) :: int32) = w"
  by (rule bit_word_eqI) (simp add: bit_simps)

lemma of_msgs:
  "(\<And>x. g (f x) = x) \<Longrightarrow> map_option g (map_option f m) = m"
  "(\<And>x. g (f x) = x) \<Longrightarrow> map (map_option g \<circ> map_option f) ms = ms"
  "(of_bool b :: uint64) \<noteq> 0 \<longleftrightarrow> b"
  by (simp_all add: option.map_comp comp_def option.map_ident)

section \<open>The messages\<close>

subsection \<open>Timestamp\<close>

record Timestamp =
  ts_Seconds :: gint
  ts_Nanos :: int32
  ts_unknown :: bytes

definition Timestamp_schema :: schema where
  "Timestamp_schema = [(1, TInt), (2, TInt)]"

definition Timestamp_msg :: "Timestamp \<Rightarrow> pb_msg" where
  "Timestamp_msg x =
     PMsg [(1, VInt (ts_Seconds x)), (2, VInt (scast (ts_Nanos x)))]
       (ts_unknown x)"

definition Timestamp_of :: "pb_msg \<Rightarrow> Timestamp" where
  "Timestamp_of m =
     \<lparr>ts_Seconds = get_int m 1, ts_Nanos = ucast (get_int m 2), ts_unknown = unknown m\<rparr>"

definition Timestamp_zero :: Timestamp where
  "Timestamp_zero = \<lparr>ts_Seconds = 0, ts_Nanos = 0, ts_unknown = []\<rparr>"

lemma Timestamp_of_msg [simp]: "Timestamp_of (Timestamp_msg x) = x"
  by (simp add: Timestamp_of_def Timestamp_msg_def getters of_msgs)

subsection \<open>BlockHeader\<close>

record BlockHeader =
  bh_Number :: uint64
  bh_PreviousHash :: "bytes option"
  bh_DataHash :: "bytes option"
  bh_unknown :: bytes

definition BlockHeader_schema :: schema where
  "BlockHeader_schema = [(1, TInt), (2, TBytes), (3, TBytes)]"

definition BlockHeader_msg :: "BlockHeader \<Rightarrow> pb_msg" where
  "BlockHeader_msg x =
     PMsg [(1, VInt (bh_Number x)), (2, VBytes (bh_PreviousHash x)), (3, VBytes (bh_DataHash x))]
       (bh_unknown x)"

definition BlockHeader_of :: "pb_msg \<Rightarrow> BlockHeader" where
  "BlockHeader_of m =
     \<lparr>bh_Number = get_int m 1, bh_PreviousHash = get_bytes m 2, bh_DataHash = get_bytes m 3,
      bh_unknown = unknown m\<rparr>"

definition BlockHeader_zero :: BlockHeader where
  "BlockHeader_zero = \<lparr>bh_Number = 0, bh_PreviousHash = None, bh_DataHash = None, bh_unknown = []\<rparr>"

lemma BlockHeader_of_msg [simp]: "BlockHeader_of (BlockHeader_msg x) = x"
  by (simp add: BlockHeader_of_def BlockHeader_msg_def getters of_msgs)

subsection \<open>BlockData\<close>

record BlockData =
  bd_Data :: "bytes option list"
  bd_unknown :: bytes

definition BlockData_schema :: schema where
  "BlockData_schema = [(1, TBlobs)]"

definition BlockData_msg :: "BlockData \<Rightarrow> pb_msg" where
  "BlockData_msg x =
     PMsg [(1, VBlobs (bd_Data x))]
       (bd_unknown x)"

definition BlockData_of :: "pb_msg \<Rightarrow> BlockData" where
  "BlockData_of m =
     \<lparr>bd_Data = get_blobs m 1, bd_unknown = unknown m\<rparr>"

definition BlockData_zero :: BlockData where
  "BlockData_zero = \<lparr>bd_Data = [], bd_unknown = []\<rparr>"

lemma BlockData_of_msg [simp]: "BlockData_of (BlockData_msg x) = x"
  by (simp add: BlockData_of_def BlockData_msg_def getters of_msgs)

subsection \<open>BlockMetadata\<close>

record BlockMetadata =
  bm_Metadata :: "bytes option list"
  bm_unknown :: bytes

definition BlockMetadata_schema :: schema where
  "BlockMetadata_schema = [(1, TBlobs)]"

definition BlockMetadata_msg :: "BlockMetadata \<Rightarrow> pb_msg" where
  "BlockMetadata_msg x =
     PMsg [(1, VBlobs (bm_Metadata x))]
       (bm_unknown x)"

definition BlockMetadata_of :: "pb_msg \<Rightarrow> BlockMetadata" where
  "BlockMetadata_of m =
     \<lparr>bm_Metadata = get_blobs m 1, bm_unknown = unknown m\<rparr>"

definition BlockMetadata_zero :: BlockMetadata where
  "BlockMetadata_zero = \<lparr>bm_Metadata = [], bm_unknown = []\<rparr>"

lemma BlockMetadata_of_msg [simp]: "BlockMetadata_of (BlockMetadata_msg x) = x"
  by (simp add: BlockMetadata_of_def BlockMetadata_msg_def getters of_msgs)

subsection \<open>Block\<close>

record Block =
  blk_Header :: "BlockHeader option"
  blk_Data :: "BlockData option"
  blk_Metadata :: "BlockMetadata option"
  blk_unknown :: bytes

definition Block_schema :: schema where
  "Block_schema = [(1, TMsg BlockHeader_schema), (2, TMsg BlockData_schema), (3, TMsg BlockMetadata_schema)]"

definition Block_msg :: "Block \<Rightarrow> pb_msg" where
  "Block_msg x =
     PMsg [(1, VMsg (map_option BlockHeader_msg (blk_Header x))),
       (2, VMsg (map_option BlockData_msg (blk_Data x))),
       (3, VMsg (map_option BlockMetadata_msg (blk_Metadata x)))]
       (blk_unknown x)"

definition Block_of :: "pb_msg \<Rightarrow> Block" where
  "Block_of m =
     \<lparr>blk_Header = map_option BlockHeader_of (get_msg m 1),
      blk_Data = map_option BlockData_of (get_msg m 2),
      blk_Metadata = map_option BlockMetadata_of (get_msg m 3), blk_unknown = unknown m\<rparr>"

definition Block_zero :: Block where
  "Block_zero = \<lparr>blk_Header = None, blk_Data = None, blk_Metadata = None, blk_unknown = []\<rparr>"

lemma Block_of_msg [simp]: "Block_of (Block_msg x) = x"
  by (simp add: Block_of_def Block_msg_def getters of_msgs)

subsection \<open>Envelope\<close>

record Envelope =
  env_Payload :: "bytes option"
  env_Signature :: "bytes option"
  env_unknown :: bytes

definition Envelope_schema :: schema where
  "Envelope_schema = [(1, TBytes), (2, TBytes)]"

definition Envelope_msg :: "Envelope \<Rightarrow> pb_msg" where
  "Envelope_msg x =
     PMsg [(1, VBytes (env_Payload x)), (2, VBytes (env_Signature x))]
       (env_unknown x)"

definition Envelope_of :: "pb_msg \<Rightarrow> Envelope" where
  "Envelope_of m =
     \<lparr>env_Payload = get_bytes m 1, env_Signature = get_bytes m 2, env_unknown = unknown m\<rparr>"

definition Envelope_zero :: Envelope where
  "Envelope_zero = \<lparr>env_Payload = None, env_Signature = None, env_unknown = []\<rparr>"

lemma Envelope_of_msg [simp]: "Envelope_of (Envelope_msg x) = x"
  by (simp add: Envelope_of_def Envelope_msg_def getters of_msgs)

subsection \<open>Header\<close>

record Header =
  hdr_ChannelHeader :: "bytes option"
  hdr_SignatureHeader :: "bytes option"
  hdr_unknown :: bytes

definition Header_schema :: schema where
  "Header_schema = [(1, TBytes), (2, TBytes)]"

definition Header_msg :: "Header \<Rightarrow> pb_msg" where
  "Header_msg x =
     PMsg [(1, VBytes (hdr_ChannelHeader x)), (2, VBytes (hdr_SignatureHeader x))]
       (hdr_unknown x)"

definition Header_of :: "pb_msg \<Rightarrow> Header" where
  "Header_of m =
     \<lparr>hdr_ChannelHeader = get_bytes m 1, hdr_SignatureHeader = get_bytes m 2,
      hdr_unknown = unknown m\<rparr>"

definition Header_zero :: Header where
  "Header_zero = \<lparr>hdr_ChannelHeader = None, hdr_SignatureHeader = None, hdr_unknown = []\<rparr>"

lemma Header_of_msg [simp]: "Header_of (Header_msg x) = x"
  by (simp add: Header_of_def Header_msg_def getters of_msgs)

subsection \<open>Payload\<close>

record Payload =
  pl_Header :: "Header option"
  pl_Data :: "bytes option"
  pl_unknown :: bytes

definition Payload_schema :: schema where
  "Payload_schema = [(1, TMsg Header_schema), (2, TBytes)]"

definition Payload_msg :: "Payload \<Rightarrow> pb_msg" where
  "Payload_msg x =
     PMsg [(1, VMsg (map_option Header_msg (pl_Header x))), (2, VBytes (pl_Data x))]
       (pl_unknown x)"

definition Payload_of :: "pb_msg \<Rightarrow> Payload" where
  "Payload_of m =
     \<lparr>pl_Header = map_option Header_of (get_msg m 1), pl_Data = get_bytes m 2,
      pl_unknown = unknown m\<rparr>"

definition Payload_zero :: Payload where
  "Payload_zero = \<lparr>pl_Header = None, pl_Data = None, pl_unknown = []\<rparr>"

lemma Payload_of_msg [simp]: "Payload_of (Payload_msg x) = x"
  by (simp add: Payload_of_def Payload_msg_def getters of_msgs)

subsection \<open>ChannelHeader\<close>

record ChannelHeader =
  ch_Type :: int32
  ch_Version :: int32
  ch_Timestamp :: "Timestamp option"
  ch_ChannelId :: string
  ch_TxId :: string
  ch_Epoch :: uint64
  ch_Extension :: "bytes option"
  ch_TlsCertHash :: "bytes option"
  ch_unknown :: bytes

definition ChannelHeader_schema :: schema where
  "ChannelHeader_schema = [(1, TInt), (2, TInt), (3, TMsg Timestamp_schema), (4, TText), (5, TText), (6, TInt),
     (7, TBytes), (8, TBytes)]"

definition ChannelHeader_msg :: "ChannelHeader \<Rightarrow> pb_msg" where
  "ChannelHeader_msg x =
     PMsg [(1, VInt (scast (ch_Type x))), (2, VInt (scast (ch_Version x))),
       (3, VMsg (map_option Timestamp_msg (ch_Timestamp x))), (4, VStr (ch_ChannelId x)),
       (5, VStr (ch_TxId x)), (6, VInt (ch_Epoch x)), (7, VBytes (ch_Extension x)),
       (8, VBytes (ch_TlsCertHash x))]
       (ch_unknown x)"

definition ChannelHeader_of :: "pb_msg \<Rightarrow> ChannelHeader" where
  "ChannelHeader_of m =
     \<lparr>ch_Type = ucast (get_int m 1), ch_Version = ucast (get_int m 2),
      ch_Timestamp = map_option Timestamp_of (get_msg m 3), ch_ChannelId = get_str m 4,
      ch_TxId = get_str m 5, ch_Epoch = get_int m 6, ch_Extension = get_bytes m 7,
      ch_TlsCertHash = get_bytes m 8, ch_unknown = unknown m\<rparr>"

definition ChannelHeader_zero :: ChannelHeader where
  "ChannelHeader_zero = \<lparr>ch_Type = 0, ch_Version = 0, ch_Timestamp = None, ch_ChannelId = [], ch_TxId = [],
      ch_Epoch = 0, ch_Extension = None, ch_TlsCertHash = None, ch_unknown = []\<rparr>"

lemma ChannelHeader_of_msg [simp]: "ChannelHeader_of (ChannelHeader_msg x) = x"
  by (simp add: ChannelHeader_of_def ChannelHeader_msg_def getters of_msgs)

subsection \<open>SignatureHeader\<close>

record SignatureHeader =
  sh_Creator :: "bytes option"
  sh_Nonce :: "bytes option"
  sh_unknown :: bytes

definition SignatureHeader_schema :: schema where
  "SignatureHeader_schema = [(1, TBytes), (2, TBytes)]"

definition SignatureHeader_msg :: "SignatureHeader \<Rightarrow> pb_msg" where
  "SignatureHeader_msg x =
     PMsg [(1, VBytes (sh_Creator x)), (2, VBytes (sh_Nonce x))]
       (sh_unknown x)"

definition SignatureHeader_of :: "pb_msg \<Rightarrow> SignatureHeader" where
  "SignatureHeader_of m =
     \<lparr>sh_Creator = get_bytes m 1, sh_Nonce = get_bytes m 2, sh_unknown = unknown m\<rparr>"

definition SignatureHeader_zero :: SignatureHeader where
  "SignatureHeader_zero = \<lparr>sh_Creator = None, sh_Nonce = None, sh_unknown = []\<rparr>"

lemma SignatureHeader_of_msg [simp]: "SignatureHeader_of (SignatureHeader_msg x) = x"
  by (simp add: SignatureHeader_of_def SignatureHeader_msg_def getters of_msgs)

subsection \<open>MetadataSignature\<close>

record MetadataSignature =
  ms_SignatureHeader :: "bytes option"
  ms_Signature :: "bytes option"
  ms_unknown :: bytes

definition MetadataSignature_schema :: schema where
  "MetadataSignature_schema = [(1, TBytes), (2, TBytes)]"

definition MetadataSignature_msg :: "MetadataSignature \<Rightarrow> pb_msg" where
  "MetadataSignature_msg x =
     PMsg [(1, VBytes (ms_SignatureHeader x)), (2, VBytes (ms_Signature x))]
       (ms_unknown x)"

definition MetadataSignature_of :: "pb_msg \<Rightarrow> MetadataSignature" where
  "MetadataSignature_of m =
     \<lparr>ms_SignatureHeader = get_bytes m 1, ms_Signature = get_bytes m 2, ms_unknown = unknown m\<rparr>"

definition MetadataSignature_zero :: MetadataSignature where
  "MetadataSignature_zero = \<lparr>ms_SignatureHeader = None, ms_Signature = None, ms_unknown = []\<rparr>"

lemma MetadataSignature_of_msg [simp]: "MetadataSignature_of (MetadataSignature_msg x) = x"
  by (simp add: MetadataSignature_of_def MetadataSignature_msg_def getters of_msgs)

subsection \<open>Metadata\<close>

record Metadata =
  md_Value :: "bytes option"
  md_Signatures :: "MetadataSignature option list"
  md_unknown :: bytes

definition Metadata_schema :: schema where
  "Metadata_schema = [(1, TBytes), (2, TMsgs MetadataSignature_schema)]"

definition Metadata_msg :: "Metadata \<Rightarrow> pb_msg" where
  "Metadata_msg x =
     PMsg [(1, VBytes (md_Value x)),
       (2, VMsgs (map (map_option MetadataSignature_msg) (md_Signatures x)))]
       (md_unknown x)"

definition Metadata_of :: "pb_msg \<Rightarrow> Metadata" where
  "Metadata_of m =
     \<lparr>md_Value = get_bytes m 1,
      md_Signatures = map (map_option MetadataSignature_of) (get_msgs m 2), md_unknown = unknown m\<rparr>"

definition Metadata_zero :: Metadata where
  "Metadata_zero = \<lparr>md_Value = None, md_Signatures = [], md_unknown = []\<rparr>"

lemma Metadata_of_msg [simp]: "Metadata_of (Metadata_msg x) = x"
  by (simp add: Metadata_of_def Metadata_msg_def getters of_msgs)

subsection \<open>LastConfig\<close>

record LastConfig =
  lc_Index :: uint64
  lc_unknown :: bytes

definition LastConfig_schema :: schema where
  "LastConfig_schema = [(1, TInt)]"

definition LastConfig_msg :: "LastConfig \<Rightarrow> pb_msg" where
  "LastConfig_msg x =
     PMsg [(1, VInt (lc_Index x))]
       (lc_unknown x)"

definition LastConfig_of :: "pb_msg \<Rightarrow> LastConfig" where
  "LastConfig_of m =
     \<lparr>lc_Index = get_int m 1, lc_unknown = unknown m\<rparr>"

definition LastConfig_zero :: LastConfig where
  "LastConfig_zero = \<lparr>lc_Index = 0, lc_unknown = []\<rparr>"

lemma LastConfig_of_msg [simp]: "LastConfig_of (LastConfig_msg x) = x"
  by (simp add: LastConfig_of_def LastConfig_msg_def getters of_msgs)

subsection \<open>OrdererBlockMetadata\<close>

record OrdererBlockMetadata =
  obm_LastConfig :: "LastConfig option"
  obm_ConsenterMetadata :: "bytes option"
  obm_unknown :: bytes

definition OrdererBlockMetadata_schema :: schema where
  "OrdererBlockMetadata_schema = [(1, TMsg LastConfig_schema), (2, TBytes)]"

definition OrdererBlockMetadata_msg :: "OrdererBlockMetadata \<Rightarrow> pb_msg" where
  "OrdererBlockMetadata_msg x =
     PMsg [(1, VMsg (map_option LastConfig_msg (obm_LastConfig x))),
       (2, VBytes (obm_ConsenterMetadata x))]
       (obm_unknown x)"

definition OrdererBlockMetadata_of :: "pb_msg \<Rightarrow> OrdererBlockMetadata" where
  "OrdererBlockMetadata_of m =
     \<lparr>obm_LastConfig = map_option LastConfig_of (get_msg m 1),
      obm_ConsenterMetadata = get_bytes m 2, obm_unknown = unknown m\<rparr>"

definition OrdererBlockMetadata_zero :: OrdererBlockMetadata where
  "OrdererBlockMetadata_zero = \<lparr>obm_LastConfig = None, obm_ConsenterMetadata = None, obm_unknown = []\<rparr>"

lemma OrdererBlockMetadata_of_msg [simp]: "OrdererBlockMetadata_of (OrdererBlockMetadata_msg x) = x"
  by (simp add: OrdererBlockMetadata_of_def OrdererBlockMetadata_msg_def getters of_msgs)

subsection \<open>ConfigSignature\<close>

record ConfigSignature =
  cfs_SignatureHeader :: "bytes option"
  cfs_Signature :: "bytes option"
  cfs_unknown :: bytes

definition ConfigSignature_schema :: schema where
  "ConfigSignature_schema = [(1, TBytes), (2, TBytes)]"

definition ConfigSignature_msg :: "ConfigSignature \<Rightarrow> pb_msg" where
  "ConfigSignature_msg x =
     PMsg [(1, VBytes (cfs_SignatureHeader x)), (2, VBytes (cfs_Signature x))]
       (cfs_unknown x)"

definition ConfigSignature_of :: "pb_msg \<Rightarrow> ConfigSignature" where
  "ConfigSignature_of m =
     \<lparr>cfs_SignatureHeader = get_bytes m 1, cfs_Signature = get_bytes m 2, cfs_unknown = unknown m\<rparr>"

definition ConfigSignature_zero :: ConfigSignature where
  "ConfigSignature_zero = \<lparr>cfs_SignatureHeader = None, cfs_Signature = None, cfs_unknown = []\<rparr>"

lemma ConfigSignature_of_msg [simp]: "ConfigSignature_of (ConfigSignature_msg x) = x"
  by (simp add: ConfigSignature_of_def ConfigSignature_msg_def getters of_msgs)

subsection \<open>ConfigUpdateEnvelope\<close>

record ConfigUpdateEnvelope =
  cue_ConfigUpdate :: "bytes option"
  cue_Signatures :: "ConfigSignature option list"
  cue_unknown :: bytes

definition ConfigUpdateEnvelope_schema :: schema where
  "ConfigUpdateEnvelope_schema = [(1, TBytes), (2, TMsgs ConfigSignature_schema)]"

definition ConfigUpdateEnvelope_msg :: "ConfigUpdateEnvelope \<Rightarrow> pb_msg" where
  "ConfigUpdateEnvelope_msg x =
     PMsg [(1, VBytes (cue_ConfigUpdate x)),
       (2, VMsgs (map (map_option ConfigSignature_msg) (cue_Signatures x)))]
       (cue_unknown x)"

definition ConfigUpdateEnvelope_of :: "pb_msg \<Rightarrow> ConfigUpdateEnvelope" where
  "ConfigUpdateEnvelope_of m =
     \<lparr>cue_ConfigUpdate = get_bytes m 1,
      cue_Signatures = map (map_option ConfigSignature_of) (get_msgs m 2), cue_unknown = unknown m\<rparr>"

definition ConfigUpdateEnvelope_zero :: ConfigUpdateEnvelope where
  "ConfigUpdateEnvelope_zero = \<lparr>cue_ConfigUpdate = None, cue_Signatures = [], cue_unknown = []\<rparr>"

lemma ConfigUpdateEnvelope_of_msg [simp]: "ConfigUpdateEnvelope_of (ConfigUpdateEnvelope_msg x) = x"
  by (simp add: ConfigUpdateEnvelope_of_def ConfigUpdateEnvelope_msg_def getters of_msgs)

subsection \<open>SignedProposal\<close>

record SignedProposal =
  sp_ProposalBytes :: "bytes option"
  sp_Signature :: "bytes option"
  sp_unknown :: bytes

definition SignedProposal_schema :: schema where
  "SignedProposal_schema = [(1, TBytes), (2, TBytes)]"

definition SignedProposal_msg :: "SignedProposal \<Rightarrow> pb_msg" where
  "SignedProposal_msg x =
     PMsg [(1, VBytes (sp_ProposalBytes x)), (2, VBytes (sp_Signature x))]
       (sp_unknown x)"

definition SignedProposal_of :: "pb_msg \<Rightarrow> SignedProposal" where
  "SignedProposal_of m =
     \<lparr>sp_ProposalBytes = get_bytes m 1, sp_Signature = get_bytes m 2, sp_unknown = unknown m\<rparr>"

definition SignedProposal_zero :: SignedProposal where
  "SignedProposal_zero = \<lparr>sp_ProposalBytes = None, sp_Signature = None, sp_unknown = []\<rparr>"

lemma SignedProposal_of_msg [simp]: "SignedProposal_of (SignedProposal_msg x) = x"
  by (simp add: SignedProposal_of_def SignedProposal_msg_def getters of_msgs)

subsection \<open>Proposal\<close>

record Proposal =
  prop_Header :: "bytes option"
  prop_Payload :: "bytes option"
  prop_Extension :: "bytes option"
  prop_unknown :: bytes

definition Proposal_schema :: schema where
  "Proposal_schema = [(1, TBytes), (2, TBytes), (3, TBytes)]"

definition Proposal_msg :: "Proposal \<Rightarrow> pb_msg" where
  "Proposal_msg x =
     PMsg [(1, VBytes (prop_Header x)), (2, VBytes (prop_Payload x)), (3, VBytes (prop_Extension x))]
       (prop_unknown x)"

definition Proposal_of :: "pb_msg \<Rightarrow> Proposal" where
  "Proposal_of m =
     \<lparr>prop_Header = get_bytes m 1, prop_Payload = get_bytes m 2, prop_Extension = get_bytes m 3,
      prop_unknown = unknown m\<rparr>"

definition Proposal_zero :: Proposal where
  "Proposal_zero = \<lparr>prop_Header = None, prop_Payload = None, prop_Extension = None, prop_unknown = []\<rparr>"

lemma Proposal_of_msg [simp]: "Proposal_of (Proposal_msg x) = x"
  by (simp add: Proposal_of_def Proposal_msg_def getters of_msgs)

subsection \<open>ChaincodeID\<close>

record ChaincodeID =
  ccid_Path :: string
  ccid_Name :: string
  ccid_Version :: string
  ccid_unknown :: bytes

definition ChaincodeID_schema :: schema where
  "ChaincodeID_schema = [(1, TText), (2, TText), (3, TText)]"

definition ChaincodeID_msg :: "ChaincodeID \<Rightarrow> pb_msg" where
  "ChaincodeID_msg x =
     PMsg [(1, VStr (ccid_Path x)), (2, VStr (ccid_Name x)), (3, VStr (ccid_Version x))]
       (ccid_unknown x)"

definition ChaincodeID_of :: "pb_msg \<Rightarrow> ChaincodeID" where
  "ChaincodeID_of m =
     \<lparr>ccid_Path = get_str m 1, ccid_Name = get_str m 2, ccid_Version = get_str m 3,
      ccid_unknown = unknown m\<rparr>"

definition ChaincodeID_zero :: ChaincodeID where
  "ChaincodeID_zero = \<lparr>ccid_Path = [], ccid_Name = [], ccid_Version = [], ccid_unknown = []\<rparr>"

lemma ChaincodeID_of_msg [simp]: "ChaincodeID_of (ChaincodeID_msg x) = x"
  by (simp add: ChaincodeID_of_def ChaincodeID_msg_def getters of_msgs)

subsection \<open>ChaincodeHeaderExtension\<close>

record ChaincodeHeaderExtension =
  che_ChaincodeId :: "ChaincodeID option"
  che_unknown :: bytes

definition ChaincodeHeaderExtension_schema :: schema where
  "ChaincodeHeaderExtension_schema = [(2, TMsg ChaincodeID_schema)]"

definition ChaincodeHeaderExtension_msg :: "ChaincodeHeaderExtension \<Rightarrow> pb_msg" where
  "ChaincodeHeaderExtension_msg x =
     PMsg [(2, VMsg (map_option ChaincodeID_msg (che_ChaincodeId x)))]
       (che_unknown x)"

definition ChaincodeHeaderExtension_of :: "pb_msg \<Rightarrow> ChaincodeHeaderExtension" where
  "ChaincodeHeaderExtension_of m =
     \<lparr>che_ChaincodeId = map_option ChaincodeID_of (get_msg m 2), che_unknown = unknown m\<rparr>"

definition ChaincodeHeaderExtension_zero :: ChaincodeHeaderExtension where
  "ChaincodeHeaderExtension_zero = \<lparr>che_ChaincodeId = None, che_unknown = []\<rparr>"

lemma ChaincodeHeaderExtension_of_msg [simp]: "ChaincodeHeaderExtension_of (ChaincodeHeaderExtension_msg x) = x"
  by (simp add: ChaincodeHeaderExtension_of_def ChaincodeHeaderExtension_msg_def getters of_msgs)

subsection \<open>ChaincodeProposalPayload\<close>

record ChaincodeProposalPayload =
  cpp_Input :: "bytes option"
  cpp_TransientMap :: "bytes option gmap option"
  cpp_unknown :: bytes

definition ChaincodeProposalPayload_schema :: schema where
  "ChaincodeProposalPayload_schema = [(1, TBytes), (2, TMap)]"

definition ChaincodeProposalPayload_msg :: "ChaincodeProposalPayload \<Rightarrow> pb_msg" where
  "ChaincodeProposalPayload_msg x =
     PMsg [(1, VBytes (cpp_Input x)), (2, VMap (cpp_TransientMap x))]
       (cpp_unknown x)"

definition ChaincodeProposalPayload_of :: "pb_msg \<Rightarrow> ChaincodeProposalPayload" where
  "ChaincodeProposalPayload_of m =
     \<lparr>cpp_Input = get_bytes m 1, cpp_TransientMap = get_map m 2, cpp_unknown = unknown m\<rparr>"

definition ChaincodeProposalPayload_zero :: ChaincodeProposalPayload where
  "ChaincodeProposalPayload_zero = \<lparr>cpp_Input = None, cpp_TransientMap = None, cpp_unknown = []\<rparr>"

lemma ChaincodeProposalPayload_of_msg [simp]: "ChaincodeProposalPayload_of (ChaincodeProposalPayload_msg x) = x"
  by (simp add: ChaincodeProposalPayload_of_def ChaincodeProposalPayload_msg_def getters of_msgs)

subsection \<open>Response\<close>

record Response =
  resp_Status :: int32
  resp_Message :: string
  resp_Payload :: "bytes option"
  resp_unknown :: bytes

definition Response_schema :: schema where
  "Response_schema = [(1, TInt), (2, TText), (3, TBytes)]"

definition Response_msg :: "Response \<Rightarrow> pb_msg" where
  "Response_msg x =
     PMsg [(1, VInt (scast (resp_Status x))), (2, VStr (resp_Message x)), (3, VBytes (resp_Payload x))]
       (resp_unknown x)"

definition Response_of :: "pb_msg \<Rightarrow> Response" where
  "Response_of m =
     \<lparr>resp_Status = ucast (get_int m 1), resp_Message = get_str m 2, resp_Payload = get_bytes m 3,
      resp_unknown = unknown m\<rparr>"

definition Response_zero :: Response where
  "Response_zero = \<lparr>resp_Status = 0, resp_Message = [], resp_Payload = None, resp_unknown = []\<rparr>"

lemma Response_of_msg [simp]: "Response_of (Response_msg x) = x"
  by (simp add: Response_of_def Response_msg_def getters of_msgs)

subsection \<open>ChaincodeAction\<close>

record ChaincodeAction =
  ca_Results :: "bytes option"
  ca_Events :: "bytes option"
  ca_Response :: "Response option"
  ca_ChaincodeId :: "ChaincodeID option"
  ca_unknown :: bytes

definition ChaincodeAction_schema :: schema where
  "ChaincodeAction_schema = [(1, TBytes), (2, TBytes), (3, TMsg Response_schema), (4, TMsg ChaincodeID_schema)]"

definition ChaincodeAction_msg :: "ChaincodeAction \<Rightarrow> pb_msg" where
  "ChaincodeAction_msg x =
     PMsg [(1, VBytes (ca_Results x)), (2, VBytes (ca_Events x)),
       (3, VMsg (map_option Response_msg (ca_Response x))),
       (4, VMsg (map_option ChaincodeID_msg (ca_ChaincodeId x)))]
       (ca_unknown x)"

definition ChaincodeAction_of :: "pb_msg \<Rightarrow> ChaincodeAction" where
  "ChaincodeAction_of m =
     \<lparr>ca_Results = get_bytes m 1, ca_Events = get_bytes m 2,
      ca_Response = map_option Response_of (get_msg m 3),
      ca_ChaincodeId = map_option ChaincodeID_of (get_msg m 4), ca_unknown = unknown m\<rparr>"

definition ChaincodeAction_zero :: ChaincodeAction where
  "ChaincodeAction_zero = \<lparr>ca_Results = None, ca_Events = None, ca_Response = None, ca_ChaincodeId = None,
      ca_unknown = []\<rparr>"

lemma ChaincodeAction_of_msg [simp]: "ChaincodeAction_of (ChaincodeAction_msg x) = x"
  by (simp add: ChaincodeAction_of_def ChaincodeAction_msg_def getters of_msgs)

subsection \<open>Endorsement\<close>

record Endorsement =
  end_Endorser :: "bytes option"
  end_Signature :: "bytes option"
  end_unknown :: bytes

definition Endorsement_schema :: schema where
  "Endorsement_schema = [(1, TBytes), (2, TBytes)]"

definition Endorsement_msg :: "Endorsement \<Rightarrow> pb_msg" where
  "Endorsement_msg x =
     PMsg [(1, VBytes (end_Endorser x)), (2, VBytes (end_Signature x))]
       (end_unknown x)"

definition Endorsement_of :: "pb_msg \<Rightarrow> Endorsement" where
  "Endorsement_of m =
     \<lparr>end_Endorser = get_bytes m 1, end_Signature = get_bytes m 2, end_unknown = unknown m\<rparr>"

definition Endorsement_zero :: Endorsement where
  "Endorsement_zero = \<lparr>end_Endorser = None, end_Signature = None, end_unknown = []\<rparr>"

lemma Endorsement_of_msg [simp]: "Endorsement_of (Endorsement_msg x) = x"
  by (simp add: Endorsement_of_def Endorsement_msg_def getters of_msgs)

subsection \<open>ProposalResponse\<close>

record ProposalResponse =
  pr_Version :: int32
  pr_Timestamp :: "Timestamp option"
  pr_Response :: "Response option"
  pr_Payload :: "bytes option"
  pr_Endorsement :: "Endorsement option"
  pr_unknown :: bytes

definition ProposalResponse_schema :: schema where
  "ProposalResponse_schema = [(1, TInt), (2, TMsg Timestamp_schema), (4, TMsg Response_schema), (5, TBytes),
     (6, TMsg Endorsement_schema)]"

definition ProposalResponse_msg :: "ProposalResponse \<Rightarrow> pb_msg" where
  "ProposalResponse_msg x =
     PMsg [(1, VInt (scast (pr_Version x))), (2, VMsg (map_option Timestamp_msg (pr_Timestamp x))),
       (4, VMsg (map_option Response_msg (pr_Response x))), (5, VBytes (pr_Payload x)),
       (6, VMsg (map_option Endorsement_msg (pr_Endorsement x)))]
       (pr_unknown x)"

definition ProposalResponse_of :: "pb_msg \<Rightarrow> ProposalResponse" where
  "ProposalResponse_of m =
     \<lparr>pr_Version = ucast (get_int m 1), pr_Timestamp = map_option Timestamp_of (get_msg m 2),
      pr_Response = map_option Response_of (get_msg m 4), pr_Payload = get_bytes m 5,
      pr_Endorsement = map_option Endorsement_of (get_msg m 6), pr_unknown = unknown m\<rparr>"

definition ProposalResponse_zero :: ProposalResponse where
  "ProposalResponse_zero = \<lparr>pr_Version = 0, pr_Timestamp = None, pr_Response = None, pr_Payload = None,
      pr_Endorsement = None, pr_unknown = []\<rparr>"

lemma ProposalResponse_of_msg [simp]: "ProposalResponse_of (ProposalResponse_msg x) = x"
  by (simp add: ProposalResponse_of_def ProposalResponse_msg_def getters of_msgs)

subsection \<open>ProposalResponsePayload\<close>

record ProposalResponsePayload =
  prp_ProposalHash :: "bytes option"
  prp_Extension :: "bytes option"
  prp_unknown :: bytes

definition ProposalResponsePayload_schema :: schema where
  "ProposalResponsePayload_schema = [(1, TBytes), (2, TBytes)]"

definition ProposalResponsePayload_msg :: "ProposalResponsePayload \<Rightarrow> pb_msg" where
  "ProposalResponsePayload_msg x =
     PMsg [(1, VBytes (prp_ProposalHash x)), (2, VBytes (prp_Extension x))]
       (prp_unknown x)"

definition ProposalResponsePayload_of :: "pb_msg \<Rightarrow> ProposalResponsePayload" where
  "ProposalResponsePayload_of m =
     \<lparr>prp_ProposalHash = get_bytes m 1, prp_Extension = get_bytes m 2, prp_unknown = unknown m\<rparr>"

definition ProposalResponsePayload_zero :: ProposalResponsePayload where
  "ProposalResponsePayload_zero = \<lparr>prp_ProposalHash = None, prp_Extension = None, prp_unknown = []\<rparr>"

lemma ProposalResponsePayload_of_msg [simp]: "ProposalResponsePayload_of (ProposalResponsePayload_msg x) = x"
  by (simp add: ProposalResponsePayload_of_def ProposalResponsePayload_msg_def getters of_msgs)

subsection \<open>TransactionAction\<close>

record TransactionAction =
  ta_Header :: "bytes option"
  ta_Payload :: "bytes option"
  ta_unknown :: bytes

definition TransactionAction_schema :: schema where
  "TransactionAction_schema = [(1, TBytes), (2, TBytes)]"

definition TransactionAction_msg :: "TransactionAction \<Rightarrow> pb_msg" where
  "TransactionAction_msg x =
     PMsg [(1, VBytes (ta_Header x)), (2, VBytes (ta_Payload x))]
       (ta_unknown x)"

definition TransactionAction_of :: "pb_msg \<Rightarrow> TransactionAction" where
  "TransactionAction_of m =
     \<lparr>ta_Header = get_bytes m 1, ta_Payload = get_bytes m 2, ta_unknown = unknown m\<rparr>"

definition TransactionAction_zero :: TransactionAction where
  "TransactionAction_zero = \<lparr>ta_Header = None, ta_Payload = None, ta_unknown = []\<rparr>"

lemma TransactionAction_of_msg [simp]: "TransactionAction_of (TransactionAction_msg x) = x"
  by (simp add: TransactionAction_of_def TransactionAction_msg_def getters of_msgs)

subsection \<open>Transaction\<close>

record Transaction =
  tx_Actions :: "TransactionAction option list"
  tx_unknown :: bytes

definition Transaction_schema :: schema where
  "Transaction_schema = [(1, TMsgs TransactionAction_schema)]"

definition Transaction_msg :: "Transaction \<Rightarrow> pb_msg" where
  "Transaction_msg x =
     PMsg [(1, VMsgs (map (map_option TransactionAction_msg) (tx_Actions x)))]
       (tx_unknown x)"

definition Transaction_of :: "pb_msg \<Rightarrow> Transaction" where
  "Transaction_of m =
     \<lparr>tx_Actions = map (map_option TransactionAction_of) (get_msgs m 1), tx_unknown = unknown m\<rparr>"

definition Transaction_zero :: Transaction where
  "Transaction_zero = \<lparr>tx_Actions = [], tx_unknown = []\<rparr>"

lemma Transaction_of_msg [simp]: "Transaction_of (Transaction_msg x) = x"
  by (simp add: Transaction_of_def Transaction_msg_def getters of_msgs)

subsection \<open>ChaincodeEndorsedAction\<close>

record ChaincodeEndorsedAction =
  cea_ProposalResponsePayload :: "bytes option"
  cea_Endorsements :: "Endorsement option list"
  cea_unknown :: bytes

definition ChaincodeEndorsedAction_schema :: schema where
  "ChaincodeEndorsedAction_schema = [(1, TBytes), (2, TMsgs Endorsement_schema)]"

definition ChaincodeEndorsedAction_msg :: "ChaincodeEndorsedAction \<Rightarrow> pb_msg" where
  "ChaincodeEndorsedAction_msg x =
     PMsg [(1, VBytes (cea_ProposalResponsePayload x)),
       (2, VMsgs (map (map_option Endorsement_msg) (cea_Endorsements x)))]
       (cea_unknown x)"

definition ChaincodeEndorsedAction_of :: "pb_msg \<Rightarrow> ChaincodeEndorsedAction" where
  "ChaincodeEndorsedAction_of m =
     \<lparr>cea_ProposalResponsePayload = get_bytes m 1,
      cea_Endorsements = map (map_option Endorsement_of) (get_msgs m 2), cea_unknown = unknown m\<rparr>"

definition ChaincodeEndorsedAction_zero :: ChaincodeEndorsedAction where
  "ChaincodeEndorsedAction_zero = \<lparr>cea_ProposalResponsePayload = None, cea_Endorsements = [], cea_unknown = []\<rparr>"

lemma ChaincodeEndorsedAction_of_msg [simp]: "ChaincodeEndorsedAction_of (ChaincodeEndorsedAction_msg x) = x"
  by (simp add: ChaincodeEndorsedAction_of_def ChaincodeEndorsedAction_msg_def getters of_msgs)

subsection \<open>ChaincodeActionPayload\<close>

record ChaincodeActionPayload =
  cap_ChaincodeProposalPayload :: "bytes option"
  cap_Action :: "ChaincodeEndorsedAction option"
  cap_unknown :: bytes

definition ChaincodeActionPayload_schema :: schema where
  "ChaincodeActionPayload_schema = [(1, TBytes), (2, TMsg ChaincodeEndorsedAction_schema)]"

definition ChaincodeActionPayload_msg :: "ChaincodeActionPayload \<Rightarrow> pb_msg" where
  "ChaincodeActionPayload_msg x =
     PMsg [(1, VBytes (cap_ChaincodeProposalPayload x)),
       (2, VMsg (map_option ChaincodeEndorsedAction_msg (cap_Action x)))]
       (cap_unknown x)"

definition ChaincodeActionPayload_of :: "pb_msg \<Rightarrow> ChaincodeActionPayload" where
  "ChaincodeActionPayload_of m =
     \<lparr>cap_ChaincodeProposalPayload = get_bytes m 1,
      cap_Action = map_option ChaincodeEndorsedAction_of (get_msg m 2), cap_unknown = unknown m\<rparr>"

definition ChaincodeActionPayload_zero :: ChaincodeActionPayload where
  "ChaincodeActionPayload_zero = \<lparr>cap_ChaincodeProposalPayload = None, cap_Action = None, cap_unknown = []\<rparr>"

lemma ChaincodeActionPayload_of_msg [simp]: "ChaincodeActionPayload_of (ChaincodeActionPayload_msg x) = x"
  by (simp add: ChaincodeActionPayload_of_def ChaincodeActionPayload_msg_def getters of_msgs)

subsection \<open>ChaincodeInput\<close>

record ChaincodeInput =
  cci_Args :: "bytes option list"
  cci_Decorations :: "bytes option gmap option"
  cci_IsInit :: bool
  cci_unknown :: bytes

definition ChaincodeInput_schema :: schema where
  "ChaincodeInput_schema = [(1, TBlobs), (2, TMap), (3, TInt)]"

definition ChaincodeInput_msg :: "ChaincodeInput \<Rightarrow> pb_msg" where
  "ChaincodeInput_msg x =
     PMsg [(1, VBlobs (cci_Args x)), (2, VMap (cci_Decorations x)), (3, VInt (of_bool (cci_IsInit x)))]
       (cci_unknown x)"

definition ChaincodeInput_of :: "pb_msg \<Rightarrow> ChaincodeInput" where
  "ChaincodeInput_of m =
     \<lparr>cci_Args = get_blobs m 1, cci_Decorations = get_map m 2, cci_IsInit = get_int m 3 \<noteq> 0,
      cci_unknown = unknown m\<rparr>"

definition ChaincodeInput_zero :: ChaincodeInput where
  "ChaincodeInput_zero = \<lparr>cci_Args = [], cci_Decorations = None, cci_IsInit = False, cci_unknown = []\<rparr>"

lemma ChaincodeInput_of_msg [simp]: "ChaincodeInput_of (ChaincodeInput_msg x) = x"
  by (simp add: ChaincodeInput_of_def ChaincodeInput_msg_def getters of_msgs)

subsection \<open>ChaincodeSpec\<close>

record ChaincodeSpec =
  ccs_Type :: int32
  ccs_ChaincodeId :: "ChaincodeID option"
  ccs_Input :: "ChaincodeInput option"
  ccs_Timeout :: int32
  ccs_unknown :: bytes

definition ChaincodeSpec_schema :: schema where
  "ChaincodeSpec_schema = [(1, TInt), (2, TMsg ChaincodeID_schema), (3, TMsg ChaincodeInput_schema), (4, TInt)]"

definition ChaincodeSpec_msg :: "ChaincodeSpec \<Rightarrow> pb_msg" where
  "ChaincodeSpec_msg x =
     PMsg [(1, VInt (scast (ccs_Type x))), (2, VMsg (map_option ChaincodeID_msg (ccs_ChaincodeId x))),
       (3, VMsg (map_option ChaincodeInput_msg (ccs_Input x))), (4, VInt (scast (ccs_Timeout x)))]
       (ccs_unknown x)"

definition ChaincodeSpec_of :: "pb_msg \<Rightarrow> ChaincodeSpec" where
  "ChaincodeSpec_of m =
     \<lparr>ccs_Type = ucast (get_int m 1), ccs_ChaincodeId = map_option ChaincodeID_of (get_msg m 2),
      ccs_Input = map_option ChaincodeInput_of (get_msg m 3), ccs_Timeout = ucast (get_int m 4),
      ccs_unknown = unknown m\<rparr>"

definition ChaincodeSpec_zero :: ChaincodeSpec where
  "ChaincodeSpec_zero = \<lparr>ccs_Type = 0, ccs_ChaincodeId = None, ccs_Input = None, ccs_Timeout = 0, ccs_unknown = []\<rparr>"

lemma ChaincodeSpec_of_msg [simp]: "ChaincodeSpec_of (ChaincodeSpec_msg x) = x"
  by (simp add: ChaincodeSpec_of_def ChaincodeSpec_msg_def getters of_msgs)

subsection \<open>ChaincodeDeploymentSpec\<close>

record ChaincodeDeploymentSpec =
  cds_ChaincodeSpec :: "ChaincodeSpec option"
  cds_CodePackage :: "bytes option"
  cds_unknown :: bytes

definition ChaincodeDeploymentSpec_schema :: schema where
  "ChaincodeDeploymentSpec_schema = [(1, TMsg ChaincodeSpec_schema), (3, TBytes)]"

definition ChaincodeDeploymentSpec_msg :: "ChaincodeDeploymentSpec \<Rightarrow> pb_msg" where
  "ChaincodeDeploymentSpec_msg x =
     PMsg [(1, VMsg (map_option ChaincodeSpec_msg (cds_ChaincodeSpec x))),
       (3, VBytes (cds_CodePackage x))]
       (cds_unknown x)"

definition ChaincodeDeploymentSpec_of :: "pb_msg \<Rightarrow> ChaincodeDeploymentSpec" where
  "ChaincodeDeploymentSpec_of m =
     \<lparr>cds_ChaincodeSpec = map_option ChaincodeSpec_of (get_msg m 1),
      cds_CodePackage = get_bytes m 3, cds_unknown = unknown m\<rparr>"

definition ChaincodeDeploymentSpec_zero :: ChaincodeDeploymentSpec where
  "ChaincodeDeploymentSpec_zero = \<lparr>cds_ChaincodeSpec = None, cds_CodePackage = None, cds_unknown = []\<rparr>"

lemma ChaincodeDeploymentSpec_of_msg [simp]: "ChaincodeDeploymentSpec_of (ChaincodeDeploymentSpec_msg x) = x"
  by (simp add: ChaincodeDeploymentSpec_of_def ChaincodeDeploymentSpec_msg_def getters of_msgs)

subsection \<open>ChaincodeInvocationSpec\<close>

record ChaincodeInvocationSpec =
  cis_ChaincodeSpec :: "ChaincodeSpec option"
  cis_unknown :: bytes

definition ChaincodeInvocationSpec_schema :: schema where
  "ChaincodeInvocationSpec_schema = [(1, TMsg ChaincodeSpec_schema)]"

definition ChaincodeInvocationSpec_msg :: "ChaincodeInvocationSpec \<Rightarrow> pb_msg" where
  "ChaincodeInvocationSpec_msg x =
     PMsg [(1, VMsg (map_option ChaincodeSpec_msg (cis_ChaincodeSpec x)))]
       (cis_unknown x)"

definition ChaincodeInvocationSpec_of :: "pb_msg \<Rightarrow> ChaincodeInvocationSpec" where
  "ChaincodeInvocationSpec_of m =
     \<lparr>cis_ChaincodeSpec = map_option ChaincodeSpec_of (get_msg m 1), cis_unknown = unknown m\<rparr>"

definition ChaincodeInvocationSpec_zero :: ChaincodeInvocationSpec where
  "ChaincodeInvocationSpec_zero = \<lparr>cis_ChaincodeSpec = None, cis_unknown = []\<rparr>"

lemma ChaincodeInvocationSpec_of_msg [simp]: "ChaincodeInvocationSpec_of (ChaincodeInvocationSpec_msg x) = x"
  by (simp add: ChaincodeInvocationSpec_of_def ChaincodeInvocationSpec_msg_def getters of_msgs)

subsection \<open>ChaincodeEvent\<close>

record ChaincodeEvent =
  cev_ChaincodeId :: string
  cev_TxId :: string
  cev_EventName :: string
  cev_Payload :: "bytes option"
  cev_unknown :: bytes

definition ChaincodeEvent_schema :: schema where
  "ChaincodeEvent_schema = [(1, TText), (2, TText), (3, TText), (4, TBytes)]"

definition ChaincodeEvent_msg :: "ChaincodeEvent \<Rightarrow> pb_msg" where
  "ChaincodeEvent_msg x =
     PMsg [(1, VStr (cev_ChaincodeId x)), (2, VStr (cev_TxId x)), (3, VStr (cev_EventName x)),
       (4, VBytes (cev_Payload x))]
       (cev_unknown x)"

definition ChaincodeEvent_of :: "pb_msg \<Rightarrow> ChaincodeEvent" where
  "ChaincodeEvent_of m =
     \<lparr>cev_ChaincodeId = get_str m 1, cev_TxId = get_str m 2, cev_EventName = get_str m 3,
      cev_Payload = get_bytes m 4, cev_unknown = unknown m\<rparr>"

definition ChaincodeEvent_zero :: ChaincodeEvent where
  "ChaincodeEvent_zero = \<lparr>cev_ChaincodeId = [], cev_TxId = [], cev_EventName = [], cev_Payload = None, cev_unknown = []\<rparr>"

lemma ChaincodeEvent_of_msg [simp]: "ChaincodeEvent_of (ChaincodeEvent_msg x) = x"
  by (simp add: ChaincodeEvent_of_def ChaincodeEvent_msg_def getters of_msgs)

subsection \<open>SerializedIdentity\<close>

record SerializedIdentity =
  sid_Mspid :: string
  sid_IdBytes :: "bytes option"
  sid_unknown :: bytes

definition SerializedIdentity_schema :: schema where
  "SerializedIdentity_schema = [(1, TText), (2, TBytes)]"

definition SerializedIdentity_msg :: "SerializedIdentity \<Rightarrow> pb_msg" where
  "SerializedIdentity_msg x =
     PMsg [(1, VStr (sid_Mspid x)), (2, VBytes (sid_IdBytes x))]
       (sid_unknown x)"

definition SerializedIdentity_of :: "pb_msg \<Rightarrow> SerializedIdentity" where
  "SerializedIdentity_of m =
     \<lparr>sid_Mspid = get_str m 1, sid_IdBytes = get_bytes m 2, sid_unknown = unknown m\<rparr>"

definition SerializedIdentity_zero :: SerializedIdentity where
  "SerializedIdentity_zero = \<lparr>sid_Mspid = [], sid_IdBytes = None, sid_unknown = []\<rparr>"

lemma SerializedIdentity_of_msg [simp]: "SerializedIdentity_of (SerializedIdentity_msg x) = x"
  by (simp add: SerializedIdentity_of_def SerializedIdentity_msg_def getters of_msgs)

end
