(* ===== verification/Unmarshalers.thy ===== *)
theory Unmarshalers
  imports Proto_Messages
begin

text \<open>
  \<open>server/protoutil/unmarshalers.go\<close>: one function per message, each returning the message as
  far as it was read beside the wrapped error. The contract all of them share, that a message
  written by \<open>proto.Marshal\<close> is read back, is the locale \<open>proto_reader\<close>.
\<close>

section \<open>The contract of a reader\<close>

text \<open>\<open>proto.Unmarshal(encoded, &X\<lbrace>\<rbrace>)\<close>\<close>

definition unmarshal_as :: "schema \<Rightarrow> (pb_msg \<Rightarrow> 'a) \<Rightarrow> bytes option \<Rightarrow> 'a \<times> go_error option" where
  "unmarshal_as sch of_msg b = (case proto_Unmarshal sch b of (m, e) \<Rightarrow> (of_msg m, e))"

text \<open>\<open>x, err := ...; if err != nil \<lbrace> return nil, err \<rbrace>\<close>\<close>

definition checked :: "'a \<times> go_error option \<Rightarrow> go_error + 'a" where
  "checked r = (case r of (x, None) \<Rightarrow> Inr x | (_, Some e) \<Rightarrow> Inl e)"

lemma checked_simps [simp]:
  "checked (x, None) = Inr x"
  "checked (x, Some e) = Inl e"
  by (simp_all add: checked_def)

lemma checked_wrap: "checked (x, wrap_err msg e) = res_wrap msg (checked (x, e))"
  by (cases e) simp_all

locale proto_reader =
  fixes sch :: schema
    and to_msg :: "'a \<Rightarrow> pb_msg"
    and of_msg :: "pb_msg \<Rightarrow> 'a"
    and reader :: "bytes option \<Rightarrow> 'a \<times> go_error option"
  assumes of_to: "of_msg (to_msg x) = x"
    and reader_unmarshal: "snd (unmarshal_as sch of_msg b) = None \<Longrightarrow> reader b = unmarshal_as sch of_msg b"
begin

text \<open>Empty byte slices come back as nil, otherwise the message is the one that was written.\<close>

lemma read_written:
  assumes "order_free iter" "typed_msg sch (to_msg x)" "proto_Marshal iter (Some (to_msg x)) = Inr b"
    and "length b < 2 ^ 64"
  shows "reader (Some b) = (of_msg (norm_msg (to_msg x)), None)"
proof -
  have "unmarshal_as sch of_msg (Some b) = (of_msg (norm_msg (to_msg x)), None)"
    using marshal_unmarshal [OF assms] by (simp add: unmarshal_as_def)
  then show ?thesis using reader_unmarshal by simp
qed

lemma read_written_normal:
  assumes "order_free iter" "typed_msg sch (to_msg x)" "proto_Marshal iter (Some (to_msg x)) = Inr b"
    and "length b < 2 ^ 64" "norm_msg (to_msg x) = to_msg x"
  shows "checked (reader (Some b)) = Inr x"
  using read_written [OF assms(1-4)] by (simp add: assms(5) of_to)

end

section \<open>The unmarshalers\<close>

definition UnmarshalBlock :: "bytes option \<Rightarrow> Block \<times> go_error option" where
  "UnmarshalBlock encoded =
     (case unmarshal_as Block_schema Block_of encoded of (x, err) \<Rightarrow>
        (x, wrap_err ''error unmarshaling Block'' err))"

definition UnmarshalChaincodeDeploymentSpec :: "bytes option \<Rightarrow> ChaincodeDeploymentSpec \<times> go_error option" where
  "UnmarshalChaincodeDeploymentSpec encoded =
     (case unmarshal_as ChaincodeDeploymentSpec_schema ChaincodeDeploymentSpec_of encoded of (x, err) \<Rightarrow>
        (x, wrap_err ''error unmarshaling ChaincodeDeploymentSpec'' err))"

definition UnmarshalChaincodeInvocationSpec :: "bytes option \<Rightarrow> ChaincodeInvocationSpec \<times> go_error option" where
  "UnmarshalChaincodeInvocationSpec encoded =
     (case unmarshal_as ChaincodeInvocationSpec_schema ChaincodeInvocationSpec_of encoded of (x, err) \<Rightarrow>
        (x, wrap_err ''error unmarshaling ChaincodeInvocationSpec'' err))"

definition UnmarshalPayload :: "bytes option \<Rightarrow> Payload \<times> go_error option" where
  "UnmarshalPayload encoded =
     (case unmarshal_as Payload_schema Payload_of encoded of (x, err) \<Rightarrow>
        (x, wrap_err ''error unmarshaling Payload'' err))"

definition UnmarshalEnvelope :: "bytes option \<Rightarrow> Envelope \<times> go_error option" where
  "UnmarshalEnvelope encoded =
     (case unmarshal_as Envelope_schema Envelope_of encoded of (x, err) \<Rightarrow>
        (x, wrap_err ''error unmarshaling Envelope'' err))"

definition UnmarshalChannelHeader :: "bytes option \<Rightarrow> ChannelHeader \<times> go_error option" where
  "UnmarshalChannelHeader encoded =
     (case unmarshal_as ChannelHeader_schema ChannelHeader_of encoded of (x, err) \<Rightarrow>
        (x, wrap_err ''error unmarshaling ChannelHeader'' err))"

definition UnmarshalChaincodeID :: "bytes option \<Rightarrow> ChaincodeID \<times> go_error option" where
  "UnmarshalChaincodeID encoded =
     (case unmarshal_as ChaincodeID_schema ChaincodeID_of encoded of (x, err) \<Rightarrow>
        (x, wrap_err ''error unmarshaling ChaincodeID'' err))"

definition UnmarshalSignatureHeader :: "bytes option \<Rightarrow> SignatureHeader \<times> go_error option" where
  "UnmarshalSignatureHeader encoded =
     (case unmarshal_as SignatureHeader_schema SignatureHeader_of encoded of (x, err) \<Rightarrow>
        (x, wrap_err ''error unmarshaling SignatureHeader'' err))"

definition UnmarshalSerializedIdentity :: "bytes option \<Rightarrow> SerializedIdentity \<times> go_error option" where
  "UnmarshalSerializedIdentity encoded =
     (case unmarshal_as SerializedIdentity_schema SerializedIdentity_of encoded of (x, err) \<Rightarrow>
        (x, wrap_err ''error unmarshaling SerializedIdentity'' err))"

definition UnmarshalHeader :: "bytes option \<Rightarrow> Header \<times> go_error option" where
  "UnmarshalHeader encoded =
     (case unmarshal_as Header_schema Header_of encoded of (x, err) \<Rightarrow>
        (x, wrap_err ''error unmarshaling Header'' err))"

definition UnmarshalChaincodeHeaderExtension :: "bytes option \<Rightarrow> ChaincodeHeaderExtension \<times> go_error option" where
  "UnmarshalChaincodeHeaderExtension encoded =
     (case unmarshal_as ChaincodeHeaderExtension_schema ChaincodeHeaderExtension_of encoded of (x, err) \<Rightarrow>
        (x, wrap_err ''error unmarshaling ChaincodeHeaderExtension'' err))"

definition UnmarshalProposalResponse :: "bytes option \<Rightarrow> ProposalResponse \<times> go_error option" where
  "UnmarshalProposalResponse encoded =
     (case unmarshal_as ProposalResponse_schema ProposalResponse_of encoded of (x, err) \<Rightarrow>
        (x, wrap_err ''error unmarshaling ProposalResponse'' err))"

definition UnmarshalChaincodeAction :: "bytes option \<Rightarrow> ChaincodeAction \<times> go_error option" where
  "UnmarshalChaincodeAction encoded =
     (case unmarshal_as ChaincodeAction_schema ChaincodeAction_of encoded of (x, err) \<Rightarrow>
        (x, wrap_err ''error unmarshaling ChaincodeAction'' err))"

definition UnmarshalResponse :: "bytes option \<Rightarrow> Response \<times> go_error option" where
  "UnmarshalResponse encoded =
     (case unmarshal_as Response_schema Response_of encoded of (x, err) \<Rightarrow>
        (x, wrap_err ''error unmarshaling Response'' err))"

definition UnmarshalChaincodeEvents :: "bytes option \<Rightarrow> ChaincodeEvent \<times> go_error option" where
  "UnmarshalChaincodeEvents encoded =
     (case unmarshal_as ChaincodeEvent_schema ChaincodeEvent_of encoded of (x, err) \<Rightarrow>
        (x, wrap_err ''error unmarshaling ChaicnodeEvent'' err))"

definition UnmarshalProposalResponsePayload :: "bytes option \<Rightarrow> ProposalResponsePayload \<times> go_error option" where
  "UnmarshalProposalResponsePayload encoded =
     (case unmarshal_as ProposalResponsePayload_schema ProposalResponsePayload_of encoded of (x, err) \<Rightarrow>
        (x, wrap_err ''error unmarshaling ProposalResponsePayload'' err))"

definition UnmarshalProposal :: "bytes option \<Rightarrow> Proposal \<times> go_error option" where
  "UnmarshalProposal encoded =
     (case unmarshal_as Proposal_schema Proposal_of encoded of (x, err) \<Rightarrow>
        (x, wrap_err ''error unmarshaling Proposal'' err))"

definition UnmarshalTransaction :: "bytes option \<Rightarrow> Transaction \<times> go_error option" where
  "UnmarshalTransaction encoded =
     (case unmarshal_as Transaction_schema Transaction_of encoded of (x, err) \<Rightarrow>
        (x, wrap_err ''error unmarshaling Transaction'' err))"

definition UnmarshalChaincodeActionPayload :: "bytes option \<Rightarrow> ChaincodeActionPayload \<times> go_error option" where
  "UnmarshalChaincodeActionPayload encoded =
     (case unmarshal_as ChaincodeActionPayload_schema ChaincodeActionPayload_of encoded of (x, err) \<Rightarrow>
        (x, wrap_err ''error unmarshaling ChaincodeActionPayload'' err))"

definition UnmarshalChaincodeProposalPayload :: "bytes option \<Rightarrow> ChaincodeProposalPayload \<times> go_error option" where
  "UnmarshalChaincodeProposalPayload encoded =
     (case unmarshal_as ChaincodeProposalPayload_schema ChaincodeProposalPayload_of encoded of (x, err) \<Rightarrow>
        (x, wrap_err ''error unmarshaling ChaincodeProposalPayload'' err))"

definition UnmarshalPayloadOrPanic :: "bytes option \<Rightarrow> Payload outcome" where
  "UnmarshalPayloadOrPanic encoded = or_panic (checked (UnmarshalPayload encoded))"

definition UnmarshalEnvelopeOrPanic :: "bytes option \<Rightarrow> Envelope outcome" where
  "UnmarshalEnvelopeOrPanic encoded = or_panic (checked (UnmarshalEnvelope encoded))"

definition UnmarshalBlockOrPanic :: "bytes option \<Rightarrow> Block outcome" where
  "UnmarshalBlockOrPanic encoded = or_panic (checked (UnmarshalBlock encoded))"

definition UnmarshalChannelHeaderOrPanic :: "bytes option \<Rightarrow> ChannelHeader outcome" where
  "UnmarshalChannelHeaderOrPanic encoded = or_panic (checked (UnmarshalChannelHeader encoded))"

definition UnmarshalSignatureHeaderOrPanic :: "bytes option \<Rightarrow> SignatureHeader outcome" where
  "UnmarshalSignatureHeaderOrPanic encoded = or_panic (checked (UnmarshalSignatureHeader encoded))"

lemmas unmarshaler_defs =
  UnmarshalBlock_def UnmarshalChaincodeDeploymentSpec_def UnmarshalChaincodeInvocationSpec_def
  UnmarshalPayload_def UnmarshalEnvelope_def UnmarshalChannelHeader_def
  UnmarshalChaincodeID_def UnmarshalSignatureHeader_def UnmarshalSerializedIdentity_def
  UnmarshalHeader_def UnmarshalChaincodeHeaderExtension_def UnmarshalProposalResponse_def
  UnmarshalChaincodeAction_def UnmarshalResponse_def UnmarshalChaincodeEvents_def
  UnmarshalProposalResponsePayload_def UnmarshalProposal_def UnmarshalTransaction_def
  UnmarshalChaincodeActionPayload_def UnmarshalChaincodeProposalPayload_def

section \<open>Every unmarshaler meets the contract\<close>

lemma reader_case:
  "snd (unmarshal_as sch f b) = None \<Longrightarrow>
   (case unmarshal_as sch f b of (x, err) \<Rightarrow> (x, wrap_err msg err)) = unmarshal_as sch f b"
  by (simp add: case_prod_beta prod_eq_iff)

interpretation Block_reader: proto_reader Block_schema Block_msg Block_of UnmarshalBlock
  by unfold_locales (simp_all add: UnmarshalBlock_def reader_case)

interpretation ChaincodeDeploymentSpec_reader: proto_reader ChaincodeDeploymentSpec_schema ChaincodeDeploymentSpec_msg ChaincodeDeploymentSpec_of UnmarshalChaincodeDeploymentSpec
  by unfold_locales (simp_all add: UnmarshalChaincodeDeploymentSpec_def reader_case)

interpretation ChaincodeInvocationSpec_reader: proto_reader ChaincodeInvocationSpec_schema ChaincodeInvocationSpec_msg ChaincodeInvocationSpec_of UnmarshalChaincodeInvocationSpec
  by unfold_locales (simp_all add: UnmarshalChaincodeInvocationSpec_def reader_case)

interpretation Payload_reader: proto_reader Payload_schema Payload_msg Payload_of UnmarshalPayload
  by unfold_locales (simp_all add: UnmarshalPayload_def reader_case)

interpretation Envelope_reader: proto_reader Envelope_schema Envelope_msg Envelope_of UnmarshalEnvelope
  by unfold_locales (simp_all add: UnmarshalEnvelope_def reader_case)

interpretation ChannelHeader_reader: proto_reader ChannelHeader_schema ChannelHeader_msg ChannelHeader_of UnmarshalChannelHeader
  by unfold_locales (simp_all add: UnmarshalChannelHeader_def reader_case)

interpretation ChaincodeID_reader: proto_reader ChaincodeID_schema ChaincodeID_msg ChaincodeID_of UnmarshalChaincodeID
  by unfold_locales (simp_all add: UnmarshalChaincodeID_def reader_case)

interpretation SignatureHeader_reader: proto_reader SignatureHeader_schema SignatureHeader_msg SignatureHeader_of UnmarshalSignatureHeader
  by unfold_locales (simp_all add: UnmarshalSignatureHeader_def reader_case)

interpretation SerializedIdentity_reader: proto_reader SerializedIdentity_schema SerializedIdentity_msg SerializedIdentity_of UnmarshalSerializedIdentity
  by unfold_locales (simp_all add: UnmarshalSerializedIdentity_def reader_case)

interpretation Header_reader: proto_reader Header_schema Header_msg Header_of UnmarshalHeader
  by unfold_locales (simp_all add: UnmarshalHeader_def reader_case)

interpretation ChaincodeHeaderExtension_reader: proto_reader ChaincodeHeaderExtension_schema ChaincodeHeaderExtension_msg ChaincodeHeaderExtension_of UnmarshalChaincodeHeaderExtension
  by unfold_locales (simp_all add: UnmarshalChaincodeHeaderExtension_def reader_case)

interpretation ProposalResponse_reader: proto_reader ProposalResponse_schema ProposalResponse_msg ProposalResponse_of UnmarshalProposalResponse
  by unfold_locales (simp_all add: UnmarshalProposalResponse_def reader_case)

interpretation ChaincodeAction_reader: proto_reader ChaincodeAction_schema ChaincodeAction_msg ChaincodeAction_of UnmarshalChaincodeAction
  by unfold_locales (simp_all add: UnmarshalChaincodeAction_def reader_case)

interpretation Response_reader: proto_reader Response_schema Response_msg Response_of UnmarshalResponse
  by unfold_locales (simp_all add: UnmarshalResponse_def reader_case)

interpretation ChaincodeEvents_reader: proto_reader ChaincodeEvent_schema ChaincodeEvent_msg ChaincodeEvent_of UnmarshalChaincodeEvents
  by unfold_locales (simp_all add: UnmarshalChaincodeEvents_def reader_case)

interpretation ProposalResponsePayload_reader: proto_reader ProposalResponsePayload_schema ProposalResponsePayload_msg ProposalResponsePayload_of UnmarshalProposalResponsePayload
  by unfold_locales (simp_all add: UnmarshalProposalResponsePayload_def reader_case)

interpretation Proposal_reader: proto_reader Proposal_schema Proposal_msg Proposal_of UnmarshalProposal
  by unfold_locales (simp_all add: UnmarshalProposal_def reader_case)

interpretation Transaction_reader: proto_reader Transaction_schema Transaction_msg Transaction_of UnmarshalTransaction
  by unfold_locales (simp_all add: UnmarshalTransaction_def reader_case)

interpretation ChaincodeActionPayload_reader: proto_reader ChaincodeActionPayload_schema ChaincodeActionPayload_msg ChaincodeActionPayload_of UnmarshalChaincodeActionPayload
  by unfold_locales (simp_all add: UnmarshalChaincodeActionPayload_def reader_case)

interpretation ChaincodeProposalPayload_reader: proto_reader ChaincodeProposalPayload_schema ChaincodeProposalPayload_msg ChaincodeProposalPayload_of UnmarshalChaincodeProposalPayload
  by unfold_locales (simp_all add: UnmarshalChaincodeProposalPayload_def reader_case)

end
