(* ===== verification/Message_Facts.thy ===== *)
theory Message_Facts
  imports Unmarshalers
begin

text \<open>
  Facts about the messages that travel between client, endorser and committer: when a message
  belongs to its schema (\<open>typed_simps\<close>), what reading it back makes of it (\<open>norm_simps\<close>: nil for
  empty slices), and that the parts of a message are never longer than the message.
\<close>

named_theorems typed_simps \<open>when a message belongs to its schema\<close>
named_theorems norm_simps \<open>a message after it was written and read\<close>

section \<open>Empty slices come back as nil\<close>

definition nil_if_empty :: "bytes option \<Rightarrow> bytes option" where
  "nil_if_empty b = (if slice_bytes b = [] then None else b)"

lemma slice_nil_if_empty [simp]: "slice_bytes (nil_if_empty b) = slice_bytes b"
  by (simp add: nil_if_empty_def)

lemma nil_if_empty_idem [simp]: "nil_if_empty (nil_if_empty b) = nil_if_empty b"
  by (simp add: nil_if_empty_def)

lemma norm_val_bytes: "norm_val (VBytes b) = VBytes (nil_if_empty b)"
  by (simp add: nil_if_empty_def)

lemma norm_val_msgs: "norm_msgs (map (map_option f) ms) = map (map_option (\<lambda>y. norm_msg (f y))) ms"
  by (induction ms) (auto split: option.split)

lemma typed_msgs_all: "typed_msgs s (map (map_option f) ms) \<longleftrightarrow> list_all (pred_option (\<lambda>y. typed_msg s (f y))) ms"
  by (induction ms) (auto split: option.split)

lemma slice_entries: "(case m of None \<Rightarrow> [] | Some es \<Rightarrow> es) = slice_bytes m"
  by (simp add: slice_bytes_def)

lemma typed_opt: "case_option True (P \<circ> f) m = pred_option (\<lambda>y. P (f y)) m"
  by (cases m) simp_all

lemma norm_opt:
  "map_option g (case_option None ((\<lambda>x. Some (norm_msg x)) \<circ> f) m) = map_option (\<lambda>y. g (norm_msg (f y))) m"
  by (cases m) simp_all

lemmas norm_aux = norm_val_bytes norm_val_msgs norm_opt option.map_comp comp_def

lemmas typed_aux = typed_msgs_all slice_entries typed_opt

text \<open>Reading nil and reading an empty slice is the same.\<close>

lemma unmarshal_nil_if_empty: "unmarshal_as sch f (nil_if_empty b) = unmarshal_as sch f b"
  by (simp add: unmarshal_as_def proto_Unmarshal_def)

section \<open>The parts of a message are no longer than the message\<close>

lemma delimited_bound: "length b \<le> length (delimited n b)"
  by (simp add: delimited_def)

lemma marshal_fields_part:
  "marshal_fields iter fs = Inr (b, bad) \<Longrightarrow> (n, v) \<in> set fs \<Longrightarrow>
   \<exists>c bad'. marshal_val iter n v = Inr (c, bad') \<and> length c \<le> length b"
proof (induction fs arbitrary: b bad)
  case (Cons e fs)
  obtain k w where e: "e = (k, w)" by (cases e)
  obtain c1 bad1 where c1: "marshal_val iter k w = Inr (c1, bad1)"
    using Cons.prems(1) e by (auto split: sum.splits)
  obtain c2 bad2 where c2: "marshal_fields iter fs = Inr (c2, bad2)"
    using Cons.prems(1) e c1 by (auto split: sum.splits)
  have b: "b = c1 @ c2" using Cons.prems(1) e c1 c2 by simp
  show ?case using Cons.IH [OF c2] Cons.prems(2) e b c1 by fastforce
qed simp

lemma marshal_part:
  assumes "proto_Marshal iter (Some (PMsg fs u)) = Inr b" "(n, v) \<in> set fs"
  obtains c bad where "marshal_val iter n v = Inr (c, bad)" "length c \<le> length b"
proof -
  obtain b1 bad1 where "marshal_fields iter fs = Inr (b1, bad1)" "b = b1 @ u"
    using assms(1) by (auto simp: proto_Marshal_def split: sum.splits if_splits)
  with marshal_fields_part [OF this(1) assms(2)] that show ?thesis by fastforce
qed

lemma marshal_bytes_part:
  assumes "proto_Marshal iter (Some (PMsg fs u)) = Inr b" "(n, VBytes x) \<in> set fs"
  shows "length (slice_bytes x) \<le> length b"
proof -
  obtain c bad where c: "marshal_val iter n (VBytes x) = Inr (c, bad)" "length c \<le> length b"
    by (rule marshal_part [OF assms])
  show ?thesis
  proof (cases "slice_bytes x = []")
    case False
    then have "c = delimited n (slice_bytes x)" using c(1) by simp
    then show ?thesis using delimited_bound [of "slice_bytes x" n] c(2) le_trans by metis
  qed simp
qed

lemma marshal_fields_utf8:
  "marshal_fields iter fs = Inr (c, bad) \<Longrightarrow> (n, VStr x) \<in> set fs \<Longrightarrow> valid_utf8 x \<or> bad"
proof (induction fs arbitrary: c bad)
  case (Cons e fs)
  obtain k w where e: "e = (k, w)" by (cases e)
  obtain c1 bad1 where c1: "marshal_val iter k w = Inr (c1, bad1)"
    using Cons.prems(1) e by (auto split: sum.splits)
  obtain c2 bad2 where c2: "marshal_fields iter fs = Inr (c2, bad2)"
    using Cons.prems(1) e c1 by (auto split: sum.splits)
  have bad: "bad = (bad1 \<or> bad2)" using Cons.prems(1) e c1 c2 by simp
  show ?case
  proof (cases "(n, VStr x) \<in> set fs")
    case True
    then show ?thesis using Cons.IH [OF c2] bad by blast
  next
    case False
    then have "w = VStr x" using Cons.prems(2) e by simp
    then show ?thesis using c1 bad by auto
  qed
qed simp

lemma marshal_utf8_part:
  assumes "proto_Marshal iter (Some (PMsg fs u)) = Inr b" "(n, VStr x) \<in> set fs"
  shows "valid_utf8 x"
proof -
  obtain b1 where "marshal_fields iter fs = Inr (b1, False)"
    using assms(1) by (auto simp: proto_Marshal_def split: sum.splits if_splits)
  from marshal_fields_utf8 [OF this assms(2)] show ?thesis by simp
qed

section \<open>The size of a serialised message\<close>

lemma encodeVarint_length: "length (encodeVarint x) \<le> x + 1"
proof (induction x rule: encodeVarint.induct)
  case (1 x)
  show ?case
  proof (cases "x < 128")
    case False
    then have "length (encodeVarint (x div 128)) \<le> x div 128 + 1" by (rule 1)
    moreover have "x div 128 + 2 \<le> x + 1" using False by linarith
    ultimately show ?thesis using False by (simp add: encodeVarint.simps [of x])
  qed (simp add: encodeVarint.simps [of x])
qed

lemma delimited_length_bound: "length (delimited n b) \<le> 8 * n + 2 * length b + 4"
  using encodeVarint_length [of "8 * n + 2"] encodeVarint_length [of "length b"] by (simp add: delimited_def)

lemma sum_list_mset: "mset xs = mset ys \<Longrightarrow> (\<Sum>x\<leftarrow>xs. f x) = (\<Sum>x\<leftarrow>ys. f x :: nat)"
  by (metis mset_map sum_mset_sum_list)

text \<open>A generous bound on the size of a serialised message.\<close>

fun msg_bound :: "pb_msg \<Rightarrow> nat"
  and fields_bound :: "(nat \<times> pb_val) list \<Rightarrow> nat"
  and val_bound :: "nat \<Rightarrow> pb_val \<Rightarrow> nat"
  and msgs_bound :: "nat \<Rightarrow> pb_msg option list \<Rightarrow> nat" where
  "msg_bound (PMsg fs u) = fields_bound fs + length u"
| "fields_bound [] = 0"
| "fields_bound ((n, v) # fs) = val_bound n v + fields_bound fs"
| "val_bound n (VInt w) = 8 * n + unat w + 2"
| "val_bound n (VStr s) = 8 * n + 2 * length s + 4"
| "val_bound n (VBytes b) = 8 * n + 2 * length (slice_bytes b) + 4"
| "val_bound n (VBlobs bs) = (\<Sum>b\<leftarrow>bs. 8 * n + 2 * length (slice_bytes b) + 4)"
| "val_bound n (VMap m) =
     (\<Sum>e\<leftarrow>slice_bytes m. 8 * n + 2 * (28 + 2 * length (fst e) + 2 * length (slice_bytes (snd e))) + 20)"
| "val_bound n (VMsg m) = (case m of None \<Rightarrow> 0 | Some x \<Rightarrow> 8 * n + 2 * msg_bound x + 4)"
| "val_bound n (VMsgs ms) = msgs_bound n ms"
| "msgs_bound n [] = 0"
| "msgs_bound n (m # ms) = (case m of None \<Rightarrow> 0 | Some x \<Rightarrow> 8 * n + 2 * msg_bound x + 4) + msgs_bound n ms"

lemma map_entry_bound: "length (map_entry_bytes k v) \<le> 32 + 2 * length k + 2 * length (slice_bytes v)"
proof (cases v)
  case None
  then show ?thesis using delimited_length_bound [of 1 k] by (simp add: map_entry_bytes_def)
next
  case (Some b)
  then show ?thesis
    using delimited_length_bound [of 1 k] delimited_length_bound [of 2 b] by (simp add: map_entry_bytes_def)
qed

lemma entries_bound:
  "length (concat (map (\<lambda>(k, v). delimited n (map_entry_bytes k v)) es)) \<le>
   (\<Sum>e\<leftarrow>es. 8 * n + 2 * (28 + 2 * length (fst e) + 2 * length (slice_bytes (snd e))) + 20)"
proof (induction es)
  case (Cons e es)
  then show ?case
    using delimited_length_bound [of n "map_entry_bytes (fst e) (snd e)"] map_entry_bound [of "fst e" "snd e"]
    by (simp add: case_prod_beta)
qed simp

lemma blobs_bound:
  "length (concat (map (\<lambda>b. delimited n (slice_bytes b)) bs)) \<le> (\<Sum>b\<leftarrow>bs. 8 * n + 2 * length (slice_bytes b) + 4)"
proof (induction bs)
  case (Cons b bs)
  then show ?case using delimited_length_bound [of n "slice_bytes b"] by simp
qed simp

lemma marshal_bound_all:
  assumes iter: "order_free iter"
  shows "marshal iter m = Inr b \<Longrightarrow> length b \<le> msg_bound m"
    and "marshal_fields iter fs = Inr (b, bad) \<Longrightarrow> length b \<le> fields_bound fs"
    and "marshal_val iter n v = Inr (b, bad) \<Longrightarrow> length b \<le> val_bound n v"
    and "marshal_msgs iter n ms later = Inr b \<Longrightarrow> length b \<le> msgs_bound n ms"
proof (induction m and fs and n v and n ms arbitrary: b and b bad and b bad and b later
    rule: msg_bound_fields_bound_val_bound_msgs_bound.induct)
  case (1 fs u)
  then show ?case by (fastforce split: sum.splits if_splits)
next
  case (3 n v fs)
  then show ?case by (fastforce split: sum.splits)
next
  case (4 n w)
  then show ?case
    using encodeVarint_length [of "8 * n"] encodeVarint_length [of "unat w"] by (cases "w = 0") auto
next
  case (5 n s)
  then have "b = (if s = [] then [] else delimited n s)" by simp
  then show ?case using delimited_length_bound [of n s] by (cases "s = []") simp_all
next
  case (6 n s)
  then have "b = (if slice_bytes s = [] then [] else delimited n (slice_bytes s))" by simp
  then show ?case using delimited_length_bound [of n "slice_bytes s"] by (cases "slice_bytes s = []") simp_all
next
  case (7 n bs)
  then have "b = concat (map (\<lambda>b. delimited n (slice_bytes b)) bs)" by simp
  then show ?case using blobs_bound [of n bs] by simp
next
  case (8 n m)
  show ?case
  proof (cases m)
    case (Some es)
    let ?f = "\<lambda>e :: string \<times> bytes option. 8 * n + 2 * (28 + 2 * length (fst e) + 2 * length (slice_bytes (snd e))) + 20"
    have sums: "(\<Sum>e\<leftarrow>iter es. ?f e) = (\<Sum>e\<leftarrow>es. ?f e)"
      using iter by (intro sum_list_mset) (simp add: order_free_def)
    have b: "b = concat (map (\<lambda>(k, v). delimited n (map_entry_bytes k v)) (iter es))"
      using 8 [unfolded Some] by simp
    have "length b \<le> (\<Sum>e\<leftarrow>es. ?f e)"
      unfolding b sums [symmetric] by (rule entries_bound)
    then show ?thesis by (simp only: Some val_bound.simps slice_bytes_simps)
  qed (use 8 in simp)
next
  case (9 n m)
  show ?case
  proof (cases m)
    case (Some x)
    then obtain c where "marshal iter x = Inr c" "b = delimited n c" using 9(2) by (auto split: sum.splits)
    then show ?thesis using 9(1) [OF Some, of c] delimited_length_bound [of n c] Some by simp
  qed (use 9(2) in simp)
next
  case (12 n m ms)
  show ?case
  proof (cases m)
    case (Some x)
    show ?thesis
    proof (cases "marshal iter x")
      case (Inl e)
      then show ?thesis using 12(3) Some by (auto simp: marshal_msgs_later split: if_splits option.splits)
    next
      case (Inr c)
      then obtain d where d: "marshal_msgs iter n ms later = Inr d" "b = delimited n c @ d"
        using 12(3) Some by (auto split: sum.splits)
      have "length c \<le> msg_bound x" "length d \<le> msgs_bound n ms"
        using 12(1) [OF Some Inr] 12(2) [OF d(1)] by simp_all
      then show ?thesis using delimited_length_bound [of n c] Some d(2) by simp
    qed
  qed (use 12(3) in simp)
next
  case (10 n ms)
  then show ?case by (cases "marshal_msgs iter n ms None") auto
qed (auto split: option.splits)

lemma marshal_bound: "order_free iter \<Longrightarrow> proto_Marshal iter (Some m) = Inr b \<Longrightarrow> length b \<le> msg_bound m"
  by (simp add: proto_Marshal_def marshal_bound_all(1))
section \<open>Messages and their schemas\<close>

lemma typed_Timestamp [typed_simps]:
  "typed_msg Timestamp_schema (Timestamp_msg x) \<longleftrightarrow>
     ts_unknown x = []"
  by (simp add: Timestamp_schema_def Timestamp_msg_def schema_ok_def tag_ok_def typed_aux)

lemma norm_Timestamp [norm_simps]: "Timestamp_of (norm_msg (Timestamp_msg x)) = x"
  by (cases x) (simp add: Timestamp_of_def Timestamp_msg_def getters)

lemma typed_Header [typed_simps]:
  "typed_msg Header_schema (Header_msg x) \<longleftrightarrow>
     hdr_unknown x = []"
  by (simp add: Header_schema_def Header_msg_def schema_ok_def tag_ok_def typed_aux)

lemma norm_Header [norm_simps]:
  "Header_of (norm_msg (Header_msg x)) =
     x\<lparr>hdr_ChannelHeader := nil_if_empty (hdr_ChannelHeader x),
       hdr_SignatureHeader := nil_if_empty (hdr_SignatureHeader x)\<rparr>"
  by (cases x) (simp add: Header_of_def Header_msg_def getters norm_aux del: norm_val.simps(3))

lemma typed_ChannelHeader [typed_simps]:
  "typed_msg ChannelHeader_schema (ChannelHeader_msg x) \<longleftrightarrow>
     ch_unknown x = [] \<and>
     pred_option (\<lambda>y. typed_msg Timestamp_schema (Timestamp_msg y)) (ch_Timestamp x)"
  by (simp add: ChannelHeader_schema_def ChannelHeader_msg_def schema_ok_def tag_ok_def typed_aux)

lemma norm_ChannelHeader [norm_simps]:
  "ChannelHeader_of (norm_msg (ChannelHeader_msg x)) =
     x\<lparr>ch_Timestamp := map_option (\<lambda>y. Timestamp_of (norm_msg (Timestamp_msg y))) (ch_Timestamp x),
       ch_Extension := nil_if_empty (ch_Extension x),
       ch_TlsCertHash := nil_if_empty (ch_TlsCertHash x)\<rparr>"
  by (cases x) (simp add: ChannelHeader_of_def ChannelHeader_msg_def getters norm_aux del: norm_val.simps(3))

lemma typed_SignatureHeader [typed_simps]:
  "typed_msg SignatureHeader_schema (SignatureHeader_msg x) \<longleftrightarrow>
     sh_unknown x = []"
  by (simp add: SignatureHeader_schema_def SignatureHeader_msg_def schema_ok_def tag_ok_def typed_aux)

lemma norm_SignatureHeader [norm_simps]:
  "SignatureHeader_of (norm_msg (SignatureHeader_msg x)) =
     x\<lparr>sh_Creator := nil_if_empty (sh_Creator x), sh_Nonce := nil_if_empty (sh_Nonce x)\<rparr>"
  by (cases x) (simp add: SignatureHeader_of_def SignatureHeader_msg_def getters norm_aux del: norm_val.simps(3))

lemma typed_Payload [typed_simps]:
  "typed_msg Payload_schema (Payload_msg x) \<longleftrightarrow>
     pl_unknown x = [] \<and>
     pred_option (\<lambda>y. typed_msg Header_schema (Header_msg y)) (pl_Header x)"
  by (simp add: Payload_schema_def Payload_msg_def schema_ok_def tag_ok_def typed_aux)

lemma norm_Payload [norm_simps]:
  "Payload_of (norm_msg (Payload_msg x)) =
     x\<lparr>pl_Header := map_option (\<lambda>y. Header_of (norm_msg (Header_msg y))) (pl_Header x),
       pl_Data := nil_if_empty (pl_Data x)\<rparr>"
  by (cases x) (simp add: Payload_of_def Payload_msg_def getters norm_aux del: norm_val.simps(3))

lemma typed_Envelope [typed_simps]:
  "typed_msg Envelope_schema (Envelope_msg x) \<longleftrightarrow>
     env_unknown x = []"
  by (simp add: Envelope_schema_def Envelope_msg_def schema_ok_def tag_ok_def typed_aux)

lemma norm_Envelope [norm_simps]:
  "Envelope_of (norm_msg (Envelope_msg x)) =
     x\<lparr>env_Payload := nil_if_empty (env_Payload x),
       env_Signature := nil_if_empty (env_Signature x)\<rparr>"
  by (cases x) (simp add: Envelope_of_def Envelope_msg_def getters norm_aux del: norm_val.simps(3))

lemma typed_ChaincodeID [typed_simps]:
  "typed_msg ChaincodeID_schema (ChaincodeID_msg x) \<longleftrightarrow>
     ccid_unknown x = []"
  by (simp add: ChaincodeID_schema_def ChaincodeID_msg_def schema_ok_def tag_ok_def typed_aux)

lemma norm_ChaincodeID [norm_simps]: "ChaincodeID_of (norm_msg (ChaincodeID_msg x)) = x"
  by (cases x) (simp add: ChaincodeID_of_def ChaincodeID_msg_def getters)

lemma typed_ChaincodeProposalPayload [typed_simps]:
  "typed_msg ChaincodeProposalPayload_schema (ChaincodeProposalPayload_msg x) \<longleftrightarrow>
     cpp_unknown x = [] \<and> gmap_ok (slice_bytes (cpp_TransientMap x))"
  by (simp add: ChaincodeProposalPayload_schema_def ChaincodeProposalPayload_msg_def schema_ok_def tag_ok_def typed_aux)

lemma norm_ChaincodeProposalPayload [norm_simps]:
  "ChaincodeProposalPayload_of (norm_msg (ChaincodeProposalPayload_msg x)) =
     x\<lparr>cpp_Input := nil_if_empty (cpp_Input x),
       cpp_TransientMap := (if slice_bytes (cpp_TransientMap x) = [] then None else cpp_TransientMap x)\<rparr>"
  by (cases x) (simp add: ChaincodeProposalPayload_of_def ChaincodeProposalPayload_msg_def getters norm_aux del: norm_val.simps(3))

lemma typed_Response [typed_simps]:
  "typed_msg Response_schema (Response_msg x) \<longleftrightarrow>
     resp_unknown x = []"
  by (simp add: Response_schema_def Response_msg_def schema_ok_def tag_ok_def typed_aux)

lemma norm_Response [norm_simps]:
  "Response_of (norm_msg (Response_msg x)) =
     x\<lparr>resp_Payload := nil_if_empty (resp_Payload x)\<rparr>"
  by (cases x) (simp add: Response_of_def Response_msg_def getters norm_aux del: norm_val.simps(3))

lemma typed_ChaincodeAction [typed_simps]:
  "typed_msg ChaincodeAction_schema (ChaincodeAction_msg x) \<longleftrightarrow>
     ca_unknown x = [] \<and>
     pred_option (\<lambda>y. typed_msg Response_schema (Response_msg y)) (ca_Response x) \<and>
     pred_option (\<lambda>y. typed_msg ChaincodeID_schema (ChaincodeID_msg y)) (ca_ChaincodeId x)"
  by (simp add: ChaincodeAction_schema_def ChaincodeAction_msg_def schema_ok_def tag_ok_def typed_aux)

lemma norm_ChaincodeAction [norm_simps]:
  "ChaincodeAction_of (norm_msg (ChaincodeAction_msg x)) =
     x\<lparr>ca_Results := nil_if_empty (ca_Results x), ca_Events := nil_if_empty (ca_Events x),
       ca_Response := map_option (\<lambda>y. Response_of (norm_msg (Response_msg y))) (ca_Response x),
       ca_ChaincodeId := map_option (\<lambda>y. ChaincodeID_of (norm_msg (ChaincodeID_msg y))) (ca_ChaincodeId x)\<rparr>"
  by (cases x) (simp add: ChaincodeAction_of_def ChaincodeAction_msg_def getters norm_aux del: norm_val.simps(3))

lemma typed_Endorsement [typed_simps]:
  "typed_msg Endorsement_schema (Endorsement_msg x) \<longleftrightarrow>
     end_unknown x = []"
  by (simp add: Endorsement_schema_def Endorsement_msg_def schema_ok_def tag_ok_def typed_aux)

lemma norm_Endorsement [norm_simps]:
  "Endorsement_of (norm_msg (Endorsement_msg x)) =
     x\<lparr>end_Endorser := nil_if_empty (end_Endorser x),
       end_Signature := nil_if_empty (end_Signature x)\<rparr>"
  by (cases x) (simp add: Endorsement_of_def Endorsement_msg_def getters norm_aux del: norm_val.simps(3))

lemma typed_ProposalResponsePayload [typed_simps]:
  "typed_msg ProposalResponsePayload_schema (ProposalResponsePayload_msg x) \<longleftrightarrow>
     prp_unknown x = []"
  by (simp add: ProposalResponsePayload_schema_def ProposalResponsePayload_msg_def schema_ok_def tag_ok_def typed_aux)

lemma norm_ProposalResponsePayload [norm_simps]:
  "ProposalResponsePayload_of (norm_msg (ProposalResponsePayload_msg x)) =
     x\<lparr>prp_ProposalHash := nil_if_empty (prp_ProposalHash x),
       prp_Extension := nil_if_empty (prp_Extension x)\<rparr>"
  by (cases x) (simp add: ProposalResponsePayload_of_def ProposalResponsePayload_msg_def getters norm_aux del: norm_val.simps(3))

lemma typed_TransactionAction [typed_simps]:
  "typed_msg TransactionAction_schema (TransactionAction_msg x) \<longleftrightarrow>
     ta_unknown x = []"
  by (simp add: TransactionAction_schema_def TransactionAction_msg_def schema_ok_def tag_ok_def typed_aux)

lemma norm_TransactionAction [norm_simps]:
  "TransactionAction_of (norm_msg (TransactionAction_msg x)) =
     x\<lparr>ta_Header := nil_if_empty (ta_Header x), ta_Payload := nil_if_empty (ta_Payload x)\<rparr>"
  by (cases x) (simp add: TransactionAction_of_def TransactionAction_msg_def getters norm_aux del: norm_val.simps(3))

lemma typed_Transaction [typed_simps]:
  "typed_msg Transaction_schema (Transaction_msg x) \<longleftrightarrow>
     tx_unknown x = [] \<and>
     list_all (pred_option (\<lambda>y. typed_msg TransactionAction_schema (TransactionAction_msg y))) (tx_Actions x)"
  by (simp add: Transaction_schema_def Transaction_msg_def schema_ok_def tag_ok_def typed_aux)

lemma norm_Transaction [norm_simps]:
  "Transaction_of (norm_msg (Transaction_msg x)) =
     x\<lparr>tx_Actions := map (map_option (\<lambda>y. TransactionAction_of (norm_msg (TransactionAction_msg y)))) (tx_Actions x)\<rparr>"
  by (cases x) (simp add: Transaction_of_def Transaction_msg_def getters norm_aux del: norm_val.simps(3))

lemma typed_ChaincodeEndorsedAction [typed_simps]:
  "typed_msg ChaincodeEndorsedAction_schema (ChaincodeEndorsedAction_msg x) \<longleftrightarrow>
     cea_unknown x = [] \<and>
     list_all (pred_option (\<lambda>y. typed_msg Endorsement_schema (Endorsement_msg y))) (cea_Endorsements x)"
  by (simp add: ChaincodeEndorsedAction_schema_def ChaincodeEndorsedAction_msg_def schema_ok_def tag_ok_def typed_aux)

lemma norm_ChaincodeEndorsedAction [norm_simps]:
  "ChaincodeEndorsedAction_of (norm_msg (ChaincodeEndorsedAction_msg x)) =
     x\<lparr>cea_ProposalResponsePayload := nil_if_empty (cea_ProposalResponsePayload x),
       cea_Endorsements := map (map_option (\<lambda>y. Endorsement_of (norm_msg (Endorsement_msg y)))) (cea_Endorsements x)\<rparr>"
  by (cases x) (simp add: ChaincodeEndorsedAction_of_def ChaincodeEndorsedAction_msg_def getters norm_aux del: norm_val.simps(3))

lemma typed_ChaincodeActionPayload [typed_simps]:
  "typed_msg ChaincodeActionPayload_schema (ChaincodeActionPayload_msg x) \<longleftrightarrow>
     cap_unknown x = [] \<and>
     pred_option (\<lambda>y. typed_msg ChaincodeEndorsedAction_schema (ChaincodeEndorsedAction_msg y)) (cap_Action x)"
  by (simp add: ChaincodeActionPayload_schema_def ChaincodeActionPayload_msg_def schema_ok_def tag_ok_def typed_aux)

lemma norm_ChaincodeActionPayload [norm_simps]:
  "ChaincodeActionPayload_of (norm_msg (ChaincodeActionPayload_msg x)) =
     x\<lparr>cap_ChaincodeProposalPayload := nil_if_empty (cap_ChaincodeProposalPayload x),
       cap_Action := map_option (\<lambda>y. ChaincodeEndorsedAction_of (norm_msg (ChaincodeEndorsedAction_msg y))) (cap_Action x)\<rparr>"
  by (cases x) (simp add: ChaincodeActionPayload_of_def ChaincodeActionPayload_msg_def getters norm_aux del: norm_val.simps(3))

lemma typed_Proposal [typed_simps]:
  "typed_msg Proposal_schema (Proposal_msg x) \<longleftrightarrow>
     prop_unknown x = []"
  by (simp add: Proposal_schema_def Proposal_msg_def schema_ok_def tag_ok_def typed_aux)

lemma norm_Proposal [norm_simps]:
  "Proposal_of (norm_msg (Proposal_msg x)) =
     x\<lparr>prop_Header := nil_if_empty (prop_Header x),
       prop_Payload := nil_if_empty (prop_Payload x),
       prop_Extension := nil_if_empty (prop_Extension x)\<rparr>"
  by (cases x) (simp add: Proposal_of_def Proposal_msg_def getters norm_aux del: norm_val.simps(3))

end
