(* ===== verification/Go_Hash.thy ===== *)
theory Go_Hash
  imports Go_Json
begin

text \<open>
  What the sources use of \<open>crypto/sha256\<close>, \<open>encoding/hex\<close> and \<open>encoding/asn1\<close>: the SHA-256 digest
  (FIPS 180-4), hexadecimal text, and the DER encoding of a sequence of a non-negative integer
  and octet strings. DER is shown to be readable back, so it is injective.
\<close>

unbundle bit_operations_syntax

section \<open>SHA-256\<close>

text \<open>
  The round constants and the initial state: the first 32 bits of the fractional parts of the
  cube roots of the first 64 primes and of the square roots of the first eight.
\<close>

definition sha_k :: "32 word list" where
  "sha_k = [
      1116352408, 1899447441, 3049323471, 3921009573, 961987163, 1508970993, 2453635748, 2870763221,
      3624381080, 310598401, 607225278, 1426881987, 1925078388, 2162078206, 2614888103, 3248222580,
      3835390401, 4022224774, 264347078, 604807628, 770255983, 1249150122, 1555081692, 1996064986,
      2554220882, 2821834349, 2952996808, 3210313671, 3336571891, 3584528711, 113926993, 338241895,
      666307205, 773529912, 1294757372, 1396182291, 1695183700, 1986661051, 2177026350, 2456956037,
      2730485921, 2820302411, 3259730800, 3345764771, 3516065817, 3600352804, 4094571909, 275423344,
      430227734, 506948616, 659060556, 883997877, 958139571, 1322822218, 1537002063, 1747873779,
      1955562222, 2024104815, 2227730452, 2361852424, 2428436474, 2756734187, 3204031479, 3329325298]"

definition sha_init :: "32 word list" where
  "sha_init = [1779033703, 3144134277, 1013904242, 2773480762, 1359893119, 2600822924, 528734635, 1541459225]"

text \<open>The message followed by a one bit, zeros, and its length in bits as a 64-bit number.\<close>

fun be_fixed :: "nat \<Rightarrow> nat \<Rightarrow> bytes" where
  "be_fixed 0 x = []"
| "be_fixed (Suc n) x = be_fixed n (x div 256) @ [char_of (x mod 256)]"

definition sha_pad :: "bytes \<Rightarrow> bytes" where
  "sha_pad m = m @ CHR 0x80 # replicate ((119 - length m mod 64) mod 64) (CHR 0x00) @ be_fixed 8 (8 * length m)"

definition word_of_bytes :: "bytes \<Rightarrow> 32 word" where
  "word_of_bytes b = foldl (\<lambda>w c. push_bit 8 w OR word_of_nat (code c)) 0 b"

fun sha_words :: "nat \<Rightarrow> bytes \<Rightarrow> 32 word list" where
  "sha_words 0 b = []"
| "sha_words (Suc n) b = word_of_bytes (take 4 b) # sha_words n (drop 4 b)"

definition sigma0 :: "32 word \<Rightarrow> 32 word" where
  "sigma0 w = word_rotr 7 w XOR word_rotr 18 w XOR drop_bit 3 w"

definition sigma1 :: "32 word \<Rightarrow> 32 word" where
  "sigma1 w = word_rotr 17 w XOR word_rotr 19 w XOR drop_bit 10 w"

text \<open>The message schedule, newest word last.\<close>

fun sha_extend :: "nat \<Rightarrow> 32 word list \<Rightarrow> 32 word list" where
  "sha_extend 0 ws = ws"
| "sha_extend (Suc n) ws =
     (let t = length ws in
      sha_extend n (ws @ [sigma1 (ws ! (t - 2)) + ws ! (t - 7) + sigma0 (ws ! (t - 15)) + ws ! (t - 16)]))"

fun sha_round :: "32 word list \<Rightarrow> 32 word \<times> 32 word \<Rightarrow> 32 word list" where
  "sha_round [a, b, c, d, e, f, g, h] (k, w) =
     (let t1 = h + (word_rotr 6 e XOR word_rotr 11 e XOR word_rotr 25 e) + ((e AND f) XOR (NOT e AND g)) + k + w;
          t2 = (word_rotr 2 a XOR word_rotr 13 a XOR word_rotr 22 a) + ((a AND b) XOR (a AND c) XOR (b AND c))
      in [t1 + t2, a, b, c, d + t1, e, f, g])"
| "sha_round s _ = s"

definition sha_block :: "32 word list \<Rightarrow> bytes \<Rightarrow> 32 word list" where
  "sha_block s b = map2 (+) s (foldl sha_round s (zip sha_k (sha_extend 48 (sha_words 16 b))))"

fun sha_blocks :: "nat \<Rightarrow> 32 word list \<Rightarrow> bytes \<Rightarrow> 32 word list" where
  "sha_blocks 0 s b = s"
| "sha_blocks (Suc n) s b = sha_blocks n (sha_block s (take 64 b)) (drop 64 b)"

definition sha256 :: "bytes \<Rightarrow> bytes" where
  "sha256 m =
     (let p = sha_pad m in
      concat (map (\<lambda>w. be_fixed 4 (unat w)) (sha_blocks (length p div 64) sha_init p)))"

text \<open>The digest of any message has 32 bytes.\<close>

lemma be_fixed_length [simp]: "length (be_fixed n x) = n"
  by (induction n arbitrary: x) auto

lemma sha_round_length: "length s = 8 \<Longrightarrow> length (sha_round s kw) = 8"
  by (cases "(s, kw)" rule: sha_round.cases) (auto simp: Let_def)

lemma sha_rounds_length: "length s = 8 \<Longrightarrow> length (foldl sha_round s kws) = 8"
  by (induction kws arbitrary: s) (simp_all add: sha_round_length)

lemma sha_blocks_length: "length s = 8 \<Longrightarrow> length (sha_blocks n s b) = 8"
  by (induction n arbitrary: s b) (simp_all add: sha_block_def sha_rounds_length)

lemma sha256_length [simp]: "length (sha256 m) = 32"
proof -
  have "length (sha_blocks (length (sha_pad m) div 64) sha_init (sha_pad m)) = 8"
    by (rule sha_blocks_length) (simp add: sha_init_def)
  then show ?thesis by (simp add: sha256_def Let_def length_concat comp_def sum_list_triv)
qed

section \<open>Hexadecimal\<close>

definition hex_encode :: "bytes \<Rightarrow> string" where
  "hex_encode b = concat (map (\<lambda>c. [hex_digit (code c div 16), hex_digit (code c mod 16)]) b)"

lemma hex_encode_simps [simp]:
  "hex_encode [] = []"
  "hex_encode (c # b) = hex_digit (code c div 16) # hex_digit (code c mod 16) # hex_encode b"
  by (simp_all add: hex_encode_def)

lemma hex_encode_length [simp]: "length (hex_encode b) = 2 * length b"
  by (induction b) auto

lemma hex_digit_inject: "a < 16 \<Longrightarrow> b < 16 \<Longrightarrow> hex_digit a = hex_digit b \<Longrightarrow> a = b"
proof -
  assume a: "a < 16" "b < 16" "hex_digit a = hex_digit b"
  have "(if a < 10 then 48 + a else 87 + a) = code (hex_digit a)"
    "(if b < 10 then 48 + b else 87 + b) = code (hex_digit b)"
    using a(1,2) by (simp_all add: hex_digit_def code_def)
  then have "(if a < 10 then 48 + a else 87 + a) = (if b < 10 then 48 + b else 87 + b)"
    using a(3) by simp
  then show "a = b" using a(1,2) by (simp split: if_splits)
qed

lemma hex_encode_inject: "hex_encode a = hex_encode b \<longleftrightarrow> a = b"
proof (induction a arbitrary: b)
  case Nil
  then show ?case by (cases b) auto
next
  case (Cons x a)
  show ?case
  proof (cases b)
    case Nil
    then show ?thesis by simp
  next
    case (Cons y b')
    have "x = y" if "hex_digit (code x div 16) = hex_digit (code y div 16)"
      "hex_digit (code x mod 16) = hex_digit (code y mod 16)"
    proof -
      have "code x div 16 < 16" "code y div 16 < 16"
        using code_less [of x] code_less [of y] by simp_all
      then have "code x div 16 = code y div 16" "code x mod 16 = code y mod 16"
        using that by (auto intro: hex_digit_inject)
      then have "code x = code y" by (metis div_mult_mod_eq)
      then show ?thesis by (simp add: code_inject)
    qed
    then show ?thesis using Cons Cons.IH [of b'] by auto
  qed
qed

section \<open>DER\<close>

text \<open>The bytes of a number without leading zeros, most significant first.\<close>

fun be_bytes :: "nat \<Rightarrow> bytes" where
  "be_bytes n = (if n = 0 then [] else be_bytes (n div 256) @ [char_of (n mod 256)])"

declare be_bytes.simps [simp del]

definition be_val :: "bytes \<Rightarrow> nat" where
  "be_val b = foldl (\<lambda>n c. n * 256 + code c) 0 b"

lemma be_val_snoc [simp]: "be_val (b @ [c]) = be_val b * 256 + code c"
  by (simp add: be_val_def)

lemma be_val_bytes [simp]: "be_val (be_bytes n) = n"
proof (induction n rule: be_bytes.induct)
  case (1 n)
  show ?case
  proof (cases "n = 0")
    case True
    then show ?thesis by (simp add: be_bytes.simps be_val_def)
  next
    case False
    then show ?thesis using 1 by (simp add: be_bytes.simps [of n] code_def)
  qed
qed

lemma be_bytes_length: "n < 256 ^ k \<Longrightarrow> length (be_bytes n) \<le> k"
proof (induction n arbitrary: k rule: be_bytes.induct)
  case (1 n)
  show ?case
  proof (cases "n = 0")
    case False
    then obtain k' where k: "k = Suc k'" using "1.prems" by (cases k) auto
    have "n div 256 < 256 ^ k'"
      using "1.prems" k by (simp add: less_mult_imp_div_less mult.commute)
    then show ?thesis using "1.IH" [OF False, of k'] False k by (simp add: be_bytes.simps [of n])
  qed (simp add: be_bytes.simps)
qed

definition der_length :: "nat \<Rightarrow> bytes" where
  "der_length n = (if n < 128 then [char_of n] else char_of (128 + length (be_bytes n)) # be_bytes n)"

definition der_tlv :: "nat \<Rightarrow> bytes \<Rightarrow> bytes" where
  "der_tlv tag b = char_of tag # der_length (length b) @ b"

definition der_integer :: "nat \<Rightarrow> bytes" where
  "der_integer n =
     der_tlv 2 (if n = 0 then [CHR 0x00]
                else if 128 \<le> code (hd (be_bytes n)) then CHR 0x00 # be_bytes n
                else be_bytes n)"

definition der_octets :: "bytes \<Rightarrow> bytes" where
  "der_octets b = der_tlv 4 b"

definition der_sequence :: "bytes list \<Rightarrow> bytes" where
  "der_sequence parts = der_tlv 48 (concat parts)"

text \<open>Reading the head element back: its content and what follows.\<close>

definition der_read :: "bytes \<Rightarrow> (bytes \<times> bytes) option" where
  "der_read s =
     (case s of
        _ # l # r \<Rightarrow>
          if code l < 128 then Some (take (code l) r, drop (code l) r)
          else (let k = code l - 128; n = be_val (take k r) in
                Some (take n (drop k r), drop (k + n) r))
      | _ \<Rightarrow> None)"

lemma der_read_tlv:
  assumes "length b < 2 ^ 63"
  shows "der_read (der_tlv t b @ r) = Some (b, r)"
proof (cases "length b < 128")
  case True
  then show ?thesis by (simp add: der_read_def der_tlv_def der_length_def code_def)
next
  case False
  have "length (be_bytes (length b)) \<le> 8" using assms by (intro be_bytes_length) simp
  then have "code (char_of (128 + length (be_bytes (length b)))) = 128 + length (be_bytes (length b))"
    by (simp add: code_def)
  then show ?thesis using False by (simp add: der_read_def der_tlv_def der_length_def)
qed

lemma der_tlv_inject:
  assumes "der_tlv t a @ r = der_tlv t b @ s" "length a < 2 ^ 63" "length b < 2 ^ 63"
  shows "a = b \<and> r = s"
proof -
  have "Some (a, r) = der_read (der_tlv t a @ r)" by (rule der_read_tlv [OF assms(2), symmetric])
  also have "\<dots> = Some (b, s)" unfolding assms(1) by (rule der_read_tlv [OF assms(3)])
  finally show ?thesis by simp
qed

lemma der_integer_inject:
  assumes "der_integer m @ r = der_integer n @ s" "m < 2 ^ 64" "n < 2 ^ 64"
  shows "m = n \<and> r = s"
proof -
  define body where "body = (\<lambda>n. if n = 0 then [CHR 0x00]
      else if 128 \<le> code (hd (be_bytes n)) then CHR 0x00 # be_bytes n else be_bytes n)"
  have val: "be_val (body n) = n" for n
  proof -
    have "be_val (CHR 0x00 # b) = be_val b" for b by (simp add: be_val_def code_def)
    then show ?thesis by (simp add: body_def be_val_def [of "[]"])
  qed
  have len: "length (body n) < 2 ^ 63" if "n < 2 ^ 64" for n
  proof -
    have "length (be_bytes n) \<le> 8" using that by (intro be_bytes_length) simp
    then show ?thesis by (simp add: body_def)
  qed
  have "der_tlv 2 (body m) @ r = der_tlv 2 (body n) @ s"
    using assms(1) by (simp add: der_integer_def body_def)
  then have "body m = body n \<and> r = s" using len [OF assms(2)] len [OF assms(3)] by (intro der_tlv_inject)
  then show ?thesis using val by metis
qed

end
