(* ===== verification/Tx_Id.thy ===== *)
theory Tx_Id
  imports Unmarshalers Go_Hash
begin

text \<open>
  Transaction ids: \<open>ComputeTxID\<close> and \<open>CheckTxID\<close> of \<open>server/protoutil/proputils.go\<close> and
  \<open>GetOrComputeTxIDFromEnvelope\<close> of \<open>server/protoutil/txutils.go\<close>.
\<close>

definition ComputeTxID :: "bytes option \<Rightarrow> bytes option \<Rightarrow> string" where
  "ComputeTxID nonce creator = hex_encode (sha256 (slice_bytes nonce @ slice_bytes creator))"

definition CheckTxID :: "string \<Rightarrow> bytes option \<Rightarrow> bytes option \<Rightarrow> go_error option" where
  "CheckTxID txid nonce creator =
     (let computedTxID = ComputeTxID nonce creator in
      if txid \<noteq> computedTxID
      then Some (EText (''invalid txid. got ['' @ txid @ ''], expected ['' @ computedTxID @ '']''))
      else None)"

definition GetOrComputeTxIDFromEnvelope :: "bytes option \<Rightarrow> go_error + string" where
  "GetOrComputeTxIDFromEnvelope txEnvelopBytes =
     res_bind (res_wrap ''error getting txID from envelope'' (checked (UnmarshalEnvelope txEnvelopBytes))) (\<lambda>txEnvelope.
     res_bind (res_wrap ''error getting txID from payload'' (checked (UnmarshalPayload (env_Payload txEnvelope)))) (\<lambda>txPayload.
     case pl_Header txPayload of
       None \<Rightarrow> Inl (EText ''error getting txID from header: payload header is nil'')
     | Some header \<Rightarrow>
         res_bind (res_wrap ''error getting txID from channel header''
           (checked (UnmarshalChannelHeader (hdr_ChannelHeader header)))) (\<lambda>chdr.
         if ch_TxId chdr \<noteq> [] then Inr (ch_TxId chdr)
         else
           res_bind (res_wrap ''error getting nonce and creator for computing txID''
             (checked (UnmarshalSignatureHeader (hdr_SignatureHeader header)))) (\<lambda>sighdr.
           Inr (ComputeTxID (sh_Nonce sighdr) (sh_Creator sighdr))))))"

lemma ComputeTxID_length: "length (ComputeTxID nonce creator) = 64"
  by (simp add: ComputeTxID_def)

lemma hex_encode_chars: "list_all (\<lambda>c. is_digit c \<or> in_range 97 102 c) (hex_encode b)"
proof -
  have "is_digit (hex_digit n) \<or> in_range 97 102 (hex_digit n)" if "n < 16" for n
    using that by (simp add: hex_digit_def is_digit_def in_range_def code_def less_eq_char_def)
  moreover have "code c div 16 < 16" for c using code_less [of c] by simp
  ultimately show ?thesis by (induction b) auto
qed

lemma hex_encode_utf8: "valid_utf8 (hex_encode b)"
proof -
  have "ascii c" if "is_digit c \<or> in_range 97 102 c" for c
    using that by (auto simp: is_digit_def in_range_def ascii_def code_def less_eq_char_def)
  then have "list_all ascii (hex_encode b)"
    using hex_encode_chars [of b] by (simp add: list_all_iff)
  then show ?thesis
  proof (induction "hex_encode b" arbitrary: b)
    case Nil
    then show ?case by simp
  next
    case (Cons x xs)
    have "list_all ascii s \<Longrightarrow> valid_utf8 s" for s by (induction s) auto
    then show ?case using Cons.prems by metis
  qed
qed

end
