(* ===== verification/Common_Utils.thy ===== *)
theory Common_Utils
  imports Tx_Id
begin

text \<open>
  \<open>server/protoutil/commonutils.go\<close>, with \<open>GetEnvelopeFromBlock\<close> of \<open>txutils.go\<close> and
  \<open>identity/identity.go\<close>. The random source, the clock and the signing identity are arguments:
  the outcome of \<open>rand.Read\<close> on a slice of 24 bytes, the seconds since the epoch, and the
  outcomes of \<open>Serialize\<close> and \<open>Sign\<close>, whose slices are taken to be non-nil. A pointer parameter
  the code dereferences without a check is taken as the value it points to.
\<close>

section \<open>Serialising\<close>

definition MarshalOrPanic :: "map_iter \<Rightarrow> pb_msg option \<Rightarrow> bytes outcome" where
  "MarshalOrPanic iter pb = or_panic (proto_Marshal iter pb)"

definition Marshal :: "map_iter \<Rightarrow> pb_msg option \<Rightarrow> go_error + bytes" where
  "Marshal iter pb = proto_Marshal iter pb"

section \<open>Identities\<close>

text \<open>\<open>identity.SignerSerializer\<close>\<close>

record SignerSerializer =
  Serialize :: "go_error + bytes"
  Sign :: "bytes \<Rightarrow> go_error + bytes"

section \<open>Nonces\<close>

definition getRandomNonce :: "go_error + bytes \<Rightarrow> go_error + bytes" where
  "getRandomNonce rand = res_wrap ''error getting random bytes'' rand"

definition CreateNonce :: "go_error + bytes \<Rightarrow> go_error + bytes" where
  "CreateNonce rand = res_wrap ''error generating random nonce'' (getRandomNonce rand)"

definition CreateNonceOrPanic :: "go_error + bytes \<Rightarrow> bytes outcome" where
  "CreateNonceOrPanic rand = or_panic (CreateNonce rand)"

section \<open>Header types\<close>

definition HeaderType_CONFIG :: int32 where "HeaderType_CONFIG = 1"
definition HeaderType_CONFIG_UPDATE :: int32 where "HeaderType_CONFIG_UPDATE = 2"
definition HeaderType_ENDORSER_TRANSACTION :: int32 where "HeaderType_ENDORSER_TRANSACTION = 3"
definition HeaderType_ORDERER_TRANSACTION :: int32 where "HeaderType_ORDERER_TRANSACTION = 4"

text \<open>The name of a header type, or its number.\<close>

definition HeaderType_String :: "int32 \<Rightarrow> string" where
  "HeaderType_String t =
     (case map_of [(0, ''MESSAGE''), (1, ''CONFIG''), (2, ''CONFIG_UPDATE''), (3, ''ENDORSER_TRANSACTION''),
        (4, ''ORDERER_TRANSACTION''), (5, ''DELIVER_SEEK_INFO''), (6, ''CHAINCODE_PACKAGE''),
        (8, ''PEER_ADMIN_OPERATION'')] t of
        Some n \<Rightarrow> n | None \<Rightarrow> itoa (scast t))"

section \<open>Envelopes\<close>

definition GetEnvelopeFromBlock :: "bytes option \<Rightarrow> go_error + Envelope" where
  "GetEnvelopeFromBlock data =
     res_wrap ''error unmarshaling Envelope'' (checked (unmarshal_as Envelope_schema Envelope_of data))"

text \<open>
  \<open>UnmarshalEnvelopeOfType\<close> also fills the message the caller passes: \<open>read\<close> is \<open>proto.Unmarshal\<close>
  at the type of that message and \<open>message\<close> its content before. The channel header is returned
  even when only the message is malformed.
\<close>

definition UnmarshalEnvelopeOfType ::
    "Envelope \<Rightarrow> int32 \<Rightarrow> (bytes option \<Rightarrow> 'm \<times> go_error option) \<Rightarrow> 'm \<Rightarrow>
     (ChannelHeader option \<times> go_error option) \<times> 'm" where
  "UnmarshalEnvelopeOfType envelope headerType read message =
     (case checked (UnmarshalPayload (env_Payload envelope)) of
        Inl e \<Rightarrow> ((None, Some e), message)
      | Inr payload \<Rightarrow>
          (case pl_Header payload of
             None \<Rightarrow> ((None, Some (EText ''envelope must have a Header'')), message)
           | Some header \<Rightarrow>
               (case checked (UnmarshalChannelHeader (hdr_ChannelHeader header)) of
                  Inl e \<Rightarrow> ((None, Some e), message)
                | Inr chdr \<Rightarrow>
                    if ch_Type chdr \<noteq> headerType
                    then ((None, Some (EText (''invalid type '' @ HeaderType_String (ch_Type chdr) @
                            '', expected '' @ HeaderType_String headerType))), message)
                    else (case read (pl_Data payload) of
                      (message', err) \<Rightarrow>
                        ((Some chdr,
                          wrap_err (''error unmarshaling message for type '' @ HeaderType_String headerType) err),
                         message')))))"

definition EnvelopeToConfigUpdate :: "Envelope \<Rightarrow> go_error + ConfigUpdateEnvelope" where
  "EnvelopeToConfigUpdate configtx =
     (case UnmarshalEnvelopeOfType configtx HeaderType_CONFIG_UPDATE
        (unmarshal_as ConfigUpdateEnvelope_schema ConfigUpdateEnvelope_of) ConfigUpdateEnvelope_zero of
        ((_, Some e), _) \<Rightarrow> Inl e
      | ((_, None), configUpdateEnv) \<Rightarrow> Inr configUpdateEnv)"

definition ExtractEnvelope :: "Block \<Rightarrow> gint \<Rightarrow> go_error + Envelope" where
  "ExtractEnvelope block index =
     (case blk_Data block of
        None \<Rightarrow> Inl (EText ''block data is nil'')
      | Some d \<Rightarrow>
          if sint index < 0 \<or> int (length (bd_Data d)) \<le> sint index
          then Inl (EText ''envelope index out of bounds'')
          else res_wrap (''block data does not carry an envelope at index '' @ itoa index)
                 (GetEnvelopeFromBlock (bd_Data d ! nat (sint index))))"

definition ExtractEnvelopeOrPanic :: "Block \<Rightarrow> gint \<Rightarrow> Envelope outcome" where
  "ExtractEnvelopeOrPanic block index = or_panic (ExtractEnvelope block index)"

section \<open>Headers\<close>

definition MakeChannelHeader :: "gint \<Rightarrow> int32 \<Rightarrow> int32 \<Rightarrow> string \<Rightarrow> uint64 \<Rightarrow> ChannelHeader" where
  "MakeChannelHeader now headerType version chainID epoch =
     ChannelHeader_zero
       \<lparr>ch_Type := headerType, ch_Version := version,
        ch_Timestamp := Some (Timestamp_zero\<lparr>ts_Seconds := now, ts_Nanos := 0\<rparr>),
        ch_ChannelId := chainID, ch_Epoch := epoch\<rparr>"

definition MakeSignatureHeader :: "bytes option \<Rightarrow> bytes option \<Rightarrow> SignatureHeader" where
  "MakeSignatureHeader serializedCreatorCertChain nonce =
     SignatureHeader_zero\<lparr>sh_Creator := serializedCreatorCertChain, sh_Nonce := nonce\<rparr>"

definition SetTxID :: "ChannelHeader \<Rightarrow> SignatureHeader \<Rightarrow> ChannelHeader" where
  "SetTxID channelHeader signatureHeader =
     channelHeader\<lparr>ch_TxId := ComputeTxID (sh_Nonce signatureHeader) (sh_Creator signatureHeader)\<rparr>"

definition MakePayloadHeader :: "map_iter \<Rightarrow> ChannelHeader \<Rightarrow> SignatureHeader \<Rightarrow> Header outcome" where
  "MakePayloadHeader iter ch sh =
     out_bind (MarshalOrPanic iter (Some (ChannelHeader_msg ch))) (\<lambda>c.
     out_bind (MarshalOrPanic iter (Some (SignatureHeader_msg sh))) (\<lambda>s.
     Done (Header_zero\<lparr>hdr_ChannelHeader := Some c, hdr_SignatureHeader := Some s\<rparr>)))"

definition NewSignatureHeader :: "go_error + bytes \<Rightarrow> SignerSerializer \<Rightarrow> go_error + SignatureHeader" where
  "NewSignatureHeader rand signer =
     res_bind (Serialize signer) (\<lambda>creator.
     res_bind (CreateNonce rand) (\<lambda>nonce.
     Inr (SignatureHeader_zero\<lparr>sh_Creator := Some creator, sh_Nonce := Some nonce\<rparr>)))"

definition NewSignatureHeaderOrPanic :: "go_error + bytes \<Rightarrow> SignerSerializer option \<Rightarrow> SignatureHeader outcome" where
  "NewSignatureHeaderOrPanic rand signer =
     (case signer of
        None \<Rightarrow> Panic (EText ''invalid signer. cannot be nil'')
      | Some i \<Rightarrow> or_panic (res_wrap ''failed generating a new SignatureHeader'' (NewSignatureHeader rand i)))"

definition SignOrPanic :: "SignerSerializer option \<Rightarrow> bytes \<Rightarrow> bytes outcome" where
  "SignOrPanic signer msg =
     (case signer of
        None \<Rightarrow> Panic (EText ''invalid signer. cannot be nil'')
      | Some s \<Rightarrow> or_panic (res_wrap ''failed generating signature'' (Sign s msg)))"

section \<open>Reading headers\<close>

definition IsConfigBlock :: "Block \<Rightarrow> bool" where
  "IsConfigBlock block =
     (case ExtractEnvelope block 0 of
        Inl _ \<Rightarrow> False
      | Inr envelope \<Rightarrow>
          (case checked (UnmarshalPayload (env_Payload envelope)) of
             Inl _ \<Rightarrow> False
           | Inr payload \<Rightarrow>
               (case pl_Header payload of
                  None \<Rightarrow> False
                | Some header \<Rightarrow>
                    (case checked (UnmarshalChannelHeader (hdr_ChannelHeader header)) of
                       Inl _ \<Rightarrow> False
                     | Inr hdr \<Rightarrow>
                         ch_Type hdr = HeaderType_CONFIG \<or> ch_Type hdr = HeaderType_ORDERER_TRANSACTION))))"

text \<open>The function \<open>ChannelHeader\<close>; the record has the name.\<close>

definition ChannelHeader_fn :: "Envelope \<Rightarrow> go_error + ChannelHeader" where
  "ChannelHeader_fn env =
     res_bind (checked (UnmarshalPayload (env_Payload env))) (\<lambda>envPayload.
     case pl_Header envPayload of
       None \<Rightarrow> Inl (EText ''header not set'')
     | Some header \<Rightarrow>
         (case hdr_ChannelHeader header of
            None \<Rightarrow> Inl (EText ''channel header not set'')
          | Some b \<Rightarrow> res_wrap ''error unmarshaling channel header'' (checked (UnmarshalChannelHeader (Some b)))))"

definition ChannelID :: "Envelope \<Rightarrow> go_error + string" where
  "ChannelID env =
     res_bind (res_wrap ''error retrieving channel header'' (ChannelHeader_fn env)) (\<lambda>chdr.
     Inr (ch_ChannelId chdr))"

end
