(* ===== verification/Block_Utils.thy ===== *)
theory Block_Utils
  imports Common_Utils
begin

text \<open>
  \<open>server/protoutil/blockutils.go\<close>: building and hashing blocks, the channel id of a block and
  the metadata slots of a block. Reading metadata dereferences the block's metadata and indexes
  its slots without a check, so those functions may panic.
\<close>

section \<open>Building and hashing\<close>

definition NewBlock :: "uint64 \<Rightarrow> bytes option \<Rightarrow> Block" where
  "NewBlock seqNum previousHash =
     Block_zero
       \<lparr>blk_Header := Some (BlockHeader_zero\<lparr>bh_Number := seqNum, bh_PreviousHash := previousHash\<rparr>),
        blk_Data := Some BlockData_zero,
        blk_Metadata := Some (BlockMetadata_zero\<lparr>bm_Metadata := replicate 5 (Some [])\<rparr>)\<rparr>"

definition BlockHeaderBytes :: "BlockHeader \<Rightarrow> bytes" where
  "BlockHeaderBytes b =
     der_sequence [der_integer (unat (bh_Number b)), der_octets (slice_bytes (bh_PreviousHash b)),
                   der_octets (slice_bytes (bh_DataHash b))]"

definition BlockHeaderHash :: "BlockHeader \<Rightarrow> bytes" where
  "BlockHeaderHash b = sha256 (BlockHeaderBytes b)"

definition BlockDataHash :: "BlockData \<Rightarrow> bytes" where
  "BlockDataHash b = sha256 (concat (map slice_bytes (bd_Data b)))"

section \<open>The channel of a block\<close>

definition GetChainIDFromBlock :: "Block option \<Rightarrow> go_error + string" where
  "GetChainIDFromBlock block =
     (case (case block of None \<Rightarrow> [] | Some b \<Rightarrow> (case blk_Data b of None \<Rightarrow> [] | Some d \<Rightarrow> bd_Data d)) of
        [] \<Rightarrow> Inl (EText ''failed to retrieve channel id - block is empty'')
      | first # _ \<Rightarrow>
          res_bind (GetEnvelopeFromBlock first) (\<lambda>envelope.
          res_bind (checked (UnmarshalPayload (env_Payload envelope))) (\<lambda>payload.
          case pl_Header payload of
            None \<Rightarrow> Inl (EText ''failed to retrieve channel id - payload header is empty'')
          | Some header \<Rightarrow>
              res_bind (checked (UnmarshalChannelHeader (hdr_ChannelHeader header))) (\<lambda>chdr.
              Inr (ch_ChannelId chdr)))))"

definition GetChainIDFromBlockBytes :: "bytes option \<Rightarrow> go_error + string" where
  "GetChainIDFromBlockBytes b =
     res_bind (checked (UnmarshalBlock b)) (\<lambda>block. GetChainIDFromBlock (Some block))"

section \<open>Metadata slots\<close>

definition SIGNATURES :: nat where "SIGNATURES = 0"
definition LAST_CONFIG :: nat where "LAST_CONFIG = 1"
definition TRANSACTIONS_FILTER :: nat where "TRANSACTIONS_FILTER = 2"
definition ORDERER :: nat where "ORDERER = 3"
definition COMMIT_HASH :: nat where "COMMIT_HASH = 4"

definition BlockMetadataIndex_String :: "nat \<Rightarrow> string" where
  "BlockMetadataIndex_String i =
     (case map_of [(0, ''SIGNATURES''), (1, ''LAST_CONFIG''), (2, ''TRANSACTIONS_FILTER''), (3, ''ORDERER''),
        (4, ''COMMIT_HASH'')] i of Some n \<Rightarrow> n | None \<Rightarrow> nat_dec i)"

definition GetMetadataFromBlock :: "Block \<Rightarrow> nat \<Rightarrow> (go_error + Metadata) outcome" where
  "GetMetadataFromBlock block index =
     out_bind (deref (blk_Metadata block)) (\<lambda>meta.
     out_bind (go_index (bm_Metadata meta) (int index)) (\<lambda>b.
     Done (res_wrap (''error unmarshaling metadata from block at index ['' @ BlockMetadataIndex_String index @ '']'')
       (checked (unmarshal_as Metadata_schema Metadata_of b)))))"

definition GetMetadataFromBlockOrPanic :: "Block \<Rightarrow> nat \<Rightarrow> Metadata outcome" where
  "GetMetadataFromBlockOrPanic block index = out_bind (GetMetadataFromBlock block index) or_panic"

definition GetConsenterMetadataFromBlock :: "Block \<Rightarrow> (go_error + Metadata) outcome" where
  "GetConsenterMetadataFromBlock block =
     out_bind (GetMetadataFromBlock block SIGNATURES) (\<lambda>r.
     case res_wrap (''failed to retrieve metadata at index: '' @ nat_dec SIGNATURES) r of
       Inl e \<Rightarrow> Done (Inl e)
     | Inr m \<Rightarrow>
         if slice_bytes (md_Value m) = [] then GetMetadataFromBlock block ORDERER
         else Done (res_bind (res_wrap ''failed to unmarshal orderer block metadata''
                (checked (unmarshal_as OrdererBlockMetadata_schema OrdererBlockMetadata_of (md_Value m)))) (\<lambda>obm.
              res_wrap ''failed to unmarshal consenter metadata''
                (checked (unmarshal_as Metadata_schema Metadata_of (obm_ConsenterMetadata obm))))))"

definition GetLastConfigIndexFromBlock :: "Block \<Rightarrow> (go_error + uint64) outcome" where
  "GetLastConfigIndexFromBlock block =
     out_bind (GetMetadataFromBlock block LAST_CONFIG) (\<lambda>r.
     Done (res_bind r (\<lambda>md.
       res_bind (res_wrap ''error unmarshaling LastConfig''
         (checked (unmarshal_as LastConfig_schema LastConfig_of (md_Value md)))) (\<lambda>lc.
       Inr (lc_Index lc)))))"

definition GetLastConfigIndexFromBlockOrPanic :: "Block \<Rightarrow> uint64 outcome" where
  "GetLastConfigIndexFromBlockOrPanic block = out_bind (GetLastConfigIndexFromBlock block) or_panic"

section \<open>Initialising and copying metadata\<close>

text \<open>
  The two functions that assign through pointers work on a heap of metadata structs: a block
  refers to its metadata by an address, or to none. Copying makes two blocks share one struct.
\<close>

record meta_heap =
  mh_next :: nat
  mh_cell :: "nat \<Rightarrow> bytes option list"

type_synonym meta_ref = "nat option"

definition pad_slots :: "bytes option list \<Rightarrow> bytes option list" where
  "pad_slots slots =
     (if length slots < COMMIT_HASH + 1 then slots @ replicate (COMMIT_HASH + 1 - length slots) (Some [])
      else slots)"

definition InitBlockMetadata :: "meta_heap \<Rightarrow> meta_ref \<Rightarrow> meta_heap \<times> meta_ref" where
  "InitBlockMetadata h r =
     (case r of
        None \<Rightarrow>
          (h\<lparr>mh_next := mh_next h + 1, mh_cell := (mh_cell h)(mh_next h := replicate 5 (Some []))\<rparr>,
           Some (mh_next h))
      | Some a \<Rightarrow> (h\<lparr>mh_cell := (mh_cell h)(a := pad_slots (mh_cell h a))\<rparr>, Some a))"

text \<open>The new heap and the destination's new reference; the source keeps its own.\<close>

definition CopyBlockMetadata :: "meta_heap \<Rightarrow> meta_ref \<Rightarrow> meta_ref \<Rightarrow> meta_heap \<times> meta_ref" where
  "CopyBlockMetadata h src dst = InitBlockMetadata h src"

section \<open>The preimage of a block hash\<close>

definition header_fields :: "BlockHeader \<Rightarrow> uint64 \<times> bytes \<times> bytes" where
  "header_fields b = (bh_Number b, slice_bytes (bh_PreviousHash b), slice_bytes (bh_DataHash b))"

definition header_small :: "BlockHeader \<Rightarrow> bool" where
  "header_small b \<longleftrightarrow> length (BlockHeaderBytes b) < 2 ^ 63"

lemma der_tlv_length: "length b < length (der_tlv t b)"
  by (simp add: der_tlv_def)

lemma BlockHeaderBytes_inject:
  assumes "BlockHeaderBytes a = BlockHeaderBytes b" "header_small a" "header_small b"
  shows "header_fields a = header_fields b"
proof -
  define body where "body = (\<lambda>b :: BlockHeader. der_integer (unat (bh_Number b)) @
    der_octets (slice_bytes (bh_PreviousHash b)) @ der_octets (slice_bytes (bh_DataHash b)))"
  have bytes: "BlockHeaderBytes x = der_tlv 48 (body x)" for x
    by (simp add: BlockHeaderBytes_def der_sequence_def body_def)
  have small: "length (body x) < 2 ^ 63" if "header_small x" for x
    using that der_tlv_length [of "body x" 48] by (simp add: header_small_def bytes)
  have "body a = body b"
    using der_tlv_inject [of 48 "body a" "[]" "body b" "[]"] assms bytes small by simp
  then have "unat (bh_Number a) = unat (bh_Number b) \<and>
      der_octets (slice_bytes (bh_PreviousHash a)) @ der_octets (slice_bytes (bh_DataHash a)) =
      der_octets (slice_bytes (bh_PreviousHash b)) @ der_octets (slice_bytes (bh_DataHash b))"
    unfolding body_def using unat_small by (intro der_integer_inject) auto
  then have 1: "bh_Number a = bh_Number b" and
    2: "der_tlv 4 (slice_bytes (bh_PreviousHash a)) @ der_tlv 4 (slice_bytes (bh_DataHash a)) =
        der_tlv 4 (slice_bytes (bh_PreviousHash b)) @ der_tlv 4 (slice_bytes (bh_DataHash b))"
    by (auto simp: der_octets_def intro: unsigned_word_eqI)
  have len: "length (slice_bytes (bh_PreviousHash x)) < 2 ^ 63 \<and> length (slice_bytes (bh_DataHash x)) < 2 ^ 63"
    if "header_small x" for x
    using small [OF that] der_tlv_length [of "slice_bytes (bh_PreviousHash x)" 4]
      der_tlv_length [of "slice_bytes (bh_DataHash x)" 4]
    by (simp add: body_def der_octets_def)
  have 3: "slice_bytes (bh_PreviousHash a) = slice_bytes (bh_PreviousHash b) \<and>
      der_tlv 4 (slice_bytes (bh_DataHash a)) = der_tlv 4 (slice_bytes (bh_DataHash b))"
    by (rule der_tlv_inject [OF 2]) (use len assms(2,3) in blast)+
  then have "slice_bytes (bh_DataHash a) = slice_bytes (bh_DataHash b)"
    using der_tlv_inject [of 4 "slice_bytes (bh_DataHash a)" "[]" "slice_bytes (bh_DataHash b)" "[]"]
      len assms(2,3) by simp
  then show ?thesis using 1 3 by (simp add: header_fields_def)
qed

end
