(* ===== verification/Prop_Utils.thy ===== *)
theory Prop_Utils
  imports Block_Utils
begin

text \<open>
  \<open>server/protoutil/proputils.go\<close> (without the transaction ids) and \<open>GetPayloads\<close> of
  \<open>txutils.go\<close>: building chaincode proposals, serialising messages, and reaching into an
  envelope for its chaincode action. The clock is the argument \<open>now\<close>, the outcome of
  \<open>ptypes.TimestampProto\<close> on the current time.
\<close>

section \<open>Serialising\<close>

definition GetBytesChaincodeProposalPayload :: "map_iter \<Rightarrow> ChaincodeProposalPayload option \<Rightarrow> go_error + bytes" where
  "GetBytesChaincodeProposalPayload iter cpp =
     res_wrap ''error marshaling ChaincodeProposalPayload'' (proto_Marshal iter (map_option ChaincodeProposalPayload_msg cpp))"

definition GetBytesResponse :: "map_iter \<Rightarrow> Response option \<Rightarrow> go_error + bytes" where
  "GetBytesResponse iter res =
     res_wrap ''error marshaling Response'' (proto_Marshal iter (map_option Response_msg res))"

definition GetBytesChaincodeEvent :: "map_iter \<Rightarrow> ChaincodeEvent option \<Rightarrow> go_error + bytes" where
  "GetBytesChaincodeEvent iter event =
     res_wrap ''error marshaling ChaincodeEvent'' (proto_Marshal iter (map_option ChaincodeEvent_msg event))"

definition GetBytesChaincodeActionPayload :: "map_iter \<Rightarrow> ChaincodeActionPayload option \<Rightarrow> go_error + bytes" where
  "GetBytesChaincodeActionPayload iter cap =
     res_wrap ''error marshaling ChaincodeActionPayload'' (proto_Marshal iter (map_option ChaincodeActionPayload_msg cap))"

definition GetBytesProposalResponse :: "map_iter \<Rightarrow> ProposalResponse option \<Rightarrow> go_error + bytes" where
  "GetBytesProposalResponse iter pr =
     res_wrap ''error marshaling ProposalResponse'' (proto_Marshal iter (map_option ProposalResponse_msg pr))"

definition GetBytesHeader :: "map_iter \<Rightarrow> Header option \<Rightarrow> go_error + bytes" where
  "GetBytesHeader iter hdr =
     res_wrap ''error marshaling Header'' (proto_Marshal iter (map_option Header_msg hdr))"

definition GetBytesSignatureHeader :: "map_iter \<Rightarrow> SignatureHeader option \<Rightarrow> go_error + bytes" where
  "GetBytesSignatureHeader iter hdr =
     res_wrap ''error marshaling SignatureHeader'' (proto_Marshal iter (map_option SignatureHeader_msg hdr))"

definition GetBytesTransaction :: "map_iter \<Rightarrow> Transaction option \<Rightarrow> go_error + bytes" where
  "GetBytesTransaction iter tx =
     res_wrap ''error unmarshaling Transaction'' (proto_Marshal iter (map_option Transaction_msg tx))"

definition GetBytesPayload :: "map_iter \<Rightarrow> Payload option \<Rightarrow> go_error + bytes" where
  "GetBytesPayload iter payl =
     res_wrap ''error marshaling Payload'' (proto_Marshal iter (map_option Payload_msg payl))"

definition GetBytesEnvelope :: "map_iter \<Rightarrow> Envelope option \<Rightarrow> go_error + bytes" where
  "GetBytesEnvelope iter env =
     res_wrap ''error marshaling Envelope'' (proto_Marshal iter (map_option Envelope_msg env))"

definition GetBytesProposalResponsePayload ::
    "map_iter \<Rightarrow> bytes option \<Rightarrow> Response option \<Rightarrow> bytes option \<Rightarrow> bytes option \<Rightarrow> ChaincodeID option \<Rightarrow>
     go_error + bytes" where
  "GetBytesProposalResponsePayload iter hash response result event ccid =
     (let cAct = ChaincodeAction_zero\<lparr>ca_Events := event, ca_Results := result,
                   ca_Response := response, ca_ChaincodeId := ccid\<rparr> in
      res_bind (res_wrap ''error marshaling ChaincodeAction'' (proto_Marshal iter (Some (ChaincodeAction_msg cAct)))) (\<lambda>cActBytes.
      res_wrap ''error marshaling ProposalResponsePayload''
        (proto_Marshal iter (Some (ProposalResponsePayload_msg
           (ProposalResponsePayload_zero\<lparr>prp_Extension := Some cActBytes, prp_ProposalHash := hash\<rparr>))))))"

section \<open>Header types\<close>

fun space_sep :: "string list \<Rightarrow> string" where
  "space_sep [] = []"
| "space_sep [x] = x"
| "space_sep (x # y # ys) = x @ CHR '' '' # space_sep (y # ys)"

definition validateChannelHeaderType :: "ChannelHeader \<Rightarrow> int32 list \<Rightarrow> go_error option" where
  "validateChannelHeaderType chdr expectedTypes =
     (if ch_Type chdr \<in> set expectedTypes then None
      else Some (EText (''invalid channel header type. expected one of ['' @
        space_sep (map HeaderType_String expectedTypes) @ ''], received '' @ HeaderType_String (ch_Type chdr))))"

section \<open>Chaincode actions\<close>

definition GetPayloads ::
    "TransactionAction \<Rightarrow> ChaincodeActionPayload option \<times> ChaincodeAction option \<times> go_error option" where
  "GetPayloads txActions =
     (case checked (UnmarshalChaincodeActionPayload (ta_Payload txActions)) of
        Inl e \<Rightarrow> (None, None, Some e)
      | Inr ccPayload \<Rightarrow>
          (case Option.bind (cap_Action ccPayload) cea_ProposalResponsePayload of
             None \<Rightarrow> (None, None, Some (EText ''no payload in ChaincodeActionPayload''))
           | Some b \<Rightarrow>
               (case checked (UnmarshalProposalResponsePayload (Some b)) of
                  Inl e \<Rightarrow> (None, None, Some e)
                | Inr pRespPayload \<Rightarrow>
                    (case prp_Extension pRespPayload of
                       None \<Rightarrow> (None, None, Some (EText ''response payload is missing extension''))
                     | Some x \<Rightarrow>
                         (case checked (UnmarshalChaincodeAction (Some x)) of
                            Inl e \<Rightarrow> (Some ccPayload, None, Some e)
                          | Inr respPayload \<Rightarrow> (Some ccPayload, Some respPayload, None))))))"

definition GetActionFromEnvelopeMsg :: "Envelope \<Rightarrow> (ChaincodeAction option \<times> go_error option) outcome" where
  "GetActionFromEnvelopeMsg env =
     (case checked (UnmarshalPayload (env_Payload env)) of
        Inl e \<Rightarrow> Done (None, Some e)
      | Inr payl \<Rightarrow>
          (case checked (UnmarshalTransaction (pl_Data payl)) of
             Inl e \<Rightarrow> Done (None, Some e)
           | Inr tx \<Rightarrow>
               (case tx_Actions tx of
                  [] \<Rightarrow> Done (None, Some (EText ''at least one TransactionAction required''))
                | a # _ \<Rightarrow> out_bind (deref a) (\<lambda>action.
                    case GetPayloads action of (_, respPayload, err) \<Rightarrow> Done (respPayload, err)))))"

definition GetActionFromEnvelope :: "bytes option \<Rightarrow> (ChaincodeAction option \<times> go_error option) outcome" where
  "GetActionFromEnvelope envBytes =
     (case GetEnvelopeFromBlock envBytes of
        Inl e \<Rightarrow> Done (None, Some e)
      | Inr env \<Rightarrow> GetActionFromEnvelopeMsg env)"

section \<open>Proposals\<close>

definition CreateChaincodeProposalWithTxIDNonceAndTransient ::
    "map_iter \<Rightarrow> go_error + Timestamp \<Rightarrow> string \<Rightarrow> int32 \<Rightarrow> string \<Rightarrow> ChaincodeInvocationSpec \<Rightarrow>
     bytes option \<Rightarrow> bytes option \<Rightarrow> bytes option gmap option \<Rightarrow> (go_error + Proposal \<times> string) outcome" where
  "CreateChaincodeProposalWithTxIDNonceAndTransient iter now txid typ chainID cis nonce creator transientMap =
     out_bind (deref (cis_ChaincodeSpec cis)) (\<lambda>spec.
     try_bind (res_wrap ''error marshaling ChaincodeHeaderExtension''
       (proto_Marshal iter (Some (ChaincodeHeaderExtension_msg
          (ChaincodeHeaderExtension_zero\<lparr>che_ChaincodeId := ccs_ChaincodeId spec\<rparr>))))) (\<lambda>ccHdrExtBytes.
     try_bind (res_wrap ''error marshaling ChaincodeInvocationSpec''
       (proto_Marshal iter (Some (ChaincodeInvocationSpec_msg cis)))) (\<lambda>cisBytes.
     try_bind (res_wrap ''error marshaling ChaincodeProposalPayload''
       (proto_Marshal iter (Some (ChaincodeProposalPayload_msg
          (ChaincodeProposalPayload_zero\<lparr>cpp_Input := Some cisBytes, cpp_TransientMap := transientMap\<rparr>))))) (\<lambda>ccPropPayloadBytes.
     try_bind (res_wrap ''error validating Timestamp'' now) (\<lambda>timestamp.
     out_bind (MarshalOrPanic iter (Some (ChannelHeader_msg
       (ChannelHeader_zero\<lparr>ch_Type := typ, ch_TxId := txid, ch_Timestamp := Some timestamp,
          ch_ChannelId := chainID, ch_Extension := Some ccHdrExtBytes, ch_Epoch := 0\<rparr>)))) (\<lambda>chBytes.
     out_bind (MarshalOrPanic iter (Some (SignatureHeader_msg
       (SignatureHeader_zero\<lparr>sh_Nonce := nonce, sh_Creator := creator\<rparr>)))) (\<lambda>shBytes.
     try_bind (proto_Marshal iter (Some (Header_msg
       (Header_zero\<lparr>hdr_ChannelHeader := Some chBytes, hdr_SignatureHeader := Some shBytes\<rparr>)))) (\<lambda>hdrBytes.
     Done (Inr (Proposal_zero\<lparr>prop_Header := Some hdrBytes, prop_Payload := Some ccPropPayloadBytes\<rparr>, txid))))))))))"

definition CreateChaincodeProposalWithTxIDAndTransient ::
    "map_iter \<Rightarrow> go_error + bytes \<Rightarrow> go_error + Timestamp \<Rightarrow> int32 \<Rightarrow> string \<Rightarrow> ChaincodeInvocationSpec \<Rightarrow>
     bytes option \<Rightarrow> string \<Rightarrow> bytes option gmap option \<Rightarrow> (go_error + Proposal \<times> string) outcome" where
  "CreateChaincodeProposalWithTxIDAndTransient iter rand now typ chainID cis creator txid transientMap =
     try_bind (getRandomNonce rand) (\<lambda>nonce.
     CreateChaincodeProposalWithTxIDNonceAndTransient iter now
       (if txid = [] then ComputeTxID (Some nonce) creator else txid)
       typ chainID cis (Some nonce) creator transientMap)"

definition CreateChaincodeProposalWithTransient ::
    "map_iter \<Rightarrow> go_error + bytes \<Rightarrow> go_error + Timestamp \<Rightarrow> int32 \<Rightarrow> string \<Rightarrow> ChaincodeInvocationSpec \<Rightarrow>
     bytes option \<Rightarrow> bytes option gmap option \<Rightarrow> (go_error + Proposal \<times> string) outcome" where
  "CreateChaincodeProposalWithTransient iter rand now typ chainID cis creator transientMap =
     try_bind (getRandomNonce rand) (\<lambda>nonce.
     CreateChaincodeProposalWithTxIDNonceAndTransient iter now (ComputeTxID (Some nonce) creator)
       typ chainID cis (Some nonce) creator transientMap)"

definition CreateChaincodeProposal ::
    "map_iter \<Rightarrow> go_error + bytes \<Rightarrow> go_error + Timestamp \<Rightarrow> int32 \<Rightarrow> string \<Rightarrow> ChaincodeInvocationSpec \<Rightarrow>
     bytes option \<Rightarrow> (go_error + Proposal \<times> string) outcome" where
  "CreateChaincodeProposal iter rand now typ chainID cis creator =
     CreateChaincodeProposalWithTransient iter rand now typ chainID cis creator None"

definition CreateProposalFromCISAndTxid ::
    "map_iter \<Rightarrow> go_error + bytes \<Rightarrow> go_error + Timestamp \<Rightarrow> string \<Rightarrow> int32 \<Rightarrow> string \<Rightarrow> ChaincodeInvocationSpec \<Rightarrow>
     bytes option \<Rightarrow> (go_error + Proposal \<times> string) outcome" where
  "CreateProposalFromCISAndTxid iter rand now txid typ chainID cis creator =
     try_bind (getRandomNonce rand) (\<lambda>nonce.
     CreateChaincodeProposalWithTxIDNonceAndTransient iter now txid typ chainID cis (Some nonce) creator None)"

definition CreateProposalFromCIS ::
    "map_iter \<Rightarrow> go_error + bytes \<Rightarrow> go_error + Timestamp \<Rightarrow> int32 \<Rightarrow> string \<Rightarrow> ChaincodeInvocationSpec \<Rightarrow>
     bytes option \<Rightarrow> (go_error + Proposal \<times> string) outcome" where
  "CreateProposalFromCIS iter rand now typ chainID cis creator =
     CreateChaincodeProposal iter rand now typ chainID cis creator"

section \<open>Proposals to the lifecycle chaincode\<close>

definition ChaincodeSpec_GOLANG :: int32 where "ChaincodeSpec_GOLANG = 1"

definition lsccSpec :: "ChaincodeInput option \<Rightarrow> ChaincodeInvocationSpec" where
  "lsccSpec ccinp =
     ChaincodeInvocationSpec_zero
       \<lparr>cis_ChaincodeSpec := Some (ChaincodeSpec_zero
          \<lparr>ccs_Type := ChaincodeSpec_GOLANG,
           ccs_ChaincodeId := Some (ChaincodeID_zero\<lparr>ccid_Name := ''lscc''\<rparr>),
           ccs_Input := ccinp\<rparr>)\<rparr>"

definition cc_args :: "bytes option list \<Rightarrow> ChaincodeInput" where
  "cc_args args = ChaincodeInput_zero\<lparr>cci_Args := args\<rparr>"

definition CreateGetChaincodesProposal ::
    "map_iter \<Rightarrow> go_error + bytes \<Rightarrow> go_error + Timestamp \<Rightarrow> string \<Rightarrow> bytes option \<Rightarrow>
     (go_error + Proposal \<times> string) outcome" where
  "CreateGetChaincodesProposal iter rand now chainID creator =
     CreateProposalFromCIS iter rand now HeaderType_ENDORSER_TRANSACTION chainID
       (lsccSpec (Some (cc_args [Some ''getchaincodes'']))) creator"

definition CreateGetInstalledChaincodesProposal ::
    "map_iter \<Rightarrow> go_error + bytes \<Rightarrow> go_error + Timestamp \<Rightarrow> bytes option \<Rightarrow>
     (go_error + Proposal \<times> string) outcome" where
  "CreateGetInstalledChaincodesProposal iter rand now creator =
     CreateProposalFromCIS iter rand now HeaderType_ENDORSER_TRANSACTION []
       (lsccSpec (Some (cc_args [Some ''getinstalledchaincodes'']))) creator"

text \<open>The dynamic type of the message of \<open>createProposalFromCDS\<close>, with the possibly nil pointer in it.\<close>

datatype cds_message = CDSMessage "ChaincodeDeploymentSpec option" | OtherMessage "pb_msg option"

fun cds_pb :: "cds_message \<Rightarrow> pb_msg option" where
  "cds_pb (CDSMessage c) = map_option ChaincodeDeploymentSpec_msg c"
| "cds_pb (OtherMessage m) = m"

definition createProposalFromCDS ::
    "map_iter \<Rightarrow> go_error + bytes \<Rightarrow> go_error + Timestamp \<Rightarrow> string \<Rightarrow> cds_message option \<Rightarrow> bytes option \<Rightarrow>
     string \<Rightarrow> bytes option list \<Rightarrow> (go_error + Proposal \<times> string) outcome" where
  "createProposalFromCDS iter rand now chainID msg creator propType args =
     try_bind (case msg of None \<Rightarrow> Inr None
               | Some m \<Rightarrow> res_bind (proto_Marshal iter (cds_pb m)) (\<lambda>b. Inr (Some b))) (\<lambda>b.
     try_bind (if propType = ''deploy'' \<or> propType = ''upgrade'' then
                 (case msg of
                    Some (CDSMessage (Some _)) \<Rightarrow>
                      Inr (Some (cc_args ([Some propType, Some chainID, b] @ args)))
                  | _ \<Rightarrow> Inl (EText ''invalid message for creating lifecycle chaincode proposal''))
               else if propType = ''install'' then Inr (Some (cc_args [Some propType, b]))
               else Inr None) (\<lambda>ccinp.
     CreateProposalFromCIS iter rand now HeaderType_ENDORSER_TRANSACTION chainID (lsccSpec ccinp) creator))"

definition CreateInstallProposalFromCDS ::
    "map_iter \<Rightarrow> go_error + bytes \<Rightarrow> go_error + Timestamp \<Rightarrow> cds_message option \<Rightarrow> bytes option \<Rightarrow>
     (go_error + Proposal \<times> string) outcome" where
  "CreateInstallProposalFromCDS iter rand now ccpack creator =
     createProposalFromCDS iter rand now [] ccpack creator ''install'' []"

definition collection_args :: "bytes option \<Rightarrow> bytes option list" where
  "collection_args collectionConfig = (case collectionConfig of None \<Rightarrow> [] | Some _ \<Rightarrow> [collectionConfig])"

definition CreateDeployProposalFromCDS ::
    "map_iter \<Rightarrow> go_error + bytes \<Rightarrow> go_error + Timestamp \<Rightarrow> string \<Rightarrow> ChaincodeDeploymentSpec option \<Rightarrow> bytes option \<Rightarrow>
     bytes option \<Rightarrow> bytes option \<Rightarrow> bytes option \<Rightarrow> bytes option \<Rightarrow> (go_error + Proposal \<times> string) outcome" where
  "CreateDeployProposalFromCDS iter rand now chainID cds creator policy escc vscc collectionConfig =
     createProposalFromCDS iter rand now chainID (Some (CDSMessage cds)) creator ''deploy''
       ([policy, escc, vscc] @ collection_args collectionConfig)"

definition CreateUpgradeProposalFromCDS ::
    "map_iter \<Rightarrow> go_error + bytes \<Rightarrow> go_error + Timestamp \<Rightarrow> string \<Rightarrow> ChaincodeDeploymentSpec option \<Rightarrow> bytes option \<Rightarrow>
     bytes option \<Rightarrow> bytes option \<Rightarrow> bytes option \<Rightarrow> bytes option \<Rightarrow> (go_error + Proposal \<times> string) outcome" where
  "CreateUpgradeProposalFromCDS iter rand now chainID cds creator policy escc vscc collectionConfig =
     createProposalFromCDS iter rand now chainID (Some (CDSMessage cds)) creator ''upgrade''
       ([policy, escc, vscc] @ collection_args collectionConfig)"

end
