(* ===== verification/Tx_Utils.thy ===== *)
theory Tx_Utils
  imports Prop_Utils
begin

text \<open>
  \<open>server/protoutil/txutils.go\<close>: signed envelopes, the assembly of a transaction from endorsed
  proposal responses, proposal responses and their hashes, signed proposals.
\<close>

section \<open>Proposal payloads as they go into a transaction\<close>

definition GetBytesProposalPayloadForTx :: "map_iter \<Rightarrow> ChaincodeProposalPayload option \<Rightarrow> go_error + bytes" where
  "GetBytesProposalPayloadForTx iter payload =
     (case payload of
        None \<Rightarrow> Inl (EText ''nil arguments'')
      | Some p \<Rightarrow>
          GetBytesChaincodeProposalPayload iter
            (Some (ChaincodeProposalPayload_zero\<lparr>cpp_Input := cpp_Input p, cpp_TransientMap := None\<rparr>)))"

definition hash_args ::
    "Header option \<Rightarrow> bytes option \<Rightarrow> go_error + bytes \<times> bytes \<times> bytes" where
  "hash_args header ccPropPayl =
     (case (header, Option.bind header hdr_ChannelHeader, Option.bind header hdr_SignatureHeader, ccPropPayl) of
        (Some _, Some c, Some s, Some p) \<Rightarrow> Inr (c, s, p)
      | _ \<Rightarrow> Inl (EText ''nil arguments''))"

definition GetProposalHash2 :: "Header option \<Rightarrow> bytes option \<Rightarrow> go_error + bytes" where
  "GetProposalHash2 header ccPropPayl =
     res_bind (hash_args header ccPropPayl) (\<lambda>(c, s, p). Inr (sha256 (c @ s @ p)))"

definition GetProposalHash1 :: "map_iter \<Rightarrow> Header option \<Rightarrow> bytes option \<Rightarrow> go_error + bytes" where
  "GetProposalHash1 iter header ccPropPayl =
     res_bind (hash_args header ccPropPayl) (\<lambda>(c, s, p).
     res_bind (checked (UnmarshalChaincodeProposalPayload (Some p))) (\<lambda>cpp.
     res_bind (GetBytesProposalPayloadForTx iter (Some cpp)) (\<lambda>ppBytes.
     Inr (sha256 (c @ s @ ppBytes)))))"

section \<open>Signed envelopes\<close>

definition CreateSignedEnvelopeWithTLSBinding ::
    "map_iter \<Rightarrow> go_error + bytes \<Rightarrow> gint \<Rightarrow> int32 \<Rightarrow> string \<Rightarrow> SignerSerializer option \<Rightarrow> pb_msg option \<Rightarrow> int32 \<Rightarrow>
     uint64 \<Rightarrow> bytes option \<Rightarrow> (go_error + Envelope) outcome" where
  "CreateSignedEnvelopeWithTLSBinding iter rand now txType channelID signer dataMsg msgVersion epoch tlsCertHash =
     (let payloadChannelHeader =
        (MakeChannelHeader now txType msgVersion channelID epoch)\<lparr>ch_TlsCertHash := tlsCertHash\<rparr> in
      try_bind (case signer of None \<Rightarrow> Inr SignatureHeader_zero | Some s \<Rightarrow> NewSignatureHeader rand s) (\<lambda>payloadSignatureHeader.
      try_bind (res_wrap ''error marshaling'' (proto_Marshal iter dataMsg)) (\<lambda>data.
      out_bind (MakePayloadHeader iter payloadChannelHeader payloadSignatureHeader) (\<lambda>header.
      out_bind (MarshalOrPanic iter (Some (Payload_msg
        (Payload_zero\<lparr>pl_Header := Some header, pl_Data := Some data\<rparr>)))) (\<lambda>paylBytes.
      try_bind (case signer of None \<Rightarrow> Inr None
                | Some s \<Rightarrow> res_bind (Sign s paylBytes) (\<lambda>sig. Inr (Some sig))) (\<lambda>sig.
      Done (Inr (Envelope_zero\<lparr>env_Payload := Some paylBytes, env_Signature := sig\<rparr>))))))))"

definition CreateSignedEnvelope ::
    "map_iter \<Rightarrow> go_error + bytes \<Rightarrow> gint \<Rightarrow> int32 \<Rightarrow> string \<Rightarrow> SignerSerializer option \<Rightarrow> pb_msg option \<Rightarrow> int32 \<Rightarrow>
     uint64 \<Rightarrow> (go_error + Envelope) outcome" where
  "CreateSignedEnvelope iter rand now txType channelID signer dataMsg msgVersion epoch =
     CreateSignedEnvelopeWithTLSBinding iter rand now txType channelID signer dataMsg msgVersion epoch None"

section \<open>Transactions from endorsed responses\<close>

text \<open>The loop over the responses; \<open>a1\<close> is the payload of the first one once it is known.\<close>

fun check_responses :: "bytes option option \<Rightarrow> ProposalResponse list \<Rightarrow> (go_error + unit) outcome" where
  "check_responses a1 [] = Done (Inr ())"
| "check_responses a1 (r # rs) =
     out_bind (deref (pr_Response r)) (\<lambda>response.
     if sint (resp_Status response) < 200 \<or> 400 \<le> sint (resp_Status response)
     then Done (Inl (EText (''proposal response was not successful, error code '' @
            itoa (scast (resp_Status response)) @ '', msg '' @ resp_Message response)))
     else (case a1 of
       None \<Rightarrow> check_responses (Some (pr_Payload r)) rs
     | Some a \<Rightarrow>
         if slice_bytes a \<noteq> slice_bytes (pr_Payload r)
         then Done (Inl (EText ''ProposalResponsePayloads do not match''))
         else check_responses a1 rs))"

definition CreateSignedTx ::
    "map_iter \<Rightarrow> Proposal \<Rightarrow> SignerSerializer \<Rightarrow> ProposalResponse list \<Rightarrow> (go_error + Envelope) outcome" where
  "CreateSignedTx iter proposal signer resps =
     (case resps of
        [] \<Rightarrow> Done (Inl (EText ''at least one proposal response is required''))
      | first # _ \<Rightarrow>
          try_bind (checked (UnmarshalHeader (prop_Header proposal))) (\<lambda>hdr.
          try_bind (checked (UnmarshalChaincodeProposalPayload (prop_Payload proposal))) (\<lambda>pPayl.
          try_bind (Serialize signer) (\<lambda>signerBytes.
          try_bind (checked (UnmarshalSignatureHeader (hdr_SignatureHeader hdr))) (\<lambda>shdr.
          if signerBytes \<noteq> slice_bytes (sh_Creator shdr)
          then Done (Inl (EText ''signer must be the same as the one referenced in the header''))
          else
          out_bind (check_responses None resps) (\<lambda>ok. try_bind ok (\<lambda>_.
          let cea = ChaincodeEndorsedAction_zero
                      \<lparr>cea_ProposalResponsePayload := pr_Payload first,
                       cea_Endorsements := map pr_Endorsement resps\<rparr> in
          try_bind (GetBytesProposalPayloadForTx iter (Some pPayl)) (\<lambda>propPayloadBytes.
          try_bind (GetBytesChaincodeActionPayload iter (Some (ChaincodeActionPayload_zero
            \<lparr>cap_ChaincodeProposalPayload := Some propPayloadBytes, cap_Action := Some cea\<rparr>))) (\<lambda>capBytes.
          let taa = TransactionAction_zero\<lparr>ta_Header := hdr_SignatureHeader hdr, ta_Payload := Some capBytes\<rparr> in
          try_bind (GetBytesTransaction iter (Some (Transaction_zero\<lparr>tx_Actions := [Some taa]\<rparr>))) (\<lambda>txBytes.
          try_bind (GetBytesPayload iter (Some (Payload_zero\<lparr>pl_Header := Some hdr, pl_Data := Some txBytes\<rparr>))) (\<lambda>paylBytes.
          try_bind (Sign signer paylBytes) (\<lambda>sig.
          Done (Inr (Envelope_zero\<lparr>env_Payload := Some paylBytes, env_Signature := Some sig\<rparr>))))))))))))))"

section \<open>Proposal responses\<close>

definition CreateProposalResponse ::
    "map_iter \<Rightarrow> bytes option \<Rightarrow> bytes option \<Rightarrow> Response option \<Rightarrow> bytes option \<Rightarrow> bytes option \<Rightarrow>
     ChaincodeID option \<Rightarrow> SignerSerializer \<Rightarrow> go_error + ProposalResponse" where
  "CreateProposalResponse iter hdrbytes payl response results events ccid signingEndorser =
     res_bind (checked (UnmarshalHeader hdrbytes)) (\<lambda>hdr.
     res_bind (res_wrap ''error computing proposal hash'' (GetProposalHash1 iter (Some hdr) payl)) (\<lambda>pHashBytes.
     res_bind (GetBytesProposalResponsePayload iter (Some pHashBytes) response results events ccid) (\<lambda>prpBytes.
     res_bind (res_wrap ''error serializing signing identity'' (Serialize signingEndorser)) (\<lambda>endorser.
     res_bind (res_wrap ''could not sign the proposal response payload''
       (Sign signingEndorser (prpBytes @ endorser))) (\<lambda>signature.
     Inr (ProposalResponse_zero
       \<lparr>pr_Version := 1,
        pr_Endorsement := Some (Endorsement_zero\<lparr>end_Signature := Some signature, end_Endorser := Some endorser\<rparr>),
        pr_Payload := Some prpBytes,
        pr_Response := Some (Response_zero\<lparr>resp_Status := 200, resp_Message := ''OK''\<rparr>)\<rparr>))))))"

definition CreateProposalResponseFailure ::
    "map_iter \<Rightarrow> bytes option \<Rightarrow> bytes option \<Rightarrow> Response option \<Rightarrow> bytes option \<Rightarrow> bytes option \<Rightarrow>
     string \<Rightarrow> go_error + ProposalResponse" where
  "CreateProposalResponseFailure iter hdrbytes payl response results events chaincodeName =
     res_bind (checked (UnmarshalHeader hdrbytes)) (\<lambda>hdr.
     res_bind (res_wrap ''error computing proposal hash'' (GetProposalHash1 iter (Some hdr) payl)) (\<lambda>pHashBytes.
     res_bind (GetBytesProposalResponsePayload iter (Some pHashBytes) response results events
       (Some (ChaincodeID_zero\<lparr>ccid_Name := chaincodeName\<rparr>))) (\<lambda>prpBytes.
     Inr (ProposalResponse_zero\<lparr>pr_Payload := Some prpBytes, pr_Response := response\<rparr>))))"

section \<open>Signed proposals\<close>

definition GetSignedProposal ::
    "map_iter \<Rightarrow> Proposal option \<Rightarrow> SignerSerializer option \<Rightarrow> go_error + SignedProposal" where
  "GetSignedProposal iter prop signer =
     (case (prop, signer) of
        (Some p, Some s) \<Rightarrow>
          res_bind (proto_Marshal iter (Some (Proposal_msg p))) (\<lambda>propBytes.
          res_bind (Sign s propBytes) (\<lambda>signature.
          Inr (SignedProposal_zero\<lparr>sp_ProposalBytes := Some propBytes, sp_Signature := Some signature\<rparr>)))
      | _ \<Rightarrow> Inl (EText ''nil arguments''))"

definition MockSignedEndorserProposalOrPanic ::
    "map_iter \<Rightarrow> go_error + bytes \<Rightarrow> go_error + Timestamp \<Rightarrow> string \<Rightarrow> ChaincodeSpec option \<Rightarrow> bytes option \<Rightarrow>
     bytes option \<Rightarrow> (SignedProposal \<times> Proposal) outcome" where
  "MockSignedEndorserProposalOrPanic iter rand now chainID cs creator signature =
     out_bind (CreateChaincodeProposal iter rand now HeaderType_ENDORSER_TRANSACTION chainID
       (ChaincodeInvocationSpec_zero\<lparr>cis_ChaincodeSpec := cs\<rparr>) creator) (\<lambda>r.
     out_bind (or_panic r) (\<lambda>(prop, _).
     out_bind (or_panic (proto_Marshal iter (Some (Proposal_msg prop)))) (\<lambda>propBytes.
     Done (SignedProposal_zero\<lparr>sp_ProposalBytes := Some propBytes, sp_Signature := signature\<rparr>, prop))))"

definition MockSignedEndorserProposal2OrPanic ::
    "map_iter \<Rightarrow> go_error + bytes \<Rightarrow> go_error + Timestamp \<Rightarrow> string \<Rightarrow> ChaincodeSpec option \<Rightarrow> SignerSerializer \<Rightarrow>
     (SignedProposal \<times> Proposal) outcome" where
  "MockSignedEndorserProposal2OrPanic iter rand now chainID cs signer =
     out_bind (or_panic (Serialize signer)) (\<lambda>serializedSigner.
     out_bind (CreateChaincodeProposal iter rand now HeaderType_ENDORSER_TRANSACTION chainID
       (ChaincodeInvocationSpec_zero\<lparr>cis_ChaincodeSpec := Some ChaincodeSpec_zero\<rparr>) (Some serializedSigner)) (\<lambda>r.
     out_bind (or_panic r) (\<lambda>(prop, _).
     out_bind (or_panic (GetSignedProposal iter (Some prop) (Some signer))) (\<lambda>sProp.
     Done (sProp, prop)))))"

end
