(* ===== verification/Endorsement_Flow.thy ===== *)
theory Endorsement_Flow
  imports Message_Facts Tx_Utils
begin

text \<open>
  What the builders of \<open>proputils.go\<close> and \<open>txutils.go\<close> put into their messages, as inversion
  lemmas: from a successful call to the parts it marshalled, and from the bytes back to those
  parts. The properties of \<open>Protoutil_Properties\<close> are compositions of these.
\<close>

lemmas read_back =
  Header_reader.read_written ChannelHeader_reader.read_written SignatureHeader_reader.read_written
  Payload_reader.read_written ChaincodeProposalPayload_reader.read_written
  ChaincodeActionPayload_reader.read_written ProposalResponsePayload_reader.read_written
  ChaincodeAction_reader.read_written Transaction_reader.read_written Envelope_reader.read_written

section \<open>Parts that are never empty\<close>

lemma marshal_msg_part_nonempty:
  assumes "proto_Marshal iter (Some (PMsg fs u)) = Inr b" "(n, VMsg (Some m)) \<in> set fs"
  shows "b \<noteq> []"
proof -
  obtain c bad where c: "marshal_val iter n (VMsg (Some m)) = Inr (c, bad)" "length c \<le> length b"
    by (rule marshal_part [OF assms])
  then show ?thesis by (auto simp: delimited_def split: sum.splits)
qed

lemma marshal_bytes_part_nonempty:
  assumes "proto_Marshal iter (Some (PMsg fs u)) = Inr b" "(n, VBytes x) \<in> set fs" "slice_bytes x \<noteq> []"
  shows "b \<noteq> []"
  using marshal_bytes_part [OF assms(1,2)] assms(3) by auto

lemma nil_if_empty_Some [simp]: "b \<noteq> [] \<Longrightarrow> nil_if_empty (Some b) = Some b"
  by (simp add: nil_if_empty_def)

section \<open>Proposals\<close>

text \<open>The parts of a chaincode proposal.\<close>

definition proposal_channel_header :: "int32 \<Rightarrow> string \<Rightarrow> Timestamp \<Rightarrow> string \<Rightarrow> bytes \<Rightarrow> ChannelHeader" where
  "proposal_channel_header typ txid timestamp chainID ext =
     ChannelHeader_zero\<lparr>ch_Type := typ, ch_TxId := txid, ch_Timestamp := Some timestamp,
       ch_ChannelId := chainID, ch_Extension := Some ext, ch_Epoch := 0\<rparr>"

lemma create_proposal_parts:
  assumes "CreateChaincodeProposalWithTxIDNonceAndTransient iter now txid typ chainID cis nonce creator tm =
    Done (Inr (prop, t))"
  obtains timestamp ext cisb pay chb shb hdrb where "now = Inr timestamp" "t = txid"
    "proto_Marshal iter (Some (ChaincodeInvocationSpec_msg cis)) = Inr cisb"
    "proto_Marshal iter (Some (ChaincodeProposalPayload_msg
       (ChaincodeProposalPayload_zero\<lparr>cpp_Input := Some cisb, cpp_TransientMap := tm\<rparr>))) = Inr pay"
    "proto_Marshal iter (Some (ChannelHeader_msg (proposal_channel_header typ txid timestamp chainID ext))) = Inr chb"
    "proto_Marshal iter (Some (SignatureHeader_msg
       (SignatureHeader_zero\<lparr>sh_Nonce := nonce, sh_Creator := creator\<rparr>))) = Inr shb"
    "proto_Marshal iter (Some (Header_msg
       (Header_zero\<lparr>hdr_ChannelHeader := Some chb, hdr_SignatureHeader := Some shb\<rparr>))) = Inr hdrb"
    "prop = Proposal_zero\<lparr>prop_Header := Some hdrb, prop_Payload := Some pay\<rparr>"
  using assms
  by (auto simp: CreateChaincodeProposalWithTxIDNonceAndTransient_def MarshalOrPanic_def
      proposal_channel_header_def go_inversions deref_eq_Done)

text \<open>The header bytes give back both headers.\<close>

lemma header_bytes_part:
  assumes "proto_Marshal iter (Some (Header_msg h)) = Inr b"
  shows "length (slice_bytes (hdr_ChannelHeader h)) \<le> length b"
    and "length (slice_bytes (hdr_SignatureHeader h)) \<le> length b"
  using marshal_bytes_part [OF assms [unfolded Header_msg_def], of 1 "hdr_ChannelHeader h"]
    marshal_bytes_part [OF assms [unfolded Header_msg_def], of 2 "hdr_SignatureHeader h"] by simp_all

lemma read_header:
  assumes "order_free iter" "proto_Marshal iter (Some (Header_msg h)) = Inr b" "length b < 2 ^ 64"
    "hdr_unknown h = []"
  shows "UnmarshalHeader (Some b) =
    (h\<lparr>hdr_ChannelHeader := nil_if_empty (hdr_ChannelHeader h),
       hdr_SignatureHeader := nil_if_empty (hdr_SignatureHeader h)\<rparr>, None)"
  using Header_reader.read_written [OF assms(1) _ assms(2,3)] assms(4) by (simp add: typed_simps norm_simps)

lemma read_signature_header:
  assumes "order_free iter" "proto_Marshal iter (Some (SignatureHeader_msg h)) = Inr b" "length b < 2 ^ 64"
    "sh_unknown h = []"
  shows "UnmarshalSignatureHeader (nil_if_empty (Some b)) =
    (h\<lparr>sh_Creator := nil_if_empty (sh_Creator h), sh_Nonce := nil_if_empty (sh_Nonce h)\<rparr>, None)"
  using SignatureHeader_reader.read_written [OF assms(1) _ assms(2,3)] assms(4)
  by (simp add: typed_simps norm_simps UnmarshalSignatureHeader_def unmarshal_nil_if_empty)

lemma read_channel_header:
  assumes "order_free iter" "proto_Marshal iter (Some (ChannelHeader_msg h)) = Inr b" "length b < 2 ^ 64"
    "ch_unknown h = []" "pred_option (\<lambda>t. ts_unknown t = []) (ch_Timestamp h)"
  shows "UnmarshalChannelHeader (nil_if_empty (Some b)) =
    (h\<lparr>ch_Extension := nil_if_empty (ch_Extension h), ch_TlsCertHash := nil_if_empty (ch_TlsCertHash h)\<rparr>, None)"
  using ChannelHeader_reader.read_written [OF assms(1) _ assms(2,3)] assms(4,5)
  by (simp add: typed_simps norm_simps option.map_ident UnmarshalChannelHeader_def unmarshal_nil_if_empty)

lemma proposal_channel_header_simps [simp]:
  "ch_Type (proposal_channel_header typ txid ts chainID ext) = typ"
  "ch_TxId (proposal_channel_header typ txid ts chainID ext) = txid"
  "ch_ChannelId (proposal_channel_header typ txid ts chainID ext) = chainID"
  "ch_Timestamp (proposal_channel_header typ txid ts chainID ext) = Some ts"
  "ch_unknown (proposal_channel_header typ txid ts chainID ext) = []"
  by (simp_all add: proposal_channel_header_def ChannelHeader_zero_def)

lemma proposal_headers:
  assumes "CreateChaincodeProposalWithTxIDNonceAndTransient iter now txid typ chainID cis nonce creator tm =
      Done (Inr (prop, t))"
    and "order_free iter" "length (slice_bytes (prop_Header prop)) < 2 ^ 64"
    and "\<And>ts. now = Inr ts \<Longrightarrow> ts_unknown ts = []"
  obtains hdr ch sh where "checked (UnmarshalHeader (prop_Header prop)) = Inr hdr"
    "checked (UnmarshalChannelHeader (hdr_ChannelHeader hdr)) = Inr ch"
    "checked (UnmarshalSignatureHeader (hdr_SignatureHeader hdr)) = Inr sh"
    "ch_Type ch = typ" "ch_ChannelId ch = chainID" "ch_TxId ch = txid" "t = txid" "hdr_unknown hdr = []"
    "nil_if_empty (hdr_ChannelHeader hdr) = hdr_ChannelHeader hdr"
    "nil_if_empty (hdr_SignatureHeader hdr) = hdr_SignatureHeader hdr"
    "hdr_ChannelHeader hdr \<noteq> None" "slice_bytes nonce \<noteq> [] \<longrightarrow> hdr_SignatureHeader hdr \<noteq> None"
    "slice_bytes (sh_Nonce sh) = slice_bytes nonce" "slice_bytes (sh_Creator sh) = slice_bytes creator"
    "\<And>ts. now = Inr ts \<Longrightarrow> ch_Timestamp ch = Some ts"
proof -
  obtain timestamp ext cisb pay chb shb hdrb where p: "now = Inr timestamp" "t = txid"
    "proto_Marshal iter (Some (ChannelHeader_msg (proposal_channel_header typ txid timestamp chainID ext))) = Inr chb"
    "proto_Marshal iter (Some (SignatureHeader_msg
       (SignatureHeader_zero\<lparr>sh_Nonce := nonce, sh_Creator := creator\<rparr>))) = Inr shb"
    "proto_Marshal iter (Some (Header_msg
       (Header_zero\<lparr>hdr_ChannelHeader := Some chb, hdr_SignatureHeader := Some shb\<rparr>))) = Inr hdrb"
    "prop = Proposal_zero\<lparr>prop_Header := Some hdrb, prop_Payload := Some pay\<rparr>"
    by (rule create_proposal_parts [OF assms(1)])
  have small: "length hdrb < 2 ^ 64" using assms(3) p(6) by simp
  then have small2: "length chb < 2 ^ 64" "length shb < 2 ^ 64"
    using header_bytes_part [OF p(5)] by simp_all
  have hdr: "UnmarshalHeader (prop_Header prop) = (Header_zero
      \<lparr>hdr_ChannelHeader := nil_if_empty (Some chb), hdr_SignatureHeader := nil_if_empty (Some shb)\<rparr>, None)"
    using read_header [OF assms(2) p(5) small] p(6) by (simp add: Header_zero_def)
  have ch: "UnmarshalChannelHeader (nil_if_empty (Some chb)) =
      ((proposal_channel_header typ txid timestamp chainID ext)
        \<lparr>ch_Extension := nil_if_empty (Some ext), ch_TlsCertHash := None\<rparr>, None)"
    using read_channel_header [OF assms(2) p(3) small2(1)] assms(4) [OF p(1)]
    by (simp add: proposal_channel_header_def ChannelHeader_zero_def nil_if_empty_def)
  have sh: "UnmarshalSignatureHeader (nil_if_empty (Some shb)) =
      (SignatureHeader_zero\<lparr>sh_Creator := nil_if_empty creator, sh_Nonce := nil_if_empty nonce\<rparr>, None)"
    using read_signature_header [OF assms(2) p(4) small2(2)] by (simp add: SignatureHeader_zero_def)
  have chb: "chb \<noteq> []"
    by (rule marshal_msg_part_nonempty [OF p(3) [unfolded ChannelHeader_msg_def], of 3 "Timestamp_msg timestamp"]) simp
  have shb: "shb \<noteq> []" if "slice_bytes nonce \<noteq> []"
    by (rule marshal_bytes_part_nonempty [OF p(4) [unfolded SignatureHeader_msg_def], of 2 nonce]) (use that in simp_all)
  show ?thesis
    by (rule that [of "fst (UnmarshalHeader (prop_Header prop))"
            "fst (UnmarshalChannelHeader (nil_if_empty (Some chb)))"
            "fst (UnmarshalSignatureHeader (nil_if_empty (Some shb)))"])
      (use chb shb ch in \<open>simp_all add: hdr sh p(1,2) Header_zero_def\<close>)
qed

lemma cis_bytes_nonempty:
  assumes "CreateChaincodeProposalWithTxIDNonceAndTransient iter now txid typ chainID cis nonce creator tm =
      Done (Inr (prop, t))"
    and "proto_Marshal iter (Some (ChaincodeInvocationSpec_msg cis)) = Inr cisb"
  shows "cisb \<noteq> []"
proof -
  obtain spec where "cis_ChaincodeSpec cis = Some spec"
    using assms(1)
    by (auto simp: CreateChaincodeProposalWithTxIDNonceAndTransient_def go_inversions deref_eq_Done)
  then show ?thesis
    using marshal_msg_part_nonempty [OF assms(2) [unfolded ChaincodeInvocationSpec_msg_def], of 1 "ChaincodeSpec_msg spec"]
    by simp
qed

section \<open>The check of the responses\<close>

definition response_ok :: "ProposalResponse \<Rightarrow> bool" where
  "response_ok r \<longleftrightarrow>
     (\<exists>resp. pr_Response r = Some resp \<and> 200 \<le> sint (resp_Status resp) \<and> sint (resp_Status resp) < 400)"

lemma check_one_response:
  "check_responses a1 (r # rs) = Done (Inr ()) \<longleftrightarrow> response_ok r \<and>
     (case a1 of None \<Rightarrow> check_responses (Some (pr_Payload r)) rs = Done (Inr ())
      | Some a \<Rightarrow> slice_bytes (pr_Payload r) = slice_bytes a \<and> check_responses a1 rs = Done (Inr ()))"
  by (cases "pr_Response r"; cases a1) (auto simp: response_ok_def)

lemma check_responses_later:
  "check_responses (Some a) rs = Done (Inr ()) \<longleftrightarrow>
     (\<forall>r\<in>set rs. response_ok r \<and> slice_bytes (pr_Payload r) = slice_bytes a)"
  by (induction rs) (auto simp: check_one_response simp del: check_responses.simps(2))

lemma check_responses_ok:
  "check_responses None (r # rs) = Done (Inr ()) \<longleftrightarrow>
     (\<forall>q\<in>set (r # rs). response_ok q \<and> slice_bytes (pr_Payload q) = slice_bytes (pr_Payload r))"
  by (auto simp: check_one_response check_responses_later simp del: check_responses.simps(2))

section \<open>Transactions\<close>

definition tx_endorsed_action :: "ProposalResponse list \<Rightarrow> ChaincodeEndorsedAction" where
  "tx_endorsed_action resps = ChaincodeEndorsedAction_zero
     \<lparr>cea_ProposalResponsePayload := pr_Payload (hd resps), cea_Endorsements := map pr_Endorsement resps\<rparr>"

lemma signed_tx_parts:
  assumes "CreateSignedTx iter proposal signer resps = Done (Inr env)"
  obtains hdr pPayl creator shdr ppb capb txb payb sig where
    "resps \<noteq> []"
    "checked (UnmarshalHeader (prop_Header proposal)) = Inr hdr"
    "checked (UnmarshalChaincodeProposalPayload (prop_Payload proposal)) = Inr pPayl"
    "Serialize signer = Inr creator"
    "checked (UnmarshalSignatureHeader (hdr_SignatureHeader hdr)) = Inr shdr"
    "creator = slice_bytes (sh_Creator shdr)"
    "\<forall>r\<in>set resps. response_ok r \<and> slice_bytes (pr_Payload r) = slice_bytes (pr_Payload (hd resps))"
    "GetBytesProposalPayloadForTx iter (Some pPayl) = Inr ppb"
    "proto_Marshal iter (Some (ChaincodeActionPayload_msg (ChaincodeActionPayload_zero
       \<lparr>cap_ChaincodeProposalPayload := Some ppb, cap_Action := Some (tx_endorsed_action resps)\<rparr>))) = Inr capb"
    "proto_Marshal iter (Some (Transaction_msg (Transaction_zero\<lparr>tx_Actions :=
       [Some (TransactionAction_zero\<lparr>ta_Header := hdr_SignatureHeader hdr, ta_Payload := Some capb\<rparr>)]\<rparr>))) = Inr txb"
    "proto_Marshal iter (Some (Payload_msg (Payload_zero\<lparr>pl_Header := Some hdr, pl_Data := Some txb\<rparr>))) = Inr payb"
    "Sign signer payb = Inr sig"
    "env = Envelope_zero\<lparr>env_Payload := Some payb, env_Signature := Some sig\<rparr>"
proof (cases resps)
  case Nil
  then show ?thesis using assms by (simp add: CreateSignedTx_def)
next
  case (Cons first rest)
  note step = assms [unfolded CreateSignedTx_def Cons list.case Let_def]
  obtain hdr where hdr: "checked (UnmarshalHeader (prop_Header proposal)) = Inr hdr"
    using step by (auto simp: try_bind_eq_Inr)
  obtain pPayl where pPayl: "checked (UnmarshalChaincodeProposalPayload (prop_Payload proposal)) = Inr pPayl"
    using step hdr by (auto simp: try_bind_eq_Inr)
  obtain creator where creator: "Serialize signer = Inr creator"
    using step hdr pPayl by (auto simp: try_bind_eq_Inr)
  obtain shdr where shdr: "checked (UnmarshalSignatureHeader (hdr_SignatureHeader hdr)) = Inr shdr"
    using step hdr pPayl creator by (auto simp: try_bind_eq_Inr)
  note step2 = step [unfolded hdr pPayl creator shdr try_bind_simps]
  have same: "creator = slice_bytes (sh_Creator shdr)"
    using step2 by (auto split: if_splits)
  have ok: "check_responses None (first # rest) = Done (Inr ())"
    using step2 same by (auto simp: out_bind_eq_Done try_bind_eq_Inr)
  note step3 = step2 [unfolded ok out_bind_simps try_bind_simps]
  note step4 = step3 [unfolded same, simplified, folded same]
  obtain ppb where ppb: "GetBytesProposalPayloadForTx iter (Some pPayl) = Inr ppb"
    using step4 by (auto simp: try_bind_eq_Inr)
  note step5 = step4 [unfolded ppb try_bind_simps GetBytesChaincodeActionPayload_def GetBytesTransaction_def
      GetBytesPayload_def option.map]
  have cea: "ChaincodeEndorsedAction_zero\<lparr>cea_ProposalResponsePayload := pr_Payload first,
      cea_Endorsements := pr_Endorsement first # map pr_Endorsement rest\<rparr> = tx_endorsed_action (first # rest)"
    by (simp add: tx_endorsed_action_def)
  note step6 = step5 [unfolded cea]
  from step6 obtain capb where capb: "proto_Marshal iter (Some (ChaincodeActionPayload_msg (ChaincodeActionPayload_zero
       \<lparr>cap_ChaincodeProposalPayload := Some ppb, cap_Action := Some (tx_endorsed_action (first # rest))\<rparr>))) = Inr capb"
    by (auto simp: try_bind_eq_Inr res_wrap_eq_Inr)
  note step7 = step6 [unfolded capb res_wrap_simps try_bind_simps]
  from step7 obtain txb where txb: "proto_Marshal iter (Some (Transaction_msg (Transaction_zero\<lparr>tx_Actions :=
       [Some (TransactionAction_zero\<lparr>ta_Header := hdr_SignatureHeader hdr, ta_Payload := Some capb\<rparr>)]\<rparr>))) = Inr txb"
    by (auto simp: try_bind_eq_Inr res_wrap_eq_Inr)
  note step8 = step7 [unfolded txb res_wrap_simps try_bind_simps]
  from step8 obtain payb where payb:
    "proto_Marshal iter (Some (Payload_msg (Payload_zero\<lparr>pl_Header := Some hdr, pl_Data := Some txb\<rparr>))) = Inr payb"
    by (auto simp: try_bind_eq_Inr res_wrap_eq_Inr)
  note step9 = step8 [unfolded payb res_wrap_simps try_bind_simps]
  from step9 obtain sig where sig: "Sign signer payb = Inr sig"
    "env = Envelope_zero\<lparr>env_Payload := Some payb, env_Signature := Some sig\<rparr>"
    by (auto simp: try_bind_eq_Inr)
  show ?thesis
    by (rule that [OF _ hdr pPayl creator shdr same, unfolded Cons])
      (use ok [unfolded check_responses_ok] ppb capb txb payb sig in simp_all)
qed

section \<open>Reading a transaction back\<close>

text \<open>
  The reads of a committer on the payload that \<open>CreateSignedTx\<close> signed. An endorsement is read
  back with nil for empty slices.
\<close>

definition normal_endorsement :: "Endorsement \<Rightarrow> Endorsement" where
  "normal_endorsement e = e\<lparr>end_Endorser := nil_if_empty (end_Endorser e), end_Signature := nil_if_empty (end_Signature e)\<rparr>"

lemma read_signed_payload:
  assumes "order_free iter" "length payb < 2 ^ 64" "hdr_unknown hdr = []"
    and payb: "proto_Marshal iter (Some (Payload_msg (Payload_zero\<lparr>pl_Header := Some hdr, pl_Data := Some txb\<rparr>))) = Inr payb"
  shows "UnmarshalPayload (Some payb) = (Payload_zero
      \<lparr>pl_Header := Some (hdr\<lparr>hdr_ChannelHeader := nil_if_empty (hdr_ChannelHeader hdr),
                             hdr_SignatureHeader := nil_if_empty (hdr_SignatureHeader hdr)\<rparr>),
       pl_Data := nil_if_empty (Some txb)\<rparr>, None)"
    and "length txb < 2 ^ 64"
proof -
  have "length txb \<le> length payb"
    using marshal_bytes_part [OF payb [unfolded Payload_msg_def], of 2 "Some txb"] by simp
  then show "length txb < 2 ^ 64" using assms(2) by simp
  show "UnmarshalPayload (Some payb) = (Payload_zero
      \<lparr>pl_Header := Some (hdr\<lparr>hdr_ChannelHeader := nil_if_empty (hdr_ChannelHeader hdr),
                             hdr_SignatureHeader := nil_if_empty (hdr_SignatureHeader hdr)\<rparr>),
       pl_Data := nil_if_empty (Some txb)\<rparr>, None)"
    using Payload_reader.read_written [OF assms(1) _ payb assms(2)] assms(3)
    by (simp add: typed_simps norm_simps Payload_zero_def)
qed

lemma read_signed_transaction:
  assumes "order_free iter" "length txb < 2 ^ 64"
    and txb: "proto_Marshal iter (Some (Transaction_msg (Transaction_zero\<lparr>tx_Actions :=
       [Some (TransactionAction_zero\<lparr>ta_Header := h, ta_Payload := Some capb\<rparr>)]\<rparr>))) = Inr txb"
  shows "UnmarshalTransaction (nil_if_empty (Some txb)) = (Transaction_zero\<lparr>tx_Actions :=
       [Some (TransactionAction_zero\<lparr>ta_Header := nil_if_empty h, ta_Payload := nil_if_empty (Some capb)\<rparr>)]\<rparr>, None)"
    and "length capb < 2 ^ 64"
proof -
  let ?taa = "TransactionAction_zero\<lparr>ta_Header := h, ta_Payload := Some capb\<rparr>"
  obtain c bad where c: "marshal_val iter 1 (VMsgs [Some (TransactionAction_msg ?taa)]) = Inr (c, bad)"
    "length c \<le> length txb"
    by (rule marshal_part [OF txb [unfolded Transaction_msg_def], of 1 "VMsgs [Some (TransactionAction_msg ?taa)]"])
      (simp_all add: Transaction_zero_def)
  then obtain tab where tab: "marshal iter (TransactionAction_msg ?taa) = Inr tab" "length tab \<le> length c"
    by (auto simp: delimited_def split: sum.splits if_splits)
  have "proto_Marshal iter (Some (TransactionAction_msg ?taa)) = Inr tab"
    using tab(1) by (simp add: proto_Marshal_def)
  then have "length capb \<le> length tab"
    using marshal_bytes_part [OF _, of iter _ _ tab 2 "Some capb"] by (fastforce simp: TransactionAction_msg_def)
  then show "length capb < 2 ^ 64" using tab(2) c(2) assms(2) by simp
  show "UnmarshalTransaction (nil_if_empty (Some txb)) = (Transaction_zero\<lparr>tx_Actions :=
       [Some (TransactionAction_zero\<lparr>ta_Header := nil_if_empty h, ta_Payload := nil_if_empty (Some capb)\<rparr>)]\<rparr>, None)"
    using Transaction_reader.read_written [OF assms(1) _ txb assms(2)]
    by (simp add: typed_simps norm_simps Transaction_zero_def TransactionAction_zero_def UnmarshalTransaction_def
        unmarshal_nil_if_empty)
qed

lemma action_payload_bound:
  assumes "proto_Marshal iter (Some (ChaincodeActionPayload_msg (ChaincodeActionPayload_zero
       \<lparr>cap_ChaincodeProposalPayload := p, cap_Action := Some cea\<rparr>))) = Inr capb"
  shows "length (slice_bytes (cea_ProposalResponsePayload cea)) \<le> length capb"
proof -
  obtain c bad where c: "marshal_val iter 2 (VMsg (Some (ChaincodeEndorsedAction_msg cea))) = Inr (c, bad)"
    "length c \<le> length capb"
    by (rule marshal_part [OF assms [unfolded ChaincodeActionPayload_msg_def], of 2
          "VMsg (Some (ChaincodeEndorsedAction_msg cea))"]) simp_all
  then obtain b where b: "proto_Marshal iter (Some (ChaincodeEndorsedAction_msg cea)) = Inr b" "c = delimited 2 b"
    by (auto simp: proto_Marshal_def split: sum.splits)
  have "length (slice_bytes (cea_ProposalResponsePayload cea)) \<le> length b"
    using marshal_bytes_part [OF b(1) [unfolded ChaincodeEndorsedAction_msg_def], of 1 "cea_ProposalResponsePayload cea"]
    by simp
  also have "... \<le> length c" using b(2) delimited_bound by simp
  finally show ?thesis using c(2) by simp
qed

lemma read_action_payload:
  assumes "order_free iter" "length capb < 2 ^ 64"
    and capb: "proto_Marshal iter (Some (ChaincodeActionPayload_msg (ChaincodeActionPayload_zero
       \<lparr>cap_ChaincodeProposalPayload := Some ppb, cap_Action := Some (tx_endorsed_action resps)\<rparr>))) = Inr capb"
    and known: "\<forall>r\<in>set resps. pred_option (\<lambda>e. end_unknown e = []) (pr_Endorsement r)"
  shows "UnmarshalChaincodeActionPayload (nil_if_empty (Some capb)) = (ChaincodeActionPayload_zero
       \<lparr>cap_ChaincodeProposalPayload := nil_if_empty (Some ppb),
        cap_Action := Some (ChaincodeEndorsedAction_zero
          \<lparr>cea_ProposalResponsePayload := nil_if_empty (pr_Payload (hd resps)),
           cea_Endorsements := map (\<lambda>r. map_option normal_endorsement (pr_Endorsement r)) resps\<rparr>)\<rparr>, None)"
  using ChaincodeActionPayload_reader.read_written [OF assms(1) _ capb assms(2)] known
  by (simp add: typed_simps norm_simps ChaincodeActionPayload_zero_def ChaincodeEndorsedAction_zero_def
      tx_endorsed_action_def UnmarshalChaincodeActionPayload_def unmarshal_nil_if_empty list_all_iff
      comp_def normal_endorsement_def [abs_def])

text \<open>A response without an endorsement does not get past the serialisation.\<close>

lemma marshal_msgs_present: "marshal_msgs iter n ms later = Inr b \<Longrightarrow> None \<notin> set ms"
proof (induction ms arbitrary: later b)
  case (Cons m ms)
  then show ?case by (cases m) (auto split: sum.splits if_splits option.splits)
qed simp

lemma endorsements_present:
  assumes "proto_Marshal iter (Some (ChaincodeActionPayload_msg (ChaincodeActionPayload_zero
       \<lparr>cap_ChaincodeProposalPayload := p, cap_Action := Some (tx_endorsed_action resps)\<rparr>))) = Inr capb"
  shows "\<forall>r\<in>set resps. pr_Endorsement r \<noteq> None"
proof -
  obtain c bad where c: "marshal_val iter 2 (VMsg (Some (ChaincodeEndorsedAction_msg (tx_endorsed_action resps)))) = Inr (c, bad)"
    by (rule marshal_part [OF assms [unfolded ChaincodeActionPayload_msg_def], of 2
          "VMsg (Some (ChaincodeEndorsedAction_msg (tx_endorsed_action resps)))"]) simp_all
  then obtain b where b: "proto_Marshal iter (Some (ChaincodeEndorsedAction_msg (tx_endorsed_action resps))) = Inr b"
    by (auto simp: proto_Marshal_def split: sum.splits)
  obtain d bad' where
    "marshal_val iter 2 (VMsgs (map (map_option Endorsement_msg) (cea_Endorsements (tx_endorsed_action resps)))) = Inr (d, bad')"
    by (rule marshal_part [OF b [unfolded ChaincodeEndorsedAction_msg_def], of 2
          "VMsgs (map (map_option Endorsement_msg) (cea_Endorsements (tx_endorsed_action resps)))"]) simp_all
  then have "None \<notin> set (map (map_option Endorsement_msg) (cea_Endorsements (tx_endorsed_action resps)))"
    by (auto dest!: marshal_msgs_present split: sum.splits)
  then show ?thesis by (auto simp: tx_endorsed_action_def)
qed

section \<open>Endorsements\<close>

text \<open>The action an endorser writes down, and the response payload around it.\<close>

definition endorsed_action :: "Response option \<Rightarrow> bytes option \<Rightarrow> bytes option \<Rightarrow> ChaincodeID option \<Rightarrow> ChaincodeAction" where
  "endorsed_action response results events ccid = ChaincodeAction_zero
     \<lparr>ca_Events := events, ca_Results := results, ca_Response := response, ca_ChaincodeId := ccid\<rparr>"

lemma proposal_response_parts:
  assumes "CreateProposalResponse iter hdrb payl response results events ccid e = Inr r"
  obtains hdr hash actb prpb endorser sig where
    "checked (UnmarshalHeader hdrb) = Inr hdr" "GetProposalHash1 iter (Some hdr) payl = Inr hash"
    "proto_Marshal iter (Some (ChaincodeAction_msg (endorsed_action response results events ccid))) = Inr actb"
    "proto_Marshal iter (Some (ProposalResponsePayload_msg
       (ProposalResponsePayload_zero\<lparr>prp_Extension := Some actb, prp_ProposalHash := Some hash\<rparr>))) = Inr prpb"
    "Serialize e = Inr endorser" "Sign e (prpb @ endorser) = Inr sig"
    "r = ProposalResponse_zero
       \<lparr>pr_Version := 1,
        pr_Endorsement := Some (Endorsement_zero\<lparr>end_Signature := Some sig, end_Endorser := Some endorser\<rparr>),
        pr_Payload := Some prpb,
        pr_Response := Some (Response_zero\<lparr>resp_Status := 200, resp_Message := ''OK''\<rparr>)\<rparr>"
  using assms
  by (auto simp: CreateProposalResponse_def GetBytesProposalResponsePayload_def endorsed_action_def Let_def
      go_inversions)

section \<open>The hash over a proposal\<close>

lemma GetProposalHash1_parts:
  assumes "GetProposalHash1 iter (Some hdr) payl = Inr hash"
  obtains c s p cpp ppb where "hdr_ChannelHeader hdr = Some c" "hdr_SignatureHeader hdr = Some s" "payl = Some p"
    "checked (UnmarshalChaincodeProposalPayload (Some p)) = Inr cpp"
    "GetBytesProposalPayloadForTx iter (Some cpp) = Inr ppb" "hash = sha256 (c @ s @ ppb)"
  using assms
  by (auto simp: GetProposalHash1_def hash_args_def res_bind_eq_Inr split: option.splits)

lemma read_proposal_payload:
  assumes "order_free iter" "length pay < 2 ^ 64" "gmap_ok (slice_bytes tm)"
    and "proto_Marshal iter (Some (ChaincodeProposalPayload_msg
       (ChaincodeProposalPayload_zero\<lparr>cpp_Input := inp, cpp_TransientMap := tm\<rparr>))) = Inr pay"
  shows "UnmarshalChaincodeProposalPayload (Some pay) = (ChaincodeProposalPayload_zero
      \<lparr>cpp_Input := nil_if_empty inp, cpp_TransientMap := (if slice_bytes tm = [] then None else tm)\<rparr>, None)"
  using ChaincodeProposalPayload_reader.read_written [OF assms(1) _ assms(4,2)] assms(3)
  by (simp add: typed_simps norm_simps ChaincodeProposalPayload_zero_def)

lemma payload_for_tx_nonempty:
  assumes "GetBytesProposalPayloadForTx iter (Some cpp) = Inr b" "slice_bytes (cpp_Input cpp) \<noteq> []"
  shows "b \<noteq> []"
proof -
  have "proto_Marshal iter (Some (ChaincodeProposalPayload_msg
      (ChaincodeProposalPayload_zero\<lparr>cpp_Input := cpp_Input cpp, cpp_TransientMap := None\<rparr>))) = Inr b"
    using assms(1) by (simp add: GetBytesProposalPayloadForTx_def GetBytesChaincodeProposalPayload_def res_wrap_eq_Inr)
  then show ?thesis
    using marshal_bytes_part_nonempty [OF _ _ assms(2), of iter _ _ b 1]
    by (fastforce simp: ChaincodeProposalPayload_msg_def)
qed

section \<open>From the proposal to the committer\<close>

definition clock_plain :: "go_error + Timestamp \<Rightarrow> bool" where
  "clock_plain now \<longleftrightarrow> (case now of Inl _ \<Rightarrow> True | Inr ts \<Rightarrow> ts_unknown ts = [])"

text \<open>
  Everything a committer reads from the envelope of a transaction whose responses all come from
  endorsers of the same proposal and the same simulation results.
\<close>

lemma flow_reads:
  assumes iter: "order_free iter"
    and made: "CreateChaincodeProposalWithTxIDNonceAndTransient iter now txid typ chainID cis nonce creator tm =
      Done (Inr (prop, t))"
    and plain: "clock_plain now" "gmap_ok (slice_bytes tm)"
    and resps: "\<forall>r\<in>set resps. \<exists>e. CreateProposalResponse iter (prop_Header prop) (prop_Payload prop)
      response results events ccid e = Inr r"
    and tx: "CreateSignedTx iter prop signer resps = Done (Inr env)"
    and small: "length (slice_bytes (prop_Header prop)) < 2 ^ 64" "length (slice_bytes (prop_Payload prop)) < 2 ^ 64"
      "length (slice_bytes (env_Payload env)) < 2 ^ 64"
  obtains hdr payl ta capb ppb actb prpb hash where
    "checked (UnmarshalHeader (prop_Header prop)) = Inr hdr"
    "UnmarshalPayload (env_Payload env) = (payl, None)" "pl_Header payl = Some hdr"
    "UnmarshalTransaction (pl_Data payl) = (Transaction_zero\<lparr>tx_Actions := [Some ta]\<rparr>, None)"
    "ta_Payload ta = nil_if_empty (Some capb)"
    "UnmarshalChaincodeActionPayload (nil_if_empty (Some capb)) = (ChaincodeActionPayload_zero
       \<lparr>cap_ChaincodeProposalPayload := Some ppb,
        cap_Action := Some (ChaincodeEndorsedAction_zero
          \<lparr>cea_ProposalResponsePayload := Some prpb,
           cea_Endorsements := map (\<lambda>r. map_option normal_endorsement (pr_Endorsement r)) resps\<rparr>)\<rparr>, None)"
    "UnmarshalProposalResponsePayload (Some prpb) = (ProposalResponsePayload_zero
       \<lparr>prp_Extension := nil_if_empty (Some actb), prp_ProposalHash := Some hash\<rparr>, None)"
    "proto_Marshal iter (Some (ChaincodeAction_msg (endorsed_action response results events ccid))) = Inr actb"
    "length actb < 2 ^ 64"
    "GetProposalHash2 (Some hdr) (Some ppb) = Inr hash"
proof -
  obtain hdr ch sh where H: "checked (UnmarshalHeader (prop_Header prop)) = Inr hdr" "hdr_unknown hdr = []"
    "nil_if_empty (hdr_ChannelHeader hdr) = hdr_ChannelHeader hdr"
    "nil_if_empty (hdr_SignatureHeader hdr) = hdr_SignatureHeader hdr"
    by (rule proposal_headers [OF made iter small(1)])
      (use plain in \<open>auto simp: clock_plain_def\<close>)
  obtain cisb pay where P: "proto_Marshal iter (Some (ChaincodeInvocationSpec_msg cis)) = Inr cisb"
    "proto_Marshal iter (Some (ChaincodeProposalPayload_msg
       (ChaincodeProposalPayload_zero\<lparr>cpp_Input := Some cisb, cpp_TransientMap := tm\<rparr>))) = Inr pay"
    "prop_Payload prop = Some pay"
    by (rule create_proposal_parts [OF made]) simp
  obtain hdr' pPayl ppb capb txb payb sig where T: "resps \<noteq> []"
    "checked (UnmarshalHeader (prop_Header prop)) = Inr hdr'"
    "checked (UnmarshalChaincodeProposalPayload (prop_Payload prop)) = Inr pPayl"
    "\<forall>r\<in>set resps. response_ok r \<and> slice_bytes (pr_Payload r) = slice_bytes (pr_Payload (hd resps))"
    "GetBytesProposalPayloadForTx iter (Some pPayl) = Inr ppb"
    "proto_Marshal iter (Some (ChaincodeActionPayload_msg (ChaincodeActionPayload_zero
       \<lparr>cap_ChaincodeProposalPayload := Some ppb, cap_Action := Some (tx_endorsed_action resps)\<rparr>))) = Inr capb"
    "proto_Marshal iter (Some (Transaction_msg (Transaction_zero\<lparr>tx_Actions :=
       [Some (TransactionAction_zero\<lparr>ta_Header := hdr_SignatureHeader hdr', ta_Payload := Some capb\<rparr>)]\<rparr>))) = Inr txb"
    "proto_Marshal iter (Some (Payload_msg (Payload_zero\<lparr>pl_Header := Some hdr', pl_Data := Some txb\<rparr>))) = Inr payb"
    "env = Envelope_zero\<lparr>env_Payload := Some payb, env_Signature := Some sig\<rparr>"
    by (rule signed_tx_parts [OF tx])
  have hdr': "hdr' = hdr" using H(1) T(2) by simp
  have pay_small: "length pay < 2 ^ 64" using small(2) P(3) by simp
  have read_pay: "pPayl = ChaincodeProposalPayload_zero
      \<lparr>cpp_Input := nil_if_empty (Some cisb), cpp_TransientMap := (if slice_bytes tm = [] then None else tm)\<rparr>"
    using read_proposal_payload [OF iter pay_small plain(2) P(2)] T(3) P(3) by simp
  have ppb: "ppb \<noteq> []"
    using payload_for_tx_nonempty [OF T(5)] cis_bytes_nonempty [OF made P(1)] read_pay by simp
  obtain first where first: "first \<in> set resps" "hd resps = first" using T(1) hd_in_set by blast
  then obtain e where "CreateProposalResponse iter (prop_Header prop) (prop_Payload prop)
      response results events ccid e = Inr first"
    using resps by blast
  then obtain hash actb prpb sig' endorser where R: "GetProposalHash1 iter (Some hdr) (prop_Payload prop) = Inr hash"
    "proto_Marshal iter (Some (ChaincodeAction_msg (endorsed_action response results events ccid))) = Inr actb"
    "proto_Marshal iter (Some (ProposalResponsePayload_msg
       (ProposalResponsePayload_zero\<lparr>prp_Extension := Some actb, prp_ProposalHash := Some hash\<rparr>))) = Inr prpb"
    "pr_Payload first = Some prpb"
    by (rule proposal_response_parts) (use H(1) in simp)
  obtain c s where HH: "hdr_ChannelHeader hdr = Some c" "hdr_SignatureHeader hdr = Some s" "hash = sha256 (c @ s @ ppb)"
    by (rule GetProposalHash1_parts [OF R(1)]) (use T(3,5) P(3) in auto)
  have hash: "length hash = 32" using HH(3) by simp
  then have "hash \<noteq> []" by auto
  then have prpb: "prpb \<noteq> []"
    using marshal_bytes_part_nonempty [OF R(3) [unfolded ProposalResponsePayload_msg_def], of 1 "Some hash"]
    by simp
  have payb: "env_Payload env = Some payb" "length payb < 2 ^ 64" using small(3) T(9) by simp_all
  note T' = T(6-8) [unfolded hdr']
  note read = read_signed_payload [OF iter payb(2) H(2) T'(3)]
  note read' = read_signed_transaction [OF iter read(2) T'(2)]
  have "length prpb \<le> length capb"
    using action_payload_bound [OF T'(1)] first R(4) by (simp add: tx_endorsed_action_def)
  then have prpb_small: "length prpb < 2 ^ 64" using read'(2) by simp
  have actb_small: "length actb < 2 ^ 64"
    using marshal_bytes_part [OF R(3) [unfolded ProposalResponsePayload_msg_def], of 2 "Some actb"] prpb_small
    by simp
  have known: "\<forall>r\<in>set resps. pred_option (\<lambda>e. end_unknown e = []) (pr_Endorsement r)"
    using resps by (auto elim!: proposal_response_parts simp: Endorsement_zero_def)
  note cap = read_action_payload [OF iter read'(2) T'(1) known]
  have prp: "UnmarshalProposalResponsePayload (Some prpb) = (ProposalResponsePayload_zero
       \<lparr>prp_Extension := nil_if_empty (Some actb), prp_ProposalHash := Some hash\<rparr>, None)"
    using ProposalResponsePayload_reader.read_written [OF iter _ R(3) prpb_small] \<open>hash \<noteq> []\<close>
    by (simp add: typed_simps norm_simps ProposalResponsePayload_zero_def)
  have hash2: "GetProposalHash2 (Some hdr) (Some ppb) = Inr hash"
    using HH by (simp add: GetProposalHash2_def hash_args_def)
  show ?thesis
  proof (rule that [OF H(1) _ _ _ _ _ prp R(2) actb_small hash2])
    show "UnmarshalPayload (env_Payload env) =
        (Payload_zero\<lparr>pl_Header := Some hdr, pl_Data := nil_if_empty (Some txb)\<rparr>, None)"
      using read(1) H(3,4) payb(1) by simp
    show "pl_Header (Payload_zero\<lparr>pl_Header := Some hdr, pl_Data := nil_if_empty (Some txb)\<rparr>) = Some hdr"
      by simp
    show "UnmarshalTransaction (pl_Data (Payload_zero\<lparr>pl_Header := Some hdr, pl_Data := nil_if_empty (Some txb)\<rparr>)) =
        (Transaction_zero\<lparr>tx_Actions := [Some (TransactionAction_zero
           \<lparr>ta_Header := nil_if_empty (hdr_SignatureHeader hdr), ta_Payload := nil_if_empty (Some capb)\<rparr>)]\<rparr>, None)"
      using read'(1) by simp
    show "ta_Payload (TransactionAction_zero
        \<lparr>ta_Header := nil_if_empty (hdr_SignatureHeader hdr), ta_Payload := nil_if_empty (Some capb)\<rparr>) =
        nil_if_empty (Some capb)"
      by simp
  qed (use cap ppb prpb first R(4) in simp)
qed

section \<open>Honest parties get through\<close>

lemma marshal_msgs_total:
  "(\<And>x. x \<in> set ms \<Longrightarrow> \<exists>m b. x = Some m \<and> marshal iter m = Inr b) \<Longrightarrow> \<exists>b. marshal_msgs iter n ms None = Inr b"
proof (induction ms)
  case (Cons x ms)
  obtain m b where "x = Some m" "marshal iter m = Inr b" using Cons.prems by fastforce
  moreover obtain b' where "marshal_msgs iter n ms None = Inr b'" using Cons by fastforce
  ultimately show ?case by simp
qed simp

lemma marshal_endorsement: "\<exists>b. marshal iter (Endorsement_msg e) = Inr b"
  by (simp add: Endorsement_msg_def)

lemma marshal_action_payload:
  assumes "\<forall>r\<in>set resps. pr_Endorsement r \<noteq> None"
  shows "\<exists>b. proto_Marshal iter (Some (ChaincodeActionPayload_msg (ChaincodeActionPayload_zero
       \<lparr>cap_ChaincodeProposalPayload := p, cap_Action := Some (tx_endorsed_action resps)\<rparr>))) = Inr b"
proof -
  have "\<exists>b. marshal_msgs iter 2 (map (map_option Endorsement_msg) (cea_Endorsements (tx_endorsed_action resps))) None = Inr b"
    using assms marshal_endorsement by (intro marshal_msgs_total) (auto simp: tx_endorsed_action_def)
  then show ?thesis
    by (auto simp: proto_Marshal_def ChaincodeActionPayload_msg_def ChaincodeEndorsedAction_msg_def)
qed

lemma payload_for_tx_total: "\<exists>b. GetBytesProposalPayloadForTx iter (Some cpp) = Inr b"
  by (simp add: GetBytesProposalPayloadForTx_def GetBytesChaincodeProposalPayload_def proto_Marshal_def
      ChaincodeProposalPayload_msg_def ChaincodeProposalPayload_zero_def)

text \<open>An endorser whose identity and signatures work endorses every readable proposal.\<close>

lemma endorser_succeeds:
  assumes "checked (UnmarshalHeader hdrb) = Inr hdr" "hdr_ChannelHeader hdr \<noteq> None" "hdr_SignatureHeader hdr \<noteq> None"
    "checked (UnmarshalChaincodeProposalPayload (Some p)) = Inr cpp"
    "pred_option (\<lambda>r. valid_utf8 (resp_Message r)) response"
    "pred_option (\<lambda>c. valid_utf8 (ccid_Path c) \<and> valid_utf8 (ccid_Name c) \<and> valid_utf8 (ccid_Version c)) ccid"
    "Serialize e = Inr endorser" "\<And>m. \<exists>sig. Sign e m = Inr sig"
  shows "\<exists>r. CreateProposalResponse iter hdrb (Some p) response results events ccid e = Inr r \<and>
    response_ok r \<and> pr_Endorsement r \<noteq> None"
proof -
  obtain ppb where ppb: "GetBytesProposalPayloadForTx iter (Some cpp) = Inr ppb"
    using payload_for_tx_total by blast
  obtain hash where hash: "GetProposalHash1 iter (Some hdr) (Some p) = Inr hash"
    using assms(2-4) ppb by (auto simp: GetProposalHash1_def hash_args_def)
  obtain actb where actb: "proto_Marshal iter (Some (ChaincodeAction_msg (endorsed_action response results events ccid))) = Inr actb"
    using assms(5,6)
    by (cases response; cases ccid)
      (auto simp: endorsed_action_def proto_Marshal_def ChaincodeAction_msg_def ChaincodeAction_zero_def
        Response_msg_def ChaincodeID_msg_def)
  obtain prpb where prpb: "GetBytesProposalResponsePayload iter (Some hash) response results events ccid = Inr prpb"
    using actb
    by (simp add: GetBytesProposalResponsePayload_def Let_def endorsed_action_def)
      (simp add: proto_Marshal_def ProposalResponsePayload_msg_def ProposalResponsePayload_zero_def)
  obtain sig where "Sign e (prpb @ endorser) = Inr sig" using assms(8) by blast
  then show ?thesis
    using assms(1,7) hash prpb by (simp add: CreateProposalResponse_def response_ok_def)
qed

text \<open>The creator of the proposal can turn matching successful responses into a transaction.\<close>

lemma client_succeeds:
  assumes "checked (UnmarshalHeader (prop_Header proposal)) = Inr hdr"
    "checked (UnmarshalChaincodeProposalPayload (prop_Payload proposal)) = Inr pPayl"
    "checked (UnmarshalSignatureHeader (hdr_SignatureHeader hdr)) = Inr shdr"
    "Serialize signer = Inr (slice_bytes (sh_Creator shdr))" "\<And>m. \<exists>sig. Sign signer m = Inr sig"
    "resps \<noteq> []"
    "\<forall>r\<in>set resps. response_ok r \<and> pr_Endorsement r \<noteq> None \<and> slice_bytes (pr_Payload r) = slice_bytes (pr_Payload (hd resps))"
  shows "\<exists>env. CreateSignedTx iter proposal signer resps = Done (Inr env)"
proof -
  obtain first rest where resps: "resps = first # rest" using assms(6) by (cases resps) auto
  have ok: "check_responses None (first # rest) = Done (Inr ())"
    using assms(7) by (simp add: check_responses_ok resps del: check_responses.simps)
  obtain ppb where ppb: "GetBytesProposalPayloadForTx iter (Some pPayl) = Inr ppb"
    using payload_for_tx_total by blast
  obtain capb where capb: "proto_Marshal iter (Some (ChaincodeActionPayload_msg (ChaincodeActionPayload_zero
       \<lparr>cap_ChaincodeProposalPayload := Some ppb, cap_Action := Some (tx_endorsed_action (first # rest))\<rparr>))) = Inr capb"
    using marshal_action_payload assms(7) resps by blast
  obtain txb where txb: "proto_Marshal iter (Some (Transaction_msg (Transaction_zero\<lparr>tx_Actions :=
       [Some (TransactionAction_zero\<lparr>ta_Header := hdr_SignatureHeader hdr, ta_Payload := Some capb\<rparr>)]\<rparr>))) = Inr txb"
    by (simp add: proto_Marshal_def Transaction_msg_def TransactionAction_msg_def)
  obtain payb where payb:
    "proto_Marshal iter (Some (Payload_msg (Payload_zero\<lparr>pl_Header := Some hdr, pl_Data := Some txb\<rparr>))) = Inr payb"
    by (simp add: proto_Marshal_def Payload_msg_def Header_msg_def)
  obtain sig where "Sign signer payb = Inr sig" using assms(5) by blast
  then show ?thesis
    using assms(1-4) ok ppb capb txb payb
    by (simp add: CreateSignedTx_def resps Let_def GetBytesChaincodeActionPayload_def GetBytesTransaction_def
        GetBytesPayload_def tx_endorsed_action_def del: check_responses.simps)
qed

text \<open>
  The whole way: endorsers that serialise and sign endorse the proposal alike, and its creator gets
  a transaction out of their responses.
\<close>

definition honest :: "SignerSerializer \<Rightarrow> bool" where
  "honest s \<longleftrightarrow> (\<exists>b. Serialize s = Inr b) \<and> (\<forall>m. \<exists>sig. Sign s m = Inr sig)"

definition response_utf8 :: "Response option \<Rightarrow> ChaincodeID option \<Rightarrow> bool" where
  "response_utf8 response ccid \<longleftrightarrow> pred_option (\<lambda>r. valid_utf8 (resp_Message r)) response \<and>
     pred_option (\<lambda>c. valid_utf8 (ccid_Path c) \<and> valid_utf8 (ccid_Name c) \<and> valid_utf8 (ccid_Version c)) ccid"

lemma same_payload:
  assumes "CreateProposalResponse iter hdrb payl response results events ccid e = Inr r"
    "CreateProposalResponse iter hdrb payl response results events ccid e' = Inr r'"
  shows "pr_Payload r = pr_Payload r'"
  by (rule proposal_response_parts [OF assms(1)], rule proposal_response_parts [OF assms(2)]) auto

lemma honest_flow:
  assumes iter: "order_free iter" and plain: "clock_plain now" "gmap_ok (slice_bytes tm)"
    and made: "CreateChaincodeProposalWithTxIDNonceAndTransient iter now txid typ chainID cis nonce creator tm =
      Done (Inr (proposal, t))"
    and small: "length (slice_bytes (prop_Header proposal)) < 2 ^ 64" "length (slice_bytes (prop_Payload proposal)) < 2 ^ 64"
    and nonce: "slice_bytes nonce \<noteq> []" and utf8: "response_utf8 response ccid"
    and endorsers: "endorsers \<noteq> []" "\<forall>e\<in>set endorsers. honest e"
    and client: "honest client" "Serialize client = Inr (slice_bytes creator)"
  shows "\<exists>resps env. list_all2 (\<lambda>e r. CreateProposalResponse iter (prop_Header proposal) (prop_Payload proposal)
        response results events ccid e = Inr r) endorsers resps \<and>
      CreateSignedTx iter proposal client resps = Done (Inr env)"
proof -
  obtain hdr sh where H: "checked (UnmarshalHeader (prop_Header proposal)) = Inr hdr"
    "checked (UnmarshalSignatureHeader (hdr_SignatureHeader hdr)) = Inr sh"
    "hdr_ChannelHeader hdr \<noteq> None" "hdr_SignatureHeader hdr \<noteq> None" "slice_bytes (sh_Creator sh) = slice_bytes creator"
    by (rule proposal_headers [OF made iter small(1)]) (use plain nonce in \<open>auto simp: clock_plain_def\<close>)
  obtain cisb pay where P: "proto_Marshal iter (Some (ChaincodeProposalPayload_msg
       (ChaincodeProposalPayload_zero\<lparr>cpp_Input := Some cisb, cpp_TransientMap := tm\<rparr>))) = Inr pay"
    "prop_Payload proposal = Some pay"
    by (rule create_proposal_parts [OF made]) simp
  have "length pay < 2 ^ 64" using small(2) P(2) by simp
  from read_proposal_payload [OF iter this plain(2) P(1)]
  obtain cpp where cpp: "checked (UnmarshalChaincodeProposalPayload (Some pay)) = Inr cpp" by simp
  let ?resp = "\<lambda>e. CreateProposalResponse iter (prop_Header proposal) (prop_Payload proposal) response results events ccid e"
  have one: "\<exists>r. ?resp e = Inr r \<and> response_ok r \<and> pr_Endorsement r \<noteq> None" if "e \<in> set endorsers" for e
    using endorser_succeeds [OF H(1,3,4) cpp, of response ccid e] endorsers(2) that utf8 P(2)
    by (auto simp: honest_def response_utf8_def)
  define resps where "resps = map (\<lambda>e. projr (?resp e)) endorsers"
  have all: "list_all2 (\<lambda>e r. ?resp e = Inr r) endorsers resps"
    unfolding resps_def list_all2_map2 list_all2_same using one by fastforce
  have good: "response_ok r \<and> pr_Endorsement r \<noteq> None \<and> (\<exists>e. ?resp e = Inr r)" if "r \<in> set resps" for r
    using that one by (force simp: resps_def)
  have nonempty: "resps \<noteq> []" using endorsers(1) by (simp add: resps_def)
  have same: "slice_bytes (pr_Payload r) = slice_bytes (pr_Payload (hd resps))" if r: "r \<in> set resps" for r
  proof -
    obtain e where e: "?resp e = Inr r" using good [OF r] by blast
    obtain e' where e': "?resp e' = Inr (hd resps)" using good [OF hd_in_set [OF nonempty]] by blast
    show ?thesis using same_payload [OF e e'] by simp
  qed
  have "\<exists>env. CreateSignedTx iter proposal client resps = Done (Inr env)"
  proof (rule client_succeeds [OF H(1) _ H(2) _ _ nonempty])
    show "checked (UnmarshalChaincodeProposalPayload (prop_Payload proposal)) = Inr cpp" using cpp P(2) by simp
    show "Serialize client = Inr (slice_bytes (sh_Creator sh))" using client(2) H(5) by simp
    show "\<exists>sig. Sign client m = Inr sig" for m using client(1) by (simp add: honest_def)
    show "\<forall>r\<in>set resps. response_ok r \<and> pr_Endorsement r \<noteq> None \<and>
        slice_bytes (pr_Payload r) = slice_bytes (pr_Payload (hd resps))"
      using good same by blast
  qed
  then show ?thesis using all by blast
qed

end
