(* ===== verification/Flow_Example.thy ===== *)
theory Flow_Example
  imports Endorsement_Flow
begin

text \<open>
  One concrete run from a proposal to a transaction, for the witnesses of \<open>Protoutil_Properties\<close>:
  a client, two endorsers, a transient map, and the bound on the size of the resulting envelope.
\<close>

definition run_iter :: map_iter where "run_iter m = m"

definition run_endorser :: SignerSerializer where
  "run_endorser = \<lparr>Serialize = Inr ''e'', Sign = (\<lambda>_. Inr ''s'')\<rparr>"

definition run_client :: SignerSerializer where
  "run_client = \<lparr>Serialize = Inr ''c'', Sign = (\<lambda>_. Inr ''z'')\<rparr>"

definition run_cis :: ChaincodeInvocationSpec where
  "run_cis = ChaincodeInvocationSpec_zero\<lparr>cis_ChaincodeSpec := Some ChaincodeSpec_zero\<rparr>"

definition run_create :: "(go_error + Proposal \<times> string) outcome" where
  "run_create = CreateChaincodeProposalWithTxIDNonceAndTransient run_iter (Inr Timestamp_zero) ''t'' 3 ''ch''
     run_cis (Some ''n'') (Some ''c'') (Some [(''k'', Some ''v'')])"

definition run_proposal :: Proposal where
  "run_proposal = (case run_create of Done (Inr (p, _)) \<Rightarrow> p | _ \<Rightarrow> Proposal_zero)"

lemma run_iter_free: "order_free run_iter"
  by (simp add: order_free_def run_iter_def)

lemma run_made: "CreateChaincodeProposalWithTxIDNonceAndTransient run_iter (Inr Timestamp_zero) ''t'' 3 ''ch''
    run_cis (Some ''n'') (Some ''c'') (Some [(''k'', Some ''v'')]) = Done (Inr (run_proposal, ''t''))"
  by code_simp

lemma run_small:
  "length (slice_bytes (prop_Header run_proposal)) < 2 ^ 64"
  "length (slice_bytes (prop_Payload run_proposal)) < 2 ^ 64"
  by code_simp+

lemma run_plain: "clock_plain (Inr Timestamp_zero)" "gmap_ok (slice_bytes (Some [(''k'', Some ''v'')]))"
  "response_utf8 (Some Response_zero) (Some ChaincodeID_zero)"
  by (simp_all add: clock_plain_def Timestamp_zero_def gmap_ok_def response_utf8_def Response_zero_def
      ChaincodeID_zero_def)

lemma run_honest: "honest run_endorser" "honest run_client" "Serialize run_client = Inr ''c''"
  by (simp_all add: honest_def run_endorser_def run_client_def)

section \<open>The envelope is small\<close>

lemma endorsement_size:
  assumes "order_free iter"
    and "CreateProposalResponse iter hdrb payl response results events ccid e = Inr r"
  shows "length (slice_bytes (pr_Payload r)) \<le>
    100 + 4 * msg_bound (ChaincodeAction_msg (endorsed_action response results events ccid))"
proof (rule proposal_response_parts [OF assms(2)])
  fix hdr hash actb prpb endorser sig
  assume hash: "GetProposalHash1 iter (Some hdr) payl = Inr hash"
    and actb: "proto_Marshal iter (Some (ChaincodeAction_msg (endorsed_action response results events ccid))) = Inr actb"
    and prpb: "proto_Marshal iter (Some (ProposalResponsePayload_msg
       (ProposalResponsePayload_zero\<lparr>prp_Extension := Some actb, prp_ProposalHash := Some hash\<rparr>))) = Inr prpb"
    and r: "r = ProposalResponse_zero
       \<lparr>pr_Version := 1,
        pr_Endorsement := Some (Endorsement_zero\<lparr>end_Signature := Some sig, end_Endorser := Some endorser\<rparr>),
        pr_Payload := Some prpb,
        pr_Response := Some (Response_zero\<lparr>resp_Status := 200, resp_Message := ''OK''\<rparr>)\<rparr>"
  have "length hash = 32" using hash by (auto elim!: GetProposalHash1_parts)
  then have "length prpb \<le> 100 + 2 * length actb"
    using marshal_bound [OF assms(1) prpb]
    by (simp add: ProposalResponsePayload_msg_def ProposalResponsePayload_zero_def)
  then show ?thesis using marshal_bound [OF assms(1) actb] r by simp
qed

definition run_header :: Header where
  "run_header = fst (UnmarshalHeader (prop_Header run_proposal))"

lemma run_header_small:
  "length (slice_bytes (hdr_ChannelHeader run_header)) \<le> 100"
  "length (slice_bytes (hdr_SignatureHeader run_header)) \<le> 100" "hdr_unknown run_header = []"
  "checked (UnmarshalHeader (prop_Header run_proposal)) = Inr run_header"
  by code_simp+

lemma run_payload_small:
  "\<exists>cpp ppb. checked (UnmarshalChaincodeProposalPayload (prop_Payload run_proposal)) = Inr cpp \<and>
     GetBytesProposalPayloadForTx run_iter (Some cpp) = Inr ppb \<and> length ppb \<le> 100"
proof -
  define cpp where "cpp = fst (UnmarshalChaincodeProposalPayload (prop_Payload run_proposal))"
  have "checked (UnmarshalChaincodeProposalPayload (prop_Payload run_proposal)) = Inr cpp"
    unfolding cpp_def by code_simp
  moreover have "GetBytesProposalPayloadForTx run_iter (Some cpp) =
      Inr (projr (GetBytesProposalPayloadForTx run_iter (Some cpp)))"
    "length (projr (GetBytesProposalPayloadForTx run_iter (Some cpp))) \<le> 100"
    unfolding cpp_def by code_simp+
  ultimately show ?thesis by blast
qed

text \<open>The responses both parties of the run give.\<close>

definition run_responses :: "ProposalResponse list \<Rightarrow> bool" where
  "run_responses resps \<longleftrightarrow> list_all2 (\<lambda>e r. CreateProposalResponse run_iter (prop_Header run_proposal)
     (prop_Payload run_proposal) (Some Response_zero) (Some ''r'') None (Some ChaincodeID_zero) e = Inr r)
     [run_endorser, run_client] resps"

lemma run_responses_from:
  "run_responses resps \<Longrightarrow> \<forall>r\<in>set resps. \<exists>e. CreateProposalResponse run_iter (prop_Header run_proposal)
     (prop_Payload run_proposal) (Some Response_zero) (Some ''r'') None (Some ChaincodeID_zero) e = Inr r"
  by (auto simp: run_responses_def list_all2_Cons1)

lemma run_endorsements_bound:
  assumes "run_responses resps"
  shows "msgs_bound 2 (map (map_option Endorsement_msg) (map pr_Endorsement resps)) \<le> 1000" "resps \<noteq> []"
proof -
  obtain r1 r2 where r: "resps = [r1, r2]"
    "CreateProposalResponse run_iter (prop_Header run_proposal)
     (prop_Payload run_proposal) (Some Response_zero) (Some ''r'') None (Some ChaincodeID_zero) run_endorser = Inr r1"
    "CreateProposalResponse run_iter (prop_Header run_proposal)
     (prop_Payload run_proposal) (Some Response_zero) (Some ''r'') None (Some ChaincodeID_zero) run_client = Inr r2"
    using assms by (auto simp: run_responses_def list_all2_Cons1)
  have 1: "pr_Endorsement r1 = Some (Endorsement_zero\<lparr>end_Signature := Some ''s'', end_Endorser := Some ''e''\<rparr>)"
    by (rule proposal_response_parts [OF r(2)]) (simp add: run_endorser_def)
  have 2: "pr_Endorsement r2 = Some (Endorsement_zero\<lparr>end_Signature := Some ''z'', end_Endorser := Some ''c''\<rparr>)"
    by (rule proposal_response_parts [OF r(3)]) (simp add: run_client_def)
  show "msgs_bound 2 (map (map_option Endorsement_msg) (map pr_Endorsement resps)) \<le> 1000"
    using 1 2 by (simp add: r(1) Endorsement_msg_def Endorsement_zero_def)
  show "resps \<noteq> []" using r(1) by simp
qed

lemma run_envelope_small:
  assumes "run_responses resps" "CreateSignedTx run_iter run_proposal run_client resps = Done (Inr env)"
  shows "length (slice_bytes (env_Payload env)) < 2 ^ 64"
proof (rule signed_tx_parts [OF assms(2)])
  fix hdr pPayl ppb capb txb payb sig
  assume hdr: "checked (UnmarshalHeader (prop_Header run_proposal)) = Inr hdr"
    and pPayl: "checked (UnmarshalChaincodeProposalPayload (prop_Payload run_proposal)) = Inr pPayl"
    and ppb: "GetBytesProposalPayloadForTx run_iter (Some pPayl) = Inr ppb"
    and capb: "proto_Marshal run_iter (Some (ChaincodeActionPayload_msg (ChaincodeActionPayload_zero
       \<lparr>cap_ChaincodeProposalPayload := Some ppb, cap_Action := Some (tx_endorsed_action resps)\<rparr>))) = Inr capb"
    and txb: "proto_Marshal run_iter (Some (Transaction_msg (Transaction_zero\<lparr>tx_Actions :=
       [Some (TransactionAction_zero\<lparr>ta_Header := hdr_SignatureHeader hdr, ta_Payload := Some capb\<rparr>)]\<rparr>))) = Inr txb"
    and payb: "proto_Marshal run_iter (Some (Payload_msg (Payload_zero\<lparr>pl_Header := Some hdr, pl_Data := Some txb\<rparr>))) = Inr payb"
    and env: "env = Envelope_zero\<lparr>env_Payload := Some payb, env_Signature := Some sig\<rparr>"
  have h: "hdr = run_header" using hdr run_header_small(4) by simp
  have "length ppb \<le> 100" using pPayl ppb run_payload_small by auto
  have first: "hd resps \<in> set resps" using run_endorsements_bound(2) [OF assms(1)] by simp
  then obtain e where "CreateProposalResponse run_iter (prop_Header run_proposal) (prop_Payload run_proposal)
      (Some Response_zero) (Some ''r'') None (Some ChaincodeID_zero) e = Inr (hd resps)"
    using run_responses_from [OF assms(1)] by blast
  from endorsement_size [OF run_iter_free this]
  have prpb: "length (slice_bytes (pr_Payload (hd resps))) \<le> 2000"
    by (simp add: endorsed_action_def ChaincodeAction_msg_def ChaincodeAction_zero_def Response_msg_def
        Response_zero_def ChaincodeID_msg_def ChaincodeID_zero_def)
  have "length capb \<le> 12 + 2 * length ppb + 20 + 2 * (12 + 2 * length (slice_bytes (pr_Payload (hd resps))) + 1000)"
    using marshal_bound [OF run_iter_free capb] run_endorsements_bound(1) [OF assms(1)]
    by (simp add: ChaincodeActionPayload_msg_def ChaincodeActionPayload_zero_def ChaincodeEndorsedAction_msg_def
        ChaincodeEndorsedAction_zero_def tx_endorsed_action_def)
  then have "length capb \<le> 20000" using \<open>length ppb \<le> 100\<close> prpb by simp
  then have "length txb \<le> 100000"
    using marshal_bound [OF run_iter_free txb] run_header_small(2)
    by (simp add: h Transaction_msg_def Transaction_zero_def TransactionAction_msg_def TransactionAction_zero_def)
  then have "length payb \<le> 1000000"
    using marshal_bound [OF run_iter_free payb] run_header_small(1-3)
    by (simp add: h Payload_msg_def Payload_zero_def Header_msg_def)
  then show ?thesis by (simp add: env)
qed

text \<open>The run goes through.\<close>

lemma run_exists:
  obtains resps env where "run_responses resps" "CreateSignedTx run_iter run_proposal run_client resps = Done (Inr env)"
    "length (slice_bytes (env_Payload env)) < 2 ^ 64"
proof -
  have "\<exists>resps env. run_responses resps \<and> CreateSignedTx run_iter run_proposal run_client resps = Done (Inr env)"
    unfolding run_responses_def
    by (rule honest_flow [OF run_iter_free run_plain(1,2) run_made run_small _ run_plain(3)])
      (simp_all add: run_honest)
  then show ?thesis using that run_envelope_small by blast
qed

text \<open>A proposal whose id is not known in advance.\<close>

lemma run_any_id:
  assumes "valid_utf8 txid" "length txid \<le> 100" "length nonce \<le> 100" "length creator \<le> 100"
  shows "\<exists>p. CreateChaincodeProposalWithTxIDNonceAndTransient run_iter (Inr Timestamp_zero) txid 3 ''ch''
      run_cis (Some nonce) (Some creator) None = Done (Inr (p, txid)) \<and>
    length (slice_bytes (prop_Header p)) \<le> 10000 \<and> length (slice_bytes (prop_Payload p)) \<le> 1000"
proof -
  have ch: "valid_utf8 ''ch''" by code_simp
  let ?header = "\<lambda>ext. ChannelHeader_msg (proposal_channel_header 3 txid Timestamp_zero ''ch'' ext)"
  let ?sig = "SignatureHeader_msg (SignatureHeader_zero\<lparr>sh_Nonce := Some nonce, sh_Creator := Some creator\<rparr>)"
  obtain ext where ext: "proto_Marshal run_iter (Some (ChaincodeHeaderExtension_msg
      (ChaincodeHeaderExtension_zero\<lparr>che_ChaincodeId := None\<rparr>))) = Inr ext" "ext = []"
    by (simp add: proto_Marshal_def ChaincodeHeaderExtension_msg_def ChaincodeHeaderExtension_zero_def)
  obtain cisb where cisb: "proto_Marshal run_iter (Some (ChaincodeInvocationSpec_msg run_cis)) = Inr cisb"
    by (simp add: proto_Marshal_def ChaincodeInvocationSpec_msg_def run_cis_def ChaincodeSpec_msg_def
        ChaincodeSpec_zero_def ChaincodeInvocationSpec_zero_def)
  obtain pay where pay: "proto_Marshal run_iter (Some (ChaincodeProposalPayload_msg
      (ChaincodeProposalPayload_zero\<lparr>cpp_Input := Some cisb, cpp_TransientMap := None\<rparr>))) = Inr pay"
    by (simp add: proto_Marshal_def ChaincodeProposalPayload_msg_def)
  obtain chb where chb: "proto_Marshal run_iter (Some (?header ext)) = Inr chb"
    using assms(1) ch
    by (simp add: proto_Marshal_def ChannelHeader_msg_def proposal_channel_header_def ChannelHeader_zero_def
        Timestamp_msg_def del: valid_utf8.simps)
  obtain shb where shb: "proto_Marshal run_iter (Some ?sig) = Inr shb"
    by (simp add: proto_Marshal_def SignatureHeader_msg_def)
  obtain hdrb where hdrb: "proto_Marshal run_iter (Some (Header_msg
      (Header_zero\<lparr>hdr_ChannelHeader := Some chb, hdr_SignatureHeader := Some shb\<rparr>))) = Inr hdrb"
    by (simp add: proto_Marshal_def Header_msg_def)
  have "length chb \<le> 1000"
    using marshal_bound [OF run_iter_free chb] assms(2) ext(2)
    by (simp add: ChannelHeader_msg_def proposal_channel_header_def ChannelHeader_zero_def Timestamp_msg_def
        Timestamp_zero_def)
  moreover have "length shb \<le> 1000"
    using marshal_bound [OF run_iter_free shb] assms(3,4) by (simp add: SignatureHeader_msg_def SignatureHeader_zero_def)
  ultimately have "length hdrb \<le> 10000"
    using marshal_bound [OF run_iter_free hdrb] by (simp add: Header_msg_def Header_zero_def)
  moreover have "length cisb \<le> 200"
    using marshal_bound [OF run_iter_free cisb]
    by (simp add: ChaincodeInvocationSpec_msg_def run_cis_def ChaincodeInvocationSpec_zero_def ChaincodeSpec_msg_def
        ChaincodeSpec_zero_def)
  then have "length pay \<le> 1000"
    using marshal_bound [OF run_iter_free pay]
    by (simp add: ChaincodeProposalPayload_msg_def ChaincodeProposalPayload_zero_def)
  moreover have "CreateChaincodeProposalWithTxIDNonceAndTransient run_iter (Inr Timestamp_zero) txid 3 ''ch''
      run_cis (Some nonce) (Some creator) None =
      Done (Inr (Proposal_zero\<lparr>prop_Header := Some hdrb, prop_Payload := Some pay\<rparr>, txid))"
    using ext(1) cisb pay chb shb hdrb
    by (simp add: CreateChaincodeProposalWithTxIDNonceAndTransient_def MarshalOrPanic_def
        proposal_channel_header_def run_cis_def ChaincodeSpec_zero_def)
  ultimately show ?thesis by fastforce
qed

end
