(* ===== verification/Signed_Data.thy ===== *)
theory Signed_Data
  imports Common_Utils
begin

text \<open>
  \<open>server/protoutil/signeddata.go\<close>: the data, identity and signature that a verifier checks for
  each signature of a config update and for an envelope.
\<close>

record SignedData =
  sd_Data :: "bytes option"
  sd_Identity :: "bytes option"
  sd_Signature :: "bytes option"

fun config_signed_data :: "bytes option \<Rightarrow> ConfigSignature option list \<Rightarrow> (go_error + SignedData list) outcome" where
  "config_signed_data update [] = Done (Inr [])"
| "config_signed_data update (c # cs) =
     out_bind (deref c) (\<lambda>configSig.
     try_bind (checked (unmarshal_as SignatureHeader_schema SignatureHeader_of (cfs_SignatureHeader configSig))) (\<lambda>sigHeader.
     out_bind (config_signed_data update cs) (\<lambda>r. try_bind r (\<lambda>rest.
     Done (Inr (\<lparr>sd_Data = Some (slice_bytes (cfs_SignatureHeader configSig) @ slice_bytes update),
                 sd_Identity = sh_Creator sigHeader,
                 sd_Signature = cfs_Signature configSig\<rparr> # rest))))))"

definition ConfigUpdateEnvelopeAsSignedData ::
    "ConfigUpdateEnvelope option \<Rightarrow> (go_error + SignedData list) outcome" where
  "ConfigUpdateEnvelopeAsSignedData ce =
     (case ce of
        None \<Rightarrow> Done (Inl (EText ''No signatures for nil SignedConfigItem''))
      | Some e \<Rightarrow> config_signed_data (cue_ConfigUpdate e) (cue_Signatures e))"

definition EnvelopeAsSignedData :: "Envelope option \<Rightarrow> go_error + SignedData list" where
  "EnvelopeAsSignedData env =
     (case env of
        None \<Rightarrow> Inl (EText ''No signatures for nil Envelope'')
      | Some e \<Rightarrow>
          res_bind (checked (unmarshal_as Payload_schema Payload_of (env_Payload e))) (\<lambda>payload.
          case pl_Header payload of
            None \<Rightarrow> Inl (EText ''Missing Header'')
          | Some header \<Rightarrow>
              res_bind (res_wrap ''GetSignatureHeaderFromBytes failed, err''
                (checked (unmarshal_as SignatureHeader_schema SignatureHeader_of (hdr_SignatureHeader header)))) (\<lambda>shdr.
              Inr [\<lparr>sd_Data = env_Payload e, sd_Identity = sh_Creator shdr, sd_Signature = env_Signature e\<rparr>])))"

end
