(* ===== verification/Protoutil_Properties.thy ===== *)
theory Protoutil_Properties
  imports Flow_Example Signed_Data
begin

text \<open>
  The properties of the \<open>protoutil\<close> package: what a proposal carries, the way of a transaction
  from proposal over endorsement to the committer, what the client refuses to sign, block hashes,
  block metadata and the bounds checks on blocks.
\<close>

section \<open>Proposals and transactions\<close>

text \<open>
  C16: A chaincode proposal carries its transaction id, channel and type in the channel header of
  its header bytes, and the nonce that was drawn and the creator in the signature header; the id
  passes \<open>CheckTxID\<close> against exactly that nonce and creator.
\<close>

theorem proposal_carries_its_id:
  assumes "order_free iter" and "clock_plain now"
    and "CreateChaincodeProposalWithTransient iter rand now typ chainID cis creator tm = Done (Inr (proposal, txid))"
    and "length (slice_bytes (prop_Header proposal)) < 2 ^ 64"
  shows "\<exists>hdr ch sh. checked (UnmarshalHeader (prop_Header proposal)) = Inr hdr \<and>
    checked (UnmarshalChannelHeader (hdr_ChannelHeader hdr)) = Inr ch \<and>
    checked (UnmarshalSignatureHeader (hdr_SignatureHeader hdr)) = Inr sh \<and>
    ch_TxId ch = txid \<and> ch_ChannelId ch = chainID \<and> ch_Type ch = typ \<and>
    rand = Inr (slice_bytes (sh_Nonce sh)) \<and> slice_bytes (sh_Creator sh) = slice_bytes creator \<and>
    CheckTxID txid (sh_Nonce sh) (sh_Creator sh) = None"
proof -
  obtain nonce where rand: "rand = Inr nonce"
    and made: "CreateChaincodeProposalWithTxIDNonceAndTransient iter now (ComputeTxID (Some nonce) creator)
      typ chainID cis (Some nonce) creator tm = Done (Inr (proposal, txid))"
    using assms(3) by (auto simp: CreateChaincodeProposalWithTransient_def getRandomNonce_def go_inversions)
  show ?thesis
    by (rule proposal_headers [OF made assms(1,4)])
      (use assms(2) rand in \<open>auto simp: clock_plain_def CheckTxID_def ComputeTxID_def\<close>)
qed

theorem proposal_carries_its_id_witness:
  "\<exists>proposal txid. CreateChaincodeProposalWithTransient run_iter (Inr ''n'') (Inr Timestamp_zero) 3 ''ch'' run_cis
      (Some ''c'') None = Done (Inr (proposal, txid)) \<and>
    (\<exists>hdr ch sh. checked (UnmarshalHeader (prop_Header proposal)) = Inr hdr \<and>
      checked (UnmarshalChannelHeader (hdr_ChannelHeader hdr)) = Inr ch \<and>
      checked (UnmarshalSignatureHeader (hdr_SignatureHeader hdr)) = Inr sh \<and>
      ch_TxId ch = txid \<and> ch_ChannelId ch = ''ch'' \<and> ch_Type ch = 3 \<and>
      Inr ''n'' = (Inr (slice_bytes (sh_Nonce sh)) :: go_error + bytes) \<and>
      slice_bytes (sh_Creator sh) = slice_bytes (Some ''c'') \<and>
      CheckTxID txid (sh_Nonce sh) (sh_Creator sh) = None)"
proof -
  let ?id = "ComputeTxID (Some ''n'') (Some ''c'')"
  have "valid_utf8 ?id" by (simp add: ComputeTxID_def hex_encode_utf8)
  then obtain p where p: "CreateChaincodeProposalWithTxIDNonceAndTransient run_iter (Inr Timestamp_zero) ?id 3 ''ch''
      run_cis (Some ''n'') (Some ''c'') None = Done (Inr (p, ?id))" "length (slice_bytes (prop_Header p)) \<le> 10000"
    using run_any_id [of ?id "''n''" "''c''"] ComputeTxID_length [of "Some ''n''" "Some ''c''"] by auto
  then have made: "CreateChaincodeProposalWithTransient run_iter (Inr ''n'') (Inr Timestamp_zero) 3 ''ch'' run_cis
      (Some ''c'') None = Done (Inr (p, ?id))"
    by (simp add: CreateChaincodeProposalWithTransient_def getRandomNonce_def)
  have "length (slice_bytes (prop_Header p)) < 2 ^ 64" using p(2) by simp
  then show ?thesis
    using made proposal_carries_its_id [OF run_iter_free run_plain(1) made] by blast
qed

text \<open>
  C7: When the responses to a proposal come from endorsers of that proposal with the same
  simulation result, the signed transaction built from them hands a committer exactly that
  result: the action in its envelope has the endorsed results, events, response and chaincode.
\<close>

theorem endorsed_action_committed:
  assumes "order_free iter" and "clock_plain now" and "gmap_ok (slice_bytes tm)"
    and "CreateChaincodeProposalWithTxIDNonceAndTransient iter now txid typ chainID cis nonce creator tm =
      Done (Inr (proposal, t))"
    and "\<forall>r\<in>set resps. \<exists>e. CreateProposalResponse iter (prop_Header proposal) (prop_Payload proposal)
      (Some response) results events (Some ccid) e = Inr r"
    and "resp_unknown response = []" and "ccid_unknown ccid = []"
    and "CreateSignedTx iter proposal signer resps = Done (Inr env)"
    and "length (slice_bytes (prop_Header proposal)) < 2 ^ 64"
    and "length (slice_bytes (prop_Payload proposal)) < 2 ^ 64"
    and "length (slice_bytes (env_Payload env)) < 2 ^ 64"
  shows "GetActionFromEnvelopeMsg env = Done (Some (ChaincodeAction_zero
    \<lparr>ca_Results := nil_if_empty results, ca_Events := nil_if_empty events,
     ca_Response := Some (response\<lparr>resp_Payload := nil_if_empty (resp_Payload response)\<rparr>),
     ca_ChaincodeId := Some ccid\<rparr>), None)"
proof (rule flow_reads [OF assms(1,4,2,3,5,8-11)])
  fix hdr payl ta capb ppb actb prpb hash
  assume R: "UnmarshalPayload (env_Payload env) = (payl, None)"
    "UnmarshalTransaction (pl_Data payl) = (Transaction_zero\<lparr>tx_Actions := [Some ta]\<rparr>, None)"
    "ta_Payload ta = nil_if_empty (Some capb)"
    "UnmarshalChaincodeActionPayload (nil_if_empty (Some capb)) = (ChaincodeActionPayload_zero
       \<lparr>cap_ChaincodeProposalPayload := Some ppb,
        cap_Action := Some (ChaincodeEndorsedAction_zero
          \<lparr>cea_ProposalResponsePayload := Some prpb,
           cea_Endorsements := map (\<lambda>r. map_option normal_endorsement (pr_Endorsement r)) resps\<rparr>)\<rparr>, None)"
    "UnmarshalProposalResponsePayload (Some prpb) = (ProposalResponsePayload_zero
       \<lparr>prp_Extension := nil_if_empty (Some actb), prp_ProposalHash := Some hash\<rparr>, None)"
    and actb: "proto_Marshal iter (Some (ChaincodeAction_msg (endorsed_action (Some response) results events (Some ccid)))) =
      Inr actb" "length actb < 2 ^ 64"
  have "actb \<noteq> []"
    by (rule marshal_msg_part_nonempty [OF actb(1) [unfolded ChaincodeAction_msg_def], of 4 "ChaincodeID_msg ccid"])
      (simp add: endorsed_action_def)
  moreover have "UnmarshalChaincodeAction (Some actb) = (ChaincodeAction_zero
    \<lparr>ca_Results := nil_if_empty results, ca_Events := nil_if_empty events,
     ca_Response := Some (response\<lparr>resp_Payload := nil_if_empty (resp_Payload response)\<rparr>),
     ca_ChaincodeId := Some ccid\<rparr>, None)"
    using ChaincodeAction_reader.read_written [OF assms(1) _ actb] assms(6,7)
    by (simp add: typed_simps norm_simps endorsed_action_def ChaincodeAction_zero_def)
  ultimately show ?thesis
    by (simp add: GetActionFromEnvelopeMsg_def GetPayloads_def R)
qed

theorem endorsed_action_committed_witness:
  "\<exists>resps env. run_responses resps \<and>
    CreateSignedTx run_iter run_proposal run_client resps = Done (Inr env) \<and>
    GetActionFromEnvelopeMsg env = Done (Some (ChaincodeAction_zero
      \<lparr>ca_Results := Some ''r'', ca_Events := None, ca_Response := Some Response_zero,
       ca_ChaincodeId := Some ChaincodeID_zero\<rparr>), None)"
proof -
  obtain resps env where run: "run_responses resps"
    "CreateSignedTx run_iter run_proposal run_client resps = Done (Inr env)"
    "length (slice_bytes (env_Payload env)) < 2 ^ 64"
    by (rule run_exists)
  have "GetActionFromEnvelopeMsg env = Done (Some (ChaincodeAction_zero
      \<lparr>ca_Results := nil_if_empty (Some ''r''), ca_Events := nil_if_empty None,
       ca_Response := Some (Response_zero\<lparr>resp_Payload := nil_if_empty (resp_Payload Response_zero)\<rparr>),
       ca_ChaincodeId := Some ChaincodeID_zero\<rparr>), None)"
    by (rule endorsed_action_committed [OF run_iter_free run_plain(1,2) run_made run_responses_from [OF run(1)]
          _ _ run(2) run_small run(3)]) (simp_all add: Response_zero_def ChaincodeID_zero_def)
  moreover have "nil_if_empty None = None" by (simp add: nil_if_empty_def)
  ultimately show ?thesis using run(1,2) by (auto simp: Response_zero_def)
qed

text \<open>
  C8: The proposal hash the endorsers signed (over the payload they got from the client) is the
  one a committer computes over the payload in the transaction (\<open>GetProposalHash2\<close>), and every
  response contributes its endorsement in order.
\<close>

theorem proposal_hash_agrees:
  assumes "order_free iter" and "clock_plain now" and "gmap_ok (slice_bytes tm)"
    and "CreateChaincodeProposalWithTxIDNonceAndTransient iter now txid typ chainID cis nonce creator tm =
      Done (Inr (proposal, t))"
    and "\<forall>r\<in>set resps. \<exists>e. CreateProposalResponse iter (prop_Header proposal) (prop_Payload proposal)
      response results events ccid e = Inr r"
    and "CreateSignedTx iter proposal signer resps = Done (Inr env)"
    and "length (slice_bytes (prop_Header proposal)) < 2 ^ 64"
    and "length (slice_bytes (prop_Payload proposal)) < 2 ^ 64"
    and "length (slice_bytes (env_Payload env)) < 2 ^ 64"
  shows "\<exists>payl ta cap cea prp. UnmarshalPayload (env_Payload env) = (payl, None) \<and>
    UnmarshalTransaction (pl_Data payl) = (Transaction_zero\<lparr>tx_Actions := [Some ta]\<rparr>, None) \<and>
    UnmarshalChaincodeActionPayload (ta_Payload ta) = (cap, None) \<and> cap_Action cap = Some cea \<and>
    cea_Endorsements cea = map (\<lambda>r. map_option normal_endorsement (pr_Endorsement r)) resps \<and>
    UnmarshalProposalResponsePayload (cea_ProposalResponsePayload cea) = (prp, None) \<and>
    GetProposalHash2 (pl_Header payl) (cap_ChaincodeProposalPayload cap) = Inr (slice_bytes (prp_ProposalHash prp))"
  by (rule flow_reads [OF assms(1,4,2,3,5-9)]) (auto simp: exI)

theorem proposal_hash_agrees_witness:
  "\<exists>resps env. run_responses resps \<and>
    CreateSignedTx run_iter run_proposal run_client resps = Done (Inr env) \<and>
    (\<exists>payl ta cap cea prp. UnmarshalPayload (env_Payload env) = (payl, None) \<and>
      UnmarshalTransaction (pl_Data payl) = (Transaction_zero\<lparr>tx_Actions := [Some ta]\<rparr>, None) \<and>
      UnmarshalChaincodeActionPayload (ta_Payload ta) = (cap, None) \<and> cap_Action cap = Some cea \<and>
      cea_Endorsements cea = map (\<lambda>r. map_option normal_endorsement (pr_Endorsement r)) resps \<and>
      UnmarshalProposalResponsePayload (cea_ProposalResponsePayload cea) = (prp, None) \<and>
      GetProposalHash2 (pl_Header payl) (cap_ChaincodeProposalPayload cap) = Inr (slice_bytes (prp_ProposalHash prp)))"
proof -
  obtain resps env where run: "run_responses resps"
    "CreateSignedTx run_iter run_proposal run_client resps = Done (Inr env)"
    "length (slice_bytes (env_Payload env)) < 2 ^ 64"
    by (rule run_exists)
  show ?thesis
    using run(1,2) proposal_hash_agrees [OF run_iter_free run_plain(1,2) run_made run_responses_from [OF run(1)]
        run(2) run_small run(3)] by blast
qed

text \<open>
  C25: The proposal hash does not see the transient data of a proposal: two payloads with the same
  input have the same hash, whatever their transient maps.
\<close>

theorem hash_ignores_transient:
  assumes "order_free iter" and "gmap_ok (slice_bytes tm1)" and "gmap_ok (slice_bytes tm2)"
    and "proto_Marshal iter (Some (ChaincodeProposalPayload_msg
       (ChaincodeProposalPayload_zero\<lparr>cpp_Input := inp, cpp_TransientMap := tm1\<rparr>))) = Inr pay1"
    and "proto_Marshal iter (Some (ChaincodeProposalPayload_msg
       (ChaincodeProposalPayload_zero\<lparr>cpp_Input := inp, cpp_TransientMap := tm2\<rparr>))) = Inr pay2"
    and "length pay1 < 2 ^ 64" and "length pay2 < 2 ^ 64"
  shows "GetProposalHash1 iter hdr (Some pay1) = GetProposalHash1 iter hdr (Some pay2)"
proof -
  have "GetBytesProposalPayloadForTx iter (Some (ChaincodeProposalPayload_zero\<lparr>cpp_Input := i, cpp_TransientMap := m\<rparr>)) =
      GetBytesChaincodeProposalPayload iter
        (Some (ChaincodeProposalPayload_zero\<lparr>cpp_Input := i, cpp_TransientMap := None\<rparr>))" for i m
    by (simp add: GetBytesProposalPayloadForTx_def)
  then show ?thesis
    unfolding GetProposalHash1_def hash_args_def
    using read_proposal_payload [OF assms(1,6,2,4)] read_proposal_payload [OF assms(1,7,3,5)]
    by (cases hdr) (auto split: option.split)
qed

theorem hash_ignores_transient_witness:
  "\<exists>pay1 pay2. pay1 \<noteq> pay2 \<and>
    proto_Marshal run_iter (Some (ChaincodeProposalPayload_msg (ChaincodeProposalPayload_zero
      \<lparr>cpp_Input := Some ''i'', cpp_TransientMap := Some [(''k'', Some ''v'')]\<rparr>))) = Inr pay1 \<and>
    proto_Marshal run_iter (Some (ChaincodeProposalPayload_msg (ChaincodeProposalPayload_zero
      \<lparr>cpp_Input := Some ''i'', cpp_TransientMap := None\<rparr>))) = Inr pay2 \<and>
    GetProposalHash1 run_iter (Some run_header) (Some pay1) = GetProposalHash1 run_iter (Some run_header) (Some pay2)"
proof -
  let ?m = "\<lambda>tm. proto_Marshal run_iter (Some (ChaincodeProposalPayload_msg (ChaincodeProposalPayload_zero
      \<lparr>cpp_Input := Some ''i'', cpp_TransientMap := tm\<rparr>)))"
  have m: "?m (Some [(''k'', Some ''v'')]) = Inr (projr (?m (Some [(''k'', Some ''v'')])))"
    "?m None = Inr (projr (?m None))" "projr (?m (Some [(''k'', Some ''v'')])) \<noteq> projr (?m None)"
    "length (projr (?m (Some [(''k'', Some ''v'')]))) < 2 ^ 64" "length (projr (?m None)) < 2 ^ 64"
    by code_simp+
  show ?thesis
    using m(3) m(1,2) hash_ignores_transient [OF run_iter_free run_plain(2) _ m(1,2,4,5), of "Some run_header"]
    by (intro exI conjI) (assumption | simp)+
qed

text \<open>
  C13: A transaction is signed only when there is a response, every response was successful
  (status 200 to 399), carries an endorsement and has the same payload as the first, the signer is
  the creator named in the proposal header, and the signature is that signer's over the payload.
\<close>

theorem signed_tx_requires:
  assumes "CreateSignedTx iter proposal signer resps = Done (Inr env)"
  shows "resps \<noteq> [] \<and>
    (\<forall>r\<in>set resps. response_ok r \<and> pr_Endorsement r \<noteq> None \<and>
       slice_bytes (pr_Payload r) = slice_bytes (pr_Payload (hd resps))) \<and>
    (\<exists>hdr shdr sig. checked (UnmarshalHeader (prop_Header proposal)) = Inr hdr \<and>
       checked (UnmarshalSignatureHeader (hdr_SignatureHeader hdr)) = Inr shdr \<and>
       Serialize signer = Inr (slice_bytes (sh_Creator shdr)) \<and>
       Sign signer (slice_bytes (env_Payload env)) = Inr sig \<and> env_Signature env = Some sig)"
proof (rule signed_tx_parts [OF assms])
  fix hdr shdr ppb capb payb sig creator
  assume P: "resps \<noteq> []" "checked (UnmarshalHeader (prop_Header proposal)) = Inr hdr" and Q: "Serialize signer = Inr creator"
    "checked (UnmarshalSignatureHeader (hdr_SignatureHeader hdr)) = Inr shdr" "creator = slice_bytes (sh_Creator shdr)"
    "\<forall>r\<in>set resps. response_ok r \<and> slice_bytes (pr_Payload r) = slice_bytes (pr_Payload (hd resps))"
    "Sign signer payb = Inr sig" "env = Envelope_zero\<lparr>env_Payload := Some payb, env_Signature := Some sig\<rparr>"
    and cap: "proto_Marshal iter (Some (ChaincodeActionPayload_msg (ChaincodeActionPayload_zero
       \<lparr>cap_ChaincodeProposalPayload := Some ppb, cap_Action := Some (tx_endorsed_action resps)\<rparr>))) = Inr capb"
  have "Serialize signer = Inr (slice_bytes (sh_Creator shdr))"
    "Sign signer (slice_bytes (env_Payload env)) = Inr sig" "env_Signature env = Some sig"
    using Q by simp_all
  then show ?thesis using P Q(2,4) endorsements_present [OF cap] by blast
qed

theorem signed_tx_requires_witness:
  "\<exists>resps env. CreateSignedTx run_iter run_proposal run_client resps = Done (Inr env) \<and> resps \<noteq> [] \<and>
    (\<forall>r\<in>set resps. response_ok r \<and> pr_Endorsement r \<noteq> None \<and>
       slice_bytes (pr_Payload r) = slice_bytes (pr_Payload (hd resps))) \<and>
    (\<exists>hdr shdr sig. checked (UnmarshalHeader (prop_Header run_proposal)) = Inr hdr \<and>
       checked (UnmarshalSignatureHeader (hdr_SignatureHeader hdr)) = Inr shdr \<and>
       Serialize run_client = Inr (slice_bytes (sh_Creator shdr)) \<and>
       Sign run_client (slice_bytes (env_Payload env)) = Inr sig \<and> env_Signature env = Some sig)"
proof -
  obtain resps env where run: "CreateSignedTx run_iter run_proposal run_client resps = Done (Inr env)"
    by (rule run_exists)
  show ?thesis using run signed_tx_requires [OF run] by blast
qed

text \<open>
  C15: Honest parties get through: endorsers that can serialise their identity and sign endorse
  every proposal that was built with a nonce, and the client that created the proposal gets a
  transaction out of their responses; no step of the flow reports an error or panics.
\<close>

theorem honest_flow_completes:
  assumes "order_free iter" and "clock_plain now" and "gmap_ok (slice_bytes tm)"
    and "CreateChaincodeProposalWithTxIDNonceAndTransient iter now txid typ chainID cis nonce creator tm =
      Done (Inr (proposal, t))"
    and "length (slice_bytes (prop_Header proposal)) < 2 ^ 64"
    and "length (slice_bytes (prop_Payload proposal)) < 2 ^ 64"
    and "slice_bytes nonce \<noteq> []" and "response_utf8 response ccid"
    and "endorsers \<noteq> []" and "\<forall>e\<in>set endorsers. honest e"
    and "honest client" and "Serialize client = Inr (slice_bytes creator)"
  shows "\<exists>resps env. list_all2 (\<lambda>e r. CreateProposalResponse iter (prop_Header proposal) (prop_Payload proposal)
      response results events ccid e = Inr r) endorsers resps \<and>
    CreateSignedTx iter proposal client resps = Done (Inr env)"
  by (rule honest_flow [OF assms])

theorem honest_flow_completes_witness:
  "\<exists>resps env. run_responses resps \<and> CreateSignedTx run_iter run_proposal run_client resps = Done (Inr env)"
  unfolding run_responses_def
  by (rule honest_flow_completes [OF run_iter_free run_plain(1,2) run_made run_small _ run_plain(3)])
    (simp_all add: run_honest)

end
