(* ===== verification/Block_Properties.thy ===== *)
theory Block_Properties
  imports Flow_Example Signed_Data
begin

text \<open>
  Transaction ids, block hashes, block metadata and the headers of envelopes: the properties of
  \<open>commonutils.go\<close>, \<open>blockutils.go\<close> and \<open>signeddata.go\<close>.
\<close>

section \<open>Ids and hashes\<close>

text \<open>
  C35: \<open>CheckTxID\<close> accepts only ids of exactly 64 lowercase hexadecimal characters, so an
  accepted id is always valid UTF-8 and can be written into a header.
\<close>

theorem accepted_txid_format:
  assumes "CheckTxID txid nonce creator = None"
  shows "length txid = 64 \<and> list_all (\<lambda>c. is_digit c \<or> in_range 97 102 c) txid \<and> valid_utf8 txid"
  using assms ComputeTxID_length [of nonce creator]
  by (auto simp: CheckTxID_def Let_def ComputeTxID_def hex_encode_chars hex_encode_utf8 split: if_splits)

theorem accepted_txid_format_witness:
  "length (ComputeTxID (Some ''n'') (Some ''c'')) = 64 \<and>
   list_all (\<lambda>c. is_digit c \<or> in_range 97 102 c) (ComputeTxID (Some ''n'') (Some ''c'')) \<and>
   valid_utf8 (ComputeTxID (Some ''n'') (Some ''c''))"
  by (rule accepted_txid_format [of _ "Some ''n''" "Some ''c''"]) (simp add: CheckTxID_def)

text \<open>
  C36: The bytes that are hashed into a block's identity determine its number, previous hash and
  data hash, and nothing else: two headers have the same bytes exactly when these three agree
  (a nil hash counting as an empty one).
\<close>

theorem block_hash_binds_header:
  assumes "header_small a" and "header_small b"
  shows "BlockHeaderBytes a = BlockHeaderBytes b \<longleftrightarrow> header_fields a = header_fields b"
  using BlockHeaderBytes_inject [OF _ assms] by (auto simp: BlockHeaderBytes_def header_fields_def)

theorem block_hash_binds_header_witness:
  "BlockHeaderBytes (BlockHeader_zero\<lparr>bh_Number := 7, bh_PreviousHash := Some []\<rparr>) =
     BlockHeaderBytes (BlockHeader_zero\<lparr>bh_Number := 7\<rparr>) \<longleftrightarrow>
   header_fields (BlockHeader_zero\<lparr>bh_Number := 7, bh_PreviousHash := Some []\<rparr>) =
     header_fields (BlockHeader_zero\<lparr>bh_Number := 7\<rparr>)"
  by (rule block_hash_binds_header) (unfold header_small_def, code_simp+)

section \<open>Metadata slots\<close>

text \<open>A block whose metadata struct is at the given address of the heap.\<close>

definition block_at :: "meta_heap \<Rightarrow> meta_ref \<Rightarrow> Block" where
  "block_at h r = Block_zero\<lparr>blk_Metadata := map_option (\<lambda>a. BlockMetadata_zero\<lparr>bm_Metadata := mh_cell h a\<rparr>) r\<rparr>"




lemma block_at_eq: "block_at h (Some a) = block_at k (Some a) \<longleftrightarrow> mh_cell h a = mh_cell k a"
  by (simp add: block_at_def Block_zero_def BlockMetadata_zero_def)





text \<open>
  \<open>CopyBlockMetadata\<close> shares the struct instead of copying it: the destination refers to the
  source's own metadata, and the slots that are appended for the destination appear in the source
  block, which is changed whenever it had fewer than five.
\<close>

lemma copy_metadata_shares:
  assumes "CopyBlockMetadata h (Some a) dst = (h', r)"
  shows "r = Some a \<and>
    mh_cell h' a = mh_cell h a @ replicate (5 - length (mh_cell h a)) (Some []) \<and>
    (block_at h' (Some a) = block_at h (Some a) \<longleftrightarrow> 5 \<le> length (mh_cell h a))"
proof -
  have h': "h' = h\<lparr>mh_cell := (mh_cell h)(a := pad_slots (mh_cell h a))\<rparr>" "r = Some a"
    using assms by (auto simp: CopyBlockMetadata_def InitBlockMetadata_def)
  have "block_at h' (Some a) = block_at h (Some a) \<longleftrightarrow> pad_slots (mh_cell h a) = mh_cell h a"
    by (simp add: h' block_at_eq)
  then show ?thesis by (auto simp: h' pad_slots_def COMMIT_HASH_def)
qed

lemma copy_metadata_shares_witness:
  "\<exists>h' r. CopyBlockMetadata \<lparr>mh_next = 1, mh_cell = (\<lambda>_. [])\<rparr> (Some 0) None = (h', r) \<and> r = Some 0 \<and>
    mh_cell h' 0 = [] @ replicate (5 - length []) (Some []) \<and>
    block_at h' (Some 0) \<noteq> block_at \<lparr>mh_next = 1, mh_cell = (\<lambda>_. [])\<rparr> (Some 0)"
proof -
  obtain h' r where run: "CopyBlockMetadata \<lparr>mh_next = 1, mh_cell = (\<lambda>_. [])\<rparr> (Some 0) None = (h', r)"
    by fastforce
  show ?thesis using run copy_metadata_shares [OF run] by auto
qed

section \<open>Channels of envelopes and blocks\<close>

text \<open>
  \<open>ChannelID\<close> on the first envelope of a block and \<open>GetChainIDFromBlock\<close> agree, except that a
  header without channel header is an error for the one and the empty channel id for the other.
\<close>

lemma channel_id_agrees:
  assumes "ExtractEnvelope block 0 = Inr env"
  shows "(\<forall>c. ChannelID env = Inr c \<longrightarrow> GetChainIDFromBlock (Some block) = Inr c) \<and>
    (\<forall>c. GetChainIDFromBlock (Some block) = Inr c \<longrightarrow> ChannelID env = Inr c \<or>
       c = [] \<and> (\<exists>payl hdr. UnmarshalPayload (env_Payload env) = (payl, None) \<and> pl_Header payl = Some hdr \<and>
         hdr_ChannelHeader hdr = None))"
proof -
  obtain d where d: "blk_Data block = Some d" "0 < length (bd_Data d)" "GetEnvelopeFromBlock (bd_Data d ! 0) = Inr env"
    using assms by (auto simp: ExtractEnvelope_def res_wrap_eq_Inr split: option.splits if_splits)
  then obtain first rest where l: "bd_Data d = first # rest" "GetEnvelopeFromBlock first = Inr env"
    by (cases "bd_Data d") auto
  obtain payl err where p: "UnmarshalPayload (env_Payload env) = (payl, err)" by fastforce
  have empty: "checked (UnmarshalChannelHeader None) = Inr ChannelHeader_zero" by code_simp
  show ?thesis
  proof (cases "err = None \<and> pl_Header payl \<noteq> None")
    case True
    then obtain hdr where h: "pl_Header payl = Some hdr" "err = None" by auto
    show ?thesis
      using p h d(1) l empty
      by (cases "hdr_ChannelHeader hdr")
        (auto simp: ChannelID_def ChannelHeader_fn_def GetChainIDFromBlock_def res_bind_eq_Inr res_wrap_eq_Inr
          ChannelHeader_zero_def)
  next
    case False
    then show ?thesis
      using p d(1) l
      by (cases err) (auto simp: ChannelID_def ChannelHeader_fn_def GetChainIDFromBlock_def res_bind_eq_Inr)
  qed
qed

text \<open>A block with one envelope on channel \<open>c\<close>, as bytes.\<close>

definition tiny_env :: Envelope where
  "tiny_env = Envelope_zero\<lparr>env_Payload := Some
     [CHR 0x0A, CHR 0x05, CHR 0x0A, CHR 0x03, CHR 0x22, CHR 0x01, CHR ''c'']\<rparr>"

definition tiny_block :: Block where
  "tiny_block = Block_zero\<lparr>blk_Data := Some (BlockData_zero\<lparr>bd_Data := [Some
     [CHR 0x0A, CHR 0x07, CHR 0x0A, CHR 0x05, CHR 0x0A, CHR 0x03, CHR 0x22, CHR 0x01, CHR ''c'']]\<rparr>)\<rparr>"

lemma channel_id_agrees_witness:
  "ChannelID tiny_env = Inr ''c'' \<and> GetChainIDFromBlock (Some tiny_block) = Inr ''c''"
proof -
  have "ExtractEnvelope tiny_block 0 = Inr tiny_env" "ChannelID tiny_env = Inr ''c''" by code_simp+
  then show ?thesis using channel_id_agrees [of tiny_block tiny_env] by blast
qed

section \<open>Signed envelopes\<close>

lemma unmarshal_payload_raw: "UnmarshalPayload b = (x, None) \<Longrightarrow> unmarshal_as Payload_schema Payload_of b = (x, None)"
  by (auto simp: UnmarshalPayload_def wrap_err_eq_None split: prod.splits)

lemma unmarshal_signature_header_raw:
  "UnmarshalSignatureHeader b = (x, None) \<Longrightarrow> unmarshal_as SignatureHeader_schema SignatureHeader_of b = (x, None)"
  by (auto simp: UnmarshalSignatureHeader_def wrap_err_eq_None split: prod.splits)

lemma payload_header_small:
  assumes "proto_Marshal iter (Some (Payload_msg (Payload_zero\<lparr>pl_Header := Some hdr, pl_Data := d\<rparr>))) = Inr payb"
  shows "length (slice_bytes (hdr_ChannelHeader hdr)) \<le> length payb"
    and "length (slice_bytes (hdr_SignatureHeader hdr)) \<le> length payb"
proof -
  obtain c bad where c: "marshal_val iter 1 (VMsg (Some (Header_msg hdr))) = Inr (c, bad)" "length c \<le> length payb"
    by (rule marshal_part [OF assms [unfolded Payload_msg_def], of 1 "VMsg (Some (Header_msg hdr))"]) simp_all
  then obtain b where b: "proto_Marshal iter (Some (Header_msg hdr)) = Inr b" "c = delimited 1 b"
    by (auto simp: proto_Marshal_def split: sum.splits)
  have "length b \<le> length payb" using delimited_bound [of b 1] b(2) c(2) by simp
  then show "length (slice_bytes (hdr_ChannelHeader hdr)) \<le> length payb"
    "length (slice_bytes (hdr_SignatureHeader hdr)) \<le> length payb"
    using header_bytes_part [OF b(1)] by simp_all
qed

text \<open>
  C38: An envelope from \<open>CreateSignedEnvelope\<close> names the channel it was made for, and
  \<open>EnvelopeAsSignedData\<close> hands a verifier the payload, the signer's serialised identity and that
  signer's signature over exactly these payload bytes.
\<close>

theorem signed_envelope_roundtrip:
  assumes "order_free iter"
    and "CreateSignedEnvelope iter rand now txType channelID (Some signer) dataMsg version epoch = Done (Inr env)"
    and "length (slice_bytes (env_Payload env)) < 2 ^ 64"
  shows "ChannelID env = Inr channelID \<and>
    (\<exists>creator sig. Serialize signer = Inr creator \<and> Sign signer (slice_bytes (env_Payload env)) = Inr sig \<and>
      EnvelopeAsSignedData (Some env) =
        Inr [\<lparr>sd_Data = env_Payload env, sd_Identity = nil_if_empty (Some creator), sd_Signature = Some sig\<rparr>])"
proof -
  let ?ch = "(MakeChannelHeader now txType version channelID epoch)\<lparr>ch_TlsCertHash := None\<rparr>"
  note def = assms(2) [unfolded CreateSignedEnvelope_def CreateSignedEnvelopeWithTLSBinding_def Let_def option.case]
  obtain creator nonce where id: "Serialize signer = Inr creator"
    and sh: "NewSignatureHeader rand signer =
      Inr (SignatureHeader_zero\<lparr>sh_Creator := Some creator, sh_Nonce := Some nonce\<rparr>)"
    using def by (auto simp: try_bind_eq_Inr NewSignatureHeader_def res_bind_eq_Inr)
  let ?sh = "SignatureHeader_zero\<lparr>sh_Creator := Some creator, sh_Nonce := Some nonce\<rparr>"
  note def = def [unfolded sh try_bind_simps]
  obtain data where data: "proto_Marshal iter dataMsg = Inr data"
    using def by (auto simp: try_bind_eq_Inr res_wrap_eq_Inr)
  note def = def [unfolded data res_wrap_simps try_bind_simps]
  obtain chb where chb: "proto_Marshal iter (Some (ChannelHeader_msg ?ch)) = Inr chb"
    using def by (auto simp: out_bind_eq_Done MakePayloadHeader_def MarshalOrPanic_def or_panic_eq_Done)
  obtain shb where shb: "proto_Marshal iter (Some (SignatureHeader_msg ?sh)) = Inr shb"
    using def by (auto simp: out_bind_eq_Done MakePayloadHeader_def MarshalOrPanic_def or_panic_eq_Done)
  let ?hdr = "Header_zero\<lparr>hdr_ChannelHeader := Some chb, hdr_SignatureHeader := Some shb\<rparr>"
  have hdr: "MakePayloadHeader iter ?ch ?sh = Done ?hdr"
    using chb shb by (simp add: MakePayloadHeader_def MarshalOrPanic_def)
  note def = def [unfolded hdr out_bind_simps]
  obtain payb where payb: "proto_Marshal iter (Some (Payload_msg
      (Payload_zero\<lparr>pl_Header := Some ?hdr, pl_Data := Some data\<rparr>))) = Inr payb"
    using def by (auto simp: out_bind_eq_Done MarshalOrPanic_def or_panic_eq_Done)
  obtain sig where sig: "Sign signer payb = Inr sig"
    and env: "env = Envelope_zero\<lparr>env_Payload := Some payb, env_Signature := Some sig\<rparr>"
    using def payb by (auto simp: MarshalOrPanic_def try_bind_eq_Inr res_bind_eq_Inr)
  have small: "length payb < 2 ^ 64" using assms(3) env by simp
  have read: "UnmarshalPayload (Some payb) = (Payload_zero
      \<lparr>pl_Header := Some (Header_zero\<lparr>hdr_ChannelHeader := nil_if_empty (Some chb),
         hdr_SignatureHeader := nil_if_empty (Some shb)\<rparr>), pl_Data := nil_if_empty (Some data)\<rparr>, None)"
    using read_signed_payload(1) [OF assms(1) small _ payb] by (simp add: Header_zero_def)
  have len: "length chb < 2 ^ 64" "length shb < 2 ^ 64"
    using payload_header_small [OF payb] small by simp_all
  have chb_nonempty: "chb \<noteq> []"
    by (rule marshal_msg_part_nonempty [OF chb [unfolded ChannelHeader_msg_def], of 3
          "Timestamp_msg (Timestamp_zero\<lparr>ts_Seconds := now, ts_Nanos := 0\<rparr>)"])
      (simp add: MakeChannelHeader_def)
  have ch: "UnmarshalChannelHeader (Some chb) =
      (?ch\<lparr>ch_Extension := nil_if_empty (ch_Extension ?ch), ch_TlsCertHash := nil_if_empty None\<rparr>, None)"
    using read_channel_header [OF assms(1) chb len(1)] chb_nonempty
    by (simp add: MakeChannelHeader_def ChannelHeader_zero_def Timestamp_zero_def)
  have sh': "UnmarshalSignatureHeader (nil_if_empty (Some shb)) =
      (SignatureHeader_zero\<lparr>sh_Creator := nil_if_empty (Some creator), sh_Nonce := nil_if_empty (Some nonce)\<rparr>, None)"
    using read_signature_header [OF assms(1) shb len(2)] by (simp add: SignatureHeader_zero_def)
  have "ChannelID env = Inr channelID"
    using chb_nonempty
    by (simp add: ChannelID_def ChannelHeader_fn_def env read ch) (simp add: MakeChannelHeader_def)
  moreover have "EnvelopeAsSignedData (Some env) =
      Inr [\<lparr>sd_Data = env_Payload env, sd_Identity = nil_if_empty (Some creator), sd_Signature = Some sig\<rparr>]"
    using read [THEN unmarshal_payload_raw] sh' [THEN unmarshal_signature_header_raw]
    by (simp add: EnvelopeAsSignedData_def env)
  ultimately show ?thesis using id sig env by simp
qed

definition tiny_signed :: Envelope where
  "tiny_signed = (case CreateSignedEnvelope run_iter (Inr ''n'') 5 3 ''ch'' (Some run_client)
     (Some (Response_msg Response_zero)) 0 0 of Done (Inr e) \<Rightarrow> e | _ \<Rightarrow> Envelope_zero)"

theorem signed_envelope_roundtrip_witness:
  "ChannelID tiny_signed = Inr ''ch'' \<and>
    (\<exists>creator sig. Serialize run_client = Inr creator \<and> Sign run_client (slice_bytes (env_Payload tiny_signed)) = Inr sig \<and>
      EnvelopeAsSignedData (Some tiny_signed) =
        Inr [\<lparr>sd_Data = env_Payload tiny_signed, sd_Identity = nil_if_empty (Some creator), sd_Signature = Some sig\<rparr>])"
  by (rule signed_envelope_roundtrip [OF run_iter_free, of "Inr ''n''" 5 3 "''ch''" run_client
        "Some (Response_msg Response_zero)" 0 0]) code_simp+

end
