(* ===== verification/Statistics.thy ===== *)
theory Statistics
  imports Prelude
begin

text \<open>
  The statistics table of the server (\<open>src/server/statistics.go\<close>) and what \<open>InvokeCC\<close> does with
  it (\<open>src/server/fabsdk.go\<close>). \<open>StatisticsTable\<close> maps a number of byzantine peers to a pointer;
  the structs live in a heap, because \<open>GetTable\<close> hands out the stored pointer when there is one
  and a pointer to a fresh struct, which the caller has to store, when there is none.
\<close>

section \<open>Time\<close>

text \<open>A \<open>time.Time\<close>: the zero value, or seconds and nanoseconds since the epoch.\<close>

datatype gtime = TimeZero | TimeUnix int int

section \<open>The table and its heap\<close>

record Statistics =
  ByzantinePeers :: int8
  Datetime :: gtime
  NormalTx :: uint64
  NormalCommit :: uint64
  ByzantineTx :: uint64
  ByzantineCommit :: uint64

record stats_heap =
  sta_table :: "int8 \<rightharpoonup> nat"
  sta_cells :: "nat \<Rightarrow> Statistics"
  sta_next :: nat

definition fresh_statistics :: "int8 \<Rightarrow> gtime \<Rightarrow> Statistics" where
  "fresh_statistics num now =
     \<lparr>ByzantinePeers = num, Datetime = now, NormalTx = 0, NormalCommit = 0, ByzantineTx = 0,
      ByzantineCommit = 0\<rparr>"

definition GetTable :: "gtime \<Rightarrow> int8 \<Rightarrow> stats_heap \<Rightarrow> nat \<times> stats_heap" where
  "GetTable now num h =
     (case sta_table h num of
        Some table \<Rightarrow> (table, h)
      | None \<Rightarrow>
          (sta_next h,
           h\<lparr>sta_cells := (sta_cells h)(sta_next h := fresh_statistics num now), sta_next := sta_next h + 1\<rparr>))"

definition empty_stats :: stats_heap where
  "empty_stats = \<lparr>sta_table = (\<lambda>_. None), sta_cells = (\<lambda>_. fresh_statistics 0 TimeZero), sta_next = 0\<rparr>"

text \<open>\<open>StatisticsTable[num] = t\<close>\<close>

definition put_table :: "int8 \<Rightarrow> nat \<Rightarrow> stats_heap \<Rightarrow> stats_heap" where
  "put_table num t h = h\<lparr>sta_table := (sta_table h)(num \<mapsto> t)\<rparr>"

section \<open>The counters\<close>

datatype counter = CNormalTx | CNormalCommit | CByzantineTx | CByzantineCommit

fun counter_of :: "counter \<Rightarrow> Statistics \<Rightarrow> uint64" where
  "counter_of CNormalTx s = NormalTx s"
| "counter_of CNormalCommit s = NormalCommit s"
| "counter_of CByzantineTx s = ByzantineTx s"
| "counter_of CByzantineCommit s = ByzantineCommit s"

fun set_counter :: "counter \<Rightarrow> uint64 \<Rightarrow> Statistics \<Rightarrow> Statistics" where
  "set_counter CNormalTx v s = s\<lparr>NormalTx := v\<rparr>"
| "set_counter CNormalCommit v s = s\<lparr>NormalCommit := v\<rparr>"
| "set_counter CByzantineTx v s = s\<lparr>ByzantineTx := v\<rparr>"
| "set_counter CByzantineCommit v s = s\<lparr>ByzantineCommit := v\<rparr>"

text \<open>\<open>t.Field++\<close>\<close>

definition bump :: "nat \<Rightarrow> counter \<Rightarrow> stats_heap \<Rightarrow> stats_heap" where
  "bump t c h =
     h\<lparr>sta_cells := (sta_cells h)(t := set_counter c (counter_of c (sta_cells h t) + 1) (sta_cells h t))\<rparr>"

text \<open>
  The counters a transfer moves, in the order of the code: \<open>ok\<close> is whether \<open>Execute\<close>
  succeeded, \<open>byz\<close> the number of byzantine peers.
\<close>

definition transfer_counters :: "bool \<Rightarrow> gint \<Rightarrow> nat \<Rightarrow> counter list" where
  "transfer_counters ok peerType byz =
     (if \<not> ok then (if peerType = 0 then [CNormalTx] else [CByzantineTx])
      else if peerType = 0 then [CNormalTx, CNormalCommit]
      else if 7 \<le> byz then [CByzantineTx, CByzantineCommit] else [CByzantineTx])"

definition record_transfer :: "gtime \<Rightarrow> bool \<Rightarrow> gint \<Rightarrow> nat \<Rightarrow> stats_heap \<Rightarrow> stats_heap" where
  "record_transfer now ok peerType byz h =
     (let num = word_of_nat byz in
      case GetTable now num h of
        (t, h') \<Rightarrow> put_table num t (foldl (\<lambda>a c. bump t c a) h' (transfer_counters ok peerType byz)))"

section \<open>What the sequential table counts\<close>

lemma counter_set [simp]:
  "counter_of c (set_counter d v s) = (if c = d then v else counter_of c s)"
  by (cases c; cases d) simp_all

lemma counter_fresh [simp]: "counter_of c (fresh_statistics num now) = 0"
  by (cases c) (simp_all add: fresh_statistics_def)

text \<open>Pointers of the table are allocated and not shared between keys.\<close>

definition stats_ok :: "stats_heap \<Rightarrow> bool" where
  "stats_ok h \<longleftrightarrow>
     (\<forall>k t. sta_table h k = Some t \<longrightarrow> t < sta_next h) \<and>
     (\<forall>j k t. sta_table h j = Some t \<longrightarrow> sta_table h k = Some t \<longrightarrow> j = k)"

lemma stats_ok_bound: "stats_ok h \<Longrightarrow> sta_table h k \<noteq> Some (sta_next h)"
  by (auto simp: stats_ok_def)

lemma stats_ok_key: "stats_ok h \<Longrightarrow> sta_table h j = Some t \<Longrightarrow> sta_table h k = Some t \<longleftrightarrow> k = j"
  by (auto simp: stats_ok_def)

text \<open>The value of a counter under a key, 0 when the key is missing.\<close>

definition reading :: "stats_heap \<Rightarrow> int8 \<Rightarrow> counter \<Rightarrow> uint64" where
  "reading h num c = (case sta_table h num of None \<Rightarrow> 0 | Some t \<Rightarrow> counter_of c (sta_cells h t))"

lemma bump_simps [simp]:
  "sta_table (bump t c h) = sta_table h" "sta_next (bump t c h) = sta_next h"
  "counter_of d (sta_cells (bump t c h) u) =
     counter_of d (sta_cells h u) + (if u = t \<and> d = c then 1 else 0)"
  by (simp_all add: bump_def)

lemma bump_all_simps [simp]:
  "sta_table (foldl (\<lambda>a c. bump t c a) h cs) = sta_table h"
  "sta_next (foldl (\<lambda>a c. bump t c a) h cs) = sta_next h"
  "counter_of d (sta_cells (foldl (\<lambda>a c. bump t c a) h cs) u) =
     counter_of d (sta_cells h u) + (if u = t then of_nat (count_list cs d) else 0)"
  by (induction cs arbitrary: h) auto

lemma put_table_simps [simp]:
  "sta_table (put_table num t h) = (sta_table h)(num \<mapsto> t)"
  "sta_cells (put_table num t h) = sta_cells h" "sta_next (put_table num t h) = sta_next h"
  by (simp_all add: put_table_def)

lemma record_transfer_ok: "stats_ok h \<Longrightarrow> stats_ok (record_transfer now ok ty byz h)"
proof (cases "sta_table h (word_of_nat byz)")
  case None
  assume h: "stats_ok h"
  have lt: "\<And>k t. sta_table h k = Some t \<Longrightarrow> t < sta_next h" using h by (simp add: stats_ok_def)
  have "\<And>k t. sta_table h k = Some t \<Longrightarrow> t < Suc (sta_next h)" using lt less_SucI by blast
  then show ?thesis
    using None h stats_ok_bound [OF h]
    by (simp add: record_transfer_def Let_def GetTable_def) (auto simp: stats_ok_def)
next
  case (Some t)
  assume h: "stats_ok h"
  have "(sta_table h)(word_of_nat byz \<mapsto> t) = sta_table h" using Some by (rule map_upd_triv)
  then show ?thesis
    using Some h by (simp add: record_transfer_def Let_def GetTable_def stats_ok_def)
qed

text \<open>One transfer adds its counters under its number of byzantine peers and nothing else.\<close>

lemma record_transfer_reading:
  assumes "stats_ok h"
  shows "reading (record_transfer now ok ty byz h) num c =
    reading h num c +
      (if num = word_of_nat byz then of_nat (count_list (transfer_counters ok ty byz) c) else 0)"
proof (cases "sta_table h (word_of_nat byz)")
  case None
  have "t \<noteq> sta_next h" if "sta_table h num = Some t" for t
    using stats_ok_bound [OF assms, of num] that by auto
  then show ?thesis
    using None by (cases "sta_table h num") (auto simp: record_transfer_def Let_def GetTable_def reading_def)
next
  case (Some t)
  have "u = t \<longleftrightarrow> num = word_of_nat byz" if "sta_table h num = Some u" for u
    using stats_ok_key [OF assms Some, of num] Some that by auto
  then show ?thesis
    using Some by (cases "sta_table h num") (auto simp: record_transfer_def Let_def GetTable_def reading_def)
qed

lemma stats_ok_empty: "stats_ok empty_stats"
  by (simp add: stats_ok_def empty_stats_def)

text \<open>A history of transfers, each with its time, outcome, kind and number of byzantine peers.\<close>

type_synonym transfer = "gtime \<times> bool \<times> gint \<times> nat"

definition record_all :: "transfer list \<Rightarrow> stats_heap \<Rightarrow> stats_heap" where
  "record_all ts h = foldl (\<lambda>a (now, ok, ty, byz). record_transfer now ok ty byz a) h ts"

definition counted :: "transfer list \<Rightarrow> int8 \<Rightarrow> counter \<Rightarrow> nat" where
  "counted ts num c =
     (\<Sum>(now, ok, ty, byz)\<leftarrow>ts. if num = word_of_nat byz then count_list (transfer_counters ok ty byz) c else 0)"

lemma record_all_reading:
  "stats_ok h \<Longrightarrow> stats_ok (record_all ts h) \<and>
    reading (record_all ts h) num c = reading h num c + of_nat (counted ts num c)"
proof (induction ts arbitrary: h)
  case (Cons x ts)
  obtain now ok ty byz where x: "x = (now, ok, ty, byz)" by (cases x)
  show ?case
    using Cons.IH [OF record_transfer_ok [OF Cons.prems, of now ok ty byz]]
      record_transfer_reading [OF Cons.prems, of now ok ty byz num c]
    by (simp add: record_all_def counted_def x)
qed (simp add: record_all_def counted_def)

text \<open>No transfer commits without being counted as sent.\<close>

lemma commits_le_sent:
  "count_list (transfer_counters ok ty byz) CNormalCommit \<le> count_list (transfer_counters ok ty byz) CNormalTx"
  "count_list (transfer_counters ok ty byz) CByzantineCommit \<le> count_list (transfer_counters ok ty byz) CByzantineTx"
  "count_list (transfer_counters ok ty byz) c \<le> 1"
  by (cases c; simp add: transfer_counters_def)+

lemma counted_mono:
  assumes "\<And>ok ty byz. count_list (transfer_counters ok ty byz) c \<le> count_list (transfer_counters ok ty byz) d"
  shows "counted ts num c \<le> counted ts num d"
  unfolding counted_def by (rule sum_list_mono) (auto simp: assms)

lemma counted_bound: "counted ts num c \<le> length ts"
proof -
  have "counted ts num c \<le> (\<Sum>x\<leftarrow>ts. 1)"
    unfolding counted_def by (rule sum_list_mono) (auto simp: commits_le_sent(3) [simplified])
  then show ?thesis by (simp add: sum_list_triv)
qed

end
