(* ===== verification/Step_System.thy ===== *)
theory Step_System
  imports Prelude
begin

text \<open>
  Concurrent parts of the program as step systems: an executable step function tells what an
  event does to a state, \<open>None\<close> when it is not possible. This theory holds what the goroutines of
  the statistics and the broadcasts share: runs, reachability, invariants, and a contract for
  systems whose allowed steps use up work.
\<close>

fun run_all :: "('e \<Rightarrow> 's \<Rightarrow> 's option) \<Rightarrow> 'e list \<Rightarrow> 's \<Rightarrow> 's option" where
  "run_all step [] s = Some s"
| "run_all step (e # es) s = (case step e s of None \<Rightarrow> None | Some t \<Rightarrow> run_all step es t)"

inductive reach :: "('e \<Rightarrow> 's \<Rightarrow> 's option) \<Rightarrow> 's \<Rightarrow> 's \<Rightarrow> bool" for step :: "'e \<Rightarrow> 's \<Rightarrow> 's option" and s :: 's where
  start: "reach step s s"
| more: "reach step s t \<Longrightarrow> step e t = Some u \<Longrightarrow> reach step s u"

inductive_cases reachE: "reach step s t"

lemma reach_trans: "reach step t u \<Longrightarrow> reach step s t \<Longrightarrow> reach step s u"
  by (induction rule: reach.induct) (auto intro: reach.more)

lemma run_all_reach: "run_all step es s = Some t \<Longrightarrow> reach step s t"
proof (induction es arbitrary: s)
  case (Cons e es)
  then obtain s' where "step e s = Some s'" "reach step s' t" by (auto split: option.splits)
  then show ?case by (blast intro: reach_trans reach.more reach.start)
qed (simp add: reach.start)

lemma reach_inv: "reach step s t \<Longrightarrow> P s \<Longrightarrow> (\<And>e t u. P t \<Longrightarrow> step e t = Some u \<Longrightarrow> P u) \<Longrightarrow> P t"
  by (induction rule: reach.induct) auto

lemma run_all_inv:
  "run_all step es s = Some t \<Longrightarrow> P s \<Longrightarrow> (\<And>e t u. e \<in> set es \<Longrightarrow> P t \<Longrightarrow> step e t = Some u \<Longrightarrow> P u) \<Longrightarrow> P t"
proof (induction es arbitrary: s)
  case (Cons e es)
  then obtain s' where s': "step e s = Some s'" "run_all step es s' = Some t" by (auto split: option.splits)
  have "P s'" using Cons.prems(3) [of e s s'] Cons.prems(2) s'(1) by simp
  then show ?case using Cons.IH [OF s'(2)] Cons.prems(3) by (meson list.set_intros(2))
qed simp

section \<open>Systems that use up their work\<close>

text \<open>
  The contract: an allowed step from a state in order leads to a state in order, conserves the
  total, and leaves less work; and as long as something is pending, some allowed step is possible.
\<close>

locale working_system =
  fixes step :: "'e \<Rightarrow> 's \<Rightarrow> 's option" and allowed :: "'e \<Rightarrow> bool" and ok :: "'s \<Rightarrow> bool"
    and work :: "'s \<Rightarrow> nat" and total :: "'s \<Rightarrow> 'm" and pending :: "'s \<Rightarrow> bool"
  assumes allowed_step: "ok s \<Longrightarrow> allowed e \<Longrightarrow> step e s = Some t \<Longrightarrow> ok t \<and> total t = total s \<and> work t < work s"
    and progress: "ok s \<Longrightarrow> pending s \<Longrightarrow> \<exists>e t. allowed e \<and> step e s = Some t"
begin

lemma run_bound:
  "ok s \<Longrightarrow> \<forall>e\<in>set es. allowed e \<Longrightarrow> run_all step es s = Some t \<Longrightarrow>
    ok t \<and> total t = total s \<and> length es + work t \<le> work s"
proof (induction es arbitrary: s)
  case (Cons e es)
  obtain s' where s': "step e s = Some s'" "run_all step es s' = Some t"
    using Cons.prems(3) by (auto split: option.splits)
  show ?case
    using allowed_step [OF Cons.prems(1) _ s'(1)] Cons.IH [of s'] s'(2) Cons.prems(2) by fastforce
qed simp

text \<open>A run that cannot be continued has nothing pending; one that can always ends.\<close>

lemma stopped: "ok t \<Longrightarrow> (\<And>e. allowed e \<Longrightarrow> step e t = None) \<Longrightarrow> \<not> pending t"
  using progress by fastforce

lemma completes: "ok s \<Longrightarrow> \<exists>es t. (\<forall>e\<in>set es. allowed e) \<and> run_all step es s = Some t \<and> \<not> pending t"
proof (induction "work s" arbitrary: s rule: less_induct)
  case less
  show ?case
  proof (cases "pending s")
    case True
    then obtain e t where e: "allowed e" "step e s = Some t" using progress [OF less.prems] by blast
    then have "ok t" "work t < work s" using allowed_step [OF less.prems] by blast+
    then obtain es u where "\<forall>e\<in>set es. allowed e" "run_all step es t = Some u" "\<not> pending u"
      using less.hyps by blast
    then show ?thesis using e by (intro exI [of _ "e # es"] exI [of _ u]) simp
  next
    case False
    then show ?thesis by (intro exI [of _ "[]"] exI [of _ s]) simp
  qed
qed

end

end
