(* ===== verification/Statistics_Race.thy ===== *)
theory Statistics_Race
  imports Statistics Step_System
begin

text \<open>
  Concurrent transfers. Each HTTP request and each tick of the timer runs \<open>InvokeCC\<close> in its own
  goroutine, and nothing guards \<open>StatisticsTable\<close>: the update of the table is a sequence of
  memory accesses, which other goroutines may interleave. A goroutine looks the table up, loads
  and stores each counter, and stores the pointer back. (The Go runtime may also abort the
  program when it notices two goroutines inside the map at once; the model lets them go on.)
\<close>

section \<open>Goroutines and their steps\<close>

datatype instr = IGet | ILoad counter | IStore counter | IPut

record goroutine =
  g_num :: int8
  g_table :: nat
  g_reg :: "counter \<Rightarrow> uint64"
  g_code :: "instr list"

definition transfer_code :: "bool \<Rightarrow> gint \<Rightarrow> nat \<Rightarrow> instr list" where
  "transfer_code ok peerType byz =
     IGet # concat (map (\<lambda>c. [ILoad c, IStore c]) (transfer_counters ok peerType byz)) @ [IPut]"

definition spawn :: "bool \<Rightarrow> gint \<Rightarrow> nat \<Rightarrow> goroutine" where
  "spawn ok peerType byz =
     \<lparr>g_num = word_of_nat byz, g_table = 0, g_reg = (\<lambda>_. 0), g_code = transfer_code ok peerType byz\<rparr>"

fun exec_instr :: "gtime \<Rightarrow> instr \<Rightarrow> goroutine \<Rightarrow> stats_heap \<Rightarrow> goroutine \<times> stats_heap" where
  "exec_instr now IGet g h = (case GetTable now (g_num g) h of (t, h') \<Rightarrow> (g\<lparr>g_table := t\<rparr>, h'))"
| "exec_instr now (ILoad c) g h =
     (g\<lparr>g_reg := (g_reg g)(c := counter_of c (sta_cells h (g_table g)))\<rparr>, h)"
| "exec_instr now (IStore c) g h =
     (g, h\<lparr>sta_cells := (sta_cells h)(g_table g := set_counter c (g_reg g c + 1) (sta_cells h (g_table g)))\<rparr>)"
| "exec_instr now IPut g h = (g, put_table (g_num g) (g_table g) h)"

text \<open>Any goroutine that has not finished may take the next step.\<close>

definition run_one :: "gtime \<Rightarrow> nat \<Rightarrow> stats_heap \<times> goroutine list \<Rightarrow> (stats_heap \<times> goroutine list) option" where
  "run_one now i s =
     (case s of (h, gs) \<Rightarrow>
        if i < length gs then
          (case g_code (gs ! i) of
             [] \<Rightarrow> None
           | ins # rest \<Rightarrow>
               (case exec_instr now ins ((gs ! i)\<lparr>g_code := rest\<rparr>) h of (g', h') \<Rightarrow> Some (h', gs[i := g'])))
        else None)"

definition race_step :: "gtime \<times> nat \<Rightarrow> stats_heap \<times> goroutine list \<Rightarrow> (stats_heap \<times> goroutine list) option" where
  "race_step e = run_one (fst e) (snd e)"

section \<open>A goroutine on its own\<close>

text \<open>Run without interruption, a goroutine does what the sequential update does.\<close>

fun run_code :: "gtime \<Rightarrow> instr list \<Rightarrow> goroutine \<times> stats_heap \<Rightarrow> goroutine \<times> stats_heap" where
  "run_code now [] s = s"
| "run_code now (i # is) (g, h) = run_code now is (exec_instr now i g h)"

lemma run_code_append: "run_code now (xs @ ys) s = run_code now ys (run_code now xs s)"
proof (induction xs arbitrary: s)
  case (Cons x xs)
  then show ?case by (cases s) simp
qed simp

lemma load_store:
  "\<exists>g'. run_code now [ILoad c, IStore c] (g, h) = (g', bump (g_table g) c h) \<and>
     g_table g' = g_table g \<and> g_num g' = g_num g"
  by (simp add: bump_def)

lemma load_store_all:
  "\<exists>g'. run_code now (concat (map (\<lambda>c. [ILoad c, IStore c]) cs)) (g, h) =
      (g', foldl (\<lambda>a c. bump (g_table g) c a) h cs) \<and> g_table g' = g_table g \<and> g_num g' = g_num g"
proof (induction cs arbitrary: g h)
  case (Cons c cs)
  obtain g1 where 1: "run_code now [ILoad c, IStore c] (g, h) = (g1, bump (g_table g) c h)"
    "g_table g1 = g_table g" "g_num g1 = g_num g"
    using load_store by blast
  have "run_code now (concat (map (\<lambda>c. [ILoad c, IStore c]) (c # cs))) (g, h) =
      run_code now (concat (map (\<lambda>c. [ILoad c, IStore c]) cs)) (g1, bump (g_table g) c h)"
    using run_code_append [of now "[ILoad c, IStore c]" _ "(g, h)"] 1(1)
    by (simp del: run_code.simps)
  then show ?case
    using Cons.IH [of g1 "bump (g_table g) c h"] 1(2,3) by simp
qed simp

lemma run_alone:
  "snd (run_code now (transfer_code ok ty byz) (spawn ok ty byz, h)) = record_transfer now ok ty byz h"
proof -
  obtain t h' where t: "GetTable now (word_of_nat byz) h = (t, h')" by fastforce
  let ?g = "(spawn ok ty byz)\<lparr>g_table := t\<rparr>" and ?cs = "transfer_counters ok ty byz"
  obtain g' where
    "run_code now (concat (map (\<lambda>c. [ILoad c, IStore c]) ?cs)) (?g, h') =
       (g', foldl (\<lambda>a c. bump t c a) h' ?cs)"
    "g_table g' = t" "g_num g' = word_of_nat byz"
    using load_store_all [of now ?cs ?g h'] by (auto simp: spawn_def)
  then show ?thesis
    using t by (simp add: transfer_code_def run_code_append record_transfer_def Let_def spawn_def)
qed

section \<open>No interleaving counts too much\<close>

text \<open>The stores of a counter that the goroutines of a number of byzantine peers still have to do.\<close>

definition stores_left :: "goroutine list \<Rightarrow> int8 \<Rightarrow> counter \<Rightarrow> nat" where
  "stores_left gs num c = (\<Sum>g\<leftarrow>gs. if g_num g = num then count_list (g_code g) (IStore c) else 0)"

definition code_ok :: "instr list \<Rightarrow> bool" where
  "code_ok is \<longleftrightarrow> IGet \<notin> set (tl is)"

definition in_table :: "stats_heap \<Rightarrow> goroutine \<Rightarrow> bool" where
  "in_table h g \<longleftrightarrow> IGet \<in> set (g_code g) \<or>
     g_table g < sta_next h \<and> ByzantinePeers (sta_cells h (g_table g)) = g_num g"

text \<open>
  Every value of a counter, in the heap or in a register, leaves room below the bound for the
  stores still to come; pointers belong to the number of byzantine peers they are used for.
\<close>

definition race_inv :: "(int8 \<Rightarrow> counter \<Rightarrow> nat) \<Rightarrow> stats_heap \<times> goroutine list \<Rightarrow> bool" where
  "race_inv N s \<longleftrightarrow>
     (case s of (h, gs) \<Rightarrow>
       (\<forall>k t. sta_table h k = Some t \<longrightarrow> t < sta_next h \<and> ByzantinePeers (sta_cells h t) = k) \<and>
       (\<forall>t c. t < sta_next h \<longrightarrow>
          unat (counter_of c (sta_cells h t)) + stores_left gs (ByzantinePeers (sta_cells h t)) c
            \<le> N (ByzantinePeers (sta_cells h t)) c) \<and>
       (\<forall>g\<in>set gs. code_ok (g_code g) \<and> in_table h g \<and>
          (\<forall>c. unat (g_reg g c) + stores_left gs (g_num g) c \<le> N (g_num g) c)) \<and>
       (\<forall>k c. stores_left gs k c \<le> N k c))"

lemma sum_map_update:
  fixes f :: "'a \<Rightarrow> nat"
  shows "i < length xs \<Longrightarrow> sum_list (map f (xs[i := y])) + f (xs ! i) = sum_list (map f xs) + f y"
  by (induction xs arbitrary: i) (auto simp: nth_Cons' less_Suc_eq_0_disj)

lemma stores_left_step:
  assumes "i < length gs" "g_code (gs ! i) = ins # g_code g'" "g_num g' = g_num (gs ! i)"
  shows "stores_left gs num c =
    stores_left (gs[i := g']) num c + (if num = g_num g' \<and> ins = IStore c then 1 else 0)"
  using sum_map_update [OF assms(1), of "\<lambda>g. if g_num g = num then count_list (g_code g) (IStore c) else 0" g'] assms
  by (auto simp: stores_left_def split: if_splits)

lemma set_counter_peers [simp]: "ByzantinePeers (set_counter c v s) = ByzantinePeers s"
  by (cases c) simp_all

lemma unat_plus_one_le: "unat (w + 1) \<le> unat (w :: 'a :: len word) + 1"
  by (simp add: unat_word_ariths)

lemma exec_instr_keeps:
  "exec_instr now ins g h = (g', h') \<Longrightarrow> g_num g' = g_num g \<and> g_code g' = g_code g"
  by (cases ins) (auto split: prod.splits)

lemma race_inv_step:
  assumes inv: "race_inv N (h, gs)" and step: "run_one now i (h, gs) = Some (h', gs')"
  shows "race_inv N (h', gs')"
proof -
  obtain ins rest g' where i: "i < length gs" "g_code (gs ! i) = ins # rest"
    and ex: "exec_instr now ins ((gs ! i)\<lparr>g_code := rest\<rparr>) h = (g', h')" "gs' = gs[i := g']"
    using step by (auto simp: run_one_def split: if_splits list.splits prod.splits)
  have g': "g_num g' = g_num (gs ! i)" "g_code g' = rest"
    using exec_instr_keeps [OF ex(1)] by simp_all
  have L: "stores_left gs k c = stores_left gs' k c + (if k = g_num g' \<and> ins = IStore c then 1 else 0)" for k c
    unfolding ex(2) by (rule stores_left_step) (use i g' in simp_all)
  have le: "stores_left gs' k c \<le> stores_left gs k c" for k c using L by simp
  have gi: "gs ! i \<in> set gs" using i by simp
  have sub: "g \<in> set gs' \<Longrightarrow> g = g' \<or> g \<in> set gs" for g
    using set_update_subset_insert [of gs i g'] ex(2) by auto
  have tab: "\<And>k t. sta_table h k = Some t \<Longrightarrow> t < sta_next h \<and> ByzantinePeers (sta_cells h t) = k"
    and cel: "\<And>t c. t < sta_next h \<Longrightarrow> unat (counter_of c (sta_cells h t)) +
        stores_left gs (ByzantinePeers (sta_cells h t)) c \<le> N (ByzantinePeers (sta_cells h t)) c"
    and gor: "\<And>g. g \<in> set gs \<Longrightarrow> code_ok (g_code g) \<and> in_table h g"
    and reg: "\<And>g c. g \<in> set gs \<Longrightarrow> unat (g_reg g c) + stores_left gs (g_num g) c \<le> N (g_num g) c"
    and all: "\<And>k c. stores_left gs k c \<le> N k c"
    using inv by (auto simp: race_inv_def)
  have cel': "t < sta_next h \<Longrightarrow> unat (counter_of c (sta_cells h t)) +
        stores_left gs' (ByzantinePeers (sta_cells h t)) c \<le> N (ByzantinePeers (sta_cells h t)) c" for t c
    using cel le by (meson add_left_mono le_trans)
  have reg': "g \<in> set gs \<Longrightarrow> unat (g_reg g c) + stores_left gs' (g_num g) c \<le> N (g_num g) c" for g c
    using reg le by (meson add_left_mono le_trans)
  have all': "stores_left gs' k c \<le> N k c" for k c using all le by (meson le_trans)
  have "IGet \<notin> set rest" using gor [OF gi] i(2) by (simp add: code_ok_def)
  then have rest: "code_ok rest" "IGet \<notin> set rest" by (cases rest; simp add: code_ok_def)+
  have here: "ins \<noteq> IGet \<Longrightarrow> g_table (gs ! i) < sta_next h \<and>
      ByzantinePeers (sta_cells h (g_table (gs ! i))) = g_num (gs ! i)"
    using gor [OF gi] i(2) rest by (auto simp: in_table_def)
  have keep: "race_inv N (h', gs')"
    if "\<And>k t. sta_table h' k = Some t \<Longrightarrow> t < sta_next h' \<and> ByzantinePeers (sta_cells h' t) = k"
      and "\<And>t c. t < sta_next h' \<Longrightarrow> unat (counter_of c (sta_cells h' t)) +
        stores_left gs' (ByzantinePeers (sta_cells h' t)) c \<le> N (ByzantinePeers (sta_cells h' t)) c"
      and "\<And>g. g \<in> set gs \<Longrightarrow> in_table h g \<Longrightarrow> in_table h' g" and "in_table h' g'"
      and "\<And>c. unat (g_reg g' c) + stores_left gs' (g_num g') c \<le> N (g_num g') c"
    using that gor reg' all' rest g'(2) by (auto simp: race_inv_def dest!: sub)
  show ?thesis
  proof (cases ins)
    case IGet
    show ?thesis
    proof (cases "sta_table h (g_num (gs ! i))")
      case None
      have h': "h' = h\<lparr>sta_cells := (sta_cells h)(sta_next h := fresh_statistics (g_num (gs ! i)) now),
          sta_next := sta_next h + 1\<rparr>"
        and g1: "g_table g' = sta_next h" "g_reg g' = g_reg (gs ! i)"
        using IGet None ex(1) by (auto simp: GetTable_def)
      have old: "t < sta_next h \<Longrightarrow> sta_cells h' t = sta_cells h t" for t by (simp add: h')
      have new: "sta_cells h' (sta_next h) = fresh_statistics (g_num (gs ! i)) now" by (simp add: h')
      have next': "t < sta_next h' \<longleftrightarrow> t < sta_next h \<or> t = sta_next h" for t by (auto simp: h')
      show ?thesis
      proof (rule keep)
        show "t < sta_next h' \<and> ByzantinePeers (sta_cells h' t) = k" if "sta_table h' k = Some t" for k t
          using tab [of k t] that old [of t] by (simp add: h')
        show "unat (counter_of c (sta_cells h' t)) + stores_left gs' (ByzantinePeers (sta_cells h' t)) c
            \<le> N (ByzantinePeers (sta_cells h' t)) c" if "t < sta_next h'" for t c
          using that cel' [of t c] all' [of "ByzantinePeers (sta_cells h' t)" c] unfolding next'
          by (auto simp: old new)
        show "in_table h' g" if "in_table h g" for g
          using that by (auto simp: in_table_def h')
        show "in_table h' g'" using g1 g'(1) new by (simp add: in_table_def next' fresh_statistics_def)
        show "unat (g_reg g' c) + stores_left gs' (g_num g') c \<le> N (g_num g') c" for c
          using reg' [OF gi, of c] g1 g' by simp
      qed
    next
      case (Some t)
      then have "h' = h" "g_table g' = t" "g_reg g' = g_reg (gs ! i)"
        using IGet ex(1) by (auto simp: GetTable_def)
      then show ?thesis
        using tab cel' reg' [OF gi] g' Some by (intro keep) (auto simp: in_table_def)
    qed
  next
    case (ILoad c)
    then have h: "h' = h" "g_table g' = g_table (gs ! i)"
      "g_reg g' = (g_reg (gs ! i))(c := counter_of c (sta_cells h (g_table (gs ! i))))"
      using ex(1) by auto
    have "unat (g_reg g' d) + stores_left gs' (g_num g') d \<le> N (g_num g') d" for d
      using h(3) reg' [OF gi, of d] cel' [of "g_table (gs ! i)" d] here ILoad g'(1) by (cases "d = c") simp_all
    then show ?thesis
      using tab cel' h g' here ILoad by (intro keep) (auto simp: in_table_def)
  next
    case (IStore c)
    let ?p = "g_table (gs ! i)"
    have h: "h' = h\<lparr>sta_cells := (sta_cells h)(?p := set_counter c (g_reg (gs ! i) c + 1) (sta_cells h ?p))\<rparr>"
      "g_table g' = ?p" "g_reg g' = g_reg (gs ! i)"
      using IStore ex(1) by auto
    have num: "?p < sta_next h" "ByzantinePeers (sta_cells h ?p) = g_num g'" using here IStore g'(1) by simp_all
    have peers: "ByzantinePeers (sta_cells h' t) = ByzantinePeers (sta_cells h t)" for t by (simp add: h(1))
    have "stores_left gs (g_num g') c = stores_left gs' (g_num g') c + 1" using L IStore by simp
    then have stored: "unat (g_reg (gs ! i) c + 1) + stores_left gs' (g_num g') c \<le> N (g_num g') c"
      using reg [OF gi, of c] unat_plus_one_le [of "g_reg (gs ! i) c"] g'(1) by simp
    show ?thesis
    proof (rule keep)
      show "t < sta_next h' \<and> ByzantinePeers (sta_cells h' t) = k" if "sta_table h' k = Some t" for k t
        using tab [of k t] that peers by (simp add: h(1))
      show "unat (counter_of d (sta_cells h' t)) + stores_left gs' (ByzantinePeers (sta_cells h' t)) d
          \<le> N (ByzantinePeers (sta_cells h' t)) d" if "t < sta_next h'" for t d
        using that cel' [of t d] stored num unfolding peers by (auto simp: h(1))
      show "in_table h' g" if "in_table h g" for g
        using that peers by (simp add: in_table_def) (simp add: h(1))
      show "in_table h' g'" using num peers by (simp add: in_table_def h(2)) (simp add: h(1))
      show "unat (g_reg g' d) + stores_left gs' (g_num g') d \<le> N (g_num g') d" for d
        using reg' [OF gi, of d] h(3) g'(1) by simp
    qed
  next
    case IPut
    then have h: "h' = put_table (g_num (gs ! i)) (g_table (gs ! i)) h" "g_table g' = g_table (gs ! i)"
      "g_reg g' = g_reg (gs ! i)"
      using ex(1) by auto
    show ?thesis
      using tab cel' h g' here IPut reg' [OF gi] by (intro keep) (auto simp: in_table_def split: if_splits)
  qed
qed

lemma race_inv_reach: "reach race_step s t \<Longrightarrow> race_inv N s \<Longrightarrow> race_inv N t"
  by (erule reach_inv) (auto simp: race_step_def split_paired_all intro: race_inv_step)

text \<open>Every interleaving ends: a step executes one instruction, and a goroutine can always step.\<close>

definition race_work :: "stats_heap \<times> goroutine list \<Rightarrow> nat" where
  "race_work s = sum_list (map (\<lambda>g. length (g_code g)) (snd s))"

lemma race_work_step:
  assumes "race_step e (h, gs) = Some (h', gs')"
  shows "race_work (h', gs') < race_work (h, gs)"
proof -
  obtain i now ins rest g' where i: "i < length gs" "g_code (gs ! i) = ins # rest"
    and ex: "exec_instr now ins ((gs ! i)\<lparr>g_code := rest\<rparr>) h = (g', h')" "gs' = gs[i := g']"
    using assms by (auto simp: race_step_def run_one_def split: if_splits list.splits prod.splits)
  then have "g_code g' = rest" using exec_instr_keeps [OF ex(1)] by simp
  then show ?thesis
    using sum_map_update [OF i(1), of "\<lambda>g. length (g_code g)" g'] i ex(2) by (simp add: race_work_def)
qed

lemma race_progress:
  assumes "\<exists>g\<in>set gs. g_code g \<noteq> []"
  shows "\<exists>e t. race_step e (h, gs) = Some t"
proof -
  obtain i where "i < length gs" "g_code (gs ! i) \<noteq> []" using assms by (metis in_set_conv_nth)
  then have "race_step (TimeZero, i) (h, gs) \<noteq> None"
    by (auto simp: race_step_def run_one_def neq_Nil_conv split: prod.splits)
  then show ?thesis by blast
qed

interpretation races: working_system race_step "\<lambda>_. True" "\<lambda>_. True" race_work "\<lambda>_. ()"
    "\<lambda>s. \<exists>g\<in>set (snd s). g_code g \<noteq> []"
proof unfold_locales
  fix s t e assume "race_step e s = Some t"
  then show "True \<and> () = () \<and> race_work t < race_work s" by (cases s; cases t) (auto dest: race_work_step)
next
  fix s :: "stats_heap \<times> goroutine list" assume "\<exists>g\<in>set (snd s). g_code g \<noteq> []"
  then show "\<exists>e t. True \<and> race_step e s = Some t" using race_progress by (cases s) simp
qed

text \<open>The goroutines of a history, all started on the empty table.\<close>

definition spawn_all :: "transfer list \<Rightarrow> goroutine list" where
  "spawn_all ts = map (\<lambda>(now, ok, ty, byz). spawn ok ty byz) ts"

lemma count_code: "count_list (transfer_code ok ty byz) (IStore c) = count_list (transfer_counters ok ty byz) c"
proof -
  have "count_list (concat (map (\<lambda>c. [ILoad c, IStore c]) cs)) (IStore c) = count_list cs c" for cs
    by (induction cs) auto
  then show ?thesis by (simp add: transfer_code_def)
qed

lemma stores_left_spawn: "stores_left (spawn_all ts) num c = counted ts num c"
  unfolding stores_left_def spawn_all_def counted_def
  by (induction ts) (auto simp: spawn_def count_code)

lemma race_inv_start: "race_inv (counted ts) (empty_stats, spawn_all ts)"
proof -
  have "g \<in> set (spawn_all ts) \<Longrightarrow> code_ok (g_code g) \<and> in_table h g \<and> (\<forall>c. g_reg g c = 0)" for g h
    by (auto simp: spawn_all_def spawn_def in_table_def code_ok_def transfer_code_def)
  then show ?thesis
    by (simp add: race_inv_def stores_left_spawn) (simp add: empty_stats_def)
qed

lemma race_bound:
  assumes "reach race_step (empty_stats, spawn_all ts) (h, gs)"
  shows "unat (reading h num c) \<le> counted ts num c"
proof -
  have inv: "race_inv (counted ts) (h, gs)" by (rule race_inv_reach [OF assms race_inv_start])
  show ?thesis
  proof (cases "sta_table h num")
    case (Some t)
    then have "t < sta_next h" "ByzantinePeers (sta_cells h t) = num" using inv by (auto simp: race_inv_def)
    then have "unat (counter_of c (sta_cells h t)) + stores_left gs num c \<le> counted ts num c"
      using inv by (auto simp: race_inv_def)
    then show ?thesis by (simp add: reading_def Some)
  qed (simp add: reading_def)
qed

lemma race_steps:
  assumes "run_all race_step es (empty_stats, spawn_all ts) = Some s"
  shows "length es \<le> 6 * length ts"
proof -
  have "length (transfer_code ok ty byz) \<le> 6" for ok ty byz
    by (simp add: transfer_code_def transfer_counters_def)
  then have "race_work (empty_stats, spawn_all ts) \<le> (\<Sum>x\<leftarrow>ts. 6)"
    unfolding race_work_def spawn_all_def by (auto simp: comp_def spawn_def split_def intro!: sum_list_mono)
  then show ?thesis using races.run_bound [OF _ _ assms] by (simp add: sum_list_triv)
qed

end
