(* ===== verification/Server_Config.thy ===== *)
theory Server_Config
  imports Prelude
begin

text \<open>
  The configuration of the server (\<open>src/server/helpers\<close>): the structs \<open>app.yaml\<close> is read into,
  the paths of the files below the GOPATH, and the start-up code that reads them. Reading a
  file and parsing YAML are arguments. \<open>path.Join\<close> is the lexical clean-up of Go's package
  \<open>path\<close>, written over the components of the path.
\<close>

section \<open>The structs of the configuration file\<close>

record OrgInfo =
  oi_Name :: string
  oi_Admin :: string
  oi_User :: string

record OrderderInfo =
  ord_Name :: string
  ord_Admin :: string
  ord_Endpoint :: string

record DBInfo =
  db_User :: string
  db_Password :: string
  db_Name :: string
  db_Host :: string
  db_Port :: string
  db_MaxOpenConns :: gint
  db_MaxIdleConns :: gint

record Application =
  app_LogPath :: string
  app_LogLevel :: int8
  app_OrgInfo :: "OrgInfo option list"
  app_OrderderInfo :: "OrderderInfo option list"
  app_DB :: "DBInfo option"
  app_TxNumPerBlock :: gint
  app_TxInterval :: gint

record AppConf =
  Conf :: Application

section \<open>Paths\<close>

text \<open>\<open>strings.Split\<close> at a one-byte separator: never the empty list.\<close>

fun split_at :: "char \<Rightarrow> string \<Rightarrow> string list" where
  "split_at c [] = [[]]"
| "split_at c (x # xs) =
     (if x = c then [] # split_at c xs
      else case split_at c xs of [] \<Rightarrow> [[x]] | p # ps \<Rightarrow> (x # p) # ps)"

definition splitList :: "string \<Rightarrow> string list" where
  "splitList s = (if s = [] then [] else split_at (CHR '':'') s)"

text \<open>
  \<open>path.Clean\<close> on the components: empty ones and \<open>.\<close> are dropped, \<open>..\<close> removes the component
  before it, at the root it is dropped, in front of a relative path it is kept.
\<close>

fun clean_parts :: "bool \<Rightarrow> string list \<Rightarrow> string list \<Rightarrow> string list" where
  "clean_parts rooted done [] = rev done"
| "clean_parts rooted done (p # ps) =
     (if p = [] \<or> p = ''.'' then clean_parts rooted done ps
      else if p = ''..'' then
        (case done of
           d # ds \<Rightarrow>
             if d = ''..'' then clean_parts rooted (p # done) ps else clean_parts rooted ds ps
         | [] \<Rightarrow> if rooted then clean_parts rooted [] ps else clean_parts rooted [p] ps)
      else clean_parts rooted (p # done) ps)"

fun join_with :: "char \<Rightarrow> string list \<Rightarrow> string" where
  "join_with c [] = []"
| "join_with c [p] = p"
| "join_with c (p # q # ps) = p @ c # join_with c (q # ps)"

definition path_Clean :: "string \<Rightarrow> string" where
  "path_Clean s =
     (let rooted = (s \<noteq> [] \<and> hd s = CHR ''/'');
          out = (if rooted then ''/'' else []) @ join_with (CHR ''/'') (clean_parts rooted [] (split_at (CHR ''/'') s))
      in if out = [] then ''.'' else out)"

definition path_Join :: "string list \<Rightarrow> string" where
  "path_Join es =
     (case dropWhile (\<lambda>e. e = []) es of [] \<Rightarrow> [] | e # es' \<Rightarrow> path_Clean (join_with (CHR ''/'') (e # es')))"

section \<open>The paths of the project\<close>

definition Project :: string where "Project = ''fabric-byzantine''"

definition ChannelConfigPath :: string where "ChannelConfigPath = ''channel-artifacts''"

definition CryptoConfigPath :: string where "CryptoConfigPath = ''crypto-config''"

text \<open>The first entry of the GOPATH; there is none when it is empty.\<close>

definition goPath :: "string \<Rightarrow> string outcome" where
  "goPath gopath = go_index (splitList gopath) 0"

definition GetConfigPath :: "string \<Rightarrow> string \<Rightarrow> string outcome" where
  "GetConfigPath gopath filename =
     out_bind (goPath gopath) (\<lambda>g. Done (path_Join [g, ''src'', Project, ''conf'', filename]))"

definition GetChannelConfigPath :: "string \<Rightarrow> string \<Rightarrow> string outcome" where
  "GetChannelConfigPath gopath filename =
     out_bind (goPath gopath) (\<lambda>g. Done (path_Join [g, ''src'', Project, ChannelConfigPath, filename]))"

definition GetDeployPath :: "string \<Rightarrow> string outcome" where
  "GetDeployPath gopath =
     out_bind (goPath gopath) (\<lambda>g. Done (path_Join [g, ''src'', Project, ''chaincode'']))"

section \<open>Start-up\<close>

text \<open>\<open>init\<close> of \<open>appconf.go\<close>: \<open>read_file\<close> and \<open>yaml\<close> stand for \<open>ioutil.ReadFile\<close> and \<open>yaml.Unmarshal\<close>.\<close>

definition appconf_init ::
    "string \<Rightarrow> (string \<Rightarrow> go_error + bytes) \<Rightarrow> (bytes \<Rightarrow> AppConf \<Rightarrow> AppConf \<times> go_error option) \<Rightarrow>
     AppConf \<Rightarrow> AppConf outcome" where
  "appconf_init gopath read_file yaml appConfig =
     out_bind (GetConfigPath gopath ''app.yaml'') (\<lambda>confPath.
     case read_file confPath of
       Inl e \<Rightarrow> Panic (EWrap ''yamlFile.Get'' e)
     | Inr yamlFile \<Rightarrow>
         (case yaml yamlFile appConfig of
            (c, Some e) \<Rightarrow> Panic (EWrap ''yamlFile.Unmarshal'' e)
          | (c, None) \<Rightarrow> Done c))"

text \<open>A separator never occurs in a component, and joining the components of a path gives it back.\<close>

lemma split_at_nonempty: "split_at c s \<noteq> []"
  by (induction s) (auto split: list.splits)

lemma join_split: "join_with c (split_at c s) = s"
proof (induction s)
  case (Cons x s)
  then show ?case
    using split_at_nonempty [of c s] by (cases "split_at c s"; cases "tl (split_at c s)") auto
qed simp

lemma split_at_free: "p \<in> set (split_at c s) \<Longrightarrow> c \<notin> set p"
  by (induction s arbitrary: p) (force split: list.splits if_splits)+

end
