(* ===== verification/Mysql_DB.thy ===== *)
theory Mysql_DB
  imports Server_Config Statistics Codec
begin

text \<open>
  The database layer of the server (\<open>src/server/mysql/db.go\<close> and \<open>handler.go\<close>). The SQL driver
  and the database behind it are an argument (\<open>driver\<close>), polymorphic in the state of the
  database: what a query answers, whether a statement prepares, what executing it does. The
  statements and their arguments, the decoding of result rows into JSON or a number, and the
  handling of every error are the code's.
\<close>

section \<open>The driver\<close>

datatype sql_arg = AInt gint | AUint uint64 | AStr string | ABytes "bytes option" | ATime gtime

text \<open>
  The answer to a query: the column names, the outcome of \<open>Scan\<close> for each row (a NULL is
  \<open>None\<close>; a successful \<open>Scan\<close> yields one value per column), and the error \<open>Err\<close> reports when the
  iteration ended early.
\<close>

record rows =
  rows_columns :: "go_error + string list"
  rows_scan :: "(go_error + bytes option list) list"
  rows_err :: "go_error option"

type_synonym statement = "string \<times> sql_arg list"

record 'd driver =
  drv_open :: "string \<Rightarrow> go_error option"
  drv_ping :: "go_error option"
  drv_query :: "'d \<Rightarrow> string \<Rightarrow> sql_arg list \<Rightarrow> go_error + rows"
  drv_prepare :: "'d \<Rightarrow> string \<Rightarrow> go_error option"
  drv_exec :: "'d \<Rightarrow> string \<Rightarrow> sql_arg list \<Rightarrow> 'd \<times> go_error option"
  drv_begin :: "'d \<Rightarrow> go_error option"
  drv_commit :: "'d \<Rightarrow> statement list \<Rightarrow> 'd \<times> go_error option"
  drv_close :: "go_error option \<times> go_error option \<times> go_error option"

section \<open>The statements\<close>

definition blockSQL :: string where "blockSQL = ''INSERT INTO block VALUES(?,?,?,?,?,?,?);''"

definition txSQL :: string where "txSQL = ''INSERT INTO transaction VALUES(?,?,?,?,?,?,?);''"

definition blockHeight_sql :: string where
  "blockHeight_sql = ''select max(number) as height from block;''"

definition blockPage_sql :: string where
  "blockPage_sql = ''select * from (select number from block order by number desc limit ?,?) a left join block b on a.number = b.number;''"

definition txPage_sql :: string where
  "txPage_sql = ''select * from (select tx_index from transaction order by tx_index desc limit ?,?) a left join transaction b on a.tx_index = b.tx_index;''"

definition updateTX_sql :: string where
  "updateTX_sql = ''UPDATE transaction SET peer=?,tx_type=? WHERE tx_id=?;''"

definition queryTX_sql :: string where "queryTX_sql = ''select * from transaction where tx_id=?;''"

definition peerList_sql :: string where "peerList_sql = ''select * from peer;''"

definition updatePeer_sql :: string where "updatePeer_sql = ''UPDATE peer SET peer_type=? WHERE name=?;''"

definition txNumber_sql :: string where "txNumber_sql = ''select sum(tx_count) as tx from block;''"

section \<open>The manager\<close>

record DBMgr =
  mgr_dsn :: string
  mgr_maxOpen :: gint
  mgr_maxIdle :: gint
  mgr_stmtTx :: string
  mgr_stmtBlock :: string

definition dsn_of :: "DBInfo \<Rightarrow> string" where
  "dsn_of c = db_User c @ '':'' @ db_Password c @ ''@tcp('' @ db_Host c @ '':'' @ db_Port c @ '')/'' @ db_Name c"

definition panic_on :: "go_error option \<Rightarrow> unit outcome" where
  "panic_on e = (case e of None \<Rightarrow> Done () | Some e \<Rightarrow> Panic e)"

definition NewDBMgr :: "'d driver \<Rightarrow> 'd \<Rightarrow> DBInfo option \<Rightarrow> DBMgr outcome" where
  "NewDBMgr drv d dbConf =
     out_bind (deref dbConf) (\<lambda>c.
     out_bind (panic_on (drv_open drv (dsn_of c))) (\<lambda>_.
     out_bind (panic_on (drv_ping drv)) (\<lambda>_.
     out_bind (panic_on (drv_prepare drv d blockSQL)) (\<lambda>_.
     out_bind (panic_on (drv_prepare drv d txSQL)) (\<lambda>_.
     Done \<lparr>mgr_dsn = dsn_of c, mgr_maxOpen = db_MaxOpenConns c, mgr_maxIdle = db_MaxIdleConns c,
           mgr_stmtTx = txSQL, mgr_stmtBlock = blockSQL\<rparr>)))))"

definition CloseDB :: "'d driver \<Rightarrow> unit outcome" where
  "CloseDB drv =
     (case drv_close drv of (a, b, c) \<Rightarrow>
        out_bind (panic_on a) (\<lambda>_. out_bind (panic_on b) (\<lambda>_. panic_on c)))"

section \<open>Queries\<close>

text \<open>A row as a map from column names; a column that occurs twice keeps its last value.\<close>

definition row_entry :: "string list \<Rightarrow> bytes option list \<Rightarrow> string gmap" where
  "row_entry columns values =
     foldl (\<lambda>entry (c, v). gmap_put c (case v of None \<Rightarrow> ''NULL'' | Some s \<Rightarrow> s) entry) [] (zip columns values)"

definition rows_doc :: "string gmap list \<Rightarrow> bytes" where
  "rows_doc datas = json_print (JArr (map (\<lambda>e. JObj (map (\<lambda>(k, v). (k, JStr v)) e)) datas))"

definition QueryRows :: "'d driver \<Rightarrow> 'd \<Rightarrow> string \<Rightarrow> sql_arg list \<Rightarrow> go_error + bytes" where
  "QueryRows drv d query args =
     res_bind (drv_query drv d query args) (\<lambda>rows.
     res_bind (rows_columns rows) (\<lambda>columns.
     res_bind (res_map (\<lambda>r. res_bind r (\<lambda>values. Inr (row_entry columns values))) (rows_scan rows)) (\<lambda>datas.
     case rows_err rows of Some e \<Rightarrow> Inl e | None \<Rightarrow> Inr (rows_doc datas))))"

text \<open>The value of the last row; the error of an iteration that ended early is not looked at.\<close>

fun last_value :: "bytes option \<Rightarrow> (go_error + bytes option list) list \<Rightarrow> go_error + bytes option" where
  "last_value col [] = Inr col"
| "last_value col (Inl e # rs) = Inl e"
| "last_value col (Inr vs # rs) = last_value (case vs of [] \<Rightarrow> None | v # _ \<Rightarrow> v) rs"

definition QueryValue :: "'d driver \<Rightarrow> 'd \<Rightarrow> string \<Rightarrow> sql_arg list \<Rightarrow> go_error + bytes option" where
  "QueryValue drv d query args =
     res_bind (drv_query drv d query args) (\<lambda>rows.
     res_bind (rows_columns rows) (\<lambda>columns.
     if length columns \<noteq> 1 then Inl (EText ''query invalid columns'')
     else last_value None (rows_scan rows)))"

definition InsertOrUpdate :: "'d driver \<Rightarrow> string \<Rightarrow> sql_arg list \<Rightarrow> 'd \<Rightarrow> 'd \<times> go_error option" where
  "InsertOrUpdate drv query args d =
     (case drv_prepare drv d query of Some e \<Rightarrow> (d, Some e) | None \<Rightarrow> drv_exec drv d query args)"

section \<open>The operations of \<open>handler.go\<close>\<close>

definition BlockPage :: "'d driver \<Rightarrow> 'd \<Rightarrow> gint \<Rightarrow> gint \<Rightarrow> go_error + bytes" where
  "BlockPage drv d pageId sz = QueryRows drv d blockPage_sql [AInt ((pageId - 1) * sz), AInt sz]"

definition TransactionPage :: "'d driver \<Rightarrow> 'd \<Rightarrow> gint \<Rightarrow> gint \<Rightarrow> go_error + bytes" where
  "TransactionPage drv d pageId sz = QueryRows drv d txPage_sql [AInt ((pageId - 1) * sz), AInt sz]"

definition GetBlockHeight :: "'d driver \<Rightarrow> 'd \<Rightarrow> uint64 outcome" where
  "GetBlockHeight drv d =
     out_bind (or_panic (QueryValue drv d blockHeight_sql [])) (\<lambda>data.
     Done (fst (parse_uint (slice_bytes data))))"

definition TxNumber :: "'d driver \<Rightarrow> 'd \<Rightarrow> uint64 outcome" where
  "TxNumber drv d =
     out_bind (or_panic (QueryValue drv d txNumber_sql [])) (\<lambda>data.
     Done (fst (parse_uint (slice_bytes data))))"

definition QueryTransaction :: "'d driver \<Rightarrow> 'd \<Rightarrow> string \<Rightarrow> go_error + bytes" where
  "QueryTransaction drv d txId = QueryRows drv d queryTX_sql [AStr txId]"

definition PeerList :: "'d driver \<Rightarrow> 'd \<Rightarrow> go_error + bytes" where
  "PeerList drv d = QueryRows drv d peerList_sql []"

definition UpdateTransaction :: "'d driver \<Rightarrow> string \<Rightarrow> string \<Rightarrow> gint \<Rightarrow> 'd \<Rightarrow> 'd \<times> go_error option" where
  "UpdateTransaction drv peer txId txType d =
     InsertOrUpdate drv updateTX_sql [AStr peer, AInt txType, AStr txId] d"

definition UpdatePeers :: "'d driver \<Rightarrow> string \<Rightarrow> gint \<Rightarrow> 'd \<Rightarrow> 'd \<times> go_error option" where
  "UpdatePeers drv peer peerType d = InsertOrUpdate drv updatePeer_sql [AInt peerType, AStr peer] d"

definition UpdateBlock_row :: "'d driver \<Rightarrow> string \<Rightarrow> string \<Rightarrow> gint \<Rightarrow> 'd \<Rightarrow> 'd \<times> go_error option" where
  "UpdateBlock_row drv peer txId txType d =
     InsertOrUpdate drv updateTX_sql [AStr peer, AInt txType, AStr txId] d"

end
