(* ===== verification/Fabsdk.thy ===== *)
theory Fabsdk
  imports Mysql_DB Statistics Proto_Messages
begin

text \<open>
  The client side of the server (\<open>src/server/fabsdk.go\<close>, \<open>src/server/server.go\<close>): the provider
  built from the configuration, queries and invocations of a chaincode, and the bookkeeping an
  invocation does. The Fabric SDK is an argument (\<open>sdk\<close>): what its constructors, the identity,
  the random source, the hash and the peers answer. A peer of the SDK is an opaque handle.

  The operations act on the state of the process (\<open>server\<close>) and may panic; the state at a panic
  is kept, because \<open>net/http\<close> recovers the panic of a handler and the process goes on.
\<close>

section \<open>The process state\<close>

record PeerTx =
  PeerName :: string
  PeerType :: gint

datatype feed = BlockFeed | BlockNumberFeed | TxFeed | TxNumberFeed

datatype message = MBytes "bytes option" | MNumber uint64

text \<open>
  The global variables of the packages \<open>server\<close> and \<open>main\<close>: \<open>TxList\<close>, the subscribers of the
  four channel maps in the order \<open>Range\<close> visits them (Go leaves it open: any list), the
  statistics, the database, the timer flag; and the messages handed to the subscribers so far.
\<close>

record 'd server =
  TxList :: "string \<rightharpoonup> PeerTx"
  subscribers :: "feed \<Rightarrow> string list"
  StatisticsTable :: stats_heap
  DB :: 'd
  timerFlag :: bool
  sent :: "(feed \<times> string \<times> message) list"

type_synonym ('d, 'a) action = "'d server \<Rightarrow> 'a outcome \<times> 'd server"

definition act :: "'a outcome \<Rightarrow> ('d, 'a) action" where
  "act x = (\<lambda>s. (x, s))"

definition act_bind :: "('d, 'a) action \<Rightarrow> ('a \<Rightarrow> ('d, 'b) action) \<Rightarrow> ('d, 'b) action" where
  "act_bind m f = (\<lambda>s. case m s of (Panic e, s') \<Rightarrow> (Panic e, s') | (Done x, s') \<Rightarrow> f x s')"

definition modify :: "('d server \<Rightarrow> 'd server) \<Rightarrow> ('d, unit) action" where
  "modify f = (\<lambda>s. (Done (), f s))"

definition access :: "('d server \<Rightarrow> 'a) \<Rightarrow> ('d, 'a) action" where
  "access f = (\<lambda>s. (Done (f s), s))"

fun act_each :: "('a \<Rightarrow> ('d, unit) action) \<Rightarrow> 'a list \<Rightarrow> ('d, unit) action" where
  "act_each f [] = act (Done ())"
| "act_each f (x # xs) = act_bind (f x) (\<lambda>_. act_each f xs)"

lemma act_simps [simp, go_simps]:
  "act x s = (x, s)"
  "act_bind m f s = (case m s of (Panic e, s') \<Rightarrow> (Panic e, s') | (Done x, s') \<Rightarrow> f x s')"
  "modify g s = (Done (), g s)"
  "access h s = (Done (h s), s)"
  by (simp_all add: act_def act_bind_def modify_def access_def)

text \<open>A subscriber's channel takes the message; that a send waits for its receiver is \<open>Broadcast\<close>.\<close>

definition send :: "feed \<Rightarrow> message \<Rightarrow> string \<Rightarrow> ('d, unit) action" where
  "send f m uid = modify (\<lambda>s. s\<lparr>sent := sent s @ [(f, uid, m)]\<rparr>)"

definition broadcast :: "feed \<Rightarrow> message \<Rightarrow> ('d, unit) action" where
  "broadcast f m = act_bind (access (\<lambda>s. subscribers s f)) (act_each (send f m))"

lemma act_each_send:
  "act_each (send f m) uids s = (Done (), s\<lparr>sent := sent s @ map (\<lambda>u. (f, u, m)) uids\<rparr>)"
  by (induction uids arbitrary: s) (simp_all add: send_def)

lemma broadcast_run [simp]:
  "broadcast f m s = (Done (), s\<lparr>sent := sent s @ map (\<lambda>u. (f, u, m)) (subscribers s f)\<rparr>)"
  by (simp add: broadcast_def act_each_send)

section \<open>The SDK\<close>

type_synonym fab_peer = string

record request =
  rq_channel :: string
  rq_org :: OrgInfo
  rq_ChaincodeID :: string
  rq_Fcn :: string
  rq_Args :: "bytes list"

record tx_response =
  TransactionID :: string
  TxPayload :: "bytes option"

record sdk =
  sdk_new :: "go_error option"
  sdk_msp_client :: "string \<Rightarrow> go_error option"
  sdk_resmgmt :: "string \<Rightarrow> string \<Rightarrow> go_error option"
  sdk_context :: "string \<Rightarrow> string \<Rightarrow> go_error option"
  sdk_peers_config :: "string \<Rightarrow> string list option"
  sdk_create_peer :: "string \<Rightarrow> go_error + fab_peer"
  sdk_channel_client :: "string \<Rightarrow> OrgInfo \<Rightarrow> go_error option"
  sdk_identity :: "OrgInfo \<Rightarrow> go_error option"
  sdk_serialize :: "OrgInfo \<Rightarrow> go_error + bytes"
  sdk_random :: "go_error + bytes"
  sdk_hash :: "bytes \<Rightarrow> go_error + bytes"
  sdk_query :: "request \<Rightarrow> fab_peer \<Rightarrow> go_error + bytes option"
  sdk_execute :: "request \<Rightarrow> bytes \<Rightarrow> bytes \<Rightarrow> fab_peer list \<Rightarrow> tx_response \<times> go_error option"
  sdk_event_client :: "string \<Rightarrow> OrgInfo \<Rightarrow> go_error option"
  sdk_ledger_client :: "string \<Rightarrow> OrgInfo \<Rightarrow> go_error option"
  sdk_register_events :: "go_error option"
  sdk_query_info :: "fab_peer \<Rightarrow> go_error + uint64"
  sdk_query_block :: "uint64 \<Rightarrow> go_error + Block"

section \<open>The provider\<close>

record OrgInstance =
  org_Config :: OrgInfo
  org_Peers :: "fab_peer list"

record FabSdkProvider =
  Orgs :: "OrgInstance list"
  Orderers :: "OrderderInfo list"

definition ok_unit :: "go_error option \<Rightarrow> go_error + unit" where
  "ok_unit e = (case e of None \<Rightarrow> Inr () | Some e \<Rightarrow> Inl e)"

definition loadOrgPeers :: "sdk \<Rightarrow> string \<Rightarrow> string \<Rightarrow> go_error + fab_peer list" where
  "loadOrgPeers k admin org =
     res_bind (ok_unit (sdk_context k admin org)) (\<lambda>_.
     case sdk_peers_config k org of
       None \<Rightarrow> Inl (EText (''Failed to load org peers for '' @ org))
     | Some orgPeers \<Rightarrow> res_map (sdk_create_peer k) orgPeers)"

fun load_orgs :: "sdk \<Rightarrow> OrgInfo option list \<Rightarrow> (go_error + OrgInstance list) outcome" where
  "load_orgs k [] = Done (Inr [])"
| "load_orgs k (p # ps) =
     out_bind (deref p) (\<lambda>org.
     try_bind (ok_unit (sdk_msp_client k (oi_Name org))) (\<lambda>_.
     try_bind (ok_unit (sdk_resmgmt k (oi_Admin org) (oi_Name org))) (\<lambda>_.
     try_bind (loadOrgPeers k (oi_Admin org) (oi_Name org)) (\<lambda>orgPeers.
     out_bind (load_orgs k ps) (\<lambda>r.
     try_bind r (\<lambda>os. Done (Inr (\<lparr>org_Config = org, org_Peers = orgPeers\<rparr> # os))))))))"

fun load_orderers :: "sdk \<Rightarrow> OrderderInfo option list \<Rightarrow> (go_error + OrderderInfo list) outcome" where
  "load_orderers k [] = Done (Inr [])"
| "load_orderers k (p # ps) =
     out_bind (deref p) (\<lambda>orderer.
     try_bind (ok_unit (sdk_resmgmt k (ord_Admin orderer) (ord_Name orderer))) (\<lambda>_.
     out_bind (load_orderers k ps) (\<lambda>r.
     try_bind r (\<lambda>os. Done (Inr (orderer # os))))))"

definition NewFabSdkProvider :: "sdk \<Rightarrow> Application \<Rightarrow> (go_error + FabSdkProvider) outcome" where
  "NewFabSdkProvider k appConf =
     try_bind (ok_unit (sdk_new k)) (\<lambda>_.
     out_bind (load_orgs k (app_OrgInfo appConf)) (\<lambda>r.
     try_bind r (\<lambda>orgs.
     if orgs = [] then Done (Inl (EText ''not provider org config''))
     else
       out_bind (load_orderers k (app_OrderderInfo appConf)) (\<lambda>r.
       try_bind r (\<lambda>orderers. Done (Inr \<lparr>Orgs = orgs, Orderers = orderers\<rparr>))))))"

text \<open>\<open>init\<close> of \<open>server.go\<close>: the provider of the process, or a panic.\<close>

definition server_init :: "sdk \<Rightarrow> Application \<Rightarrow> FabSdkProvider outcome" where
  "server_init k appConf = out_bind (NewFabSdkProvider k appConf) or_panic"

section \<open>Queries\<close>

definition QueryCC ::
    "sdk \<Rightarrow> FabSdkProvider \<Rightarrow> gint \<Rightarrow> string \<Rightarrow> string \<Rightarrow> string \<Rightarrow> bytes list \<Rightarrow>
     (bytes option \<times> go_error option) outcome" where
  "QueryCC k f index channelID ccID function args =
     out_bind (go_index (Orgs f) (sint index)) (\<lambda>orgInstance.
     if sdk_channel_client k channelID (org_Config orgInstance) \<noteq> None then
       Done (None, Some (EText (''Failed to create new channel client:  '' @ oi_Name (org_Config orgInstance))))
     else
       out_bind (go_index (org_Peers orgInstance) 0) (\<lambda>peer0.
       case sdk_query k \<lparr>rq_channel = channelID, rq_org = org_Config orgInstance, rq_ChaincodeID = ccID,
              rq_Fcn = function, rq_Args = args\<rparr> peer0 of
         Inl e \<Rightarrow> Done (None, Some e)
       | Inr payload \<Rightarrow> Done (payload, None)))"

text \<open>\<open>result, _ := f.QueryCC(0, "mychannel1", "token", "getPeers", "fab")\<close>, decoded into a fresh map.\<close>

definition query_peers :: "sdk \<Rightarrow> FabSdkProvider \<Rightarrow> bool gmap outcome" where
  "query_peers k f =
     out_bind (QueryCC k f 0 ''mychannel1'' ''token'' ''getPeers'' [''fab'']) (\<lambda>(result, _).
     Done (slice_bytes (fst (json_unmarshal (dec_map dec_bool False) (slice_bytes result) (Some [])))))"

section \<open>Peer numbers\<close>

text \<open>
  The number in a peer's name \<open>peer0.org<n>...\<close>: the digit at position 9, and when that is 1 the
  two digits from there on, if they are a number.
\<close>

definition peer_index :: "string \<Rightarrow> gint outcome" where
  "peer_index k =
     out_bind (go_slice k 9 10) (\<lambda>d.
     let index = fst (atoi d) in
     if index = 1 then
       out_bind (go_slice k 9 11) (\<lambda>d2.
       case atoi d2 of (i, None) \<Rightarrow> Done i | (_, Some _) \<Rightarrow> Done index)
     else Done index)"

fun split_peers :: "(string \<times> bool) list \<Rightarrow> gint list \<times> gint list \<Rightarrow> (gint list \<times> gint list) outcome" where
  "split_peers [] acc = Done acc"
| "split_peers ((k, v) # peers) (nPeers, bPeers) =
     out_bind (peer_index k) (\<lambda>i.
     let index = i - 1 in
     split_peers peers (if v then (nPeers @ [index], bPeers) else (nPeers, bPeers @ [index])))"

section \<open>Targets\<close>

definition first_peer :: "OrgInstance \<Rightarrow> fab_peer outcome" where
  "first_peer o1 = go_index (org_Peers o1) 0"

definition peers_at :: "FabSdkProvider \<Rightarrow> gint list \<Rightarrow> fab_peer list outcome" where
  "peers_at f is = out_map (\<lambda>v. out_bind (go_index (Orgs f) (sint v)) first_peer) is"

definition choose_targets :: "FabSdkProvider \<Rightarrow> gint list \<Rightarrow> gint list \<Rightarrow> fab_peer list outcome" where
  "choose_targets f nPeers bPeers =
     (if 7 \<le> length nPeers then peers_at f nPeers
      else if 7 \<le> length bPeers then peers_at f bPeers
      else out_map first_peer (Orgs f))"

end
