(* ===== verification/Broadcast.thy ===== *)
theory Broadcast
  imports Fabsdk Step_System
begin

text \<open>
  How messages reach the websocket subscribers: the senders (the \<open>Range\<close> loops of \<open>updateBlock\<close>
  and \<open>InvokeCC\<close>) and the handlers \<open>block\<close>, \<open>blockNumber\<close>, \<open>transaction\<close> and \<open>transactionNumber\<close>
  of \<open>src/main.go\<close>, which all have the same loop. One hub is one of the four channel maps. The
  channels are unbuffered: a send waits until the handler of that channel receives.

  \<open>Range\<close> of a \<open>sync.Map\<close> goes over the keys present when it starts, in some order, and skips
  those deleted before it comes to them.
\<close>

section \<open>Hubs\<close>

datatype handler_state = Receiving | Writing message | Gone

record sender =
  sn_message :: message
  sn_todo :: "string list"
  sn_waiting :: "string option"

record hub =
  hub_registered :: "string list"
  hub_handlers :: "(string \<times> handler_state) list"
  hub_senders :: "sender list"
  hub_written :: "(string \<times> bytes) list"

datatype event =
    Connect string
  | Start message "string list"
  | Visit nat
  | Deliver nat
  | WriteOk string
  | WriteErr string

definition empty_hub :: hub where
  "empty_hub = \<lparr>hub_registered = [], hub_handlers = [], hub_senders = [], hub_written = []\<rparr>"

definition set_handler :: "string \<Rightarrow> handler_state \<Rightarrow> hub \<Rightarrow> hub" where
  "set_handler u st h = h\<lparr>hub_handlers := map (\<lambda>(k, v). (k, if k = u then st else v)) (hub_handlers h)\<rparr>"

definition set_sender :: "nat \<Rightarrow> sender \<Rightarrow> hub \<Rightarrow> hub" where
  "set_sender i s h = h\<lparr>hub_senders := (hub_senders h)[i := s]\<rparr>"

text \<open>The text a handler writes to its websocket.\<close>

fun ws_text :: "message \<Rightarrow> bytes" where
  "ws_text (MBytes datas) = slice_bytes datas"
| "ws_text (MNumber n) = format_uint n"

section \<open>The steps of the handlers\<close>

text \<open>The handler makes a channel, stores it under a fresh id and waits for a message.\<close>

definition ws_connect :: "string \<Rightarrow> hub \<Rightarrow> hub option" where
  "ws_connect uid h =
     (if uid \<in> fst ` set (hub_handlers h) then None
      else Some (h\<lparr>hub_registered := uid # hub_registered h, hub_handlers := (uid, Receiving) # hub_handlers h\<rparr>))"

text \<open>\<open>WriteMessage\<close> succeeds and the handler waits again; or fails, and it deletes its id and returns.\<close>

definition ws_write :: "string \<Rightarrow> hub \<Rightarrow> hub option" where
  "ws_write u h =
     (case map_of (hub_handlers h) u of
        Some (Writing m) \<Rightarrow> Some ((set_handler u Receiving h)\<lparr>hub_written := hub_written h @ [(u, ws_text m)]\<rparr>)
      | _ \<Rightarrow> None)"

definition ws_fail :: "string \<Rightarrow> hub \<Rightarrow> hub option" where
  "ws_fail u h =
     (case map_of (hub_handlers h) u of
        Some (Writing m) \<Rightarrow>
          Some ((set_handler u Gone h)\<lparr>hub_registered := filter (\<lambda>k. k \<noteq> u) (hub_registered h)\<rparr>)
      | _ \<Rightarrow> None)"

section \<open>The steps of the senders\<close>

definition range_start :: "message \<Rightarrow> string list \<Rightarrow> hub \<Rightarrow> hub option" where
  "range_start m order h =
     (if mset order = mset (hub_registered h)
      then Some (h\<lparr>hub_senders := hub_senders h @ [\<lparr>sn_message = m, sn_todo = order, sn_waiting = None\<rparr>]\<rparr>)
      else None)"

definition range_visit :: "nat \<Rightarrow> hub \<Rightarrow> hub option" where
  "range_visit i h =
     (if i < length (hub_senders h) then
        (let s = hub_senders h ! i in
         case (sn_waiting s, sn_todo s) of
           (None, u # us) \<Rightarrow>
             Some (set_sender i (s\<lparr>sn_todo := us,
               sn_waiting := (if u \<in> set (hub_registered h) then Some u else None)\<rparr>) h)
         | _ \<Rightarrow> None)
      else None)"

definition rendezvous :: "nat \<Rightarrow> hub \<Rightarrow> hub option" where
  "rendezvous i h =
     (if i < length (hub_senders h) then
        (let s = hub_senders h ! i in
         case sn_waiting s of
           None \<Rightarrow> None
         | Some u \<Rightarrow>
             (case map_of (hub_handlers h) u of
                Some Receiving \<Rightarrow>
                  Some (set_sender i (s\<lparr>sn_waiting := None\<rparr>) (set_handler u (Writing (sn_message s)) h))
              | _ \<Rightarrow> None))
      else None)"

fun hub_exec :: "event \<Rightarrow> hub \<Rightarrow> hub option" where
  "hub_exec (Connect uid) h = ws_connect uid h"
| "hub_exec (Start m order) h = range_start m order h"
| "hub_exec (Visit i) h = range_visit i h"
| "hub_exec (Deliver i) h = rendezvous i h"
| "hub_exec (WriteOk u) h = ws_write u h"
| "hub_exec (WriteErr u) h = ws_fail u h"

section \<open>A sender that waits for a handler that has gone\<close>

definition stuck :: "nat \<Rightarrow> string \<Rightarrow> hub \<Rightarrow> bool" where
  "stuck i u h \<longleftrightarrow> i < length (hub_senders h) \<and> sn_waiting (hub_senders h ! i) = Some u \<and>
     map_of (hub_handlers h) u = Some Gone"

lemma map_of_set_handler:
  "map_of (hub_handlers (set_handler u st h)) k =
     (if k = u then map_option (\<lambda>_. st) (map_of (hub_handlers h) k) else map_of (hub_handlers h) k)"
proof -
  have "map_of (map (\<lambda>(k, v). (k, if k = u then st else v)) hs) k =
      (if k = u then map_option (\<lambda>_. st) (map_of hs k) else map_of hs k)" for hs :: "(string \<times> handler_state) list"
    by (induction hs) auto
  then show ?thesis by (simp add: set_handler_def)
qed

lemma set_handler_simps [simp]:
  "hub_registered (set_handler u st h) = hub_registered h" "hub_senders (set_handler u st h) = hub_senders h"
  "hub_written (set_handler u st h) = hub_written h" "map fst (hub_handlers (set_handler u st h)) = map fst (hub_handlers h)"
  by (simp_all add: set_handler_def split_def comp_def)

lemma set_sender_simps [simp]:
  "hub_registered (set_sender i s h) = hub_registered h" "hub_handlers (set_sender i s h) = hub_handlers h"
  "hub_written (set_sender i s h) = hub_written h" "hub_senders (set_sender i s h) = (hub_senders h)[i := s]"
  by (simp_all add: set_sender_def)

lemma stuck_step: "hub_exec e h = Some h' \<Longrightarrow> stuck i u h \<Longrightarrow> stuck i u h'"
proof (induction e h rule: hub_exec.induct)
  case (1 uid h)
  then have "u \<in> fst ` set (hub_handlers h)" by (force simp: stuck_def dest: map_of_SomeD)
  moreover have "uid \<notin> fst ` set (hub_handlers h)" using 1 by (auto simp: ws_connect_def split: if_splits)
  ultimately have "u \<noteq> uid" by blast
  with 1 show ?case by (auto simp: ws_connect_def stuck_def split: if_splits)
next
  case (2 m order h)
  then show ?case by (auto simp: range_start_def stuck_def nth_append split: if_splits)
next
  case (3 j h)
  then show ?case
    by (cases "i = j") (auto simp: range_visit_def stuck_def Let_def split: if_splits option.splits list.splits)
next
  case (4 j h)
  then show ?case
    by (cases "i = j")
      (auto simp: rendezvous_def stuck_def Let_def map_of_set_handler
        split: if_splits option.splits handler_state.splits)
next
  case (5 k h)
  then show ?case
    by (auto simp: ws_write_def stuck_def map_of_set_handler split: option.splits handler_state.splits)
next
  case (6 k h)
  then show ?case
    by (auto simp: ws_fail_def stuck_def map_of_set_handler split: option.splits handler_state.splits)
qed

lemma stuck_forever: "reach hub_exec h h' \<Longrightarrow> stuck i u h \<Longrightarrow> stuck i u h'"
  by (rule reach_inv) (auto intro: stuck_step)

section \<open>Without write errors every message arrives\<close>

text \<open>The steps of the running broadcasts when every write succeeds.\<close>

fun quiet_event :: "event \<Rightarrow> bool" where
  "quiet_event (Visit i) = True"
| "quiet_event (Deliver i) = True"
| "quiet_event (WriteOk u) = True"
| "quiet_event _ = False"

text \<open>What is still to be written: the messages in the handlers and those of the senders.\<close>

fun handler_due :: "string \<times> handler_state \<Rightarrow> (string \<times> bytes) list" where
  "handler_due (u, Writing m) = [(u, ws_text m)]"
| "handler_due (u, _) = []"

definition sender_due :: "sender \<Rightarrow> (string \<times> bytes) list" where
  "sender_due s =
     map (\<lambda>u. (u, ws_text (sn_message s))) ((case sn_waiting s of None \<Rightarrow> [] | Some u \<Rightarrow> [u]) @ sn_todo s)"

definition due :: "hub \<Rightarrow> (string \<times> bytes) list" where
  "due h = concat (map handler_due (hub_handlers h)) @ concat (map sender_due (hub_senders h))"

definition handler_work :: "string \<times> handler_state \<Rightarrow> nat" where
  "handler_work e = length (handler_due e)"

definition sender_work :: "sender \<Rightarrow> nat" where
  "sender_work s = (case sn_waiting s of None \<Rightarrow> 0 | Some u \<Rightarrow> 2) + 3 * length (sn_todo s)"

definition hub_work :: "hub \<Rightarrow> nat" where
  "hub_work h = sum_list (map handler_work (hub_handlers h)) + sum_list (map sender_work (hub_senders h))"

text \<open>Every registered id has a live handler, and the senders only deal with registered ids.\<close>

definition sender_ok :: "string list \<Rightarrow> sender \<Rightarrow> bool" where
  "sender_ok reg s \<longleftrightarrow> set (sn_todo s) \<subseteq> set reg \<and> set_option (sn_waiting s) \<subseteq> set reg"

definition hub_ok :: "hub \<Rightarrow> bool" where
  "hub_ok h \<longleftrightarrow> distinct (map fst (hub_handlers h)) \<and>
     (\<forall>u\<in>set (hub_registered h). \<exists>st. map_of (hub_handlers h) u = Some st \<and> st \<noteq> Gone) \<and>
     (\<forall>s\<in>set (hub_senders h). sender_ok (hub_registered h) s)"

lemma hub_ok_set_sender:
  "hub_ok h \<Longrightarrow> sender_ok (hub_registered h) t \<Longrightarrow> hub_ok (set_sender i t h)"
  using set_update_subset_insert [of "hub_senders h" i t] by (auto simp: hub_ok_def)

lemma hub_ok_set_handler: "hub_ok h \<Longrightarrow> st \<noteq> Gone \<Longrightarrow> hub_ok (set_handler u st h)"
  by (fastforce simp: hub_ok_def map_of_set_handler)

lemma hub_ok_sender: "hub_ok h \<Longrightarrow> i < length (hub_senders h) \<Longrightarrow> sender_ok (hub_registered h) (hub_senders h ! i)"
  by (simp add: hub_ok_def)

lemma mset_concat_map_update:
  "i < length xs \<Longrightarrow>
    mset (concat (map f (xs[i := y]))) + mset (f (xs ! i)) = mset (concat (map f xs)) + mset (f y)"
proof (induction xs arbitrary: i)
  case (Cons x xs)
  then show ?case by (cases i) (simp_all add: ac_simps)
qed simp

lemma sum_list_map_update:
  fixes f :: "'a \<Rightarrow> nat"
  shows "i < length xs \<Longrightarrow> sum_list (map f (xs[i := y])) + f (xs ! i) = sum_list (map f xs) + f y"
  by (induction xs arbitrary: i) (auto simp: nth_Cons' less_Suc_eq_0_disj)

text \<open>Changing one handler, seen as the update of one entry.\<close>

lemma set_handler_update:
  assumes "distinct (map fst (hub_handlers h))" "map_of (hub_handlers h) u = Some st"
  shows "\<exists>j < length (hub_handlers h). hub_handlers h ! j = (u, st) \<and>
    hub_handlers (set_handler u st' h) = (hub_handlers h)[j := (u, st')]"
proof -
  obtain j where j: "j < length (hub_handlers h)" "hub_handlers h ! j = (u, st)"
    using assms(2) by (metis in_set_conv_nth map_of_SomeD)
  have other: "fst (hub_handlers h ! k) = u \<longleftrightarrow> k = j" if "k < length (hub_handlers h)" for k
    using assms(1) j that by (metis distinct_conv_nth fst_conv length_map nth_map)
  have "hub_handlers (set_handler u st' h) ! k = (hub_handlers h)[j := (u, st')] ! k"
    if "k < length (hub_handlers h)" for k
    using other [OF that] j that by (cases "hub_handlers h ! k") (auto simp: set_handler_def nth_list_update)
  then have "hub_handlers (set_handler u st' h) = (hub_handlers h)[j := (u, st')]"
    by (intro nth_equalityI) (simp_all add: set_handler_def)
  then show ?thesis using j by blast
qed

lemma handler_change:
  assumes "distinct (map fst (hub_handlers h))" "map_of (hub_handlers h) u = Some st"
  shows "mset (concat (map handler_due (hub_handlers (set_handler u st' h)))) + mset (handler_due (u, st)) =
      mset (concat (map handler_due (hub_handlers h))) + mset (handler_due (u, st'))"
    and "sum_list (map handler_work (hub_handlers (set_handler u st' h))) + handler_work (u, st) =
      sum_list (map handler_work (hub_handlers h)) + handler_work (u, st')"
  using set_handler_update [OF assms, of st'] mset_concat_map_update [of _ "hub_handlers h" handler_due "(u, st')"]
    sum_list_map_update [of _ "hub_handlers h" handler_work "(u, st')"]
  by force+

lemma quiet_step:
  assumes "hub_ok h" "quiet_event e" "hub_exec e h = Some h'"
  shows "hub_ok h' \<and> mset (hub_written h') + mset (due h') = mset (hub_written h) + mset (due h) \<and>
    hub_work h' < hub_work h"
proof (cases e)
  case (Visit i)
  then obtain u us where i: "i < length (hub_senders h)" "sn_waiting (hub_senders h ! i) = None"
    "sn_todo (hub_senders h ! i) = u # us"
    using assms(3) by (auto simp: range_visit_def Let_def split: if_splits option.splits list.splits)
  let ?s = "hub_senders h ! i" and ?t = "(hub_senders h ! i)\<lparr>sn_todo := us, sn_waiting := Some u\<rparr>"
  have u: "u \<in> set (hub_registered h)" "set us \<subseteq> set (hub_registered h)"
    using hub_ok_sender [OF assms(1) i(1)] i(3) by (simp_all add: sender_ok_def)
  have h': "h' = set_sender i ?t h" using assms(3) Visit i u by (simp add: range_visit_def)
  have "hub_ok h'" unfolding h' by (rule hub_ok_set_sender [OF assms(1)]) (use u in \<open>simp add: sender_ok_def\<close>)
  moreover have "mset (concat (map sender_due (hub_senders h'))) = mset (concat (map sender_due (hub_senders h)))"
    using mset_concat_map_update [OF i(1), of sender_due ?t] i by (simp add: h' sender_due_def)
  moreover have "sum_list (map sender_work (hub_senders h')) < sum_list (map sender_work (hub_senders h))"
    using sum_list_map_update [OF i(1), of sender_work ?t] i by (simp add: h' sender_work_def)
  ultimately show ?thesis by (simp add: due_def hub_work_def h')
next
  case (Deliver i)
  then obtain u where i: "i < length (hub_senders h)" "sn_waiting (hub_senders h ! i) = Some u"
    and r: "map_of (hub_handlers h) u = Some Receiving"
    using assms(3) by (auto simp: rendezvous_def Let_def split: if_splits option.splits handler_state.splits)
  let ?s = "hub_senders h ! i" and ?t = "(hub_senders h ! i)\<lparr>sn_waiting := None\<rparr>"
  let ?w = "Writing (sn_message (hub_senders h ! i))"
  have h': "h' = set_sender i ?t (set_handler u ?w h)" using assms(3) Deliver i r by (simp add: rendezvous_def Let_def)
  have "hub_ok h'"
    unfolding h' using hub_ok_sender [OF assms(1) i(1)]
    by (intro hub_ok_set_sender hub_ok_set_handler assms(1)) (simp_all add: sender_ok_def)
  moreover have d: "distinct (map fst (hub_handlers h))" using assms(1) by (simp add: hub_ok_def)
  have "mset (due h') = mset (due h)"
    using mset_concat_map_update [OF i(1), of sender_due ?t] handler_change(1) [OF d r, of ?w] i
    by (simp add: h' due_def sender_due_def)
  moreover have "hub_work h' < hub_work h"
    using sum_list_map_update [OF i(1), of sender_work ?t] handler_change(2) [OF d r, of ?w] i
    by (simp add: h' hub_work_def sender_work_def handler_work_def)
  ultimately show ?thesis by (simp add: h')
next
  case (WriteOk u)
  then obtain m where m: "map_of (hub_handlers h) u = Some (Writing m)"
    using assms(3) by (auto simp: ws_write_def split: option.splits handler_state.splits)
  have h': "h' = (set_handler u Receiving h)\<lparr>hub_written := hub_written h @ [(u, ws_text m)]\<rparr>"
    using assms(3) WriteOk m by (simp add: ws_write_def)
  have "hub_ok h'" using hub_ok_set_handler [OF assms(1), of Receiving u]
    by (simp add: hub_ok_def h' del: map_of_eq_Some_iff)
  moreover have d: "distinct (map fst (hub_handlers h))" using assms(1) by (simp add: hub_ok_def)
  ultimately show ?thesis
    using handler_change [OF d m, of Receiving] by (simp add: h' due_def hub_work_def handler_work_def)
qed (use assms in simp_all)

text \<open>A hub in order that still has something to write can take a quiet step.\<close>

lemma quiet_progress:
  assumes "hub_ok h" "due h \<noteq> []"
  shows "\<exists>e h'. quiet_event e \<and> hub_exec e h = Some h'"
proof (cases "\<exists>u m. map_of (hub_handlers h) u = Some (Writing m)")
  case True
  then obtain u m where "map_of (hub_handlers h) u = Some (Writing m)" by blast
  then have "hub_exec (WriteOk u) h \<noteq> None" by (simp add: ws_write_def)
  then show ?thesis using quiet_event.simps(3) by blast
next
  case False
  have "handler_due e = []" if "e \<in> set (hub_handlers h)" for e
    using that False assms(1) by (cases e rule: handler_due.cases) (auto simp: hub_ok_def)
  then obtain s where s: "s \<in> set (hub_senders h)" "sender_due s \<noteq> []"
    using assms(2) by (auto simp: due_def)
  obtain i where i: "i < length (hub_senders h)" "hub_senders h ! i = s" using s(1) by (metis in_set_conv_nth)
  show ?thesis
  proof (cases "sn_waiting s")
    case None
    then have "hub_exec (Visit i) h \<noteq> None"
      using s i by (cases "sn_todo s") (auto simp: range_visit_def sender_due_def)
    then show ?thesis using quiet_event.simps(1) by blast
  next
    case (Some u)
    then have "\<exists>st. map_of (hub_handlers h) u = Some st \<and> st \<noteq> Gone"
      using s assms(1) by (force simp: hub_ok_def sender_ok_def)
    then have "map_of (hub_handlers h) u = Some Receiving"
      using False by (metis handler_state.exhaust)
    then have "hub_exec (Deliver i) h \<noteq> None" using i Some by (simp add: rendezvous_def)
    then show ?thesis using quiet_event.simps(2) by blast
  qed
qed

interpretation hubs: working_system hub_exec quiet_event hub_ok hub_work
    "\<lambda>h. mset (hub_written h) + mset (due h)" "\<lambda>h. due h \<noteq> []"
  by unfold_locales (use quiet_step quiet_progress in blast)+

text \<open>New subscribers and new broadcasts keep a hub in order; so do quiet steps.\<close>

lemma hub_ok_step:
  assumes "hub_ok h" "hub_exec e h = Some h'" "\<forall>u. e \<noteq> WriteErr u"
  shows "hub_ok h'"
proof (cases e)
  case (Connect uid)
  then have "uid \<notin> fst ` set (hub_handlers h)" and
    h': "h' = h\<lparr>hub_registered := uid # hub_registered h, hub_handlers := (uid, Receiving) # hub_handlers h\<rparr>"
    using assms(2) by (simp_all add: ws_connect_def split: if_splits)
  then show ?thesis
    using assms(1) by (auto simp: hub_ok_def sender_ok_def simp del: map_of_eq_Some_iff)
next
  case (Start m order)
  then have "set order = set (hub_registered h)" and
    h': "h' = h\<lparr>hub_senders := hub_senders h @ [\<lparr>sn_message = m, sn_todo = order, sn_waiting = None\<rparr>]\<rparr>"
    using assms(2) by (auto simp: range_start_def split: if_splits dest: mset_eq_setD)
  then show ?thesis using assms(1) by (simp add: hub_ok_def sender_ok_def del: map_of_eq_Some_iff)
qed (use quiet_step [OF assms(1) _ assms(2)] assms(3) in simp_all)

lemma hub_ok_run:
  "run_all hub_exec es h = Some h' \<Longrightarrow> hub_ok h \<Longrightarrow> \<forall>u. WriteErr u \<notin> set es \<Longrightarrow> hub_ok h'"
  by (erule run_all_inv) (auto intro: hub_ok_step)

lemma hub_ok_empty: "hub_ok empty_hub"
  by (simp add: hub_ok_def empty_hub_def)

end
