(* ===== verification/Server_Properties.thy ===== *)
theory Server_Properties
  imports Statistics_Race Broadcast
begin

text \<open>
  The properties of the server that concern its goroutines: the statistics under concurrent
  transfers and the delivery of messages to the websocket subscribers.
\<close>

section \<open>Statistics\<close>

text \<open>
  When transfers are recorded one after the other, every counter under every number of
  byzantine peers is exactly the number of transfers that count for it (modulo the width of the
  counter), and no history counts more commits than it counts transfers sent.
\<close>

lemma statistics_count:
  "reading (record_all ts empty_stats) num c = of_nat (counted ts num c) \<and>
   counted ts num CNormalCommit \<le> counted ts num CNormalTx \<and>
   counted ts num CByzantineCommit \<le> counted ts num CByzantineTx"
proof -
  have "reading empty_stats num c = 0" by (simp add: reading_def empty_stats_def)
  then show ?thesis
    using record_all_reading [OF stats_ok_empty, of ts num c]
      counted_mono [OF commits_le_sent(1)] counted_mono [OF commits_le_sent(2)] by simp
qed

text \<open>
  C10: Whatever the interleaving of the goroutines that record transfers, at every moment every
  counter of the table is at most the number of transfers that count for it, and all goroutines
  are done after at most six steps per transfer.
\<close>

theorem statistics_race_bound:
  assumes "run_all race_step es (empty_stats, spawn_all ts) = Some (h, gs)"
  shows "unat (reading h num c) \<le> counted ts num c \<and> length es \<le> 6 * length ts"
  using race_bound [OF run_all_reach [OF assms]] race_steps [OF assms] by simp

text \<open>Three transfers, the first alone, the other two interleaved at each counter.\<close>

definition lossy_schedule :: "nat list" where
  "lossy_schedule = [0, 0, 0, 0, 0, 0, 1, 2, 1, 2, 1, 2, 1, 1, 2, 2, 1, 2]"

definition three_transfers :: "transfer list" where
  "three_transfers = replicate 3 (TimeZero, True, 0, 0)"

definition lossy_end :: "(stats_heap \<times> goroutine list) option" where
  "lossy_end = run_all race_step (map (Pair TimeZero) lossy_schedule) (empty_stats, spawn_all three_transfers)"

lemma lossy_result:
  "map_option (\<lambda>(h, gs). (map g_code gs, reading h 0 CNormalTx, reading h 0 CNormalCommit)) lossy_end =
     Some ([[], [], []], 2, 3)"
  by code_simp

lemma lossy_race:
  "\<exists>h gs. reach race_step (empty_stats, spawn_all three_transfers) (h, gs) \<and> map g_code gs = [[], [], []] \<and>
     reading h 0 CNormalTx = 2 \<and> reading h 0 CNormalCommit = 3"
proof -
  obtain h gs where e: "lossy_end = Some (h, gs)" using lossy_result by (cases lossy_end) auto
  have "map g_code gs = [[], [], []]" "reading h 0 CNormalTx = 2" "reading h 0 CNormalCommit = 3"
    using lossy_result by (simp_all add: e)
  moreover have "reach race_step (empty_stats, spawn_all three_transfers) (h, gs)"
    using e unfolding lossy_end_def by (rule run_all_reach)
  ultimately show ?thesis by (intro exI [of _ h] exI [of _ gs]) simp
qed

theorem statistics_race_bound_witness:
  "\<exists>h gs. run_all race_step (map (Pair TimeZero) lossy_schedule) (empty_stats, spawn_all three_transfers) = Some (h, gs) \<and>
     unat (reading h 0 CNormalTx) \<le> counted three_transfers 0 CNormalTx \<and> length lossy_schedule \<le> 18"
proof -
  obtain h gs where e: "lossy_end = Some (h, gs)" using lossy_result by (cases lossy_end) auto
  from statistics_race_bound [OF e [unfolded lossy_end_def], of 0 CNormalTx] e show ?thesis
    by (simp add: lossy_end_def three_transfers_def)
qed

text \<open>
  C22: The table loses updates: three successful normal transfers can run to their end and leave
  two transfers sent and three committed, more commits than transfers.
\<close>

theorem statistics_lost_update:
  "\<exists>h gs. reach race_step (empty_stats, spawn_all three_transfers) (h, gs) \<and> map g_code gs = [[], [], []] \<and>
     counted three_transfers 0 CNormalTx = 3 \<and> reading h 0 CNormalTx = 2 \<and> reading h 0 CNormalCommit = 3"
proof -
  have "counted three_transfers 0 CNormalTx = 3" by code_simp
  then show ?thesis using lossy_race by simp
qed

section \<open>Delivery\<close>

text \<open>
  C9: As long as no write to a websocket fails, broadcasts end: from any state reached by
  connecting subscribers, starting broadcasts and letting them run, the running broadcasts can
  take at most \<open>hub_work\<close> more steps, and when they can take no more, every message has been
  written exactly once to every subscriber it was for, and no sender is left waiting.
\<close>

theorem broadcasts_complete:
  assumes "run_all hub_exec es empty_hub = Some h" "\<forall>u. WriteErr u \<notin> set es"
    and "run_all hub_exec qs h = Some h'" "\<forall>e\<in>set qs. quiet_event e"
  shows "length qs \<le> hub_work h \<and>
    ((\<forall>e. quiet_event e \<longrightarrow> hub_exec e h' = None) \<longrightarrow>
       mset (hub_written h') = mset (hub_written h) + mset (due h) \<and>
       (\<forall>s\<in>set (hub_senders h'). sn_waiting s = None \<and> sn_todo s = []))"
proof -
  have ok: "hub_ok h" by (rule hub_ok_run [OF assms(1) hub_ok_empty assms(2)])
  note run = hubs.run_bound [OF ok assms(4,3)]
  have fin: "due h' = []" if "\<forall>e. quiet_event e \<longrightarrow> hub_exec e h' = None"
    using hubs.stopped [of h'] run that by blast
  have "sn_waiting s = None \<and> sn_todo s = []" if "due h' = []" "s \<in> set (hub_senders h')" for s
    using that by (auto simp: due_def sender_due_def split: option.splits)
  then show ?thesis using fin run by auto
qed

theorem broadcasts_complete_witness:
  "\<exists>h h'. run_all hub_exec [Connect ''a'', Connect ''b'', Start (MNumber 7) [''a'', ''b'']] empty_hub = Some h \<and>
     run_all hub_exec [Visit 0, Deliver 0, Visit 0, Deliver 0, WriteOk ''b'', WriteOk ''a''] h = Some h' \<and>
     6 \<le> hub_work h"
proof -
  let ?es = "[Connect ''a'', Connect ''b'', Start (MNumber 7) [''a'', ''b'']]"
  let ?qs = "[Visit 0, Deliver 0, Visit 0, Deliver 0, WriteOk ''b'', WriteOk ''a'']"
  obtain h where h: "run_all hub_exec ?es empty_hub = Some h"
    by (cases "run_all hub_exec ?es empty_hub")
      (simp_all add: ws_connect_def range_start_def empty_hub_def)
  have "run_all hub_exec ?qs h \<noteq> None"
    using h by (auto simp: ws_connect_def range_start_def empty_hub_def range_visit_def rendezvous_def
        set_sender_def set_handler_def ws_write_def)
  then obtain h' where h': "run_all hub_exec ?qs h = Some h'" by blast
  show ?thesis using broadcasts_complete [OF h _ h'] h h' by auto
qed

text \<open>
  C20: A failed write strands the other senders: if a handler's write fails while a sender waits
  on its channel, that sender waits for this handler in every later state, and its broadcast
  never ends. (In \<open>updateBlock\<close> this is before the commit: the block is never stored.)
\<close>

theorem write_error_strands_senders:
  assumes "hub_exec (WriteErr u) h = Some h1" "i < length (hub_senders h)"
    and "sn_waiting (hub_senders h ! i) = Some u" "reach hub_exec h1 h2"
  shows "i < length (hub_senders h2) \<and> sn_waiting (hub_senders h2 ! i) = Some u"
proof -
  have "stuck i u h1"
    using assms(1-3)
    by (auto simp: ws_fail_def stuck_def map_of_set_handler split: option.splits handler_state.splits)
  from stuck_forever [OF assms(4) this] show ?thesis by (simp add: stuck_def)
qed

definition stranding :: "event list" where
  "stranding = [Connect ''a'', Start (MNumber 1) [''a''], Start (MNumber 2) [''a''], Visit 0, Visit 1, Deliver 0]"

theorem write_error_strands_senders_witness:
  "\<exists>h h1. run_all hub_exec stranding empty_hub = Some h \<and> hub_exec (WriteErr ''a'') h = Some h1 \<and>
     (\<forall>h2. reach hub_exec h1 h2 \<longrightarrow> sn_waiting (hub_senders h2 ! 1) = Some ''a'')"
proof -
  obtain h where h: "run_all hub_exec stranding empty_hub = Some h"
    by (cases "run_all hub_exec stranding empty_hub")
      (simp_all add: stranding_def ws_connect_def range_start_def empty_hub_def range_visit_def rendezvous_def
        set_sender_def set_handler_def)
  have s: "1 < length (hub_senders h)" "sn_waiting (hub_senders h ! 1) = Some ''a''"
    and "hub_exec (WriteErr ''a'') h \<noteq> None"
    using h by (auto simp: stranding_def ws_connect_def range_start_def empty_hub_def range_visit_def rendezvous_def
        set_sender_def set_handler_def ws_fail_def)
  then obtain h1 where "hub_exec (WriteErr ''a'') h = Some h1" by blast
  then show ?thesis using write_error_strands_senders [OF _ s] h by blast
qed

end
