(* ===== verification/Fabsdk_Invoke.thy ===== *)
theory Fabsdk_Invoke
  imports Fabsdk Tx_Id
begin

text \<open>
  \<open>InvokeCC\<close> of \<open>src/server/fabsdk.go\<close>: the transaction id is computed before the endorsers are
  chosen, the submitting peer is remembered under it, the proposal goes to the peers the ledger
  itself reports as normal (or byzantine), and the outcome is counted and, on failure, published.

  Arguments beside those of the code: the SDK \<open>k\<close>, the clock \<open>now\<close>, the text \<open>time.Time\<close>
  marshals to (\<open>tj\<close>, \<open>None\<close> for a time JSON cannot express), and the order \<open>iter\<close> in which Go
  iterates over the map of peers.
\<close>

record TransactionInfo =
  ti_Status :: gint
  ti_TxId :: string
  ti_DateTime :: gtime
  ti_Peer :: string
  ti_TxType :: gint

type_synonym time_format = "gtime \<Rightarrow> string option"

definition TransactionInfo_marshal :: "time_format \<Rightarrow> TransactionInfo \<Rightarrow> bytes option" where
  "TransactionInfo_marshal tj x =
     map_option (\<lambda>t. json_print (JObj
       [(''status'', enc_int (ti_Status x)), (''tx_id'', JStr (ti_TxId x)), (''datetime'', JStr t),
        (''peer'', JStr (ti_Peer x)), (''tx_type'', enc_int (ti_TxType x))])) (tj (ti_DateTime x))"

text \<open>The client, the identity, the nonce and the transaction id, up to the first error.\<close>

definition tx_begin :: "sdk \<Rightarrow> string \<Rightarrow> OrgInfo \<Rightarrow> go_error + bytes \<times> bytes \<times> string" where
  "tx_begin k channelID org =
     (if sdk_channel_client k channelID org \<noteq> None then
        Inl (EText (''Failed to create new channel client:  '' @ oi_Name org))
      else
        res_bind (res_wrap ''error new identity'' (ok_unit (sdk_identity k org))) (\<lambda>_.
        res_bind (res_wrap ''error serializing identity'' (sdk_serialize k org)) (\<lambda>creator.
        res_bind (res_wrap ''error getting random bytes'' (sdk_random k)) (\<lambda>nonce.
        res_bind (sdk_hash k (nonce @ creator)) (\<lambda>digest.
        Inr (creator, nonce, hex_encode digest))))))"

definition remember_tx :: "string \<Rightarrow> string \<Rightarrow> gint \<Rightarrow> gint list \<Rightarrow> 'd server \<Rightarrow> 'd server" where
  "remember_tx txid peer peerType bPeers s =
     s\<lparr>TxList := (TxList s)(txid \<mapsto>
         \<lparr>PeerName = peer, PeerType = (if peerType = 1 then word_of_nat (length bPeers) else peerType)\<rparr>)\<rparr>"

definition count_transfer ::
    "gtime \<Rightarrow> bool \<Rightarrow> string \<Rightarrow> gint \<Rightarrow> gint list \<Rightarrow> 'd server \<Rightarrow> 'd server" where
  "count_transfer now ok function peerType bPeers s =
     (if function = ''transfer''
      then s\<lparr>StatisticsTable := record_transfer now ok peerType (length bPeers) (StatisticsTable s)\<rparr>
      else s)"

definition InvokeCC ::
    "sdk \<Rightarrow> gtime \<Rightarrow> time_format \<Rightarrow> (bool gmap \<Rightarrow> (string \<times> bool) list) \<Rightarrow> FabSdkProvider \<Rightarrow>
     string \<Rightarrow> gint \<Rightarrow> gint \<Rightarrow> string \<Rightarrow> string \<Rightarrow> string \<Rightarrow> bytes list \<Rightarrow>
     ('d, bytes option \<times> string \<times> go_error option) action" where
  "InvokeCC k now tj iter f peer peerType index channelID ccID function args =
     act_bind (act (go_index (Orgs f) (sint index))) (\<lambda>orgInstance.
     case tx_begin k channelID (org_Config orgInstance) of
       Inl e \<Rightarrow> act (Done (None, [], Some e))
     | Inr (creator, nonce, txid) \<Rightarrow>
         act_bind (act (query_peers k f)) (\<lambda>peers.
         act_bind (act (split_peers (iter peers) ([], []))) (\<lambda>(nPeers, bPeers).
         act_bind (modify (remember_tx txid peer peerType bPeers)) (\<lambda>_.
         act_bind (act (choose_targets f nPeers bPeers)) (\<lambda>targets.
         case sdk_execute k \<lparr>rq_channel = channelID, rq_org = org_Config orgInstance, rq_ChaincodeID = ccID,
                rq_Fcn = function, rq_Args = args\<rparr> creator nonce targets of
           (response, Some err) \<Rightarrow>
             act_bind (broadcast TxFeed (MBytes (TransactionInfo_marshal tj
               \<lparr>ti_Status = 500, ti_TxId = TransactionID response, ti_DateTime = now, ti_Peer = peer,
                ti_TxType = peerType\<rparr>))) (\<lambda>_.
             act_bind (modify (count_transfer now False function peerType bPeers)) (\<lambda>_.
             act (Done (None, TransactionID response, Some err))))
         | (response, None) \<Rightarrow>
             act_bind (modify (count_transfer now True function peerType bPeers)) (\<lambda>_.
             act (Done (TxPayload response, TransactionID response, None))))))))"

section \<open>Peer numbers\<close>

definition peer_name :: "nat \<Rightarrow> string" where
  "peer_name n = ''peer0.org'' @ nat_dec n @ ''.example.com''"

lemma digit_dec: "n < 10 \<Longrightarrow> nat_dec n = [digit_char n]"
  by (subst nat_dec.simps) simp

lemma one_dec: "nat_dec 1 = ''1''" "nat_dec (Suc 0) = ''1''"
  by code_simp+

lemma teen_dec: "n < 10 \<Longrightarrow> nat_dec (10 + n) = [CHR ''1'', digit_char n]"
proof -
  assume n: "n < 10"
  then have "(10 + n) div 10 = 1" "(10 + n) mod 10 = n" by simp_all
  then show ?thesis using one_dec by (subst nat_dec.simps) simp
qed

lemma small_not_one: "n < 10 \<Longrightarrow> n \<noteq> 1 \<Longrightarrow> word_of_nat n \<noteq> (1 :: gint)"
proof
  assume n: "n < 10" "n \<noteq> 1" and "word_of_nat n = (1 :: gint)"
  then have "unat (word_of_nat n :: gint) = unat (1 :: gint)" by simp
  then show False using n by (simp add: unat_of_nat)
qed

lemma atoi_nat_dec: "n < 2 ^ 63 \<Longrightarrow> atoi (nat_dec n) = (word_of_nat n, None)"
  by (simp add: atoi_def parse_int_def strip_sign_nat_dec parse_uint_nat_dec)

lemma atoi_dot: "atoi [CHR ''1'', CHR ''.''] = (0, Some ErrSyntax)"
  by (simp add: atoi_def parse_int_def strip_sign_def parse_uint_nat_def is_digit_def less_eq_char_def digit_val_def)

lemma peer_index_small:
  assumes "n < 20"
  shows "peer_index (peer_name n) = Done (word_of_nat n)"
proof (cases "n < 10")
  case True
  show ?thesis
  proof (cases "n = 1")
    case True
    then show ?thesis
      using atoi_nat_dec [of 1] one_dec by (simp add: peer_index_def peer_name_def go_slice_def atoi_dot)
  next
    case False
    then have "word_of_nat n \<noteq> (1 :: gint)" using \<open>n < 10\<close> small_not_one by simp
    then show ?thesis
      using atoi_nat_dec [of n] digit_dec [OF \<open>n < 10\<close>] \<open>n < 10\<close>
      by (simp add: peer_index_def peer_name_def go_slice_def)
  qed
next
  case False
  then obtain m where m: "n = 10 + m" "m < 10" using assms by (metis le_add_diff_inverse linorder_not_less nat_add_left_cancel_less numeral_Bit0)
  show ?thesis
    using atoi_nat_dec [of n] atoi_nat_dec [of 1] one_dec teen_dec [OF m(2)] m
    by (simp add: peer_index_def peer_name_def go_slice_def)
qed

text \<open>From 20 on only the first digit counts.\<close>

lemma peer_index_first_digit:
  assumes "2 \<le> d" "d < 10" "nat_dec n = digit_char d # ds"
  shows "peer_index (peer_name n) = Done (word_of_nat d)"
proof -
  have "word_of_nat d \<noteq> (1 :: gint)" using assms small_not_one by simp
  then show ?thesis
    using atoi_nat_dec [of d] digit_dec [of d] assms
    by (simp add: peer_index_def peer_name_def go_slice_def)
qed

lemma peer_index_short: "length k < 10 \<Longrightarrow> peer_index k = Panic index_panic"
  by (simp add: peer_index_def go_slice_Panic)

end
