(* ===== verification/Block_Listener.thy ===== *)
theory Block_Listener
  imports Fabsdk_Invoke Common_Utils
begin

text \<open>
  The block listener of the server (\<open>src/server/block_listener.go\<close>): how a block becomes rows of
  the database and messages to the subscribers, which blocks the two goroutines of the listener
  hand over (the catch-up from the ledger and the live events), and where they panic.

  \<open>updateBlock\<close> runs against the state of the process. The statements it executes inside its
  database transaction are collected and handed to the driver at \<open>Commit\<close>; errors of single
  statements and of the commit are only logged by the code.
\<close>

section \<open>One block\<close>

record BlockInfo =
  bi_Number :: uint64
  bi_TxCount :: gint
  bi_BlockHash :: string
  bi_DateTime :: gtime
  bi_Alice :: string
  bi_Bob :: string
  bi_Type :: gint

definition BlockInfo_marshal :: "time_format \<Rightarrow> BlockInfo \<Rightarrow> bytes option" where
  "BlockInfo_marshal tj x =
     map_option (\<lambda>t. json_print (JObj
       [(''number'', JNum (format_uint (bi_Number x))), (''tx_count'', enc_int (bi_TxCount x)),
        (''block_hash'', JStr (bi_BlockHash x)), (''datetime'', JStr t),
        (''alice_balance'', JStr (bi_Alice x)), (''bob_balance'', JStr (bi_Bob x)),
        (''type'', enc_int (bi_Type x))])) (tj (bi_DateTime x))"

text \<open>\<open>time.Unix\<close>, which carries nanoseconds outside a second over into the seconds.\<close>

definition unix_time :: "gint \<Rightarrow> gint \<Rightarrow> gtime" where
  "unix_time sec nsec =
     TimeUnix (sint (sec + word_of_int (sint nsec div 10 ^ 9))) (sint nsec mod 10 ^ 9)"

definition header_time :: "ChannelHeader \<Rightarrow> gtime" where
  "header_time h =
     (case ch_Timestamp h of
        None \<Rightarrow> unix_time 0 0
      | Some t \<Rightarrow> unix_time (ts_Seconds t) (scast (ts_Nanos t)))"

text \<open>\<open>block.Metadata.Metadata[TRANSACTIONS_FILTER][i]\<close>\<close>

definition validation_code :: "BlockMetadata option \<Rightarrow> nat \<Rightarrow> gint outcome" where
  "validation_code md i =
     out_bind (deref md) (\<lambda>m.
     out_bind (go_index (bm_Metadata m) 2) (\<lambda>flags.
     out_bind (go_index (slice_bytes flags) (int i)) (\<lambda>c. Done (word_of_nat (code c)))))"

text \<open>The variables of \<open>updateBlock\<close> that live across the loop, with the statements executed so far.\<close>

record block_loop =
  lp_peerName :: string
  lp_peerType :: gint
  lp_txTime :: gtime
  lp_stmts :: "statement list"

definition loop_start :: block_loop where
  "loop_start = \<lparr>lp_peerName = ''peer0.org1.example.com'', lp_peerType = 0, lp_txTime = TimeZero, lp_stmts = []\<rparr>"

definition take_entry :: "string \<Rightarrow> block_loop \<Rightarrow> 'd server \<Rightarrow> block_loop" where
  "take_entry txid lp s =
     (case TxList s txid of
        None \<Rightarrow> lp
      | Some e \<Rightarrow> lp\<lparr>lp_peerName := PeerName e, lp_peerType := PeerType e\<rparr>)"

definition delete_entry :: "string \<Rightarrow> 'd server \<Rightarrow> 'd server" where
  "delete_entry txid s = s\<lparr>TxList := (TxList s)(txid := None)\<rparr>"

definition tx_status :: "gint \<Rightarrow> gint \<Rightarrow> gint" where
  "tx_status peerType flag = (if 0 < sint peerType \<and> sint peerType \<le> 3 then 1 else flag)"

definition tx_kind :: "gint \<Rightarrow> gint" where
  "tx_kind peerType = (if 0 < sint peerType then 1 else 0)"

definition tx_statement :: "uint64 \<Rightarrow> gint \<Rightarrow> nat \<Rightarrow> string \<Rightarrow> string \<Rightarrow> gint \<Rightarrow> gint \<Rightarrow> gtime \<Rightarrow> statement" where
  "tx_statement number txNumPerBlock i txid peerName s status time =
     (txSQL, [AUint (number * txNumPerBlock + word_of_nat i), AUint number, AStr txid, AStr peerName,
              AInt s, AInt status, ATime time])"

fun update_txs ::
    "time_format \<Rightarrow> gint \<Rightarrow> uint64 \<Rightarrow> BlockMetadata option \<Rightarrow> nat \<Rightarrow> bytes option list \<Rightarrow> block_loop \<Rightarrow>
     ('d, block_loop) action" where
  "update_txs tj tpb number md i [] lp = act (Done lp)"
| "update_txs tj tpb number md i (envBytes # envs) lp =
     (case GetEnvelopeFromBlock envBytes of
        Inl e \<Rightarrow> act (Done lp)
      | Inr envelope \<Rightarrow>
          (case UnmarshalPayload (env_Payload envelope) of
             (_, Some e) \<Rightarrow> update_txs tj tpb number md (i + 1) envs lp
           | (payload, None) \<Rightarrow>
               act_bind (act (deref (pl_Header payload))) (\<lambda>header.
               let channelHeader = fst (UnmarshalChannelHeader (hdr_ChannelHeader header));
                   txTime = header_time channelHeader;
                   txid = ch_TxId channelHeader in
               act_bind (act (validation_code md i)) (\<lambda>flag.
               act_bind (access (take_entry txid lp)) (\<lambda>lp'.
               act_bind (modify (delete_entry txid)) (\<lambda>_.
               let status = tx_status (lp_peerType lp') flag;
                   s = tx_kind (lp_peerType lp') in
               act_bind (broadcast TxFeed (MBytes (TransactionInfo_marshal tj
                 \<lparr>ti_Status = status, ti_TxId = txid, ti_DateTime = txTime,
                  ti_Peer = lp_peerName lp', ti_TxType = s\<rparr>))) (\<lambda>_.
               update_txs tj tpb number md (i + 1) envs
                 (lp'\<lparr>lp_txTime := txTime,
                      lp_stmts := lp_stmts lp' @
                        [tx_statement number tpb i txid (lp_peerName lp') s status txTime]\<rparr>))))))))"

definition block_kind :: "gint \<Rightarrow> gint" where
  "block_kind peerType = (if 0 < sint peerType then (if sint peerType \<le> 3 then 0 else 1) else peerType)"

definition balance_of :: "sdk \<Rightarrow> FabSdkProvider \<Rightarrow> string \<Rightarrow> bytes option outcome" where
  "balance_of k f user =
     out_bind (QueryCC k f 0 ''mychannel1'' ''token'' ''balance'' [''fab'', user]) (\<lambda>(b, _). Done b)"

definition block_statement ::
    "uint64 \<Rightarrow> bytes option \<Rightarrow> gint \<Rightarrow> gtime \<Rightarrow> bytes option \<Rightarrow> bytes option \<Rightarrow> gint \<Rightarrow> statement" where
  "block_statement number hash txLen time alice bob kind =
     (blockSQL, [AUint number, AStr (hex_encode (slice_bytes hash)), AInt txLen, ATime time,
                 ABytes alice, ABytes bob, AInt kind])"

definition commit_block :: "'d driver \<Rightarrow> statement list \<Rightarrow> 'd server \<Rightarrow> 'd server" where
  "commit_block drv stmts s = s\<lparr>DB := fst (drv_commit drv (DB s) stmts)\<rparr>"

definition send_tx_number :: "'d driver \<Rightarrow> string \<Rightarrow> ('d, unit) action" where
  "send_tx_number drv uid =
     act_bind (access (\<lambda>s. TxNumber drv (DB s))) (\<lambda>n.
     act_bind (act n) (\<lambda>n. send TxNumberFeed (MNumber n) uid))"

definition updateBlock ::
    "sdk \<Rightarrow> 'd driver \<Rightarrow> time_format \<Rightarrow> FabSdkProvider \<Rightarrow> Application \<Rightarrow> Block option \<Rightarrow> ('d, unit) action" where
  "updateBlock k drv tj f appConf block =
     act_bind (act (out_bind (deref block) (\<lambda>b. out_bind (deref (blk_Header b)) (\<lambda>h. Done (b, h))))) (\<lambda>(b, h).
     if bh_Number h = 0 then act (Done ())
     else
       act_bind (access (\<lambda>s. panic_on (drv_begin drv (DB s)))) (\<lambda>begun.
       act_bind (act begun) (\<lambda>_.
       act_bind (act (deref (blk_Data b))) (\<lambda>data.
       act_bind (update_txs tj (app_TxNumPerBlock appConf) (bh_Number h) (blk_Metadata b) 0 (bd_Data data)
         loop_start) (\<lambda>lp.
       act_bind (act (balance_of k f ''alice'')) (\<lambda>alice.
       act_bind (act (balance_of k f ''bob'')) (\<lambda>bob.
       let txLen = word_of_nat (length (bd_Data data)); kind = block_kind (lp_peerType lp) in
       act_bind (modify (commit_block drv (lp_stmts lp @
         [block_statement (bh_Number h) (bh_DataHash h) txLen (lp_txTime lp) alice bob kind]))) (\<lambda>_.
       act_bind (broadcast BlockNumberFeed (MNumber (bh_Number h))) (\<lambda>_.
       act_bind (act_bind (access (\<lambda>s. subscribers s TxNumberFeed)) (act_each (send_tx_number drv))) (\<lambda>_.
       broadcast BlockFeed (MBytes (BlockInfo_marshal tj
         \<lparr>bi_Number = bh_Number h, bi_TxCount = txLen, bi_BlockHash = hex_encode (slice_bytes (bh_DataHash h)),
          bi_DateTime = lp_txTime lp, bi_Alice = slice_bytes alice, bi_Bob = slice_bytes bob,
          bi_Type = kind\<rparr>))))))))))))"

section \<open>Which blocks are handed over\<close>

text \<open>
  The loop of \<open>registerBlockEvent\<close> over the events received: the blocks it starts \<open>updateBlock\<close>
  on, and whether it panicked. An event is \<open>None\<close> when the channel is closed; its block may be
  nil. When the registration fails the channel is nil and nothing is ever received.
\<close>

fun event_loop :: "bool \<Rightarrow> Block option option list \<Rightarrow> Block option list \<times> unit outcome" where
  "event_loop flag [] = ([], Done ())"
| "event_loop flag (None # es) = ([], Panic nil_panic)"
| "event_loop flag (Some block # es) =
     (if flag then event_loop False es
      else case event_loop False es of (bs, r) \<Rightarrow> (block # bs, r))"

definition registerBlockEvent :: "sdk \<Rightarrow> Block option option list \<Rightarrow> Block option list \<times> unit outcome" where
  "registerBlockEvent k es = (if sdk_register_events k \<noteq> None then ([], Done ()) else event_loop True es)"

text \<open>The loop of \<open>syncBlock\<close>, \<open>i\<close> running up to the height of the ledger.\<close>

function sync_loop :: "sdk \<Rightarrow> uint64 \<Rightarrow> uint64 \<Rightarrow> Block option list \<times> unit outcome" where
  "sync_loop k i height =
     (if i < height then
        (case sdk_query_block k i of
           Inl e \<Rightarrow> ([], Panic e)
         | Inr block \<Rightarrow> (case sync_loop k (i + 1) height of (bs, r) \<Rightarrow> (Some block # bs, r)))
      else ([], Done ()))"
  by pat_completeness auto

lemma word_count_up: "i < (n :: uint64) \<Longrightarrow> unat (i + 1) = unat i + 1 \<and> unat i < unat n"
  using unsigned_less [of n, where ?'a = nat] by (simp add: word_less_nat_alt unat_word_ariths)

termination sync_loop
  by (relation "measure (\<lambda>(k, i, n). unat n - unat i)") (auto dest: word_count_up)

declare sync_loop.simps [simp del]

definition syncBlock :: "sdk \<Rightarrow> 'd driver \<Rightarrow> 'd \<Rightarrow> fab_peer \<Rightarrow> Block option list \<times> unit outcome" where
  "syncBlock k drv d target =
     (case GetBlockHeight drv d of
        Panic e \<Rightarrow> ([], Panic e)
      | Done height \<Rightarrow>
          (case sdk_query_info k target of
             Inl e \<Rightarrow> ([], Panic (EWrap ''QueryInfo return error'' e))
           | Inr ledger \<Rightarrow>
               if ledger - 1 < height then ([], Panic (EText ''syncBlock invalid block height''))
               else if height < ledger - 1 then sync_loop k height ledger
               else ([], Done ())))"

text \<open>\<open>BlockListener\<close>: the blocks of the catch-up goroutine and of the event loop.\<close>

definition BlockListener ::
    "sdk \<Rightarrow> 'd driver \<Rightarrow> 'd \<Rightarrow> FabSdkProvider \<Rightarrow> string \<Rightarrow> Block option option list \<Rightarrow>
     ((Block option list \<times> unit outcome) \<times> (Block option list \<times> unit outcome)) outcome" where
  "BlockListener k drv d f channelID events =
     out_bind (go_index (Orgs f) 0) (\<lambda>orgInstance.
     out_bind (panic_on (map_option (EWrap ''Failed to create new events client with block events'')
       (sdk_event_client k channelID (org_Config orgInstance)))) (\<lambda>_.
     out_bind (panic_on (map_option (EWrap ''Failed to create new ledger client'')
       (sdk_ledger_client k channelID (org_Config orgInstance)))) (\<lambda>_.
     out_bind (first_peer orgInstance) (\<lambda>peer0.
     Done (syncBlock k drv d peer0, registerBlockEvent k events)))))"

end
