(* ===== verification/Http_Handlers.thy ===== *)
theory Http_Handlers
  imports Block_Listener Broadcast
begin

text \<open>
  The HTTP side of the server (\<open>src/main.go\<close>): one operation per handler and per tick of the
  timer. A request is its method, its form values and its body (or the error reading it); the
  handler's result is the response as it stands when the handler returns. A handler that panics
  has no response: \<open>net/http\<close> drops the connection.
\<close>

section \<open>Requests and responses\<close>

record http_request =
  hq_method :: string
  hq_form :: "string \<Rightarrow> string"
  hq_body :: "go_error + bytes"

record http_response =
  hp_headers :: "(string \<times> string) list"
  hp_status :: nat
  hp_body :: bytes

definition json_headers :: "(string \<times> string) list" where
  "json_headers =
     [(''Access-Control-Allow-Origin'', ''*''), (''Access-Control-Allow-Headers'', ''Content-Type''),
      (''content-type'', ''application/json'')]"

definition post_headers :: "(string \<times> string) list" where
  "post_headers =
     [(''Access-Control-Allow-Origin'', ''*''), (''Access-Control-Allow-Methods'', ''POST, OPTIONS''),
      (''Access-Control-Allow-Headers'', ''Content-Type''), (''content-type'', ''application/json'')]"

text \<open>The text of an error is an argument (\<open>et\<close>): \<open>err.Error()\<close>.\<close>

definition respond ::
    "(go_error \<Rightarrow> string) \<Rightarrow> (string \<times> string) list \<Rightarrow> go_error option \<Rightarrow> bytes option \<Rightarrow> http_response" where
  "respond et hs err data =
     (case err of
        Some e \<Rightarrow> \<lparr>hp_headers = hs, hp_status = 500, hp_body = et e\<rparr>
      | None \<Rightarrow> \<lparr>hp_headers = hs, hp_status = 200, hp_body = slice_bytes data\<rparr>)"

definition respond_sum ::
    "(go_error \<Rightarrow> string) \<Rightarrow> go_error + bytes \<Rightarrow> http_response" where
  "respond_sum et r =
     (case r of Inl e \<Rightarrow> respond et json_headers (Some e) None | Inr b \<Rightarrow> respond et json_headers None (Some b))"

section \<open>The chaincode\<close>

definition query :: "(go_error \<Rightarrow> string) \<Rightarrow> sdk \<Rightarrow> FabSdkProvider \<Rightarrow> http_request \<Rightarrow> http_response outcome" where
  "query et k f r =
     out_bind (peer_index (hq_form r ''peer'')) (\<lambda>index.
     out_bind (QueryCC k f (index - 1) ''mychannel1'' ''token'' ''balance'' [''fab'', hq_form r ''user''])
       (\<lambda>(data, err). Done (respond et json_headers err data)))"

definition invoke ::
    "(go_error \<Rightarrow> string) \<Rightarrow> sdk \<Rightarrow> gtime \<Rightarrow> time_format \<Rightarrow> (bool gmap \<Rightarrow> (string \<times> bool) list) \<Rightarrow>
     FabSdkProvider \<Rightarrow> http_request \<Rightarrow> ('d, http_response) action" where
  "invoke et k now tj iter f r =
     (let peer = hq_form r ''peer'' in
      act_bind (act (peer_index peer)) (\<lambda>index.
      act_bind (InvokeCC k now tj iter f peer 1 (index - 1) ''mychannel1'' ''token'' ''transfer''
         [''fab'', ''alice'', ''bob'', ''10'', ''true'']) (\<lambda>(data, txId, err).
      act (Done (respond et json_headers err data)))))"

text \<open>A tick of the timer; the result of the goroutine it starts is dropped.\<close>

definition timer_tick ::
    "sdk \<Rightarrow> gtime \<Rightarrow> time_format \<Rightarrow> (bool gmap \<Rightarrow> (string \<times> bool) list) \<Rightarrow> FabSdkProvider \<Rightarrow>
     ('d, unit) action" where
  "timer_tick k now tj iter f =
     act_bind (access timerFlag) (\<lambda>on.
     if on then
       act_bind (InvokeCC k now tj iter f ''peer0.org1.example.com'' 0 0 ''mychannel1'' ''token'' ''transfer''
         [''fab'', ''alice'', ''bob'', ''10'', ''false'']) (\<lambda>_. act (Done ()))
     else act (Done ()))"

text \<open>
  \<open>ByzantineNum\<close> counts the byzantine peers in a signed byte and looks up a table entry it then
  drops: its only effect is a struct nobody points to.
\<close>

definition ByzantineNum :: "sdk \<Rightarrow> gtime \<Rightarrow> FabSdkProvider \<Rightarrow> ('d, unit) action" where
  "ByzantineNum k now f =
     act_bind (act (query_peers k f)) (\<lambda>peers.
     modify (\<lambda>s. s\<lparr>StatisticsTable :=
       snd (GetTable now (foldl (\<lambda>num (_, v). if v then num else num + 1) 0 peers) (StatisticsTable s))\<rparr>))"

text \<open>The loop of \<open>muma\<close> over the posted map; the outcome of each update is dropped.\<close>

fun mark_byzantine :: "'d driver \<Rightarrow> (string \<times> string) list \<Rightarrow> 'd \<Rightarrow> 'd" where
  "mark_byzantine drv [] d = d"
| "mark_byzantine drv ((k, v) # peers) d =
     mark_byzantine drv peers (if fst (parse_bool v) then d else fst (UpdatePeers drv k 1 d))"

text \<open>
  The body decodes into a nil map; only when that succeeds is the table of peers updated. The
  goroutine \<open>ByzantineNum\<close> is started on success; here it runs before the loop.
\<close>

definition muma ::
    "(go_error \<Rightarrow> string) \<Rightarrow> sdk \<Rightarrow> 'd driver \<Rightarrow> gtime \<Rightarrow> time_format \<Rightarrow> (bool gmap \<Rightarrow> (string \<times> bool) list) \<Rightarrow>
     (string gmap \<Rightarrow> (string \<times> string) list) \<Rightarrow> FabSdkProvider \<Rightarrow> http_request \<Rightarrow> ('d, http_response) action" where
  "muma et k drv now tj iter iter2 f r =
     (if hq_method r = ''OPTIONS'' then
        act (Done \<lparr>hp_headers = post_headers, hp_status = 200, hp_body = []\<rparr>)
      else
        (case hq_body r of
           Inl e \<Rightarrow> act (Done (respond et post_headers (Some e) None))
         | Inr rBody \<Rightarrow>
             act_bind (InvokeCC k now tj iter f ''peer0.org1.example.com'' 0 0 ''mychannel1'' ''token'' ''setPeer''
               [''fab'', rBody, ''false'']) (\<lambda>(data, txId, err).
             if err \<noteq> None then act (Done (respond et post_headers err None))
             else
               act_bind (ByzantineNum k now f) (\<lambda>_.
               act_bind (modify (\<lambda>s.
                 case json_unmarshal (dec_map dec_string []) rBody None of
                   (peers, None) \<Rightarrow> s\<lparr>DB := mark_byzantine drv (iter2 (slice_bytes peers)) (DB s)\<rparr>
                 | (_, Some e) \<Rightarrow> s)) (\<lambda>_.
               act (Done (respond et post_headers None data)))))))"

section \<open>Pages and lists\<close>

definition atoi_err :: "string \<Rightarrow> go_error + gint" where
  "atoi_err s = (case atoi s of (w, None) \<Rightarrow> Inr w | (_, Some e) \<Rightarrow> Inl (ENum e))"

definition page_args :: "http_request \<Rightarrow> go_error + gint \<times> gint" where
  "page_args r =
     res_bind (atoi_err (hq_form r ''id'')) (\<lambda>pageId.
     res_bind (atoi_err (hq_form r ''size'')) (\<lambda>sz.
     if sint pageId < 1 \<or> sint sz < 1 then Inl (EText ''invalid pageId'') else Inr (pageId, sz)))"

definition blockPage :: "(go_error \<Rightarrow> string) \<Rightarrow> 'd driver \<Rightarrow> http_request \<Rightarrow> 'd \<Rightarrow> http_response" where
  "blockPage et drv r d = respond_sum et (res_bind (page_args r) (\<lambda>(pageId, sz). BlockPage drv d pageId sz))"

definition transactionPage :: "(go_error \<Rightarrow> string) \<Rightarrow> 'd driver \<Rightarrow> http_request \<Rightarrow> 'd \<Rightarrow> http_response" where
  "transactionPage et drv r d =
     respond_sum et (res_bind (page_args r) (\<lambda>(pageId, sz). TransactionPage drv d pageId sz))"

definition peerList :: "(go_error \<Rightarrow> string) \<Rightarrow> 'd driver \<Rightarrow> 'd \<Rightarrow> http_response" where
  "peerList et drv d = respond_sum et (PeerList drv d)"

section \<open>Statistics and the timer\<close>

text \<open>
  \<open>json.Marshal(server.StatisticsTable)\<close>: the keys as decimal strings in string order, one
  object per entry; a time JSON cannot express makes the whole call fail.
\<close>

definition statistics_doc :: "string \<Rightarrow> Statistics \<Rightarrow> json" where
  "statistics_doc t s =
     JObj [(''byzantine_peers'', JNum (itoa (scast (ByzantinePeers s)))), (''datetime'', JStr t),
           (''normal_tx'', JNum (format_uint (NormalTx s))), (''normal_commit'', JNum (format_uint (NormalCommit s))),
           (''byzantine_tx'', JNum (format_uint (ByzantineTx s))),
           (''byzantine_commit'', JNum (format_uint (ByzantineCommit s)))]"

definition int8_values :: "int8 list" where
  "int8_values = map word_of_nat [0..<256]"

definition table_docs :: "time_format \<Rightarrow> stats_heap \<Rightarrow> go_error + json gmap" where
  "table_docs tj h =
     res_bind (res_map (\<lambda>(num, t).
         case tj (Datetime (sta_cells h t)) of
           None \<Rightarrow> Inl (ELib ''Time.MarshalJSON: year outside of range [0,9999]'')
         | Some txt \<Rightarrow> Inr (itoa (scast num), statistics_doc txt (sta_cells h t)))
       (List.map_filter (\<lambda>num. map_option (Pair num) (sta_table h num)) int8_values))
     (\<lambda>es. Inr (foldl (\<lambda>m (n, j). gmap_put n j m) [] es))"

definition getStatistics :: "(go_error \<Rightarrow> string) \<Rightarrow> time_format \<Rightarrow> 'd server \<Rightarrow> http_response" where
  "getStatistics et tj s =
     respond_sum et (res_bind (table_docs tj (StatisticsTable s)) (\<lambda>es. Inr (json_print (JObj es))))"

definition timerControl :: "(go_error \<Rightarrow> string) \<Rightarrow> ('d, http_response) action" where
  "timerControl et =
     act_bind (modify (\<lambda>s. s\<lparr>timerFlag := \<not> timerFlag s\<rparr>)) (\<lambda>_.
     act_bind (access timerFlag) (\<lambda>on. act (Done (respond et json_headers None (Some (format_bool on))))))"

definition controllerState :: "(go_error \<Rightarrow> string) \<Rightarrow> ('d, http_response) action" where
  "controllerState et =
     act_bind (access timerFlag) (\<lambda>on. act (Done (respond et json_headers None (Some (format_bool on)))))"

section \<open>The echo socket\<close>

text \<open>
  \<open>echo\<close> writes back what it reads until a read or a write fails: the messages it tried to
  write, for the outcomes of \<open>ReadMessage\<close> and \<open>WriteMessage\<close> given.
\<close>

fun echo :: "(go_error + gint \<times> bytes) list \<Rightarrow> go_error option list \<Rightarrow> (gint \<times> bytes) list" where
  "echo (Inr (mt, message) # rs) (w # ws) = (mt, message) # (if w = None then echo rs ws else [])"
| "echo rs ws = []"

section \<open>The feeds\<close>

text \<open>
  The four websocket handlers, seen by themselves: the handler subscribes under a fresh id and
  writes every message it receives; a failed write ends it and removes its subscription. The
  arguments are the outcome of the upgrade and the messages received, each with the outcome of
  its \<open>WriteMessage\<close>; the result is what was written (or tried). How the handlers and the senders
  wait for each other is \<open>Broadcast\<close>.
\<close>

definition subscribe :: "feed \<Rightarrow> string \<Rightarrow> 'd server \<Rightarrow> 'd server" where
  "subscribe f uid s = s\<lparr>subscribers := (subscribers s)(f := uid # subscribers s f)\<rparr>"

definition unsubscribe :: "feed \<Rightarrow> string \<Rightarrow> 'd server \<Rightarrow> 'd server" where
  "unsubscribe f uid s = s\<lparr>subscribers := (subscribers s)(f := filter (\<lambda>k. k \<noteq> uid) (subscribers s f))\<rparr>"

fun ws_loop :: "feed \<Rightarrow> string \<Rightarrow> (message \<times> go_error option) list \<Rightarrow> ('d, bytes list) action" where
  "ws_loop f uid [] = act (Done [])"
| "ws_loop f uid ((m, None) # ms) = act_bind (ws_loop f uid ms) (\<lambda>ws. act (Done (ws_text m # ws)))"
| "ws_loop f uid ((m, Some e) # ms) = act_bind (modify (unsubscribe f uid)) (\<lambda>_. act (Done [ws_text m]))"

definition ws_serve ::
    "feed \<Rightarrow> go_error option \<Rightarrow> string \<Rightarrow> (message \<times> go_error option) list \<Rightarrow> ('d, bytes list) action" where
  "ws_serve f upgrade uid ms =
     (if upgrade \<noteq> None then act (Done [])
      else act_bind (modify (subscribe f uid)) (\<lambda>_. ws_loop f uid ms))"

definition block_ws ::
    "go_error option \<Rightarrow> string \<Rightarrow> (bytes option \<times> go_error option) list \<Rightarrow> ('d, bytes list) action" where
  "block_ws upgrade uid ms = ws_serve BlockFeed upgrade uid (map (\<lambda>(d, e). (MBytes d, e)) ms)"

definition blockNumber_ws ::
    "go_error option \<Rightarrow> string \<Rightarrow> (uint64 \<times> go_error option) list \<Rightarrow> ('d, bytes list) action" where
  "blockNumber_ws upgrade uid ms = ws_serve BlockNumberFeed upgrade uid (map (\<lambda>(n, e). (MNumber n, e)) ms)"

definition transaction_ws ::
    "go_error option \<Rightarrow> string \<Rightarrow> (bytes option \<times> go_error option) list \<Rightarrow> ('d, bytes list) action" where
  "transaction_ws upgrade uid ms = ws_serve TxFeed upgrade uid (map (\<lambda>(d, e). (MBytes d, e)) ms)"

definition transactionNumber_ws ::
    "go_error option \<Rightarrow> string \<Rightarrow> (uint64 \<times> go_error option) list \<Rightarrow> ('d, bytes list) action" where
  "transactionNumber_ws upgrade uid ms = ws_serve TxNumberFeed upgrade uid (map (\<lambda>(n, e). (MNumber n, e)) ms)"

end
