(* ===== verification/Invoke_Properties.thy ===== *)
theory Invoke_Properties
  imports Http_Handlers Token_Properties
begin

text \<open>
  The properties of an invocation and of the HTTP handlers: which peers endorse, what is
  remembered under the transaction id, what a page of the database is, and what posting the
  byzantine peers does to the database.
\<close>

section \<open>Targets\<close>

definition place :: "string \<Rightarrow> gint" where
  "place k = (case peer_index k of Done i \<Rightarrow> i - 1 | Panic _ \<Rightarrow> 0)"

lemma split_peers_run:
  assumes "\<forall>(k, v)\<in>set es. \<exists>i. peer_index k = Done i"
  shows "split_peers es (ns, bs) =
    Done (ns @ map (place \<circ> fst) (filter snd es), bs @ map (place \<circ> fst) (filter (Not \<circ> snd) es))"
  using assms
proof (induction es arbitrary: ns bs)
  case (Cons e es)
  obtain k v i where "e = (k, v)" "peer_index k = Done i" using Cons.prems by (cases e) auto
  then show ?case using Cons by (simp add: place_def)
qed simp

text \<open>
  The network of the provider: fewer than 20 organisations, each with a peer, and a map of peers
  that names organisations of the network.
\<close>

definition network_ok :: "FabSdkProvider \<Rightarrow> bool gmap \<Rightarrow> bool" where
  "network_ok f p \<longleftrightarrow> Orgs f \<noteq> [] \<and> length (Orgs f) < 20 \<and> (\<forall>o1\<in>set (Orgs f). org_Peers o1 \<noteq> []) \<and>
     (\<forall>(k, v)\<in>set p. \<exists>n\<in>{1..length (Orgs f)}. k = peer_name n)"

text \<open>The first peer of the organisation a peer name stands for.\<close>

definition home_peer :: "FabSdkProvider \<Rightarrow> string \<Rightarrow> fab_peer" where
  "home_peer f k = hd (org_Peers (Orgs f ! nat (sint (place k))))"

definition endorsers :: "FabSdkProvider \<Rightarrow> bool gmap \<Rightarrow> fab_peer list" where
  "endorsers f p =
     (if 7 \<le> length (filter snd p) then map (home_peer f \<circ> fst) (filter snd p)
      else if 7 \<le> byzantine_count p then map (home_peer f \<circ> fst) (filter (Not \<circ> snd) p)
      else map (hd \<circ> org_Peers) (Orgs f))"

lemma place_peer: "1 \<le> n \<Longrightarrow> n < 20 \<Longrightarrow> sint (place (peer_name n)) = int n - 1"
proof -
  assume n: "1 \<le> n" "n < 20"
  then have "word_of_nat n - 1 = (word_of_int (int n - 1) :: gint)" by simp
  then have "place (peer_name n) = word_of_int (int n - 1)"
    using peer_index_small [OF n(2)] by (simp add: place_def)
  moreover have "sint (word_of_int (int n - 1) :: gint) = int n - 1" using n by (intro sint_of_int64) simp_all
  ultimately show ?thesis by simp
qed

lemma network_place:
  assumes "network_ok f p" "(k, v) \<in> set p"
  shows "\<exists>i. peer_index k = Done i" "go_index (Orgs f) (sint (place k)) = Done (Orgs f ! nat (sint (place k)))"
    "nat (sint (place k)) < length (Orgs f)"
proof -
  obtain n where n: "1 \<le> n" "n \<le> length (Orgs f)" "n < 20" "k = peer_name n"
    using assms by (fastforce simp: network_ok_def)
  show "\<exists>i. peer_index k = Done i" using n peer_index_small by simp
  show "go_index (Orgs f) (sint (place k)) = Done (Orgs f ! nat (sint (place k)))"
    using n place_peer [of n] by (simp add: go_index_Done)
  show "nat (sint (place k)) < length (Orgs f)" using n place_peer [of n] by simp
qed

lemma first_peer_ok: "network_ok f p \<Longrightarrow> o1 \<in> set (Orgs f) \<Longrightarrow> first_peer o1 = Done (hd (org_Peers o1))"
  by (auto simp: first_peer_def network_ok_def go_index_def hd_conv_nth)

lemma peers_at_run:
  assumes "network_ok f p" "set l \<subseteq> set p"
  shows "peers_at f (map (place \<circ> fst) l) = Done (map (home_peer f \<circ> fst) l)"
proof -
  have "out_bind (go_index (Orgs f) (sint (place (fst e)))) first_peer = Done (home_peer f (fst e))"
    if "e \<in> set l" for e
    using that assms network_place [OF assms(1), of "fst e" "snd e"]
      first_peer_ok [OF assms(1), of "Orgs f ! nat (sint (place (fst e)))"]
    by (auto simp: home_peer_def)
  then have "out_map (\<lambda>e. out_bind (go_index (Orgs f) (sint (place (fst e)))) first_peer) l =
      Done (map (\<lambda>e. home_peer f (fst e)) l)"
    by (rule out_map_Done)
  moreover have "out_map g (map h l) = out_map (g \<circ> h) l" for g :: "gint \<Rightarrow> fab_peer outcome" and h
    by (induction l) auto
  ultimately show ?thesis by (simp add: peers_at_def comp_def)
qed

lemma targets_run:
  assumes "network_ok f p" "mset es = mset p"
  shows "\<exists>ts. split_peers es ([], []) =
        Done (map (place \<circ> fst) (filter snd es), map (place \<circ> fst) (filter (Not \<circ> snd) es)) \<and>
      choose_targets f (map (place \<circ> fst) (filter snd es)) (map (place \<circ> fst) (filter (Not \<circ> snd) es)) = Done ts \<and>
      mset ts = mset (endorsers f p)"
proof -
  have set: "set es = set p" using assms(2) by (rule mset_eq_setD)
  have len: "length (filter P es) = length (filter P p)" for P
    using assms(2) by (metis mset_filter size_mset)
  have same: "mset (map g (filter P es)) = mset (map g (filter P p))" for g :: "string \<times> bool \<Rightarrow> fab_peer" and P
    using assms(2) by simp
  have idx: "\<forall>(k, v)\<in>set es. \<exists>i. peer_index k = Done i" using network_place(1) [OF assms(1)] set by auto
  have sub: "set (filter P es) \<subseteq> set p" for P using set by auto
  have all: "out_map first_peer (Orgs f) = Done (map (hd \<circ> org_Peers) (Orgs f))"
    using first_peer_ok [OF assms(1)] by (simp add: out_map_Done)
  have byz: "byzantine_count p = length (filter (Not \<circ> snd) es)"
    by (simp add: byzantine_count_def len comp_def)
  show ?thesis
    using split_peers_run [OF idx, of "[]" "[]"] peers_at_run [OF assms(1) sub] same all len byz
    by (simp add: choose_targets_def endorsers_def)
qed

section \<open>An invocation\<close>

text \<open>Everything before \<open>Execute\<close> succeeds: the client, the identity, the random bytes, the hash.\<close>

definition signing :: "sdk \<Rightarrow> OrgInfo \<Rightarrow> bytes \<Rightarrow> bytes \<Rightarrow> bool" where
  "signing k org creator nonce \<longleftrightarrow>
     (\<forall>ch o1. sdk_channel_client k ch o1 = None) \<and> sdk_identity k org = None \<and>
     sdk_serialize k org = Inr creator \<and> sdk_random k = Inr nonce \<and> sdk_hash k = (\<lambda>b. Inr (sha256 b))"

lemma tx_begin_run:
  "signing k org creator nonce \<Longrightarrow>
    tx_begin k ch org = Inr (creator, nonce, ComputeTxID (Some nonce) (Some creator))"
  by (simp add: tx_begin_def signing_def ok_unit_def ComputeTxID_def)

text \<open>
  The peers answer \<open>getPeers\<close> as the token chaincode does on the ledger behind the stub \<open>st\<close>.
\<close>

definition serves_ledger :: "sdk \<Rightarrow> stub \<Rightarrow> bool" where
  "serves_ledger k st \<longleftrightarrow>
     (\<forall>rq p r st'. rq_ChaincodeID rq = ''token'' \<longrightarrow> rq_Fcn rq = ''getPeers'' \<longrightarrow>
        TokenContract_getPeers st (rq_Args rq) = Done (r, st') \<longrightarrow> sdk_query k rq p = Inr (resp_payload r))"

lemma query_peers_run:
  assumes "network_ok f p" "\<forall>ch o1. sdk_channel_client k ch o1 = None" "serves_ledger k st"
    and "st_faults st = []" "st_committed st ''fab'' = Some (token_marshal t)" "token_fit t" "Peers t = Some p"
  shows "query_peers k f = Done p"
proof -
  have ok: "gmap_ok p" "\<forall>e\<in>set p. valid_utf8 (fst e)" using assms(6,7) by (auto simp: token_fit_def map_fit_Some)
  have run: "TokenContract_getPeers st [''fab''] =
      Done (shim_Success (Some (json_print (enc_map JBool (Some p)))), st)"
    using assms(4-7) by (simp add: TokenContract_getPeers_def no_fault_simps token_unmarshal_marshal(1))
  obtain o1 os where os: "Orgs f = o1 # os" using assms(1) by (cases "Orgs f") (auto simp: network_ok_def)
  obtain q qs where qs: "org_Peers o1 = q # qs"
    using assms(1) os by (cases "org_Peers o1") (auto simp: network_ok_def)
  have "sdk_query k \<lparr>rq_channel = ''mychannel1'', rq_org = org_Config o1, rq_ChaincodeID = ''token'',
      rq_Fcn = ''getPeers'', rq_Args = [''fab'']\<rparr> q = Inr (Some (json_print (enc_map JBool (Some p))))"
    using assms(3) run by (simp add: serves_ledger_def)
  then show ?thesis
    using peer_map_roundtrip [OF ok] os qs assms(2)
    by (simp add: query_peers_def QueryCC_def go_index_def)
qed

text \<open>The state after an invocation whose \<open>Execute\<close> ended with \<open>err\<close>.\<close>

definition after_invoke ::
    "gtime \<Rightarrow> time_format \<Rightarrow> string \<Rightarrow> string \<Rightarrow> gint \<Rightarrow> string \<Rightarrow> bool gmap \<Rightarrow> string \<Rightarrow> go_error option \<Rightarrow>
     'd server \<Rightarrow> 'd server" where
  "after_invoke now tj txid peer peerType function p respid err s =
     s\<lparr>TxList := (TxList s)(txid \<mapsto>
          \<lparr>PeerName = peer, PeerType = (if peerType = 1 then word_of_nat (byzantine_count p) else peerType)\<rparr>),
       StatisticsTable :=
         (if function = ''transfer''
          then record_transfer now (err = None) peerType (byzantine_count p) (StatisticsTable s)
          else StatisticsTable s),
       sent := sent s @
         (if err = None then []
          else map (\<lambda>u. (TxFeed, u, MBytes (TransactionInfo_marshal tj
            \<lparr>ti_Status = 500, ti_TxId = respid, ti_DateTime = now, ti_Peer = peer, ti_TxType = peerType\<rparr>)))
            (subscribers s TxFeed))\<rparr>"

lemma invoke_run:
  fixes s :: "'d server"
  assumes "network_ok f p" "query_peers k f = Done p" "mset (iter p) = mset p"
    and "0 \<le> sint index" "sint index < int (length (Orgs f))"
    and "signing k (org_Config (Orgs f ! nat (sint index))) creator nonce"
    and "\<forall>rq ts. mset ts = mset (endorsers f p) \<longrightarrow> sdk_execute k rq creator nonce ts = (resp, err)"
  shows "InvokeCC k now tj iter f peer peerType index channelID ccID function args s =
    (Done (if err = None then TxPayload resp else None, TransactionID resp, err),
     after_invoke now tj (ComputeTxID (Some nonce) (Some creator)) peer peerType function p
       (TransactionID resp) err s)"
proof -
  obtain ts where ts: "split_peers (iter p) ([], []) =
        Done (map (place \<circ> fst) (filter snd (iter p)), map (place \<circ> fst) (filter (Not \<circ> snd) (iter p)))"
      "choose_targets f (map (place \<circ> fst) (filter snd (iter p))) (map (place \<circ> fst) (filter (Not \<circ> snd) (iter p))) = Done ts"
      "mset ts = mset (endorsers f p)"
    using targets_run [OF assms(1,3)] by blast
  have "length (filter (Not \<circ> snd) (iter p)) = byzantine_count p"
    using assms(3) unfolding byzantine_count_def comp_def by (metis mset_filter size_mset)
  moreover have "go_index (Orgs f) (sint index) = Done (Orgs f ! nat (sint index))"
    using assms(4,5) by (rule go_index_Done)
  ultimately show ?thesis
    using ts assms(2,7) tx_begin_run [OF assms(6)]
    by (cases err) (simp_all add: InvokeCC_def remember_tx_def count_transfer_def after_invoke_def)
qed



section \<open>A concrete network\<close>

text \<open>
  Ten organisations with one peer each, a ledger that holds the token \<open>fab\<close>, whose peers are all
  normal, and an SDK that answers \<open>getPeers\<close> from it and accepts every transaction.
\<close>

definition net10 :: FabSdkProvider where
  "net10 = \<lparr>Orgs = map (\<lambda>n. \<lparr>org_Config = \<lparr>oi_Name = ''Org'', oi_Admin = ''Admin'', oi_User = ''User1''\<rparr>,
      org_Peers = [peer_name n]\<rparr>) [1..<11], Orderers = []\<rparr>"

definition ledger_stub :: stub where
  "ledger_stub = new_stub [] [''fab'' \<mapsto> token_marshal fab] []"

definition demo_sdk :: sdk where
  "demo_sdk = \<lparr>sdk_new = None, sdk_msp_client = (\<lambda>_. None), sdk_resmgmt = (\<lambda>_ _. None),
     sdk_context = (\<lambda>_ _. None), sdk_peers_config = (\<lambda>_. None), sdk_create_peer = (\<lambda>c. Inr c),
     sdk_channel_client = (\<lambda>_ _. None), sdk_identity = (\<lambda>_. None), sdk_serialize = (\<lambda>_. Inr ''User1''),
     sdk_random = Inr (replicate 24 (CHR ''n'')), sdk_hash = (\<lambda>b. Inr (sha256 b)),
     sdk_query = (\<lambda>rq p. case TokenContract_getPeers ledger_stub (rq_Args rq) of
        Done (r, st) \<Rightarrow> Inr (resp_payload r) | Panic e \<Rightarrow> Inl e),
     sdk_execute = (\<lambda>_ _ _ _. (\<lparr>TransactionID = ''tx'', TxPayload = Some ''ok''\<rparr>, None)),
     sdk_event_client = (\<lambda>_ _. None), sdk_ledger_client = (\<lambda>_ _. None), sdk_register_events = None,
     sdk_query_info = (\<lambda>_. Inr 1), sdk_query_block = (\<lambda>_. Inl (EText ''none''))\<rparr>"

lemma ten_dec: "nat_dec 2 = ''2''" "nat_dec 3 = ''3''" "nat_dec 4 = ''4''" "nat_dec 5 = ''5''" "nat_dec 6 = ''6''"
  "nat_dec 7 = ''7''" "nat_dec 8 = ''8''" "nat_dec 9 = ''9''" "nat_dec 10 = ''10''"
  by code_simp+

lemma demo_network: "network_ok net10 (issue_peers n)"
proof -
  have names: "peer_name 1 = ''peer0.org1.example.com''" "peer_name 2 = ''peer0.org2.example.com''"
    "peer_name 3 = ''peer0.org3.example.com''" "peer_name 4 = ''peer0.org4.example.com''"
    "peer_name 5 = ''peer0.org5.example.com''" "peer_name 6 = ''peer0.org6.example.com''"
    "peer_name 7 = ''peer0.org7.example.com''" "peer_name 8 = ''peer0.org8.example.com''"
    "peer_name 9 = ''peer0.org9.example.com''" "peer_name 10 = ''peer0.org10.example.com''"
    by (simp_all add: peer_name_def one_dec ten_dec)
  have "fst ` set (issue_peers n) = {''peer0.org1.example.com'', ''peer0.org2.example.com'',
      ''peer0.org3.example.com'', ''peer0.org4.example.com'', ''peer0.org5.example.com'',
      ''peer0.org6.example.com'', ''peer0.org7.example.com'', ''peer0.org8.example.com'',
      ''peer0.org9.example.com'', ''peer0.org10.example.com''}"
    unfolding issue_peers_def Let_def gmap_put_keys by auto
  also have "\<dots> = peer_name ` {1..10}"
    unfolding names [symmetric] by (auto simp: atLeastAtMost_insertL [symmetric] simp del: One_nat_def)
  finally have "k \<in> peer_name ` {1..10}" if "(k, v) \<in> set (issue_peers n)" for k v
    using that by (metis fst_conv imageI)
  then show ?thesis by (fastforce simp: network_ok_def net10_def)
qed

lemma demo_serves: "serves_ledger demo_sdk ledger_stub"
  by (simp add: serves_ledger_def demo_sdk_def)

lemma demo_signing: "signing demo_sdk org ''User1'' (replicate 24 (CHR ''n''))"
  by (simp add: signing_def demo_sdk_def)

lemma demo_ledger:
  "st_faults ledger_stub = []" "st_committed ledger_stub ''fab'' = Some (token_marshal fab)"
  "token_fit fab" "Peers fab = Some (issue_peers 0)"
  using books_fit [OF books_fab] by (simp_all add: ledger_stub_def new_stub_def fab_def)

lemma demo_peers: "query_peers demo_sdk net10 = Done (issue_peers 0)"
  by (rule query_peers_run [OF demo_network _ demo_serves demo_ledger]) (simp add: demo_sdk_def)

lemma demo_execute: "sdk_execute demo_sdk rq c n ts = (\<lparr>TransactionID = ''tx'', TxPayload = Some ''ok''\<rparr>, None)"
  by (simp add: demo_sdk_def)

lemma demo_orgs: "length (Orgs net10) = 10"
  by (simp add: net10_def)

text \<open>The process with a list of remembered transactions and a database, and no subscribers.\<close>

definition demo_server :: "(string \<rightharpoonup> PeerTx) \<Rightarrow> 'd \<Rightarrow> 'd server" where
  "demo_server txs d = \<lparr>TxList = txs, subscribers = (\<lambda>_. []), StatisticsTable = empty_stats, DB = d,
     timerFlag = True, sent = []\<rparr>"

lemma demo_server_simps [simp]: "TxList (demo_server txs d) = txs" "DB (demo_server txs d) = d"
  by (simp_all add: demo_server_def)

section \<open>Who endorses\<close>



section \<open>Pages\<close>

text \<open>
  C26: A page of blocks or transactions: for decimal page and size, a number below 1 is answered
  with status 500 and no query; otherwise the query is for \<open>size\<close> rows from the offset
  \<open>(page - 1) * size\<close>, which is exact, and so makes the pages consecutive and disjoint, whenever
  the product fits 63 bits.
\<close>

theorem page_window:
  assumes "hq_form r ''id'' = itoa p" "hq_form r ''size'' = itoa n"
  shows "(if sint p < 1 \<or> sint n < 1 then
      blockPage et drv r d = respond et json_headers (Some (EText ''invalid pageId'')) None \<and>
      transactionPage et drv r d = respond et json_headers (Some (EText ''invalid pageId'')) None
    else
      blockPage et drv r d = respond_sum et (QueryRows drv d blockPage_sql [AInt ((p - 1) * n), AInt n]) \<and>
      transactionPage et drv r d = respond_sum et (QueryRows drv d txPage_sql [AInt ((p - 1) * n), AInt n]) \<and>
      ((sint p - 1) * sint n < 2 ^ 63 \<longrightarrow> sint ((p - 1) * n) = (sint p - 1) * sint n))"
proof -
  have "sint ((p - 1) * n) = (sint p - 1) * sint n"
    if "\<not> (sint p < 1 \<or> sint n < 1)" "(sint p - 1) * sint n < 2 ^ 63"
  proof -
    have "(p - 1) * n = word_of_int ((sint p - 1) * sint n)" by simp
    moreover have "0 \<le> (sint p - 1) * sint n" using that(1) by simp
    ultimately show ?thesis using that(2) sint_of_int64 [of "(sint p - 1) * sint n"] by simp
  qed
  then show ?thesis
    using assms
    by (auto simp: blockPage_def transactionPage_def page_args_def atoi_err_def atoi_itoa
        respond_sum_def BlockPage_def TransactionPage_def)
qed

theorem page_window_witness:
  "\<forall>et (drv :: nat driver) d. blockPage et drv \<lparr>hq_method = ''GET'', hq_form = (\<lambda>_. itoa 2), hq_body = Inr []\<rparr> d =
     respond_sum et (QueryRows drv d blockPage_sql [AInt 2, AInt 2])"
proof (intro allI)
  fix et :: "go_error \<Rightarrow> string" and drv :: "nat driver" and d
  show "blockPage et drv \<lparr>hq_method = ''GET'', hq_form = (\<lambda>_. itoa 2), hq_body = Inr []\<rparr> d =
      respond_sum et (QueryRows drv d blockPage_sql [AInt 2, AInt 2])"
    using page_window [of "\<lparr>hq_method = ''GET'', hq_form = (\<lambda>_. itoa 2), hq_body = Inr []\<rparr>" 2 2 et drv d]
    by simp
qed

section \<open>Posting byzantine peers\<close>

text \<open>
  What the server relies on of the database: the prepared update of a peer's type changes the
  type of the row of that name, when there is one, and nothing else in the table of peers.
\<close>

definition updates_peers :: "'d driver \<Rightarrow> ('d \<Rightarrow> string \<Rightarrow> gint option) \<Rightarrow> bool" where
  "updates_peers drv view \<longleftrightarrow>
     (\<forall>d. drv_prepare drv d updatePeer_sql = None) \<and>
     (\<forall>d ty k. view (fst (drv_exec drv d updatePeer_sql [AInt ty, AStr k])) =
        (view d)(k := map_option (\<lambda>_. ty) (view d k)))"

lemma mark_byzantine_view:
  assumes "updates_peers drv view"
  shows "view (mark_byzantine drv es d) =
    (\<lambda>n. if \<exists>v. (n, v) \<in> set es \<and> \<not> fst (parse_bool v) then map_option (\<lambda>_. 1) (view d n) else view d n)"
proof (induction es arbitrary: d)
  case (Cons e es)
  obtain k v where e: "e = (k, v)" by fastforce
  have "view (fst (UpdatePeers drv k 1 d)) = (view d)(k := map_option (\<lambda>_. 1) (view d k))"
    using assms by (simp add: updates_peers_def UpdatePeers_def InsertOrUpdate_def)
  then show ?case by (auto simp: Cons.IH e fun_eq_iff option.map_comp comp_def)
qed simp

lemma InvokeCC_keeps_DB: "DB (snd (InvokeCC k now tj iter f peer ty index ch cc fn args s)) = DB s"
  by (auto simp: InvokeCC_def remember_tx_def count_transfer_def split: outcome.splits sum.splits prod.splits option.splits)

text \<open>
  C23: A successful \<open>muma\<close>, whatever the iteration orders, sets the type of exactly the posted
  peers whose value does not parse as true to 1 in the database and leaves every other peer as it
  was: a peer posted as normal again keeps the type 1 it got before, although \<open>setPeer\<close> has made it
  normal on the ledger.
\<close>

theorem muma_marks_byzantine:
  fixes s :: "'d server"
  assumes "hq_method r \<noteq> ''OPTIONS''" "hq_body r = Inr rBody"
    and "InvokeCC k now tj iter f ''peer0.org1.example.com'' 0 0 ''mychannel1'' ''token'' ''setPeer''
           [''fab'', rBody, ''false''] s = (Done (data, txId, None), s1)"
    and "query_peers k f = Done p"
    and "json_unmarshal (dec_map dec_string []) rBody None = (ps, None)"
    and "\<And>m. mset (iterS m) = mset m" "updates_peers drv view"
  shows "\<exists>s'. muma et k drv now tj iter iterS f r s =
      (Done \<lparr>hp_headers = post_headers, hp_status = 200, hp_body = slice_bytes data\<rparr>, s') \<and>
    view (DB s') = (\<lambda>n. case gmap_get (slice_bytes ps) n of
        Some v \<Rightarrow> if fst (parse_bool v) then view (DB s) n else map_option (\<lambda>_. 1) (view (DB s) n)
      | None \<Rightarrow> view (DB s) n)"
proof -
  have "peer_params rBody = (ps, None)" using assms(5) by (simp add: peer_params_def)
  then have ps: "distinct (map fst (slice_bytes ps))" by (intro gmap_ok_distinct peer_params_ok)
  have db: "DB s1 = DB s" using InvokeCC_keeps_DB [of k now tj iter f _ 0 0] assms(3) by (metis snd_conv)
  have mem: "(n, v) \<in> set (iterS (slice_bytes ps)) \<longleftrightarrow> gmap_get (slice_bytes ps) n = Some v" for n v
    using ps mset_eq_setD [OF assms(6)] by (simp add: gmap_get_def)
  show ?thesis
    using assms(1-5) mark_byzantine_view [OF assms(7)]
    by (auto simp: muma_def ByzantineNum_def respond_def db mem fun_eq_iff split: option.splits)
qed

definition table_driver :: "(string \<rightharpoonup> gint) driver" where
  "table_driver = \<lparr>drv_open = (\<lambda>_. None), drv_ping = None, drv_query = (\<lambda>_ _ _. Inl (EText ''none'')),
     drv_prepare = (\<lambda>_ _. None),
     drv_exec = (\<lambda>d sql args. case args of
        [AInt ty, AStr k] \<Rightarrow> (d(k := map_option (\<lambda>_. ty) (d k)), None) | _ \<Rightarrow> (d, None)),
     drv_begin = (\<lambda>_. None), drv_commit = (\<lambda>d _. (d, None)), drv_close = (None, None, None)\<rparr>"

lemma table_driver_updates: "updates_peers table_driver (\<lambda>d. d)"
  by (simp add: updates_peers_def table_driver_def)

theorem muma_marks_byzantine_witness:
  "\<exists>s'. muma (\<lambda>_. []) demo_sdk table_driver TimeZero (\<lambda>_. None) rev rev net10
        \<lparr>hq_method = ''POST'', hq_form = (\<lambda>_. []), hq_body = Inr ''{\"p1\":\"false\"}''\<rparr>
        (demo_server Map.empty [''p1'' \<mapsto> 0, ''p2'' \<mapsto> 1]) =
      (Done \<lparr>hp_headers = post_headers, hp_status = 200, hp_body = ''ok''\<rparr>, s') \<and>
      DB s' ''p1'' = Some 1 \<and> DB s' ''p2'' = Some 1"
proof -
  let ?s = "demo_server Map.empty [''p1'' \<mapsto> 0, ''p2'' \<mapsto> (1 :: gint)]"
  let ?r = "\<lparr>hq_method = ''POST'', hq_form = (\<lambda>_. []), hq_body = Inr ''{\"p1\":\"false\"}''\<rparr>"
  obtain s1 where run: "InvokeCC demo_sdk TimeZero (\<lambda>_. None) rev net10 ''peer0.org1.example.com'' 0 0
      ''mychannel1'' ''token'' ''setPeer'' [''fab'', ''{\"p1\":\"false\"}'', ''false''] ?s =
      (Done (Some ''ok'', ''tx'', None), s1)"
    using invoke_run [where iter = rev and index = 0 and s = ?s and resp = "\<lparr>TransactionID = ''tx'', TxPayload = Some ''ok''\<rparr>" and err = None,
        OF demo_network [of 0] demo_peers mset_rev
        _ _ demo_signing]
    by (simp add: demo_orgs demo_execute)
  have "json_unmarshal (dec_map dec_string []) ''{\"p1\":\"false\"}'' None = (Some [(''p1'', ''false'')], None)"
    using peer_params_example by (simp add: peer_params_def)
  from muma_marks_byzantine [where iterS = rev and r = ?r and et = "\<lambda>_. []", OF _ _ run demo_peers this mset_rev
      table_driver_updates]
  show "\<exists>s'. muma (\<lambda>_. []) demo_sdk table_driver TimeZero (\<lambda>_. None) rev rev net10 ?r ?s =
      (Done \<lparr>hp_headers = post_headers, hp_status = 200, hp_body = ''ok''\<rparr>, s') \<and>
      DB s' ''p1'' = Some 1 \<and> DB s' ''p2'' = Some 1"
    by (auto simp: gmap_get_def parse_bool_def)
qed

end
