(* ===== verification/Listener_Properties.thy ===== *)
theory Listener_Properties
  imports Invoke_Properties
begin

text \<open>
  The properties of the block listener: which rows a block becomes, to whom its transactions are
  attributed, and which blocks the two goroutines of the listener hand over.
\<close>

section \<open>Envelopes and attributions\<close>

text \<open>The channel header the listener reads from an envelope, when both layers parse.\<close>

definition envelope_header :: "bytes option \<Rightarrow> ChannelHeader option" where
  "envelope_header b =
     (case GetEnvelopeFromBlock b of
        Inl e \<Rightarrow> None
      | Inr envelope \<Rightarrow>
          (case UnmarshalPayload (env_Payload envelope) of
             (_, Some e) \<Rightarrow> None
           | (payload, None) \<Rightarrow>
               map_option (\<lambda>h. fst (UnmarshalChannelHeader (hdr_ChannelHeader h))) (pl_Header payload)))"

text \<open>
  Whom a list of transactions is attributed to: the entry remembered for the transaction when
  there is one, else that of the transaction before it.
\<close>

fun attributions :: "(string \<rightharpoonup> PeerTx) \<Rightarrow> PeerTx \<Rightarrow> ChannelHeader list \<Rightarrow> PeerTx list" where
  "attributions txl cur [] = []"
| "attributions txl cur (h # hs) =
     (let e = (case txl (ch_TxId h) of None \<Rightarrow> cur | Some e \<Rightarrow> e) in e # attributions txl e hs)"

definition tx_row :: "uint64 \<Rightarrow> gint \<Rightarrow> bytes \<Rightarrow> nat \<Rightarrow> ChannelHeader \<Rightarrow> PeerTx \<Rightarrow> statement" where
  "tx_row number tpb flags i h e =
     tx_statement number tpb i (ch_TxId h) (PeerName e) (tx_kind (PeerType e))
       (tx_status (PeerType e) (word_of_nat (code (flags ! i)))) (header_time h)"

fun tx_rows :: "uint64 \<Rightarrow> gint \<Rightarrow> bytes \<Rightarrow> nat \<Rightarrow> (ChannelHeader \<times> PeerTx) list \<Rightarrow> statement list" where
  "tx_rows number tpb flags i [] = []"
| "tx_rows number tpb flags i ((h, e) # xs) = tx_row number tpb flags i h e # tx_rows number tpb flags (i + 1) xs"

definition default_entry :: PeerTx where
  "default_entry = \<lparr>PeerName = ''peer0.org1.example.com'', PeerType = 0\<rparr>"

lemma attributions_cong:
  "(\<And>h. h \<in> set hs \<Longrightarrow> txl (ch_TxId h) = txl' (ch_TxId h)) \<Longrightarrow>
    attributions txl cur hs = attributions txl' cur hs"
  by (induction hs arbitrary: cur) (auto simp: Let_def)

lemma attributions_known:
  "(\<And>h. h \<in> set hs \<Longrightarrow> txl (ch_TxId h) \<noteq> None) \<Longrightarrow>
    attributions txl cur hs = map (\<lambda>h. the (txl (ch_TxId h))) hs"
proof (induction hs arbitrary: cur)
  case (Cons h hs)
  then have "txl (ch_TxId h) \<noteq> None" "\<And>g. g \<in> set hs \<Longrightarrow> txl (ch_TxId g) \<noteq> None" by simp_all
  then show ?case using Cons.IH by (auto simp: Let_def)
qed simp

lemma take_entry_values:
  "lp_peerName (take_entry txid lp s) =
     PeerName (case TxList s txid of None \<Rightarrow> \<lparr>PeerName = lp_peerName lp, PeerType = lp_peerType lp\<rparr> | Some e \<Rightarrow> e)"
  "lp_peerType (take_entry txid lp s) =
     PeerType (case TxList s txid of None \<Rightarrow> \<lparr>PeerName = lp_peerName lp, PeerType = lp_peerType lp\<rparr> | Some e \<Rightarrow> e)"
  "lp_stmts (take_entry txid lp s) = lp_stmts lp" "lp_txTime (take_entry txid lp s) = lp_txTime lp"
  by (simp_all add: take_entry_def split: option.split)

lemma update_txs_run:
  fixes s :: "'d server"
  assumes "map envelope_header envs = map Some hs" "distinct (map ch_TxId hs)"
    and "2 < length (bm_Metadata m)" "flags = slice_bytes (bm_Metadata m ! 2)" "i + length envs \<le> length flags"
    and "cur = \<lparr>PeerName = lp_peerName lp, PeerType = lp_peerType lp\<rparr>"
  shows "\<exists>lp' s'. update_txs tj tpb number (Some m) i envs lp s = (Done lp', s') \<and>
    lp_stmts lp' = lp_stmts lp @ tx_rows number tpb flags i (zip hs (attributions (TxList s) cur hs)) \<and>
    lp_peerType lp' = PeerType (last (cur # attributions (TxList s) cur hs)) \<and>
    lp_txTime lp' = last (lp_txTime lp # map header_time hs) \<and>
    TxList s' = TxList s |` (- ch_TxId ` set hs) \<and> DB s' = DB s"
  using assms
proof (induction envs arbitrary: hs i lp s cur)
  case Nil
  then show ?case by simp
next
  case (Cons b envs)
  obtain h hs' where hs: "hs = h # hs'" "envelope_header b = Some h" "map envelope_header envs = map Some hs'"
    using Cons.prems(1) by (cases hs) auto
  obtain env pl hd where b: "GetEnvelopeFromBlock b = Inr env" "UnmarshalPayload (env_Payload env) = (pl, None)"
    "pl_Header pl = Some hd" "h = fst (UnmarshalChannelHeader (hdr_ChannelHeader hd))"
    using hs(2) by (auto simp: envelope_header_def split: sum.splits prod.splits option.splits)
  have flag: "validation_code (Some m) i = Done (word_of_nat (code (flags ! i)))"
    using Cons.prems(3-5) by (simp add: validation_code_def go_index_def)
  let ?id = "ch_TxId h" and ?lp = "take_entry (ch_TxId h) lp s"
  let ?e = "case TxList s ?id of None \<Rightarrow> cur | Some e \<Rightarrow> e"
  let ?stmt = "tx_row number tpb flags i h ?e"
  let ?lp1 = "?lp\<lparr>lp_txTime := header_time h, lp_stmts := lp_stmts ?lp @ [?stmt]\<rparr>"
  let ?msg = "MBytes (TransactionInfo_marshal tj
     \<lparr>ti_Status = tx_status (lp_peerType ?lp) (word_of_nat (code (flags ! i))), ti_TxId = ?id,
      ti_DateTime = header_time h, ti_Peer = lp_peerName ?lp, ti_TxType = tx_kind (lp_peerType ?lp)\<rparr>)"
  let ?s1 = "(delete_entry ?id s)\<lparr>sent := sent s @ map (\<lambda>u. (TxFeed, u, ?msg)) (subscribers s TxFeed)\<rparr>"
  have e: "PeerName ?e = lp_peerName ?lp" "PeerType ?e = lp_peerType ?lp"
    using Cons.prems(6) by (simp_all add: take_entry_values split: option.split)
  have run: "update_txs tj tpb number (Some m) i (b # envs) lp s =
      update_txs tj tpb number (Some m) (i + 1) envs ?lp1 ?s1"
    by (simp add: b(1-3) flip: b(4)) (simp add: flag Let_def delete_entry_def tx_row_def e)
  have txl: "TxList ?s1 = (TxList s)(?id := None)" by (simp add: delete_entry_def)
  have attr: "attributions (TxList ?s1) ?e hs' = attributions (TxList s) ?e hs'"
  proof (rule attributions_cong)
    fix g assume "g \<in> set hs'"
    then have "ch_TxId g \<in> ch_TxId ` set hs'" by (rule imageI)
    moreover have "?id \<notin> ch_TxId ` set hs'" using Cons.prems(2) hs(1) by simp
    ultimately have "ch_TxId g \<noteq> ?id" by metis
    then show "TxList ?s1 (ch_TxId g) = TxList s (ch_TxId g)" unfolding txl by simp
  qed
  have cur1: "?e = \<lparr>PeerName = lp_peerName ?lp1, PeerType = lp_peerType ?lp1\<rparr>"
    by (rule PeerTx.equality) (simp_all add: e)
  have "distinct (map ch_TxId hs')" "i + 1 + length envs \<le> length flags"
    using Cons.prems(2,5) hs(1) by simp_all
  from Cons.IH [OF hs(3) this(1) Cons.prems(3,4) this(2) cur1, of ?s1] obtain lp' s' where
    *: "update_txs tj tpb number (Some m) (i + 1) envs ?lp1 ?s1 = (Done lp', s')"
      "lp_stmts lp' = lp_stmts ?lp1 @ tx_rows number tpb flags (i + 1) (zip hs' (attributions (TxList s) ?e hs'))"
      "lp_peerType lp' = PeerType (last (?e # attributions (TxList s) ?e hs'))"
      "lp_txTime lp' = last (lp_txTime ?lp1 # map header_time hs')"
      "TxList s' = TxList ?s1 |` (- ch_TxId ` set hs')" "DB s' = DB ?s1"
    unfolding attr by blast
  have "TxList s' = TxList s |` (- ch_TxId ` set hs)"
    using *(5) by (auto simp: txl hs(1) restrict_map_def fun_eq_iff)
  then show ?case
    using * run by (auto simp: hs(1) Let_def take_entry_values delete_entry_def)
qed

text \<open>Nothing after the commit changes the database or the remembered transactions.\<close>

lemma send_numbers_keep:
  "act_each (send_tx_number drv) us s = (x, s') \<Longrightarrow> DB s' = DB s \<and> TxList s' = TxList s"
  by (induction us arbitrary: s) (fastforce simp: send_tx_number_def send_def split: outcome.splits prod.splits)+

text \<open>The block row of a block with transaction headers \<open>hs\<close>.\<close>

definition block_row ::
    "(string \<rightharpoonup> PeerTx) \<Rightarrow> BlockHeader \<Rightarrow> ChannelHeader list \<Rightarrow> bytes option \<Rightarrow> bytes option \<Rightarrow> statement" where
  "block_row txl h hs alice bob =
     block_statement (bh_Number h) (bh_DataHash h) (word_of_nat (length hs))
       (last (TimeZero # map header_time hs)) alice bob
       (block_kind (PeerType (last (default_entry # attributions txl default_entry hs))))"

lemma updateBlock_run:
  assumes "blk_Header b = Some h" "bh_Number h \<noteq> 0" "blk_Data b = Some dat" "blk_Metadata b = Some m"
    and "map envelope_header (bd_Data dat) = map Some hs" "distinct (map ch_TxId hs)"
    and "2 < length (bm_Metadata m)" "flags = slice_bytes (bm_Metadata m ! 2)" "length hs \<le> length flags"
    and "drv_begin drv (DB s) = None" "balance_of k f ''alice'' = Done alice" "balance_of k f ''bob'' = Done bob"
  shows "DB (snd (updateBlock k drv tj f appConf (Some b) s)) =
      fst (drv_commit drv (DB s)
        (tx_rows (bh_Number h) (app_TxNumPerBlock appConf) flags 0
           (zip hs (attributions (TxList s) default_entry hs)) @
         [block_row (TxList s) h hs alice bob])) \<and>
    TxList (snd (updateBlock k drv tj f appConf (Some b) s)) = TxList s |` (- ch_TxId ` set hs)"
proof -
  have len: "length (bd_Data dat) = length hs" using assms(5) by (metis length_map)
  have cur: "default_entry = \<lparr>PeerName = lp_peerName loop_start, PeerType = lp_peerType loop_start\<rparr>"
    by (simp add: default_entry_def loop_start_def)
  have "0 + length (bd_Data dat) \<le> length flags" using len assms(9) by simp
  from update_txs_run [OF assms(5-8) this cur, of tj "app_TxNumPerBlock appConf" "bh_Number h" s] obtain lp s1 where
    r: "update_txs tj (app_TxNumPerBlock appConf) (bh_Number h) (Some m) 0 (bd_Data dat) loop_start s = (Done lp, s1)"
      "lp_stmts lp = tx_rows (bh_Number h) (app_TxNumPerBlock appConf) flags 0
         (zip hs (attributions (TxList s) default_entry hs))"
      "lp_peerType lp = PeerType (last (default_entry # attributions (TxList s) default_entry hs))"
      "lp_txTime lp = last (TimeZero # map header_time hs)"
      "TxList s1 = TxList s |` (- ch_TxId ` set hs)" "DB s1 = DB s"
    by (auto simp: loop_start_def)
  have same: "lp_stmts lp @ [block_statement (bh_Number h) (bh_DataHash h) (word_of_nat (length (bd_Data dat)))
      (lp_txTime lp) alice bob (block_kind (lp_peerType lp))] =
    tx_rows (bh_Number h) (app_TxNumPerBlock appConf) flags 0 (zip hs (attributions (TxList s) default_entry hs)) @
      [block_row (TxList s) h hs alice bob]"
    by (simp add: r(2-4) len block_row_def)
  show ?thesis
    using assms(1-4,10-12) r(1,5,6)
    by (auto simp: updateBlock_def panic_on_def Let_def commit_block_def same split: outcome.splits prod.splits
        dest!: send_numbers_keep)
qed

section \<open>The rows of a block\<close>

text \<open>
  C5: A block whose transactions all parse and were all submitted through this server becomes
  exactly one row per transaction, in order, each with the peer remembered for its id, its kind,
  the peer's verdict for its position (1 when at most three peers were byzantine), and its time,
  followed by the row of the block; exactly these transactions are forgotten. This holds
  whatever happens after the commit.
\<close>

theorem block_attributes_transactions:
  assumes "blk_Header b = Some h" "bh_Number h \<noteq> 0" "blk_Data b = Some dat" "blk_Metadata b = Some m"
    and "map envelope_header (bd_Data dat) = map Some hs" "distinct (map ch_TxId hs)"
    and "2 < length (bm_Metadata m)" "length hs \<le> length (slice_bytes (bm_Metadata m ! 2))"
    and "drv_begin drv (DB s) = None" "balance_of k f ''alice'' = Done alice" "balance_of k f ''bob'' = Done bob"
    and "\<forall>g\<in>set hs. TxList s (ch_TxId g) \<noteq> None"
  shows "DB (snd (updateBlock k drv tj f appConf (Some b) s)) =
      fst (drv_commit drv (DB s)
        (tx_rows (bh_Number h) (app_TxNumPerBlock appConf) (slice_bytes (bm_Metadata m ! 2)) 0
           (map (\<lambda>g. (g, the (TxList s (ch_TxId g)))) hs) @
         [block_row (TxList s) h hs alice bob])) \<and>
    TxList (snd (updateBlock k drv tj f appConf (Some b) s)) = TxList s |` (- ch_TxId ` set hs)"
proof -
  have "zip hs (attributions (TxList s) default_entry hs) = map (\<lambda>g. (g, the (TxList s (ch_TxId g)))) hs"
    using attributions_known [of hs "TxList s"] assms(12) by (simp add: zip_map2 zip_same_conv_map)
  then show ?thesis using updateBlock_run [OF assms(1-7) refl assms(8-11)] by simp
qed


text \<open>An envelope that carries nothing but a one-letter transaction id, and a block of two of them.\<close>

definition tiny_envelope :: "char \<Rightarrow> bytes option" where
  "tiny_envelope c = Some (map char_of [10, 7, 10, 5, 10, 3, 42, 1 :: nat] @ [c])"

definition tiny_header :: "char \<Rightarrow> ChannelHeader" where
  "tiny_header c = the (envelope_header (tiny_envelope c))"

lemma tiny_headers:
  "map_option (\<lambda>h. (ch_TxId h, header_time h)) (envelope_header (tiny_envelope (CHR ''a''))) = Some (''a'', TimeUnix 0 0)"
  "map_option (\<lambda>h. (ch_TxId h, header_time h)) (envelope_header (tiny_envelope (CHR ''b''))) = Some (''b'', TimeUnix 0 0)"
  by code_simp+

definition tiny_block :: Block where
  "tiny_block = \<lparr>blk_Header = Some \<lparr>bh_Number = 5, bh_PreviousHash = None, bh_DataHash = None, bh_unknown = []\<rparr>,
     blk_Data = Some \<lparr>bd_Data = [tiny_envelope (CHR ''a''), tiny_envelope (CHR ''b'')], bd_unknown = []\<rparr>,
     blk_Metadata = Some \<lparr>bm_Metadata = [None, None, Some (replicate 2 (char_of (0 :: nat)))], bm_unknown = []\<rparr>,
     blk_unknown = []\<rparr>"

text \<open>A driver whose database is the list of the statements committed.\<close>

definition log_driver :: "statement list driver" where
  "log_driver = \<lparr>drv_open = (\<lambda>_. None), drv_ping = None, drv_query = (\<lambda>_ _ _. Inl (EText ''none'')),
     drv_prepare = (\<lambda>_ _. None), drv_exec = (\<lambda>d _ _. (d, None)), drv_begin = (\<lambda>_. None),
     drv_commit = (\<lambda>d stmts. (d @ stmts, None)), drv_close = (None, None, None)\<rparr>"

definition tiny_conf :: Application where
  "tiny_conf = \<lparr>app_LogPath = [], app_LogLevel = 0, app_OrgInfo = [], app_OrderderInfo = [], app_DB = None,
     app_TxNumPerBlock = 10, app_TxInterval = 1\<rparr>"

lemma tiny_header_values:
  "envelope_header (tiny_envelope (CHR ''a'')) = Some (tiny_header (CHR ''a''))"
  "envelope_header (tiny_envelope (CHR ''b'')) = Some (tiny_header (CHR ''b''))"
  "ch_TxId (tiny_header (CHR ''a'')) = ''a''" "ch_TxId (tiny_header (CHR ''b'')) = ''b''"
  "header_time (tiny_header (CHR ''a'')) = TimeUnix 0 0" "header_time (tiny_header (CHR ''b'')) = TimeUnix 0 0"
  using tiny_headers by (auto simp: tiny_header_def)

lemma demo_balance: "balance_of demo_sdk net10 u = Done None"
  by (simp add: balance_of_def QueryCC_def demo_sdk_def net10_def go_index_def TokenContract_getPeers_def
      upt_rec [of 1])

lemma zero_flag: "code (char_of (0 :: nat)) = 0" by (simp add: code_def)

theorem block_attributes_transactions_witness:
  "\<exists>row. DB (snd (updateBlock demo_sdk log_driver (\<lambda>_. None) net10 tiny_conf (Some tiny_block)
        (demo_server [''a'' \<mapsto> \<lparr>PeerName = ''p3'', PeerType = 0\<rparr>, ''b'' \<mapsto> \<lparr>PeerName = ''p4'', PeerType = 2\<rparr>] []))) =
      [tx_statement 5 10 0 ''a'' ''p3'' 0 0 (TimeUnix 0 0), tx_statement 5 10 1 ''b'' ''p4'' 1 1 (TimeUnix 0 0), row]"
proof -
  let ?s = "demo_server [''a'' \<mapsto> \<lparr>PeerName = ''p3'', PeerType = 0\<rparr>, ''b'' \<mapsto> \<lparr>PeerName = ''p4'', PeerType = 2\<rparr>] []"
  show "\<exists>row. DB (snd (updateBlock demo_sdk log_driver (\<lambda>_. None) net10 tiny_conf (Some tiny_block) ?s)) =
      [tx_statement 5 10 0 ''a'' ''p3'' 0 0 (TimeUnix 0 0), tx_statement 5 10 1 ''b'' ''p4'' 1 1 (TimeUnix 0 0), row]"
    using block_attributes_transactions [where b = tiny_block and drv = log_driver and s = ?s and k = demo_sdk and
        f = net10 and tj = "\<lambda>_. None" and appConf = tiny_conf and
        hs = "[tiny_header (CHR ''a''), tiny_header (CHR ''b'')]", OF _ _ _ _ _ _ _ _ _ demo_balance demo_balance]
    by (simp add: tiny_block_def tiny_header_values log_driver_def tx_row_def tx_status_def tx_kind_def zero_flag
        tiny_conf_def)
qed


section \<open>Which blocks are handed over\<close>

lemma sync_loop_run:
  "(\<And>j. i \<le> j \<Longrightarrow> j < height \<Longrightarrow> sdk_query_block k j = Inr (chain j)) \<Longrightarrow>
    sync_loop k i height = (map (\<lambda>n. Some (chain (word_of_nat n))) [unat i..<unat height], Done ())"
proof (induction k i height rule: sync_loop.induct)
  case (1 k i height)
  show ?case
  proof (cases "i < height")
    case True
    have up: "unat (i + 1) = Suc (unat i)" "unat i < unat height" using word_count_up [OF True] by simp_all
    have q: "sdk_query_block k i = Inr (chain i)" using "1.prems" True by simp
    have "i + 1 \<le> j \<Longrightarrow> i \<le> j" for j using up by (simp add: word_le_nat_alt)
    then have "sync_loop k (i + 1) height =
        (map (\<lambda>n. Some (chain (word_of_nat n))) [unat (i + 1)..<unat height], Done ())"
      using "1.IH" [OF True q] "1.prems" by blast
    moreover have "[unat i..<unat height] = unat i # [Suc (unat i)..<unat height]"
      using up by (simp add: upt_conv_Cons)
    ultimately show ?thesis using True q up by (subst sync_loop.simps) simp
  next
    case False
    then have "unat height \<le> unat i" by (simp add: word_less_nat_alt)
    then show ?thesis using False by (subst sync_loop.simps) simp
  qed
qed

lemma event_loop_run:
  "event_loop flag (map (\<lambda>b. Some (Some b)) bs) = (map Some (if flag then tl bs else bs), Done ())"
proof (induction bs arbitrary: flag)
  case (Cons b bs)
  then show ?case by (cases flag) (simp_all add: Cons.IH [of False])
qed simp

text \<open>
  C14: Starting on a database of height \<open>h\<close> below the last block of a ledger of height \<open>L\<close>, the
  catch-up ends and hands over exactly the blocks \<open>h\<close> to \<open>L - 1\<close> in order, and the event loop
  every live block but the first. If the first live block is already beyond the ledger height the
  catch-up saw, it is handed over by neither: its transactions never reach the database.
\<close>

theorem listener_hands_over:
  assumes "Orgs f = o1 # os" "org_Peers o1 = p0 # ps"
    and "sdk_event_client k channelID (org_Config o1) = None" "sdk_ledger_client k channelID (org_Config o1) = None"
    and "sdk_register_events k = None" "GetBlockHeight drv d = Done h" "sdk_query_info k p0 = Inr L"
    and "h < L - 1" "h < L" "\<forall>j. h \<le> j \<and> j < L \<longrightarrow> sdk_query_block k j = Inr (chain j)"
  shows "BlockListener k drv d f channelID (map (\<lambda>n. Some (Some (chain n))) live) =
      Done ((map (\<lambda>n. Some (chain n)) (map word_of_nat [unat h..<unat L]), Done ()),
            (map (\<lambda>n. Some (chain n)) (tl live), Done ())) \<and>
    (live \<noteq> [] \<and> L \<le> hd live \<and> hd live \<notin> set (tl live) \<longrightarrow>
      hd live \<notin> set (map word_of_nat [unat h..<unat L] @ tl live))"
proof -
  have "syncBlock k drv d p0 =
      (map (\<lambda>n. Some (chain n)) (map word_of_nat [unat h..<unat L]), Done ())"
    using assms(6-10) sync_loop_run [of h L k chain] by (auto simp: syncBlock_def comp_def)
  moreover have "event_loop True (map (\<lambda>n. Some (Some (chain n))) live) = (map (\<lambda>n. Some (chain n)) (tl live), Done ())"
    using event_loop_run [of True "map chain live"] by (simp add: comp_def map_tl)
  moreover have "w \<notin> set (map word_of_nat [unat h..<unat L])" if "L \<le> w" for w :: uint64
  proof
    assume "w \<in> set (map word_of_nat [unat h..<unat L])"
    then obtain n where n: "w = word_of_nat n" "n < unat L" by auto
    then have "unat w \<le> n" by (simp add: unat_of_nat)
    then show False using n that by (simp add: word_le_nat_alt)
  qed
  ultimately show ?thesis
    using assms(1-5)
    by (auto simp: BlockListener_def go_index_def first_peer_def panic_on_def registerBlockEvent_def)
qed

definition quiet_sdk :: sdk where
  "quiet_sdk = demo_sdk\<lparr>sdk_query_info := (\<lambda>_. Inr 4),
     sdk_query_block := (\<lambda>j. Inr (tiny_block\<lparr>blk_Header := Some \<lparr>bh_Number = j, bh_PreviousHash = None,
        bh_DataHash = None, bh_unknown = []\<rparr>\<rparr>))\<rparr>"

definition numbered :: "uint64 \<Rightarrow> Block" where
  "numbered j = tiny_block\<lparr>blk_Header := Some \<lparr>bh_Number = j, bh_PreviousHash = None, bh_DataHash = None, bh_unknown = []\<rparr>\<rparr>"

definition height_driver :: "unit driver" where
  "height_driver = \<lparr>drv_open = (\<lambda>_. None), drv_ping = None,
     drv_query = (\<lambda>_ _ _. Inr \<lparr>rows_columns = Inr [''height''], rows_scan = [Inr [Some ''1'']], rows_err = None\<rparr>),
     drv_prepare = (\<lambda>_ _. None), drv_exec = (\<lambda>d _ _. (d, None)), drv_begin = (\<lambda>_. None),
     drv_commit = (\<lambda>d _. (d, None)), drv_close = (None, None, None)\<rparr>"

theorem listener_hands_over_witness:
  "BlockListener quiet_sdk height_driver () net10 ''mychannel1'' [Some (Some (numbered 4)), Some (Some (numbered 5))] =
     Done (([Some (numbered 1), Some (numbered 2), Some (numbered 3)], Done ()), ([Some (numbered 5)], Done ()))"
proof -
  have height: "GetBlockHeight height_driver () = Done 1" by code_simp
  have orgs: "\<exists>o1 os p0 ps. Orgs net10 = o1 # os \<and> org_Peers o1 = p0 # ps" by (simp add: net10_def upt_conv_Cons)
  then obtain o1 os p0 ps where o1: "Orgs net10 = o1 # os" "org_Peers o1 = p0 # ps" by blast
  have "[unat (1 :: uint64)..<unat (4 :: uint64)] = [1, 2, 3]" by (simp add: upt_rec)
  then show ?thesis
    using listener_hands_over [OF o1 _ _ _ height, of quiet_sdk "''mychannel1''" 4 numbered "[4, 5]"]
    by (simp add: quiet_sdk_def demo_sdk_def numbered_def)
qed

end
