(* ===== verification/Submission_Properties.thy ===== *)
theory Submission_Properties
  imports Listener_Properties Flow_Example
begin

text \<open>
  The whole way of a transaction through the server: \<open>InvokeCC\<close> remembers its submitter under the
  id it derives, the SDK turns the proposal with that id into a signed envelope, and the listener
  reads the id back from the envelope in the block and records the transaction for the submitter.
\<close>

section \<open>What an invocation remembers\<close>

text \<open>Whatever \<open>Execute\<close> answers: the entry is made before the transaction is sent.\<close>

definition submitted :: "string \<Rightarrow> gint \<Rightarrow> bool gmap \<Rightarrow> PeerTx" where
  "submitted peer peerType p =
     \<lparr>PeerName = peer, PeerType = (if peerType = 1 then word_of_nat (byzantine_count p) else peerType)\<rparr>"

lemma count_transfer_TxList [simp]: "TxList (count_transfer now ok function ty bs s) = TxList s"
  by (simp add: count_transfer_def)

lemma invoke_remembers:
  fixes s :: "'d server"
  assumes "network_ok f p" "query_peers k f = Done p" "mset (iter p) = mset p"
    and "go_index (Orgs f) (sint index) = Done o1" "signing k (org_Config o1) creator nonce"
    and "InvokeCC k now tj iter f peer peerType index channelID ccID function args s = (Done x, s1)"
  shows "TxList s1 (ComputeTxID (Some nonce) (Some creator)) = Some (submitted peer peerType p)"
proof -
  obtain ts where ts: "split_peers (iter p) ([], []) =
        Done (map (place \<circ> fst) (filter snd (iter p)), map (place \<circ> fst) (filter (Not \<circ> snd) (iter p)))"
      "choose_targets f (map (place \<circ> fst) (filter snd (iter p))) (map (place \<circ> fst) (filter (Not \<circ> snd) (iter p))) = Done ts"
    using targets_run [OF assms(1,3)] by blast
  have "length (filter (Not \<circ> snd) (iter p)) = byzantine_count p"
    using assms(3) unfolding byzantine_count_def comp_def by (metis mset_filter size_mset)
  then show ?thesis
    using assms(2,4,6) ts tx_begin_run [OF assms(5)]
    by (auto simp: InvokeCC_def remember_tx_def submitted_def split: prod.splits option.splits)
qed

section \<open>What the listener reads from an envelope\<close>

lemma read_envelope:
  assumes "order_free iter" "proto_Marshal iter (Some (Envelope_msg env)) = Inr b" "length b < 2 ^ 64"
    "env_unknown env = []"
  shows "GetEnvelopeFromBlock (Some b) =
      Inr (env\<lparr>env_Payload := nil_if_empty (env_Payload env), env_Signature := nil_if_empty (env_Signature env)\<rparr>)"
    and "length (slice_bytes (env_Payload env)) < 2 ^ 64"
proof -
  have "UnmarshalEnvelope (Some b) =
      (env\<lparr>env_Payload := nil_if_empty (env_Payload env), env_Signature := nil_if_empty (env_Signature env)\<rparr>, None)"
    using Envelope_reader.read_written [OF assms(1) _ assms(2,3)] assms(4) by (simp add: typed_simps norm_simps)
  then show "GetEnvelopeFromBlock (Some b) =
      Inr (env\<lparr>env_Payload := nil_if_empty (env_Payload env), env_Signature := nil_if_empty (env_Signature env)\<rparr>)"
    by (auto simp: GetEnvelopeFromBlock_def UnmarshalEnvelope_def wrap_err_eq_None split: prod.splits)
  show "length (slice_bytes (env_Payload env)) < 2 ^ 64"
    using marshal_bytes_part [OF assms(2) [unfolded Envelope_msg_def], of 1 "env_Payload env"] assms(3) by simp
qed

lemma envelope_names_transaction:
  assumes "order_free iter" "ts_unknown ts = []"
    and made: "CreateChaincodeProposalWithTxIDNonceAndTransient iter (Inr ts) txid typ chainID cis nonce creator tm =
      Done (Inr (prop, t))"
    and tx: "CreateSignedTx iter prop signer resps = Done (Inr env)"
    and eb: "proto_Marshal iter (Some (Envelope_msg env)) = Inr b"
    and small: "length (slice_bytes (prop_Header prop)) < 2 ^ 64" "length b < 2 ^ 64"
  obtains g where "envelope_header (Some b) = Some g" "ch_TxId g = txid"
    "header_time g = unix_time (ts_Seconds ts) (scast (ts_Nanos ts))"
proof -
  obtain hdr ch where H: "checked (UnmarshalHeader (prop_Header prop)) = Inr hdr"
    "checked (UnmarshalChannelHeader (hdr_ChannelHeader hdr)) = Inr ch" "ch_TxId ch = txid" "hdr_unknown hdr = []"
    "nil_if_empty (hdr_ChannelHeader hdr) = hdr_ChannelHeader hdr"
    "nil_if_empty (hdr_SignatureHeader hdr) = hdr_SignatureHeader hdr" "ch_Timestamp ch = Some ts"
    by (rule proposal_headers [OF made assms(1) small(1)]) (use assms(2) in auto)
  obtain hdr' txb payb sig where T: "checked (UnmarshalHeader (prop_Header prop)) = Inr hdr'"
    "proto_Marshal iter (Some (Payload_msg (Payload_zero\<lparr>pl_Header := Some hdr', pl_Data := Some txb\<rparr>))) = Inr payb"
    "env = Envelope_zero\<lparr>env_Payload := Some payb, env_Signature := Some sig\<rparr>"
    by (rule signed_tx_parts [OF tx])
  have same: "hdr' = hdr" using T(1) H(1) by simp
  have E: "GetEnvelopeFromBlock (Some b) =
      Inr (env\<lparr>env_Payload := nil_if_empty (Some payb), env_Signature := nil_if_empty (Some sig)\<rparr>)" "length payb < 2 ^ 64"
    using read_envelope [OF assms(1) eb small(2)] T(3) by (simp_all add: Envelope_zero_def)
  have "UnmarshalPayload (nil_if_empty (Some payb)) =
      (Payload_zero\<lparr>pl_Header := Some hdr, pl_Data := nil_if_empty (Some txb)\<rparr>, None)"
    using read_signed_payload(1) [OF assms(1) E(2) _ T(2)] H(4-6)
    by (simp add: same UnmarshalPayload_def unmarshal_nil_if_empty)
  then have "envelope_header (Some b) = Some (fst (UnmarshalChannelHeader (hdr_ChannelHeader hdr)))"
    by (simp add: envelope_header_def E(1))
  moreover have "fst (UnmarshalChannelHeader (hdr_ChannelHeader hdr)) = ch"
    using H(2) by (auto simp: checked_def split: option.splits prod.splits)
  ultimately show ?thesis using that H(3,7) by (simp add: header_time_def)
qed

section \<open>The row of one transaction\<close>

lemma attributions_length [simp]: "length (attributions txl cur hs) = length hs"
  by (induction hs arbitrary: cur) (simp_all add: Let_def)

lemma attributions_at:
  "i < length hs \<Longrightarrow> txl (ch_TxId (hs ! i)) = Some e \<Longrightarrow> attributions txl cur hs ! i = e"
proof (induction hs arbitrary: cur i)
  case (Cons h hs)
  then show ?case by (cases i) (simp_all add: Let_def)
qed simp

lemma tx_rows_length [simp]: "length (tx_rows number tpb flags j xs) = length xs"
  by (induction xs arbitrary: j) auto

lemma tx_rows_at:
  "i < length xs \<Longrightarrow> xs ! i = (h, e) \<Longrightarrow> tx_rows number tpb flags j xs ! i = tx_row number tpb flags (j + i) h e"
proof (induction xs arbitrary: i j)
  case (Cons x xs)
  then show ?case by (cases x; cases i) simp_all
qed simp

section \<open>A concrete submission\<close>

text \<open>
  The transaction the demonstration SDK would send: the proposal for the nonce and creator of its
  invocations, one response, and a signer that is the creator.
\<close>

definition demo_nonce :: bytes where
  "demo_nonce = replicate 24 (CHR ''n'')"

definition demo_id :: string where
  "demo_id = ComputeTxID (Some demo_nonce) (Some ''User1'')"

definition demo_signer :: SignerSerializer where
  "demo_signer = \<lparr>Serialize = Inr ''User1'', Sign = (\<lambda>_. Inr ''z'')\<rparr>"

definition demo_response :: ProposalResponse where
  "demo_response = ProposalResponse_zero\<lparr>pr_Payload := Some ''r'', pr_Endorsement := Some Endorsement_zero,
     pr_Response := Some (Response_zero\<lparr>resp_Status := 200\<rparr>)\<rparr>"

lemma demo_response_ok: "response_ok demo_response" "pr_Endorsement demo_response = Some Endorsement_zero"
  "pr_Payload demo_response = Some ''r''"
  by (simp_all add: demo_response_def response_ok_def)

text \<open>The parts of a proposal header are no longer than the header.\<close>

lemma proposal_header_bound:
  assumes "CreateChaincodeProposalWithTxIDNonceAndTransient iter now txid typ chainID cis nonce creator tm =
      Done (Inr (prop, t))"
    and "order_free iter" "length (slice_bytes (prop_Header prop)) < 2 ^ 64"
    and "checked (UnmarshalHeader (prop_Header prop)) = Inr hdr"
  shows "length (slice_bytes (hdr_ChannelHeader hdr)) \<le> length (slice_bytes (prop_Header prop))"
    "length (slice_bytes (hdr_SignatureHeader hdr)) \<le> length (slice_bytes (prop_Header prop))"
    "hdr_unknown hdr = []"
proof -
  obtain chb shb hdrb where p: "proto_Marshal iter (Some (Header_msg
       (Header_zero\<lparr>hdr_ChannelHeader := Some chb, hdr_SignatureHeader := Some shb\<rparr>))) = Inr hdrb"
    "prop_Header prop = Some hdrb"
    by (rule create_proposal_parts [OF assms(1)]) simp
  have "hdr = Header_zero
      \<lparr>hdr_ChannelHeader := nil_if_empty (Some chb), hdr_SignatureHeader := nil_if_empty (Some shb)\<rparr>"
    using read_header [OF assms(2) p(1)] assms(3,4) p(2) by (simp add: Header_zero_def)
  then show "length (slice_bytes (hdr_ChannelHeader hdr)) \<le> length (slice_bytes (prop_Header prop))"
    "length (slice_bytes (hdr_SignatureHeader hdr)) \<le> length (slice_bytes (prop_Header prop))" "hdr_unknown hdr = []"
    using header_bytes_part [OF p(1)] p(2) by (simp_all add: Header_zero_def)
qed

text \<open>The envelope of a small proposal with the one response is small.\<close>

lemma demo_envelope_small:
  assumes made: "CreateChaincodeProposalWithTxIDNonceAndTransient run_iter now txid typ chainID cis nonce creator None =
      Done (Inr (prop, t))"
    and small: "length (slice_bytes (prop_Header prop)) \<le> 10000" "length (slice_bytes (prop_Payload prop)) \<le> 1000"
    and tx: "CreateSignedTx run_iter prop demo_signer [demo_response] = Done (Inr env)"
    and eb: "proto_Marshal run_iter (Some (Envelope_msg env)) = Inr b"
  shows "length b < 2 ^ 64"
proof (rule signed_tx_parts [OF tx])
  fix hdr pPayl ppb capb txb payb sig
  assume hdr: "checked (UnmarshalHeader (prop_Header prop)) = Inr hdr"
    and pPayl: "checked (UnmarshalChaincodeProposalPayload (prop_Payload prop)) = Inr pPayl"
    and ppb: "GetBytesProposalPayloadForTx run_iter (Some pPayl) = Inr ppb"
    and capb: "proto_Marshal run_iter (Some (ChaincodeActionPayload_msg (ChaincodeActionPayload_zero
       \<lparr>cap_ChaincodeProposalPayload := Some ppb, cap_Action := Some (tx_endorsed_action [demo_response])\<rparr>))) = Inr capb"
    and txb: "proto_Marshal run_iter (Some (Transaction_msg (Transaction_zero\<lparr>tx_Actions :=
       [Some (TransactionAction_zero\<lparr>ta_Header := hdr_SignatureHeader hdr, ta_Payload := Some capb\<rparr>)]\<rparr>))) = Inr txb"
    and payb: "proto_Marshal run_iter (Some (Payload_msg (Payload_zero\<lparr>pl_Header := Some hdr, pl_Data := Some txb\<rparr>))) = Inr payb"
    and sig: "Sign demo_signer payb = Inr sig" and env: "env = Envelope_zero\<lparr>env_Payload := Some payb, env_Signature := Some sig\<rparr>"
  have "length (slice_bytes (prop_Header prop)) < 2 ^ 64" using small(1) by simp
  note h = proposal_header_bound [OF made run_iter_free this hdr]
  obtain cisb pay where P: "proto_Marshal run_iter (Some (ChaincodeProposalPayload_msg
       (ChaincodeProposalPayload_zero\<lparr>cpp_Input := Some cisb, cpp_TransientMap := None\<rparr>))) = Inr pay"
    "prop_Payload prop = Some pay"
    by (rule create_proposal_parts [OF made]) simp
  have "length cisb \<le> 1000"
    using marshal_bytes_part [OF P(1) [unfolded ChaincodeProposalPayload_msg_def], of 1 "Some cisb"] P(2) small(2) by simp
  moreover have "pPayl = ChaincodeProposalPayload_zero\<lparr>cpp_Input := nil_if_empty (Some cisb), cpp_TransientMap := None\<rparr>"
    using read_proposal_payload [OF run_iter_free _ _ P(1)] small(2) P(2) pPayl by (simp add: gmap_ok_def)
  then have "proto_Marshal run_iter (Some (ChaincodeProposalPayload_msg
      (ChaincodeProposalPayload_zero\<lparr>cpp_Input := nil_if_empty (Some cisb), cpp_TransientMap := None\<rparr>))) = Inr ppb"
    using ppb by (simp add: GetBytesProposalPayloadForTx_def GetBytesChaincodeProposalPayload_def res_wrap_eq_Inr)
  ultimately have "length ppb \<le> 10000"
    using marshal_bound [OF run_iter_free, of _ ppb]
    by (fastforce simp: ChaincodeProposalPayload_msg_def ChaincodeProposalPayload_zero_def)
  then have "length capb \<le> 100000"
    using marshal_bound [OF run_iter_free capb]
    by (simp add: ChaincodeActionPayload_msg_def ChaincodeActionPayload_zero_def ChaincodeEndorsedAction_msg_def
        ChaincodeEndorsedAction_zero_def tx_endorsed_action_def demo_response_ok Endorsement_msg_def Endorsement_zero_def)
  then have "length txb \<le> 1000000"
    using marshal_bound [OF run_iter_free txb] h small(1)
    by (simp add: Transaction_msg_def Transaction_zero_def TransactionAction_msg_def TransactionAction_zero_def)
  then have "length payb \<le> 10000000"
    using marshal_bound [OF run_iter_free payb] h small(1)
    by (simp add: Payload_msg_def Payload_zero_def Header_msg_def)
  moreover have "sig = ''z''" using sig by (simp add: demo_signer_def)
  ultimately show ?thesis
    using marshal_bound [OF run_iter_free eb] by (simp add: env Envelope_msg_def Envelope_zero_def)
qed

lemma demo_submission:
  obtains proposal env eb where
    "CreateChaincodeProposalWithTxIDNonceAndTransient run_iter (Inr Timestamp_zero) demo_id 3 ''ch'' run_cis
       (Some demo_nonce) (Some ''User1'') None = Done (Inr (proposal, demo_id))"
    "CreateSignedTx run_iter proposal demo_signer [demo_response] = Done (Inr env)"
    "proto_Marshal run_iter (Some (Envelope_msg env)) = Inr eb"
    "length (slice_bytes (prop_Header proposal)) < 2 ^ 64" "length eb < 2 ^ 64"
proof -
  have "valid_utf8 demo_id" by (simp add: demo_id_def ComputeTxID_def hex_encode_utf8)
  moreover have "length demo_id \<le> 100" using ComputeTxID_length [of "Some demo_nonce" "Some ''User1''"] by (simp add: demo_id_def)
  ultimately obtain q where p: "CreateChaincodeProposalWithTxIDNonceAndTransient run_iter (Inr Timestamp_zero)
      demo_id 3 ''ch'' run_cis (Some demo_nonce) (Some ''User1'') None = Done (Inr (q, demo_id))"
    "length (slice_bytes (prop_Header q)) \<le> 10000" "length (slice_bytes (prop_Payload q)) \<le> 1000"
    using run_any_id [of demo_id demo_nonce "''User1''"] by (auto simp: demo_nonce_def)
  have hsmall: "length (slice_bytes (prop_Header q)) < 2 ^ 64" using p(2) by simp
  obtain hdr sh where H: "checked (UnmarshalHeader (prop_Header q)) = Inr hdr"
    "checked (UnmarshalSignatureHeader (hdr_SignatureHeader hdr)) = Inr sh" "slice_bytes (sh_Creator sh) = ''User1''"
    by (rule proposal_headers [OF p(1) run_iter_free hsmall]) (auto simp: Timestamp_zero_def)
  obtain cisb pay where P: "proto_Marshal run_iter (Some (ChaincodeProposalPayload_msg
       (ChaincodeProposalPayload_zero\<lparr>cpp_Input := Some cisb, cpp_TransientMap := None\<rparr>))) = Inr pay"
    "prop_Payload q = Some pay"
    by (rule create_proposal_parts [OF p(1)]) simp
  obtain cpp where cpp: "checked (UnmarshalChaincodeProposalPayload (prop_Payload q)) = Inr cpp"
    using read_proposal_payload [OF run_iter_free _ _ P(1)] p(3) P(2) by (simp add: gmap_ok_def)
  obtain env where env: "CreateSignedTx run_iter q demo_signer [demo_response] = Done (Inr env)"
    using client_succeeds [OF H(1) cpp H(2), of demo_signer "[demo_response]"]
    by (auto simp: demo_signer_def H(3) demo_response_ok)
  obtain eb where eb: "proto_Marshal run_iter (Some (Envelope_msg env)) = Inr eb"
    by (simp add: proto_Marshal_def Envelope_msg_def)
  show ?thesis
    by (rule that [OF p(1) env eb hsmall demo_envelope_small [OF p(1-3) env eb]])
qed

text \<open>The block with that one envelope.\<close>

definition block_of :: "bytes \<Rightarrow> Block" where
  "block_of eb = \<lparr>blk_Header = Some \<lparr>bh_Number = 5, bh_PreviousHash = None, bh_DataHash = None, bh_unknown = []\<rparr>,
     blk_Data = Some \<lparr>bd_Data = [Some eb], bd_unknown = []\<rparr>,
     blk_Metadata = Some \<lparr>bm_Metadata = [None, None, Some [char_of (0 :: nat)]], bm_unknown = []\<rparr>,
     blk_unknown = []\<rparr>"

lemma block_of_parts:
  "blk_Header (block_of eb) = Some \<lparr>bh_Number = 5, bh_PreviousHash = None, bh_DataHash = None, bh_unknown = []\<rparr>"
  "blk_Data (block_of eb) = Some \<lparr>bd_Data = [Some eb], bd_unknown = []\<rparr>"
  "blk_Metadata (block_of eb) = Some \<lparr>bm_Metadata = [None, None, Some [char_of (0 :: nat)]], bm_unknown = []\<rparr>"
  by (simp_all add: block_of_def)

lemma log_driver_steps: "drv_begin log_driver d = None" "drv_commit log_driver d stmts = (d @ stmts, None)"
  by (simp_all add: log_driver_def)

section \<open>From the submission to the row\<close>

text \<open>
  C6: When \<open>InvokeCC\<close> returned, the SDK built the envelope from a proposal with the nonce, creator
  and id of that call, and the id is still remembered when a block with that envelope at position
  \<open>i\<close> arrives, then the \<open>i\<close>th row of the block is the transaction: its id, the submitting peer, its
  kind, the verdict for its position and the time of the proposal; afterwards the id is forgotten.
\<close>

theorem submission_recorded:
  fixes s s1 s2 :: "'d server"
  assumes "network_ok f p" "query_peers k f = Done p" "mset (iter p) = mset p"
    and "go_index (Orgs f) (sint index) = Done o1" "signing k (org_Config o1) creator nonce"
    and "InvokeCC k now tj iter f peer peerType index channelID ccID function args s = (Done x, s1)"
    and "txid = ComputeTxID (Some nonce) (Some creator)" "TxList s2 txid = TxList s1 txid"
    and "order_free it" "ts_unknown ts = []"
    and "CreateChaincodeProposalWithTxIDNonceAndTransient it (Inr ts) txid typ channelID cis (Some nonce)
      (Some creator) tm = Done (Inr (proposal, t))"
    and "CreateSignedTx it proposal signer resps = Done (Inr env)"
    and "proto_Marshal it (Some (Envelope_msg env)) = Inr eb"
    and "length (slice_bytes (prop_Header proposal)) < 2 ^ 64" "length eb < 2 ^ 64"
    and "blk_Header b = Some h" "bh_Number h \<noteq> 0" "blk_Data b = Some dat" "blk_Metadata b = Some m"
    and "map envelope_header (bd_Data dat) = map Some hs" "distinct (map ch_TxId hs)"
    and "i < length (bd_Data dat)" "bd_Data dat ! i = Some eb"
    and "2 < length (bm_Metadata m)" "flags = slice_bytes (bm_Metadata m ! 2)" "length hs \<le> length flags"
    and "drv_begin drv (DB s2) = None" "balance_of k f ''alice'' = Done alice" "balance_of k f ''bob'' = Done bob"
    and "ty = PeerType (submitted peer peerType p)"
  shows "\<exists>stmts. DB (snd (updateBlock k drv tj f appConf (Some b) s2)) = fst (drv_commit drv (DB s2) stmts) \<and>
    length stmts = length (bd_Data dat) + 1 \<and>
    stmts ! i = tx_statement (bh_Number h) (app_TxNumPerBlock appConf) i txid peer (tx_kind ty)
      (tx_status ty (word_of_nat (code (flags ! i)))) (unix_time (ts_Seconds ts) (scast (ts_Nanos ts))) \<and>
    TxList (snd (updateBlock k drv tj f appConf (Some b) s2)) txid = None"
proof -
  obtain g where g: "envelope_header (Some eb) = Some g" "ch_TxId g = txid"
    "header_time g = unix_time (ts_Seconds ts) (scast (ts_Nanos ts))"
    by (rule envelope_names_transaction [OF assms(9-15)])
  have len: "length (bd_Data dat) = length hs" using assms(20) by (metis length_map)
  have hi: "hs ! i = g" "i < length hs"
    using arg_cong [OF assms(20), of "\<lambda>l. l ! i"] assms(22,23) len g(1) by simp_all
  have mem: "TxList s2 (ch_TxId (hs ! i)) = Some (submitted peer peerType p)"
    using invoke_remembers [OF assms(1-6)] assms(7,8) hi(1) g(2) by simp
  let ?as = "attributions (TxList s2) default_entry hs"
  let ?rows = "tx_rows (bh_Number h) (app_TxNumPerBlock appConf) flags 0 (zip hs ?as)"
  note run = updateBlock_run [OF assms(16-21,24-29)]
  have "zip hs ?as ! i = (g, submitted peer peerType p)"
    using attributions_at [where txl = "TxList s2", OF hi(2) mem] hi by simp
  then have row: "(?rows @ [r]) ! i = tx_row (bh_Number h) (app_TxNumPerBlock appConf) flags i g
      (submitted peer peerType p)" for r
    using tx_rows_at [of i "zip hs ?as" g] hi(2) by (simp add: nth_append)
  have "txid \<in> ch_TxId ` set hs" using hi g(2) nth_mem by fastforce
  then have "TxList (snd (updateBlock k drv tj f appConf (Some b) s2)) txid = None"
    using run by simp
  moreover have "length (?rows @ [r]) = length (bd_Data dat) + 1" for r using len by simp
  moreover have "tx_row (bh_Number h) (app_TxNumPerBlock appConf) flags i g (submitted peer peerType p) =
      tx_statement (bh_Number h) (app_TxNumPerBlock appConf) i txid peer (tx_kind ty)
        (tx_status ty (word_of_nat (code (flags ! i)))) (unix_time (ts_Seconds ts) (scast (ts_Nanos ts)))"
    by (simp add: tx_row_def g assms(30) submitted_def)
  ultimately show ?thesis using run row by metis
qed

theorem submission_recorded_witness:
  "\<exists>eb s1 row. InvokeCC demo_sdk TimeZero (\<lambda>_. None) rev net10 ''peer0.org1.example.com'' 0 0
      ''ch'' ''token'' ''transfer'' [] (demo_server Map.empty []) = (Done (Some ''ok'', ''tx'', None), s1) \<and>
    DB (snd (updateBlock demo_sdk log_driver (\<lambda>_. None) net10 tiny_conf (Some (block_of eb)) s1)) =
      [tx_statement 5 10 0 demo_id ''peer0.org1.example.com'' 0 0 (TimeUnix 0 0), row] \<and>
    TxList (snd (updateBlock demo_sdk log_driver (\<lambda>_. None) net10 tiny_conf (Some (block_of eb)) s1)) demo_id = None"
proof -
  let ?s = "demo_server Map.empty ([] :: statement list)"
  obtain proposal env eb where D: "CreateChaincodeProposalWithTxIDNonceAndTransient run_iter (Inr Timestamp_zero)
      demo_id 3 ''ch'' run_cis (Some demo_nonce) (Some ''User1'') None = Done (Inr (proposal, demo_id))"
    "CreateSignedTx run_iter proposal demo_signer [demo_response] = Done (Inr env)"
    "proto_Marshal run_iter (Some (Envelope_msg env)) = Inr eb"
    "length (slice_bytes (prop_Header proposal)) < 2 ^ 64" "length eb < 2 ^ 64"
    by (rule demo_submission)
  have plain: "ts_unknown Timestamp_zero = []" by (simp add: Timestamp_zero_def)
  obtain g where g: "envelope_header (Some eb) = Some g"
    by (rule envelope_names_transaction [OF run_iter_free plain D])
  obtain s1 where run: "InvokeCC demo_sdk TimeZero (\<lambda>_. None) rev net10 ''peer0.org1.example.com'' 0 0
      ''ch'' ''token'' ''transfer'' [] ?s = (Done (Some ''ok'', ''tx'', None), s1)"
    using invoke_run [where iter = rev and index = 0 and s = ?s and
        resp = "\<lparr>TransactionID = ''tx'', TxPayload = Some ''ok''\<rparr>" and err = None,
        OF demo_network [of 0] demo_peers mset_rev _ _ demo_signing]
    by (simp add: demo_orgs demo_execute)
  have db: "DB s1 = []"
    using InvokeCC_keeps_DB [of demo_sdk TimeZero "\<lambda>_. None" rev net10 _ 0 0] run by (metis demo_server_simps(2) snd_conv)
  have org: "go_index (Orgs net10) (sint (0 :: gint)) = Done (Orgs net10 ! 0)"
    by (simp add: go_index_Done demo_orgs)
  have sig: "signing demo_sdk (org_Config (Orgs net10 ! 0)) ''User1'' demo_nonce"
    using demo_signing by (simp add: demo_nonce_def)
  let ?after = "updateBlock demo_sdk log_driver (\<lambda>_. None) net10 tiny_conf (Some (block_of eb)) s1"
  note recorded = submission_recorded [where b = "block_of eb" and hs = "[g]" and i = 0 and drv = log_driver and
      iter = rev and appConf = tiny_conf and alice = None and bob = None and ?s2.0 = s1 and tj = "\<lambda>_. None",
      OF demo_network demo_peers mset_rev org sig run demo_id_def refl run_iter_free plain D
        block_of_parts(1) _ block_of_parts(2,3) _ _ _ _ _ refl _ log_driver_steps(1) demo_balance demo_balance refl]
  obtain stmts where stmts: "DB (snd ?after) = DB s1 @ stmts" "length stmts = 2"
    "stmts ! 0 = tx_statement 5 10 0 demo_id ''peer0.org1.example.com'' (tx_kind 0) (tx_status 0 0) (unix_time 0 0)"
    "TxList (snd ?after) demo_id = None"
    using recorded
    by (auto simp: g log_driver_steps submitted_def tiny_conf_def zero_flag Timestamp_zero_def)
  obtain first row where l: "stmts = [first, row]"
    using stmts(2) by (cases stmts; cases "tl stmts") auto
  have "first = tx_statement 5 10 0 demo_id ''peer0.org1.example.com'' 0 0 (TimeUnix 0 0)"
    using stmts(3) by (simp add: l tx_kind_def tx_status_def unix_time_def)
  then have "DB (snd ?after) = [tx_statement 5 10 0 demo_id ''peer0.org1.example.com'' 0 0 (TimeUnix 0 0), row]"
    using stmts(1) db by (simp add: l)
  then show ?thesis using run stmts(4) by blast
qed

end
