(* ===== verification/Home_Page.thy ===== *)
theory Home_Page
  imports Http_Handlers
begin

text \<open>
  The demonstration page of the server: \<open>home\<close> and \<open>homeTemplate\<close> of \<open>src/main.go\<close>. The template has
  one action, the address of the \<open>echo\<close> socket inside a string literal of the page's script, where
  \<open>html/template\<close> escapes it for JavaScript. The address contains the \<open>Host\<close> of the request.
\<close>

section \<open>Escaping for a JavaScript string\<close>

text \<open>
  The replacement of one ASCII character in a string literal (\<open>html/template\<close>, tables
  \<open>lowUnicodeReplacementTable\<close> and \<open>jsStrReplacementTable\<close>): control characters and everything
  that could end the literal, the script element or an attribute.
\<close>

definition js_replacement :: "char \<Rightarrow> string option" where
  "js_replacement c =
     (if c = CHR 0x09 then Some (backslash # ''t'')
      else if c = CHR 0x0A then Some (backslash # ''n'')
      else if c = CHR 0x0C then Some (backslash # ''f'')
      else if c = CHR 0x0D then Some (backslash # ''r'')
      else if code c < 32 then Some (esc_u00 c)
      else if c = quote_char \<or> c = CHR 0x60 \<or> c = CHR 0x27 \<or> c = CHR ''&'' \<or> c = CHR ''+'' \<or> c = CHR ''<'' \<or>
          c = CHR ''>'' then Some (esc_u00 c)
      else if c = CHR ''/'' \<or> c = backslash then Some [backslash, c]
      else None)"

text \<open>U+2028 and U+2029, which end a line in JavaScript, are three bytes of UTF-8; all else is copied.\<close>

fun js_escape :: "string \<Rightarrow> string" where
  "js_escape (a # b # c # s) =
     (if a = CHR 0xE2 \<and> b = CHR 0x80 \<and> c = CHR 0xA8 then backslash # ''u2028'' @ js_escape s
      else if a = CHR 0xE2 \<and> b = CHR 0x80 \<and> c = CHR 0xA9 then backslash # ''u2029'' @ js_escape s
      else (case js_replacement a of None \<Rightarrow> [a] | Some r \<Rightarrow> r) @ js_escape (b # c # s))"
| "js_escape (a # s) = (case js_replacement a of None \<Rightarrow> [a] | Some r \<Rightarrow> r) @ js_escape s"
| "js_escape [] = []"

section \<open>The page\<close>

definition page_text :: "string list \<Rightarrow> string" where
  "page_text ls = join_with (CHR 0x0A) ls"

definition home_before :: string where
  "home_before = page_text
     [[],
      ''<!DOCTYPE html>'',
      ''<html>'',
      ''<head>'',
      ''<meta charset=\"utf-8\">'',
      ''<script>  '',
      ''window.addEventListener(\"load\", function(evt) {'',
      [],
      ''    var output = document.getElementById(\"output\");'',
      ''    var input = document.getElementById(\"input\");'',
      ''    var ws;'',
      [],
      ''    var print = function(message) {'',
      ''        var d = document.createElement(\"div\");'',
      ''        d.innerHTML = message;'',
      ''        output.appendChild(d);'',
      ''    };'',
      [],
      ''    document.getElementById(\"open\").onclick = function(evt) {'',
      ''        if (ws) {'',
      ''            return false;'',
      ''        }'',
      ''        ws = new WebSocket(\"'']"

definition home_after :: string where
  "home_after = page_text
     [''\");'',
      ''        ws.onopen = function(evt) {'',
      ''            print(\"OPEN\");'',
      ''        }'',
      ''        ws.onclose = function(evt) {'',
      ''            print(\"CLOSE\");'',
      ''            ws = null;'',
      ''        }'',
      ''        ws.onmessage = function(evt) {'',
      ''            print(\"RESPONSE: \" + evt.data);'',
      ''        }'',
      ''        ws.onerror = function(evt) {'',
      ''            print(\"ERROR: \" + evt.data);'',
      ''        }'',
      ''        return false;'',
      ''    };'',
      [],
      ''    document.getElementById(\"send\").onclick = function(evt) {'',
      ''        if (!ws) {'',
      ''            return false;'',
      ''        }'',
      ''        print(\"SEND: \" + input.value);'',
      ''        ws.send(input.value);'',
      ''        return false;'',
      ''    };'',
      [],
      ''    document.getElementById(\"close\").onclick = function(evt) {'',
      ''        if (!ws) {'',
      ''            return false;'',
      ''        }'',
      ''        ws.close();'',
      ''        return false;'',
      ''    };'',
      [],
      ''});'',
      ''</script>'',
      ''</head>'',
      ''<body>'',
      ''<table>'',
      ''<tr><td valign=\"top\" width=\"50%\">'',
      ''<p>Click \"Open\" to create a connection to the server, '',
      ''\"Send\" to send a message to the server and \"Close\" to close the connection. '',
      ''You can change the message and send multiple times.'',
      ''<p>'',
      ''<form>'',
      ''<button id=\"open\">Open</button>'',
      ''<button id=\"close\">Close</button>'',
      ''<p><input id=\"input\" type=\"text\" value=\"Hello world!\">'',
      ''<button id=\"send\">Send</button>'',
      ''</form>'',
      ''</td><td valign=\"top\" width=\"50%\">'',
      ''<div id=\"output\"></div>'',
      ''</td></tr></table>'',
      ''</body>'',
      ''</html>'',
      []]"

text \<open>\<open>home\<close> sets no header; the error of \<open>Execute\<close> is dropped.\<close>

definition echo_address :: "string \<Rightarrow> string" where
  "echo_address host = ''ws://'' @ host @ ''/echo''"

definition home_template :: "string \<Rightarrow> bytes" where
  "home_template data = home_before @ js_escape data @ home_after"

definition home :: "string \<Rightarrow> http_response" where
  "home host = \<lparr>hp_headers = [], hp_status = 200, hp_body = home_template (echo_address host)\<rparr>"

section \<open>Reading a string literal\<close>

text \<open>
  What a browser reads after the opening quote: the value of the literal and the text behind its
  closing quote. A line end inside the literal is a syntax error.
\<close>

function js_literal :: "string \<Rightarrow> (string \<times> string) option" where
  "js_literal [] = None"
| "js_literal (c # cs) =
     (if c = quote_char then Some ([], cs)
      else if c = CHR 0x0A \<or> c = CHR 0x0D then None
      else if c = backslash then
        (case cs of
           [] \<Rightarrow> None
         | e # es \<Rightarrow>
             if e = CHR ''u'' then
               (case hex4 es of
                  None \<Rightarrow> None
                | Some (r, es') \<Rightarrow> map_option (\<lambda>(s, t). (utf8_encode r @ s, t)) (js_literal es'))
             else
               (case simple_escape e of
                  None \<Rightarrow> None
                | Some x \<Rightarrow> map_option (\<lambda>(s, t). (x # s, t)) (js_literal es)))
      else map_option (\<lambda>(s, t). (c # s, t)) (js_literal cs))"
  by pat_completeness auto
termination by (relation "measure length") (auto dest: hex4_length)

declare js_literal.simps(2) [simp del]

lemma js_literal_plain:
  "c \<noteq> quote_char \<Longrightarrow> c \<noteq> CHR 0x0A \<Longrightarrow> c \<noteq> CHR 0x0D \<Longrightarrow> c \<noteq> backslash \<Longrightarrow>
    js_literal (c # cs) = map_option (\<lambda>(s, t). (c # s, t)) (js_literal cs)"
  by (simp add: js_literal.simps(2))

lemma js_literal_u00:
  "ascii c \<Longrightarrow> js_literal (esc_u00 c @ cs) = map_option (\<lambda>(s, t). (c # s, t)) (js_literal cs)"
  by (simp add: esc_u00_def js_literal.simps(2) hex4_u00 utf8_encode_def ascii_def)

lemma js_literal_simple:
  "simple_escape e = Some x \<Longrightarrow> e \<noteq> CHR ''u'' \<Longrightarrow>
    js_literal (backslash # e # cs) = map_option (\<lambda>(s, t). (x # s, t)) (js_literal cs)"
  by (simp add: js_literal.simps(2))

lemma js_replacement_read:
  "js_literal ((case js_replacement c of None \<Rightarrow> [c] | Some r \<Rightarrow> r) @ cs) =
    map_option (\<lambda>(s, t). (c # s, t)) (js_literal cs)"
proof -
  have "code c < 32 \<Longrightarrow> ascii c" by (simp add: ascii_def)
  moreover have "code c \<noteq> 0 \<or> True" by simp
  moreover have "\<And>d. c = d \<Longrightarrow> code d < 128 \<Longrightarrow> ascii c" by (simp add: ascii_def)
  ultimately show ?thesis
    by (auto simp: js_replacement_def js_literal_u00 js_literal_simple simple_escape_def js_literal_plain
        ascii_def code_def)
qed

lemma js_literal_2028:
  "js_literal (backslash # ''u2028'' @ cs) =
    map_option (\<lambda>(s, t). (CHR 0xE2 # CHR 0x80 # CHR 0xA8 # s, t)) (js_literal cs)"
  "js_literal (backslash # ''u2029'' @ cs) =
    map_option (\<lambda>(s, t). (CHR 0xE2 # CHR 0x80 # CHR 0xA9 # s, t)) (js_literal cs)"
proof -
  have "char_of (226 :: nat) = CHR 0xE2" "char_of (128 :: nat) = CHR 0x80" "char_of (168 :: nat) = CHR 0xA8"
    "char_of (169 :: nat) = CHR 0xA9" by code_simp+
  then show "js_literal (backslash # ''u2028'' @ cs) =
      map_option (\<lambda>(s, t). (CHR 0xE2 # CHR 0x80 # CHR 0xA8 # s, t)) (js_literal cs)"
    "js_literal (backslash # ''u2029'' @ cs) =
      map_option (\<lambda>(s, t). (CHR 0xE2 # CHR 0x80 # CHR 0xA9 # s, t)) (js_literal cs)"
    by (simp_all add: js_literal.simps(2) hex4_def hex_val_2028 hex_val_0 utf8_encode_def)
qed

lemma js_literal_escape:
  "js_literal (js_escape s @ cs) = map_option (\<lambda>(x, t). (s @ x, t)) (js_literal cs)"
proof (induction s rule: js_escape.induct)
  case (1 a b c s)
  then show ?case
    using js_replacement_read [of a "js_escape (b # c # s) @ cs"] js_literal_2028 [of "js_escape s @ cs"]
    by (auto simp: option.map_comp comp_def split_def)
qed (use js_replacement_read in \<open>auto simp: option.map_comp comp_def split_def option.map_ident\<close>)

text \<open>The characters that could end the literal, the line or the script element.\<close>

definition js_safe :: "char \<Rightarrow> bool" where
  "js_safe c \<longleftrightarrow> c \<notin> {quote_char, CHR 0x27, CHR 0x60, CHR ''<'', CHR ''>'', CHR ''&'', CHR 0x0A, CHR 0x0D}"

lemma js_safe_hex: "d < 16 \<Longrightarrow> js_safe (hex_digit d)"
proof -
  have "\<forall>d\<in>set [0..<16]. js_safe (hex_digit d)" by code_simp
  then show "d < 16 \<Longrightarrow> js_safe (hex_digit d)" by simp
qed

lemma js_safe_u00: "list_all js_safe (esc_u00 c)"
proof -
  have "code c div 16 < 16" "code c mod 16 < 16" using code_less [of c] by auto
  moreover have "js_safe backslash" "js_safe (CHR ''u'')" "js_safe (CHR ''0'')" by (simp_all add: js_safe_def)
  ultimately show ?thesis by (simp add: esc_u00_def js_safe_hex)
qed

lemma js_replacement_cases:
  assumes "js_replacement c = Some r"
  shows "r = esc_u00 c \<or> r \<in> {backslash # ''t'', backslash # ''n'', backslash # ''f'', backslash # ''r'',
    backslash # ''/'', [backslash, backslash]}"
  using assms by (auto simp: js_replacement_def split: if_splits)

lemma js_replacement_None: "js_replacement c = None \<Longrightarrow> js_safe c"
proof (rule ccontr)
  assume c: "js_replacement c = None" "\<not> js_safe c"
  then have "c \<in> {quote_char, CHR 0x27, CHR 0x60, CHR ''<'', CHR ''>'', CHR ''&'', CHR 0x0A, CHR 0x0D}"
    by (simp add: js_safe_def)
  then have "js_replacement c \<noteq> None"
    by (elim insertE emptyE) (simp_all add: js_replacement_def)
  then show False using c(1) by simp
qed

lemma js_replacement_safe: "list_all js_safe (case js_replacement c of None \<Rightarrow> [c] | Some r \<Rightarrow> r)"
proof (cases "js_replacement c")
  case (Some r)
  have "list_all js_safe (backslash # ''tnfr/'')" by (simp add: js_safe_def)
  then show ?thesis using js_replacement_cases [OF Some] Some js_safe_u00 by auto
qed (simp add: js_replacement_None)

lemma js_escape_safe: "list_all js_safe (js_escape s)"
proof (induction s rule: js_escape.induct)
  case (1 a b c s)
  have "list_all js_safe (backslash # ''u2028'')" "js_safe (CHR ''9'')" by (simp_all add: js_safe_def)
  then show ?case using 1 js_replacement_safe [of a] by auto
qed (use js_replacement_safe in auto)

end
