(* ===== verification/Http_Routes.thy ===== *)
theory Http_Routes
  imports Home_Page
begin

text \<open>
  How a request finds its handler: the table \<open>main\<close> of \<open>src/main.go\<close> registers, and what
  \<open>net/http\<close>'s \<open>ServeMux\<close> does with it. A path that is not clean is redirected to its clean form;
  a clean path goes to the handler registered for exactly this path, else to the one with the
  longest registered prefix that ends in a slash.
\<close>

section \<open>The table\<close>

datatype route =
    Rinvoke | Rquery | RblockPage | RblockNumber | Rblock | RtransactionPage | RtransactionNumber | Rtransaction
  | Rmuma | RpeerList | RgetStatistics | RtimerControl | RcontrollerState | Rhome | Recho

definition main_routes :: "(string \<times> route) list" where
  "main_routes =
     [(''/invoke'', Rinvoke), (''/query'', Rquery), (''/block/page'', RblockPage),
      (''/block/number'', RblockNumber), (''/block'', Rblock), (''/transaction/page'', RtransactionPage),
      (''/transaction/number'', RtransactionNumber), (''/transaction'', Rtransaction), (''/muma'', Rmuma),
      (''/peers'', RpeerList), (''/statistics'', RgetStatistics), (''/controller'', RtimerControl),
      (''/controllerState'', RcontrollerState), (''/'', Rhome), (''/echo'', Recho)]"

text \<open>\<open>http.HandleFunc\<close>, once per entry: an empty or a repeated pattern panics.\<close>

fun handle_all :: "(string \<times> 'h) list \<Rightarrow> (string \<times> 'h) list \<Rightarrow> (string \<times> 'h) list outcome" where
  "handle_all [] mux = Done mux"
| "handle_all ((pattern, h) # hs) mux =
     (if pattern = [] then Panic (EText ''http: invalid pattern'')
      else if pattern \<in> fst ` set mux then Panic (EText (''http: multiple registrations for '' @ pattern))
      else handle_all hs (mux @ [(pattern, h)]))"

definition main_mux :: "(string \<times> route) list" where
  "main_mux = (case handle_all main_routes [] of Done m \<Rightarrow> m | Panic e \<Rightarrow> [])"

section \<open>Finding the handler\<close>

fun longest :: "(string \<times> 'h) list \<Rightarrow> (string \<times> 'h) option" where
  "longest [] = None"
| "longest ((p, h) # ps) =
     (case longest ps of
        None \<Rightarrow> Some (p, h)
      | Some (q, g) \<Rightarrow> if length q \<le> length p then Some (p, h) else Some (q, g))"

definition is_prefix_pattern :: "string \<Rightarrow> string \<Rightarrow> bool" where
  "is_prefix_pattern path pattern \<longleftrightarrow> last pattern = CHR ''/'' \<and> take (length pattern) path = pattern"

definition mux_match :: "(string \<times> 'h) list \<Rightarrow> string \<Rightarrow> 'h option" where
  "mux_match mux path =
     (case map_of mux path of
        Some h \<Rightarrow> Some h
      | None \<Rightarrow> map_option snd (longest (filter (\<lambda>e. is_prefix_pattern path (fst e)) mux)))"

text \<open>\<open>cleanPath\<close> of \<open>net/http\<close>: the clean path below the root, with the trailing slash kept.\<close>

definition clean_path :: "string \<Rightarrow> string" where
  "clean_path p =
     (let p = (if p = [] then ''/'' else if hd p = CHR ''/'' then p else CHR ''/'' # p);
          np = path_Clean p in
      if last p = CHR ''/'' \<and> np \<noteq> ''/'' then np @ ''/'' else np)"

datatype 'h dispatch = Redirected string | Handled 'h | NotFound

definition dispatch :: "(string \<times> 'h) list \<Rightarrow> string \<Rightarrow> string \<Rightarrow> 'h dispatch" where
  "dispatch mux method path =
     (if method \<noteq> ''CONNECT'' \<and> clean_path path \<noteq> path then Redirected (clean_path path)
      else case mux_match mux path of None \<Rightarrow> NotFound | Some h \<Rightarrow> Handled h)"

section \<open>Clean paths stay clean\<close>

definition clean_part :: "string \<Rightarrow> bool" where
  "clean_part q \<longleftrightarrow> q \<noteq> [] \<and> q \<noteq> ''.'' \<and> q \<noteq> ''..'' \<and> CHR ''/'' \<notin> set q"

lemma clean_parts_clean:
  "\<forall>d\<in>set ds. clean_part d \<Longrightarrow> \<forall>p\<in>set ps. CHR ''/'' \<notin> set p \<Longrightarrow> \<forall>q\<in>set (clean_parts True ds ps). clean_part q"
proof (induction ps arbitrary: ds)
  case (Cons p ps)
  have free: "\<forall>p\<in>set ps. CHR ''/'' \<notin> set p" using Cons.prems(2) by simp
  show ?case
  proof (cases "p = [] \<or> p = ''.'' \<or> p = ''..''")
    case True
    have "ds = [] \<or> (\<exists>e es. ds = e # es \<and> e \<noteq> ''..'' \<and> (\<forall>d\<in>set es. clean_part d))"
      using Cons.prems(1) by (cases ds) (auto simp: clean_part_def)
    then have "clean_parts True ds (p # ps) = clean_parts True ds ps \<or>
        clean_parts True ds (p # ps) = clean_parts True (tl ds) ps \<and> (\<forall>d\<in>set (tl ds). clean_part d)"
      using True by auto
    then show ?thesis
    proof (elim disjE conjE)
      assume e: "clean_parts True ds (p # ps) = clean_parts True ds ps"
      show ?thesis unfolding e by (rule Cons.IH [OF Cons.prems(1) free])
    next
      assume e: "clean_parts True ds (p # ps) = clean_parts True (tl ds) ps" and tl: "\<forall>d\<in>set (tl ds). clean_part d"
      show ?thesis unfolding e by (rule Cons.IH [OF tl free])
    qed
  next
    case False
    then have "\<forall>d\<in>set (p # ds). clean_part d" using Cons.prems by (simp add: clean_part_def)
    from this free have "\<forall>q\<in>set (clean_parts True (p # ds) ps). clean_part q" by (rule Cons.IH)
    moreover have "clean_parts True ds (p # ps) = clean_parts True (p # ds) ps" using False by simp
    ultimately show ?thesis by (simp only:)
  qed
qed simp

lemma clean_parts_id:
  "\<forall>p\<in>set ps. p = [] \<or> clean_part p \<Longrightarrow> clean_parts r ds ps = rev ds @ filter (\<lambda>p. p \<noteq> []) ps"
  by (induction ps arbitrary: ds) (auto simp: clean_part_def)

lemma split_at_join_cons: "c \<notin> set p \<Longrightarrow> split_at c (p @ c # s) = p # split_at c s"
  by (induction p) auto

lemma split_at_one: "c \<notin> set p \<Longrightarrow> split_at c p = [p]"
  by (induction p) auto

lemma split_join: "ps \<noteq> [] \<Longrightarrow> \<forall>p\<in>set ps. c \<notin> set p \<Longrightarrow> split_at c (join_with c ps) = ps"
  by (induction c ps rule: join_with.induct) (simp_all add: split_at_one split_at_join_cons)

lemma join_trailing: "ps \<noteq> [] \<Longrightarrow> join_with c (ps @ [[]]) = join_with c ps @ [c]"
  by (induction c ps rule: join_with.induct) simp_all

text \<open>A rooted path whose components are clean, with or without a slash at its end.\<close>

lemma path_Clean_rooted:
  "path_Clean (CHR ''/'' # s) = CHR ''/'' # join_with (CHR ''/'') (clean_parts True [] (split_at (CHR ''/'') s))"
  by (simp add: path_Clean_def Let_def)

lemma path_Clean_join:
  assumes "\<forall>q\<in>set qs. clean_part q"
  shows "path_Clean (CHR ''/'' # join_with (CHR ''/'') qs) = CHR ''/'' # join_with (CHR ''/'') qs"
    and "qs \<noteq> [] \<Longrightarrow> path_Clean (CHR ''/'' # join_with (CHR ''/'') qs @ ''/'') = CHR ''/'' # join_with (CHR ''/'') qs"
proof -
  have f: "filter (\<lambda>p. p \<noteq> []) qs = qs" using assms by (simp add: clean_part_def filter_id_conv)
  have free: "\<forall>q\<in>set qs. CHR ''/'' \<notin> set q" using assms by (simp add: clean_part_def)
  show "path_Clean (CHR ''/'' # join_with (CHR ''/'') qs) = CHR ''/'' # join_with (CHR ''/'') qs"
  proof (cases "qs = []")
    case False
    then show ?thesis
      using assms by (simp add: path_Clean_rooted split_join free clean_parts_id f)
  qed (simp add: path_Clean_rooted)
  show "path_Clean (CHR ''/'' # join_with (CHR ''/'') qs @ ''/'') = CHR ''/'' # join_with (CHR ''/'') qs" if "qs \<noteq> []"
  proof -
    have "split_at (CHR ''/'') (join_with (CHR ''/'') qs @ ''/'') = qs @ [[]]"
      using split_join [of "qs @ [[]]" "CHR ''/''"] free that by (simp add: join_trailing)
    then show ?thesis using assms by (simp add: path_Clean_rooted clean_parts_id f)
  qed
qed

lemma join_with_last: "qs \<noteq> [] \<Longrightarrow> \<forall>q\<in>set qs. clean_part q \<Longrightarrow> last (join_with c qs) = last (last qs) \<and> join_with c qs \<noteq> []"
  by (induction c qs rule: join_with.induct) (auto simp: clean_part_def)

lemma clean_path_form:
  "\<exists>qs. (\<forall>q\<in>set qs. clean_part q) \<and>
     (clean_path p = CHR ''/'' # join_with (CHR ''/'') qs \<or>
      qs \<noteq> [] \<and> clean_path p = CHR ''/'' # join_with (CHR ''/'') qs @ ''/'')"
proof -
  obtain s where s: "(if p = [] then ''/'' else if hd p = CHR ''/'' then p else CHR ''/'' # p) = CHR ''/'' # s"
    by (cases p; cases "hd p = CHR ''/''") auto
  let ?qs = "clean_parts True [] (split_at (CHR ''/'') s)"
  have "\<forall>q\<in>set ?qs. clean_part q" by (rule clean_parts_clean) (auto dest: split_at_free)
  moreover have "clean_path p = CHR ''/'' # join_with (CHR ''/'') ?qs \<or>
      ?qs \<noteq> [] \<and> clean_path p = CHR ''/'' # join_with (CHR ''/'') ?qs @ ''/''"
    unfolding clean_path_def Let_def s path_Clean_rooted by (cases ?qs) auto
  ultimately show ?thesis by blast
qed

lemma clean_path_idem: "clean_path (clean_path p) = clean_path p"
proof -
  obtain qs where qs: "\<forall>q\<in>set qs. clean_part q"
    "clean_path p = CHR ''/'' # join_with (CHR ''/'') qs \<or>
      qs \<noteq> [] \<and> clean_path p = CHR ''/'' # join_with (CHR ''/'') qs @ ''/''"
    using clean_path_form by blast
  show ?thesis
  proof (cases "qs = []")
    case True
    then show ?thesis using qs(2) by (auto simp: clean_path_def path_Clean_rooted)
  next
    case False
    have l: "last (join_with (CHR ''/'') qs) = last (last qs)" "join_with (CHR ''/'') qs \<noteq> []"
      using join_with_last [OF False qs(1)] by blast+
    have "clean_part (last qs)" using qs(1) False by simp
    then have n: "last (last qs) \<noteq> CHR ''/''" unfolding clean_part_def by (metis last_in_set)
    let ?q = "CHR ''/'' # join_with (CHR ''/'') qs"
    have "last ?q \<noteq> CHR ''/''" "?q \<noteq> ''/''" using l n by simp_all
    then have "clean_path ?q = ?q" "clean_path (?q @ ''/'') = ?q @ ''/''"
      using path_Clean_join [OF qs(1)] False by (simp_all add: clean_path_def Let_def)
    then show ?thesis using qs(2) by auto
  qed
qed

lemma clean_path_rooted: "\<exists>s. clean_path p = CHR ''/'' # s"
  using clean_path_form [of p] by blast

section \<open>The table is well formed\<close>

lemma main_mux_eq: "handle_all main_routes [] = Done main_routes" "main_mux = main_routes"
  by (simp_all add: main_mux_def main_routes_def)

lemma main_mux_match:
  "mux_match main_mux (CHR ''/'' # s) =
     Some (case map_of main_routes (CHR ''/'' # s) of Some h \<Rightarrow> h | None \<Rightarrow> Rhome)"
proof -
  have "filter (\<lambda>e. is_prefix_pattern (CHR ''/'' # s) (fst e)) main_routes = [(''/'', Rhome)]"
    by (simp add: main_routes_def is_prefix_pattern_def)
  then show ?thesis by (simp add: mux_match_def main_mux_eq split: option.split)
qed

lemma dispatch_clean:
  "dispatch main_mux method (clean_path path) =
     Handled (case map_of main_routes (clean_path path) of Some h \<Rightarrow> h | None \<Rightarrow> Rhome)"
  using clean_path_rooted [of path] main_mux_match by (auto simp: dispatch_def clean_path_idem)

end
