(* ===== verification/Server_Process.thy ===== *)
theory Server_Process
  imports Http_Routes
begin

text \<open>
  The server as one process: requests of any kind, ticks of the timer, blocks handed over by the
  listener and websockets that close, in any order. Each event comes with its own circumstances:
  what the SDK answers during it, the clock, the orders in which Go iterates over maps. An event
  is one step here; how goroutines interleave inside the statistics and the broadcasts is the
  subject of \<open>Statistics_Race\<close> and \<open>Broadcast\<close>.

  A panic of a handler is recovered by \<open>net/http\<close>; a panic in a goroutine of its own (a timer
  transfer, \<open>updateBlock\<close>) ends the process, and the step is \<open>None\<close>.
\<close>

section \<open>The process\<close>

record 'd setting =
  se_driver :: "'d driver"
  se_provider :: FabSdkProvider
  se_conf :: Application
  se_time :: time_format
  se_error :: "go_error \<Rightarrow> string"

record circumstances =
  cx_sdk :: sdk
  cx_now :: gtime
  cx_peers :: "bool gmap \<Rightarrow> (string \<times> bool) list"
  cx_params :: "string gmap \<Rightarrow> (string \<times> string) list"
  cx_upgrade :: "go_error option"
  cx_uid :: string

record connection =
  cn_request :: http_request
  cn_path :: string
  cn_host :: string

datatype reply = Reply http_response | Moved string | Missing | Refused | Socket feed | EchoSocket

datatype process_event =
    Serve circumstances connection
  | Tick circumstances
  | Arrive circumstances "Block option"
  | Closed feed string

definition open_socket :: "feed \<Rightarrow> circumstances \<Rightarrow> ('d, reply) action" where
  "open_socket fd cx =
     (if cx_upgrade cx \<noteq> None then act (Done Refused)
      else act_bind (modify (subscribe fd (cx_uid cx))) (\<lambda>_. act (Done (Socket fd))))"

definition answered :: "('d, http_response) action \<Rightarrow> ('d, reply) action" where
  "answered m = act_bind m (\<lambda>p. act (Done (Reply p)))"

fun handle :: "'d setting \<Rightarrow> circumstances \<Rightarrow> connection \<Rightarrow> route \<Rightarrow> ('d, reply) action" where
  "handle st cx cn Rinvoke = answered (invoke (se_error st) (cx_sdk cx) (cx_now cx) (se_time st) (cx_peers cx)
     (se_provider st) (cn_request cn))"
| "handle st cx cn Rquery = answered (act (query (se_error st) (cx_sdk cx) (se_provider st) (cn_request cn)))"
| "handle st cx cn RblockPage = answered (access (\<lambda>s. blockPage (se_error st) (se_driver st) (cn_request cn) (DB s)))"
| "handle st cx cn RblockNumber = open_socket BlockNumberFeed cx"
| "handle st cx cn Rblock = open_socket BlockFeed cx"
| "handle st cx cn RtransactionPage =
     answered (access (\<lambda>s. transactionPage (se_error st) (se_driver st) (cn_request cn) (DB s)))"
| "handle st cx cn RtransactionNumber = open_socket TxNumberFeed cx"
| "handle st cx cn Rtransaction = open_socket TxFeed cx"
| "handle st cx cn Rmuma = answered (muma (se_error st) (cx_sdk cx) (se_driver st) (cx_now cx) (se_time st)
     (cx_peers cx) (cx_params cx) (se_provider st) (cn_request cn))"
| "handle st cx cn RpeerList = answered (access (\<lambda>s. peerList (se_error st) (se_driver st) (DB s)))"
| "handle st cx cn RgetStatistics = answered (access (getStatistics (se_error st) (se_time st)))"
| "handle st cx cn RtimerControl = answered (timerControl (se_error st))"
| "handle st cx cn RcontrollerState = answered (controllerState (se_error st))"
| "handle st cx cn Rhome = answered (act (Done (home (cn_host cn))))"
| "handle st cx cn Recho = act (Done (if cx_upgrade cx \<noteq> None then Refused else EchoSocket))"

definition serve :: "'d setting \<Rightarrow> circumstances \<Rightarrow> connection \<Rightarrow> ('d, reply) action" where
  "serve st cx cn =
     (case dispatch main_mux (hq_method (cn_request cn)) (cn_path cn) of
        Redirected p \<Rightarrow> act (Done (Moved p))
      | NotFound \<Rightarrow> act (Done Missing)
      | Handled h \<Rightarrow> handle st cx cn h)"

definition survives :: "unit outcome \<times> 'd server \<Rightarrow> 'd server option" where
  "survives r = (case r of (Done _, s) \<Rightarrow> Some s | (Panic _, s) \<Rightarrow> None)"

fun process_step :: "'d setting \<Rightarrow> process_event \<Rightarrow> 'd server \<Rightarrow> 'd server option" where
  "process_step st (Serve cx cn) s = Some (snd (serve st cx cn s))"
| "process_step st (Tick cx) s =
     survives (timer_tick (cx_sdk cx) (cx_now cx) (se_time st) (cx_peers cx) (se_provider st) s)"
| "process_step st (Arrive cx b) s =
     survives (updateBlock (cx_sdk cx) (se_driver st) (se_time st) (se_provider st) (se_conf st) b s)"
| "process_step st (Closed fd uid) s = Some (unsubscribe fd uid s)"

section \<open>What an invocation does to the process\<close>

text \<open>
  The entry and the transfer of an invocation depend on the circumstances only, not on the
  process. The first part, up to the peers of the ledger, decides about the entry.
\<close>

definition submission ::
    "sdk \<Rightarrow> (bool gmap \<Rightarrow> (string \<times> bool) list) \<Rightarrow> FabSdkProvider \<Rightarrow> gint \<Rightarrow> string \<Rightarrow>
     (OrgInfo \<times> (bytes \<times> bytes \<times> string) \<times> gint list \<times> gint list) option" where
  "submission k iter f index channelID =
     (case go_index (Orgs f) (sint index) of
        Panic e \<Rightarrow> None
      | Done org \<Rightarrow>
          (case tx_begin k channelID (org_Config org) of
             Inl e \<Rightarrow> None
           | Inr begun \<Rightarrow>
               (case out_bind (query_peers k f) (\<lambda>peers. split_peers (iter peers) ([], [])) of
                  Panic e \<Rightarrow> None
                | Done (nPeers, bPeers) \<Rightarrow> Some (org_Config org, begun, nPeers, bPeers))))"

definition invoke_entry ::
    "sdk \<Rightarrow> (bool gmap \<Rightarrow> (string \<times> bool) list) \<Rightarrow> FabSdkProvider \<Rightarrow> string \<Rightarrow> gint \<Rightarrow> gint \<Rightarrow> string \<Rightarrow>
     (string \<times> PeerTx) option" where
  "invoke_entry k iter f peer peerType index channelID =
     map_option (\<lambda>(_, (_, _, txid), _, bPeers).
       (txid, \<lparr>PeerName = peer, PeerType = (if peerType = 1 then word_of_nat (length bPeers) else peerType)\<rparr>))
     (submission k iter f index channelID)"

definition invoke_transfer ::
    "sdk \<Rightarrow> gtime \<Rightarrow> (bool gmap \<Rightarrow> (string \<times> bool) list) \<Rightarrow> FabSdkProvider \<Rightarrow> gint \<Rightarrow> gint \<Rightarrow> string \<Rightarrow> string \<Rightarrow>
     string \<Rightarrow> bytes list \<Rightarrow> transfer option" where
  "invoke_transfer k now iter f peerType index channelID ccID function args =
     (case submission k iter f index channelID of
        None \<Rightarrow> None
      | Some (org, (creator, nonce, txid), nPeers, bPeers) \<Rightarrow>
          (case choose_targets f nPeers bPeers of
             Panic e \<Rightarrow> None
           | Done targets \<Rightarrow>
               if function = ''transfer'' then
                 Some (now, snd (sdk_execute k \<lparr>rq_channel = channelID, rq_org = org, rq_ChaincodeID = ccID,
                   rq_Fcn = function, rq_Args = args\<rparr> creator nonce targets) = None, peerType, length bPeers)
               else None))"

definition put_entry :: "(string \<times> PeerTx) option \<Rightarrow> (string \<rightharpoonup> PeerTx) \<Rightarrow> (string \<rightharpoonup> PeerTx)" where
  "put_entry e m = (case e of None \<Rightarrow> m | Some (txid, x) \<Rightarrow> m(txid \<mapsto> x))"

definition put_transfer :: "transfer option \<Rightarrow> stats_heap \<Rightarrow> stats_heap" where
  "put_transfer t h = (case t of None \<Rightarrow> h | Some x \<Rightarrow> record_all [x] h)"

lemma InvokeCC_effects:
  "TxList (snd (InvokeCC k now tj iter f peer ty index ch cc fn args s)) =
     put_entry (invoke_entry k iter f peer ty index ch) (TxList s)"
  "StatisticsTable (snd (InvokeCC k now tj iter f peer ty index ch cc fn args s)) =
     put_transfer (invoke_transfer k now iter f ty index ch cc fn args) (StatisticsTable s)"
  "timerFlag (snd (InvokeCC k now tj iter f peer ty index ch cc fn args s)) = timerFlag s"
  by (auto simp: InvokeCC_def remember_tx_def count_transfer_def submission_def invoke_entry_def invoke_transfer_def
      put_entry_def put_transfer_def record_all_def
      split: outcome.splits sum.splits prod.splits option.splits)

end
