(* ===== verification/Process_Properties.thy ===== *)
theory Process_Properties
  imports Server_Process Listener_Properties
begin

text \<open>
  The server as a whole against an abstract office that only knows which transactions are
  pending, how many transfers were counted, and whether the timer runs. In every run of the
  process these three change exactly as the office says, whatever else the process does.
\<close>

section \<open>The office\<close>

record office =
  of_pending :: "string \<rightharpoonup> PeerTx"
  of_counters :: "int8 \<Rightarrow> counter \<Rightarrow> uint64"
  of_ticking :: bool

definition office_of :: "'d server \<Rightarrow> office" where
  "office_of s = \<lparr>of_pending = TxList s, of_counters = reading (StatisticsTable s), of_ticking = timerFlag s\<rparr>"

definition submit :: "(string \<times> PeerTx) option \<Rightarrow> transfer option \<Rightarrow> office \<Rightarrow> office" where
  "submit e t a =
     \<lparr>of_pending = put_entry e (of_pending a),
      of_counters = (\<lambda>num c. of_counters a num c + (case t of None \<Rightarrow> 0 | Some x \<Rightarrow> of_nat (counted [x] num c))),
      of_ticking = of_ticking a\<rparr>"

text \<open>An invocation of the token chaincode on \<open>mychannel1\<close>, the only one the server makes.\<close>

definition submit_token ::
    "'d setting \<Rightarrow> circumstances \<Rightarrow> string \<Rightarrow> gint \<Rightarrow> gint \<Rightarrow> string \<Rightarrow> bytes list \<Rightarrow> office \<Rightarrow> office" where
  "submit_token st cx peer ty index function args =
     submit (invoke_entry (cx_sdk cx) (cx_peers cx) (se_provider st) peer ty index ''mychannel1'')
       (invoke_transfer (cx_sdk cx) (cx_now cx) (cx_peers cx) (se_provider st) ty index ''mychannel1'' ''token''
          function args)"

text \<open>The ids a block settles: those of its envelopes, up to the first that cannot be read.\<close>

fun envelope_ids :: "bytes option list \<Rightarrow> string list" where
  "envelope_ids [] = []"
| "envelope_ids (b # bs) =
     (case GetEnvelopeFromBlock b of
        Inl e \<Rightarrow> []
      | Inr envelope \<Rightarrow>
          (case UnmarshalPayload (env_Payload envelope) of
             (_, Some e) \<Rightarrow> envelope_ids bs
           | (payload, None) \<Rightarrow>
               (case pl_Header payload of
                  None \<Rightarrow> []
                | Some h \<Rightarrow> ch_TxId (fst (UnmarshalChannelHeader (hdr_ChannelHeader h))) # envelope_ids bs)))"

definition block_ids :: "Block option \<Rightarrow> string list" where
  "block_ids block =
     (case block of
        None \<Rightarrow> []
      | Some b \<Rightarrow>
          (case (blk_Header b, blk_Data b) of
             (Some h, Some d) \<Rightarrow> if bh_Number h = 0 then [] else envelope_ids (bd_Data d)
           | _ \<Rightarrow> []))"

fun office_route :: "'d setting \<Rightarrow> circumstances \<Rightarrow> http_request \<Rightarrow> route \<Rightarrow> office \<Rightarrow> office" where
  "office_route st cx r Rinvoke a =
     (case peer_index (hq_form r ''peer'') of
        Panic e \<Rightarrow> a
      | Done i \<Rightarrow> submit_token st cx (hq_form r ''peer'') 1 (i - 1) ''transfer'' [''fab'', ''alice'', ''bob'', ''10'', ''true''] a)"
| "office_route st cx r Rmuma a =
     (case hq_body r of
        Inl e \<Rightarrow> a
      | Inr rBody \<Rightarrow>
          if hq_method r = ''OPTIONS'' then a
          else submit_token st cx ''peer0.org1.example.com'' 0 0 ''setPeer'' [''fab'', rBody, ''false''] a)"
| "office_route st cx r RtimerControl a = a\<lparr>of_ticking := \<not> of_ticking a\<rparr>"
| "office_route st cx r _ a = a"

fun office_step :: "'d setting \<Rightarrow> process_event \<Rightarrow> office \<Rightarrow> office" where
  "office_step st (Serve cx cn) a =
     (case dispatch main_mux (hq_method (cn_request cn)) (cn_path cn) of
        Handled h \<Rightarrow> office_route st cx (cn_request cn) h a
      | _ \<Rightarrow> a)"
| "office_step st (Tick cx) a =
     (if of_ticking a
      then submit_token st cx ''peer0.org1.example.com'' 0 0 ''transfer'' [''fab'', ''alice'', ''bob'', ''10'', ''false''] a
      else a)"
| "office_step st (Arrive cx b) a = a\<lparr>of_pending := of_pending a |` (- set (block_ids b))\<rparr>"
| "office_step st (Closed fd uid) a = a"

section \<open>The statistics of one event\<close>

lemma put_transfer_ok: "stats_ok h \<Longrightarrow> stats_ok (put_transfer t h)"
  using record_all_reading by (auto simp: put_transfer_def split: option.split)

lemma put_transfer_reading:
  "stats_ok h \<Longrightarrow> reading (put_transfer t h) =
     (\<lambda>num c. reading h num c + (case t of None \<Rightarrow> 0 | Some x \<Rightarrow> of_nat (counted [x] num c)))"
  using record_all_reading by (auto simp: put_transfer_def fun_eq_iff split: option.split)

text \<open>The struct \<open>ByzantineNum\<close> makes is in nobody's reach.\<close>

lemma GetTable_reading:
  assumes "stats_ok h"
  shows "reading (snd (GetTable now num h)) = reading h" "stats_ok (snd (GetTable now num h))"
proof -
  have lt: "\<And>k t. sta_table h k = Some t \<Longrightarrow> t < sta_next h" using assms by (simp add: stats_ok_def)
  show "reading (snd (GetTable now num h)) = reading h"
    using lt by (fastforce simp: GetTable_def reading_def fun_eq_iff split: option.splits)
  show "stats_ok (snd (GetTable now num h))"
    using assms lt by (fastforce simp: GetTable_def stats_ok_def less_Suc_eq split: option.splits)
qed

text \<open>A step of the process that agrees with a step of the office.\<close>

definition agrees :: "'d server \<Rightarrow> office \<Rightarrow> bool" where
  "agrees s a \<longleftrightarrow> office_of s = a \<and> stats_ok (StatisticsTable s)"

lemma agrees_of: "agrees s a \<Longrightarrow> stats_ok (StatisticsTable s)" "agrees s a \<Longrightarrow> a = office_of s"
  by (simp_all add: agrees_def)

lemma agrees_same:
  "agrees s a \<Longrightarrow> TxList s' = TxList s \<Longrightarrow> StatisticsTable s' = StatisticsTable s \<Longrightarrow> timerFlag s' = timerFlag s \<Longrightarrow>
    agrees s' a"
  by (simp add: agrees_def office_of_def)

lemma agrees_InvokeCC:
  assumes "agrees s a"
  shows "agrees (snd (InvokeCC (cx_sdk cx) (cx_now cx) tj (cx_peers cx) (se_provider st) peer ty index ''mychannel1''
      ''token'' function args s)) (submit_token st cx peer ty index function args a)"
proof -
  note ok = agrees_of(1) [OF assms] and a = agrees_of(2) [OF assms]
  show ?thesis
    unfolding a agrees_def
    by (simp add: office_of_def submit_token_def submit_def InvokeCC_effects put_transfer_ok [OF ok]
        put_transfer_reading [OF ok])
qed

section \<open>Requests\<close>

lemma answered_state [simp]: "snd (answered m s) = snd (m s)"
  by (simp add: answered_def split: prod.split outcome.split)

lemma invoke_state:
  "snd (invoke et k now tj iter f r s) =
     (case peer_index (hq_form r ''peer'') of
        Panic e \<Rightarrow> s
      | Done i \<Rightarrow> snd (InvokeCC k now tj iter f (hq_form r ''peer'') 1 (i - 1) ''mychannel1'' ''token'' ''transfer''
          [''fab'', ''alice'', ''bob'', ''10'', ''true''] s))"
  by (auto simp: invoke_def Let_def split: outcome.split prod.split)

text \<open>After its invocation \<open>muma\<close> only touches the database and makes the unreachable struct.\<close>

lemma agrees_ByzantineNum: "agrees s a \<Longrightarrow> agrees (snd (ByzantineNum k now f s)) a"
  by (cases "query_peers k f") (simp_all add: ByzantineNum_def agrees_def office_of_def GetTable_reading)

lemma agrees_muma:
  assumes "agrees s a"
  shows "agrees (snd (muma et (cx_sdk cx) drv (cx_now cx) tj (cx_peers cx) iter2 (se_provider st) r s))
    (office_route st cx r Rmuma a)"
proof (cases "hq_method r = ''OPTIONS'' \<or> (\<exists>e. hq_body r = Inl e)")
  case True
  then show ?thesis using assms by (auto simp: muma_def split: sum.split)
next
  case False
  then obtain rBody where r: "hq_method r \<noteq> ''OPTIONS''" "hq_body r = Inr rBody" by (cases "hq_body r") auto
  let ?run = "InvokeCC (cx_sdk cx) (cx_now cx) tj (cx_peers cx) (se_provider st) ''peer0.org1.example.com'' 0 0
      ''mychannel1'' ''token'' ''setPeer'' [''fab'', rBody, ''false''] s"
  have inv: "agrees (snd ?run) (office_route st cx r Rmuma a)"
    using agrees_InvokeCC [OF assms] r by simp
  obtain x s1 where run: "?run = (x, s1)" by fastforce
  obtain y s2 where byz: "ByzantineNum (cx_sdk cx) (cx_now cx) (se_provider st) s1 = (y, s2)" by fastforce
  have s2: "agrees s2 (office_route st cx r Rmuma a)"
    using agrees_ByzantineNum [of s1 _ "cx_sdk cx" "cx_now cx" "se_provider st"] inv by (simp add: run byz)
  then have "agrees (s2\<lparr>DB := d\<rparr>) (office_route st cx r Rmuma a)" for d by (rule agrees_same) simp_all
  then show ?thesis
    using inv s2 r by (auto simp: muma_def run byz split: outcome.split prod.split option.split simp del: office_route.simps)
qed

lemma agrees_serve:
  assumes "agrees s a"
  shows "agrees (snd (serve st cx cn s)) (office_step st (Serve cx cn) a)"
proof (cases "dispatch main_mux (hq_method (cn_request cn)) (cn_path cn)")
  case (Handled h)
  have inv: "agrees (snd (invoke et (cx_sdk cx) (cx_now cx) tj (cx_peers cx) (se_provider st) r s))
      (office_route st cx r Rinvoke a)" for et tj r
    using assms by (auto simp: invoke_state split: outcome.split intro: agrees_InvokeCC)
  have socket: "agrees (snd (open_socket fd cx s)) a" for fd
    using assms by (auto simp: open_socket_def subscribe_def intro: agrees_same)
  have timer: "agrees (snd (timerControl et s)) (a\<lparr>of_ticking := \<not> of_ticking a\<rparr>)" for et
    using assms by (auto simp: timerControl_def agrees_def office_of_def)
  have "agrees (snd (handle st cx cn h s)) (office_route st cx (cn_request cn) h a)"
    by (cases h) (use assms inv socket timer agrees_muma [OF assms] in
      \<open>simp_all add: controllerState_def del: office_route.simps(1,2)\<close>)
  then show ?thesis using Handled by (simp add: serve_def)
qed (use assms in \<open>simp_all add: serve_def\<close>)

section \<open>Blocks\<close>

lemma update_txs_keeps:
  "update_txs tj tpb number md i envs lp s = (Done lp', s') \<Longrightarrow>
    TxList s' = TxList s |` (- set (envelope_ids envs)) \<and> StatisticsTable s' = StatisticsTable s \<and>
    timerFlag s' = timerFlag s"
proof (induction envs arbitrary: i lp s)
  case (Cons b envs)
  show ?case
  proof (cases "GetEnvelopeFromBlock b")
    case (Inl e)
    then show ?thesis using Cons.prems by simp
  next
    case (Inr env)
    obtain pl err where pl: "UnmarshalPayload (env_Payload env) = (pl, err)" by fastforce
    show ?thesis
    proof (cases err)
      case (Some e)
      then show ?thesis using Cons Inr pl by simp
    next
      case None
      obtain hd flag where hd: "pl_Header pl = Some hd" "validation_code md i = Done flag"
        using Cons.prems Inr pl None
        by (cases "pl_Header pl"; cases "validation_code md i") (auto simp: Let_def)
      let ?id = "ch_TxId (fst (UnmarshalChannelHeader (hdr_ChannelHeader hd)))"
      obtain lp1 s1 where next_run: "update_txs tj tpb number md (i + 1) envs lp1 s1 = (Done lp', s')"
        "TxList s1 = (TxList s)(?id := None)" "StatisticsTable s1 = StatisticsTable s" "timerFlag s1 = timerFlag s"
        using Cons.prems Inr pl None hd by (auto simp: Let_def delete_entry_def)
      show ?thesis
        using Cons.IH [OF next_run(1)] next_run(2-4) Inr pl None hd
        by (auto simp: restrict_map_def fun_eq_iff)
    qed
  qed
qed (simp add: restrict_map_def)

lemma send_numbers_office:
  "act_each (send_tx_number drv) us s = (x, s') \<Longrightarrow>
    TxList s' = TxList s \<and> StatisticsTable s' = StatisticsTable s \<and> timerFlag s' = timerFlag s"
  by (induction us arbitrary: s) (fastforce simp: send_tx_number_def send_def split: outcome.splits prod.splits)+

lemma updateBlock_keeps:
  assumes "updateBlock k drv tj f conf b s = (Done u, s')"
  shows "TxList s' = TxList s |` (- set (block_ids b)) \<and> StatisticsTable s' = StatisticsTable s \<and>
    timerFlag s' = timerFlag s"
proof -
  obtain blk h where b: "b = Some blk" "blk_Header blk = Some h"
    using assms by (cases b; cases "blk_Header (the b)") (auto simp: updateBlock_def)
  show ?thesis
  proof (cases "bh_Number h = 0")
    case True
    then show ?thesis using assms b by (auto simp: updateBlock_def block_ids_def restrict_map_def split: option.split)
  next
    case False
    obtain d where d: "drv_begin drv (DB s) = None" "blk_Data blk = Some d"
      using assms b False
      by (cases "drv_begin drv (DB s)"; cases "blk_Data blk") (auto simp: updateBlock_def panic_on_def)
    obtain lp s1 where u: "update_txs tj (app_TxNumPerBlock conf) (bh_Number h) (blk_Metadata blk) 0 (bd_Data d)
        loop_start s = (Done lp, s1)"
      using assms b False d
      by (cases "fst (update_txs tj (app_TxNumPerBlock conf) (bh_Number h) (blk_Metadata blk) 0 (bd_Data d) loop_start s)")
        (auto simp: updateBlock_def panic_on_def split: prod.splits)
    have "TxList s' = TxList s1 \<and> StatisticsTable s' = StatisticsTable s1 \<and> timerFlag s' = timerFlag s1"
      using assms b False d u
      by (auto simp: updateBlock_def panic_on_def Let_def commit_block_def split: outcome.splits prod.splits
          dest!: send_numbers_office)
    then show ?thesis using update_txs_keeps [OF u] b d False by (simp add: block_ids_def)
  qed
qed

section \<open>Every step\<close>

lemma agrees_step:
  assumes "agrees s a" "process_step st e s = Some s'"
  shows "agrees s' (office_step st e a)"
proof (cases e)
  case (Serve cx cn)
  then show ?thesis using agrees_serve [OF assms(1), of st cx cn] assms(2) by (simp del: office_step.simps)
next
  case (Tick cx)
  have tick: "of_ticking a = timerFlag s" using assms(1) by (auto simp: agrees_def office_of_def)
  show ?thesis
  proof (cases "timerFlag s")
    case True
    let ?run = "InvokeCC (cx_sdk cx) (cx_now cx) (se_time st) (cx_peers cx) (se_provider st) ''peer0.org1.example.com''
        0 0 ''mychannel1'' ''token'' ''transfer'' [''fab'', ''alice'', ''bob'', ''10'', ''false''] s"
    have "s' = snd ?run"
      using assms(2) True Tick by (auto simp: timer_tick_def survives_def split: prod.splits outcome.splits)
    then show ?thesis using agrees_InvokeCC [OF assms(1)] True tick Tick by simp
  next
    case False
    then have "s' = s" using assms(2) Tick by (simp add: timer_tick_def survives_def)
    then show ?thesis using assms(1) False tick Tick by simp
  qed
next
  case (Arrive cx b)
  then have "updateBlock (cx_sdk cx) (se_driver st) (se_time st) (se_provider st) (se_conf st) b s = (Done (), s')"
    using assms(2) by (auto simp: survives_def split: prod.splits outcome.splits)
  from updateBlock_keeps [OF this] show ?thesis
    using assms(1) Arrive by (auto simp: agrees_def office_of_def)
next
  case (Closed fd uid)
  then show ?thesis using assms by (auto simp: unsubscribe_def intro: agrees_same)
qed

lemma agrees_run:
  "run_all (process_step st) es s = Some s' \<Longrightarrow> agrees s a \<Longrightarrow> agrees s' (foldl (\<lambda>a e. office_step st e a) a es)"
proof (induction es arbitrary: s a)
  case (Cons e es)
  obtain s1 where "process_step st e s = Some s1" "run_all (process_step st) es s1 = Some s'"
    using Cons.prems(1) by (auto split: option.splits)
  then show ?case using Cons.IH agrees_step [OF Cons.prems(2)] by simp
qed simp

section \<open>Runs of the process\<close>

text \<open>
  C3: Every run of the process, whatever the requests, ticks, blocks and closed websockets and in
  whatever order, changes the pending transactions, the statistics and the timer exactly as the
  office does: \<open>/invoke\<close>, a tick while the timer runs and \<open>/muma\<close> each remember their transaction,
  a transfer counts once, a block settles exactly the ids its envelopes carry, the timer is toggled
  by \<open>/controller\<close>, and nothing else touches them.
\<close>

theorem process_refines_office:
  assumes "run_all (process_step st) es s = Some s'" and "stats_ok (StatisticsTable s)"
  shows "office_of s' = foldl (\<lambda>a e. office_step st e a) (office_of s) es"
  using agrees_run [OF assms(1), of "office_of s"] assms(2) by (simp add: agrees_def)

text \<open>Submissions and everything but a block that names it leave a pending transaction pending.\<close>

lemma submit_pending:
  "txid \<in> dom (of_pending a) \<Longrightarrow> txid \<in> dom (of_pending (submit_token st cx p ty i fn args a))"
  by (auto simp: submit_token_def submit_def put_entry_def split: option.split)

lemma office_route_pending:
  "txid \<in> dom (of_pending a) \<Longrightarrow> txid \<in> dom (of_pending (office_route st cx r h a))"
  by (cases h) (simp_all add: submit_pending split: outcome.split sum.split)

lemma office_step_pending:
  assumes "txid \<in> dom (of_pending a)" "\<And>cx b. e = Arrive cx b \<Longrightarrow> txid \<notin> set (block_ids b)"
  shows "txid \<in> dom (of_pending (office_step st e a))"
proof (cases e)
  case (Serve cx cn)
  show ?thesis
    unfolding Serve
    by (cases "dispatch main_mux (hq_method (cn_request cn)) (cn_path cn)")
      (simp_all add: assms(1) office_route_pending)
next
  case (Tick cx)
  show ?thesis unfolding Tick by (simp add: assms(1) submit_pending)
next
  case (Arrive cx b)
  then show ?thesis using assms by simp
qed (use assms(1) in simp)

lemma office_run_pending:
  "txid \<in> dom (of_pending a) \<Longrightarrow> \<forall>cx b. Arrive cx b \<in> set es \<longrightarrow> txid \<notin> set (block_ids b) \<Longrightarrow>
    txid \<in> dom (of_pending (foldl (\<lambda>a e. office_step st e a) a es))"
proof (induction es arbitrary: a)
  case (Cons e es)
  have "txid \<in> dom (of_pending (office_step st e a))"
    using Cons.prems by (intro office_step_pending) auto
  then show ?case using Cons.IH Cons.prems(2) by simp
qed simp

text \<open>
  C21: A remembered transaction stays remembered until a block with its id arrives: a transaction
  that failed to be endorsed or ordered, which no block will ever carry, is kept for as long as
  the process runs.
\<close>

theorem pending_until_recorded:
  assumes "run_all (process_step st) es s = Some s'" and "stats_ok (StatisticsTable s)"
    and "TxList s txid \<noteq> None" and "\<forall>cx b. Arrive cx b \<in> set es \<longrightarrow> txid \<notin> set (block_ids b)"
  shows "TxList s' txid \<noteq> None"
proof -
  have "agrees s' (foldl (\<lambda>a e. office_step st e a) (office_of s) es)"
    using assms(2) by (intro agrees_run [OF assms(1)]) (simp add: agrees_def)
  then have "TxList s' = of_pending (foldl (\<lambda>a e. office_step st e a) (office_of s) es)"
    unfolding agrees_def office_of_def by (metis office.select_convs(1))
  moreover have "txid \<in> dom (of_pending (office_of s))" using assms(3) by (auto simp: office_of_def)
  ultimately show ?thesis using office_run_pending [OF _ assms(4)] by (metis domIff)
qed

section \<open>A concrete run\<close>

definition demo_setting :: "statement list setting" where
  "demo_setting = \<lparr>se_driver = log_driver, se_provider = net10, se_conf = tiny_conf, se_time = (\<lambda>_. None),
     se_error = (\<lambda>_. [])\<rparr>"

definition demo_cx :: circumstances where
  "demo_cx = \<lparr>cx_sdk = demo_sdk, cx_now = TimeZero, cx_peers = rev, cx_params = rev, cx_upgrade = None, cx_uid = ''u''\<rparr>"

definition toggle :: process_event where
  "toggle = Serve demo_cx \<lparr>cn_request = \<lparr>hq_method = ''POST'', hq_form = (\<lambda>_. []), hq_body = Inr []\<rparr>,
     cn_path = ''/controller'', cn_host = ''h''\<rparr>"

lemma toggle_route: "dispatch main_mux ''POST'' ''/controller'' = Handled RtimerControl"
  by code_simp

lemma demo_stats: "stats_ok (StatisticsTable (demo_server txs d))" "reading (StatisticsTable (demo_server txs d)) n c = 0"
  "timerFlag (demo_server txs d)"
  by (simp_all add: demo_server_def stats_ok_empty) (simp add: reading_def empty_stats_def)

lemma demo_tick: "\<exists>s'. process_step demo_setting (Tick demo_cx) s = Some s'"
proof (cases "timerFlag s")
  case True
  obtain s' where "InvokeCC demo_sdk TimeZero (\<lambda>_. None) rev net10 ''peer0.org1.example.com'' 0 0
      ''mychannel1'' ''token'' ''transfer'' [''fab'', ''alice'', ''bob'', ''10'', ''false''] s = (Done (Some ''ok'', ''tx'', None), s')"
    using invoke_run [where iter = rev and index = 0 and s = s and
        resp = "\<lparr>TransactionID = ''tx'', TxPayload = Some ''ok''\<rparr>" and err = None,
        OF demo_network [of 0] demo_peers mset_rev _ _ demo_signing]
    by (simp add: demo_orgs demo_execute)
  then show ?thesis using True by (simp add: demo_setting_def demo_cx_def timer_tick_def survives_def)
next
  case False
  then show ?thesis by (simp add: timer_tick_def survives_def)
qed

lemma demo_parts:
  obtains org nPeers bPeers ts where
    "submission demo_sdk rev net10 0 ''mychannel1'' = Some (org, (''User1'', replicate 24 (CHR ''n''),
       ComputeTxID (Some (replicate 24 (CHR ''n''))) (Some ''User1'')), nPeers, bPeers)"
    "length bPeers = 0" "choose_targets net10 nPeers bPeers = Done ts"
proof -
  let ?es = "rev (issue_peers 0)"
  obtain ts where ts: "split_peers ?es ([], []) =
        Done (map (place \<circ> fst) (filter snd ?es), map (place \<circ> fst) (filter (Not \<circ> snd) ?es))"
    "choose_targets net10 (map (place \<circ> fst) (filter snd ?es)) (map (place \<circ> fst) (filter (Not \<circ> snd) ?es)) = Done ts"
    using targets_run [OF demo_network [of 0] mset_rev] by blast
  have "length (filter (Not \<circ> snd) ?es) = byzantine_count (issue_peers 0)"
    unfolding byzantine_count_def comp_def by (simp add: rev_filter [symmetric])
  then have none: "length (map (place \<circ> fst) (filter (Not \<circ> snd) ?es)) = 0"
    using byzantine_count_issue [of 0] by simp
  have "go_index (Orgs net10) (sint (0 :: gint)) = Done (Orgs net10 ! 0)" by (simp add: go_index_Done demo_orgs)
  then have "submission demo_sdk rev net10 0 ''mychannel1'' = Some (org_Config (Orgs net10 ! 0),
      (''User1'', replicate 24 (CHR ''n''), ComputeTxID (Some (replicate 24 (CHR ''n''))) (Some ''User1'')),
      map (place \<circ> fst) (filter snd ?es), map (place \<circ> fst) (filter (Not \<circ> snd) ?es))"
    using ts(1) tx_begin_run [OF demo_signing] by (simp add: submission_def demo_peers)
  then show ?thesis using that none ts(2) by blast
qed

theorem process_refines_office_witness:
  "\<exists>s'. run_all (process_step demo_setting) [Tick demo_cx, toggle, Tick demo_cx] (demo_server Map.empty []) = Some s' \<and>
    TxList s' (ComputeTxID (Some (replicate 24 (CHR ''n''))) (Some ''User1'')) =
      Some \<lparr>PeerName = ''peer0.org1.example.com'', PeerType = 0\<rparr> \<and>
    reading (StatisticsTable s') 0 CNormalTx = 1 \<and> \<not> timerFlag s'"
proof -
  let ?s = "demo_server Map.empty ([] :: statement list)"
  obtain s1 where s1: "process_step demo_setting (Tick demo_cx) ?s = Some s1" using demo_tick by blast
  obtain s2 where s2: "process_step demo_setting toggle s1 = Some s2" by (simp add: toggle_def)
  obtain s3 where s3: "process_step demo_setting (Tick demo_cx) s2 = Some s3" using demo_tick by blast
  have run: "run_all (process_step demo_setting) [Tick demo_cx, toggle, Tick demo_cx] ?s = Some s3"
    using s1 s2 s3 by (simp del: process_step.simps)
  obtain org nPeers bPeers ts where d: "submission demo_sdk rev net10 0 ''mychannel1'' = Some (org,
      (''User1'', replicate 24 (CHR ''n''), ComputeTxID (Some (replicate 24 (CHR ''n''))) (Some ''User1'')), nPeers, bPeers)"
    "length bPeers = 0" "choose_targets net10 nPeers bPeers = Done ts"
    by (rule demo_parts)
  have "office_of s3 = foldl (\<lambda>a e. office_step demo_setting e a) (office_of ?s) [Tick demo_cx, toggle, Tick demo_cx]"
    by (rule process_refines_office [OF run demo_stats(1)])
  then have "TxList s3 (ComputeTxID (Some (replicate 24 (CHR ''n''))) (Some ''User1'')) =
      Some \<lparr>PeerName = ''peer0.org1.example.com'', PeerType = 0\<rparr>"
    "reading (StatisticsTable s3) 0 CNormalTx = 1" "\<not> timerFlag s3"
    using d
    by (auto simp: demo_stats office_of_def toggle_def toggle_route submit_token_def submit_def demo_setting_def demo_cx_def
        invoke_entry_def invoke_transfer_def put_entry_def demo_execute counted_def transfer_counters_def)
  then show ?thesis using run by blast
qed

theorem pending_until_recorded_witness:
  "\<exists>s'. run_all (process_step demo_setting)
      [toggle, Tick demo_cx, Arrive demo_cx (Some (tiny_block\<lparr>blk_Header := Some \<lparr>bh_Number = 0, bh_PreviousHash = None,
         bh_DataHash = None, bh_unknown = []\<rparr>\<rparr>))]
      (demo_server [''c'' \<mapsto> \<lparr>PeerName = ''p3'', PeerType = 0\<rparr>] []) = Some s' \<and> TxList s' ''c'' \<noteq> None"
proof -
  let ?s = "demo_server [''c'' \<mapsto> \<lparr>PeerName = ''p3'', PeerType = 0\<rparr>] ([] :: statement list)"
  let ?b = "tiny_block\<lparr>blk_Header := Some \<lparr>bh_Number = 0, bh_PreviousHash = None, bh_DataHash = None, bh_unknown = []\<rparr>\<rparr>"
  obtain s1 where s1: "process_step demo_setting toggle ?s = Some s1" by (simp add: toggle_def)
  obtain s2 where s2: "process_step demo_setting (Tick demo_cx) s1 = Some s2" using demo_tick by blast
  have s3: "process_step demo_setting (Arrive demo_cx (Some ?b)) s2 = Some s2"
    by (simp add: updateBlock_def survives_def)
  have run: "run_all (process_step demo_setting) [toggle, Tick demo_cx, Arrive demo_cx (Some ?b)] ?s = Some s2"
    using s1 s2 s3 by (simp del: process_step.simps)
  have "block_ids (Some ?b) = []" by (simp add: block_ids_def split: option.split)
  then show ?thesis
    using pending_until_recorded [OF run demo_stats(1), of "''c''"] run by (simp add: toggle_def del: process_step.simps run_all.simps)
qed

section \<open>The keys of the transaction rows\<close>

definition tx_key :: "statement \<Rightarrow> sql_arg" where
  "tx_key s = hd (snd s)"

text \<open>
  C28: The primary key of a transaction row, \<open>number * txNumPerBlock + i\<close>, tells all transactions
  apart as long as no block has more than \<open>txNumPerBlock\<close> of them and the key does not overflow;
  the transaction at position \<open>txNumPerBlock\<close> of a block has the key of the first of the next block.
\<close>

theorem tx_keys_unique:
  assumes "(unat number + 1) * unat tpb \<le> 2 ^ 64" "(unat number' + 1) * unat tpb \<le> 2 ^ 64"
    and "i < unat tpb" "j < unat tpb"
  shows "(tx_key (tx_statement number tpb i txid peer ty flag t) = tx_key (tx_statement number' tpb j txid' peer' ty' flag' t') \<longleftrightarrow>
      number = number' \<and> i = j) \<and>
    tx_key (tx_statement number tpb (unat tpb) txid peer ty flag t) =
      tx_key (tx_statement (number + 1) tpb 0 txid' peer' ty' flag' t')"
proof -
  have key: "unat (n * tpb + word_of_nat k) = unat n * unat tpb + k"
    if "(unat n + 1) * unat tpb \<le> 2 ^ 64" "k < unat tpb" for n k
  proof -
    have "unat n * unat tpb + k < 2 ^ 64" using that by (simp add: algebra_simps)
    moreover have "n * tpb + word_of_nat k = word_of_nat (unat n * unat tpb + k)" by simp
    ultimately show ?thesis by (simp only: unat_of_nat) simp
  qed
  have "number = number' \<and> i = j" if "unat number * unat tpb + i = unat number' * unat tpb + j"
  proof -
    have "(unat number * unat tpb + i) div unat tpb = unat number" "(unat number' * unat tpb + j) div unat tpb = unat number'"
      using assms(3,4) by simp_all
    then show ?thesis using that by (metis add_left_imp_eq unsigned_word_eqI)
  qed
  moreover have "number * tpb + word_of_nat i = number' * tpb + word_of_nat j \<Longrightarrow>
      unat number * unat tpb + i = unat number' * unat tpb + j"
    using key [OF assms(1,3)] key [OF assms(2,4)] by metis
  ultimately show ?thesis
    by (auto simp: tx_key_def tx_statement_def algebra_simps)
qed

theorem tx_keys_unique_witness:
  "tx_key (tx_statement 5 100 99 ''a'' ''p'' 0 0 TimeZero) \<noteq> tx_key (tx_statement 6 100 0 ''b'' ''p'' 0 0 TimeZero) \<and>
   tx_key (tx_statement 5 100 100 ''a'' ''p'' 0 0 TimeZero) = tx_key (tx_statement 6 100 0 ''b'' ''p'' 0 0 TimeZero)"
  using tx_keys_unique [of 5 100 6 99 0 "''a''" "''p''" 0 0 TimeZero "''b''" "''p''" 0 0 TimeZero] by simp

end
