(* ===== verification/Start_Up.thy ===== *)
theory Start_Up
  imports Fabsdk
begin

text \<open>
  What happens before \<open>main\<close> runs: the initialisation of the packages, in the order of their
  imports. \<open>helpers\<close> reads the configuration and then sets up the logger (\<open>logger.go\<close>), \<open>mysql\<close>
  opens the database (\<open>dbMgr\<close>), \<open>server\<close> builds the provider; any of them may panic. The file
  system, the log adapters, the YAML parser, the SQL driver and the SDK are arguments.
\<close>

section \<open>The logger\<close>

text \<open>
  \<open>os.Stat\<close> (whether the path is a directory, or an error), \<open>os.MkdirAll\<close> and \<open>ioutil.WriteFile\<close>
  of a file system whose state is \<open>'f\<close>.
\<close>

record 'f filesystem =
  fs_stat :: "'f \<Rightarrow> string \<Rightarrow> go_error + bool"
  fs_mkdirAll :: "'f \<Rightarrow> string \<Rightarrow> 'f \<times> go_error option"
  fs_write :: "'f \<Rightarrow> string \<Rightarrow> bytes option \<Rightarrow> 'f \<times> go_error option"

text \<open>The adapters set with their configuration, and the depth at which calls are reported.\<close>

record Logger =
  lg_adapters :: "(string \<times> string) list"
  lg_funcCall :: bool
  lg_callDepth :: gint

definition log_dir :: "Application \<Rightarrow> string" where
  "log_dir appConf = (if app_LogPath appConf = [] then ''logs'' else app_LogPath appConf)"

definition log_file :: "Application \<Rightarrow> string" where
  "log_file appConf = path_Join [log_dir appConf, ''logagent.log'']"

definition ensure_dir :: "'f filesystem \<Rightarrow> string \<Rightarrow> 'f \<Rightarrow> unit outcome \<times> 'f" where
  "ensure_dir fs logPath s =
     (case fs_stat fs s logPath of
        Inl e \<Rightarrow>
          (case fs_mkdirAll fs s logPath of
             (s', Some e) \<Rightarrow> (Panic (EText ''Invalid log path''), s')
           | (s', None) \<Rightarrow> (Done (), s'))
      | Inr isDir \<Rightarrow> (if isDir then Done () else Panic (EText (logPath @ '' must be a directory'')), s))"

definition ensure_file :: "'f filesystem \<Rightarrow> string \<Rightarrow> 'f \<Rightarrow> unit outcome \<times> 'f" where
  "ensure_file fs logFile s =
     (case fs_stat fs s logFile of
        Inl e \<Rightarrow> (case fs_write fs s logFile None of (s', Some e) \<Rightarrow> (Panic e, s') | (s', None) \<Rightarrow> (Done (), s'))
      | Inr isDir \<Rightarrow> (Done (), s))"

definition log_config :: "Application \<Rightarrow> string" where
  "log_config appConf =
     json_print (JObj [(''filename'', JStr (log_file appConf)), (''level'', JNum (itoa (scast (app_LogLevel appConf))))])"

text \<open>The error of the console adapter is overwritten before it is looked at.\<close>

definition set_adapters :: "(string \<Rightarrow> string \<Rightarrow> go_error option) \<Rightarrow> string \<Rightarrow> Logger outcome" where
  "set_adapters setLogger configStr =
     (case setLogger ''file'' configStr of
        Some e \<Rightarrow> Panic (EWrap ''logger SetLogger'' e)
      | None \<Rightarrow> Done \<lparr>lg_adapters = filter (\<lambda>(a, c). setLogger a c = None) [(''console'', configStr), (''file'', configStr)],
                lg_funcCall = True, lg_callDepth = 4\<rparr>)"

definition logger_init ::
    "'f filesystem \<Rightarrow> (string \<Rightarrow> string \<Rightarrow> go_error option) \<Rightarrow> Application \<Rightarrow> 'f \<Rightarrow> Logger outcome \<times> 'f" where
  "logger_init fs setLogger appConf s =
     (case ensure_dir fs (log_dir appConf) s of
        (Panic e, s1) \<Rightarrow> (Panic e, s1)
      | (Done _, s1) \<Rightarrow>
          (case ensure_file fs (log_file appConf) s1 of
             (Panic e, s2) \<Rightarrow> (Panic e, s2)
           | (Done _, s2) \<Rightarrow> (set_adapters setLogger (log_config appConf), s2)))"

section \<open>The packages\<close>

record surroundings =
  su_gopath :: string
  su_read :: "string \<Rightarrow> go_error + bytes"
  su_yaml :: "bytes \<Rightarrow> AppConf \<Rightarrow> AppConf \<times> go_error option"
  su_setLogger :: "string \<Rightarrow> string \<Rightarrow> go_error option"
  su_sdk :: sdk

record started =
  sd_conf :: Application
  sd_logger :: Logger
  sd_db :: DBMgr
  sd_provider :: FabSdkProvider

text \<open>\<open>new(AppConf)\<close>\<close>

definition AppConf_zero :: AppConf where
  "AppConf_zero = \<lparr>Conf = \<lparr>app_LogPath = [], app_LogLevel = 0, app_OrgInfo = [], app_OrderderInfo = [],
     app_DB = None, app_TxNumPerBlock = 0, app_TxInterval = 0\<rparr>\<rparr>"

definition start_up :: "surroundings \<Rightarrow> 'f filesystem \<Rightarrow> 'd driver \<Rightarrow> 'd \<Rightarrow> 'f \<Rightarrow> started outcome \<times> 'f" where
  "start_up u fs drv d s =
     (case appconf_init (su_gopath u) (su_read u) (su_yaml u) AppConf_zero of
        Panic e \<Rightarrow> (Panic e, s)
      | Done conf \<Rightarrow>
          (case logger_init fs (su_setLogger u) (Conf conf) s of
             (Panic e, s') \<Rightarrow> (Panic e, s')
           | (Done logger, s') \<Rightarrow>
               (out_bind (NewDBMgr drv d (app_DB (Conf conf))) (\<lambda>mgr.
                out_bind (server_init (su_sdk u) (Conf conf)) (\<lambda>provider.
                Done \<lparr>sd_conf = Conf conf, sd_logger = logger, sd_db = mgr, sd_provider = provider\<rparr>)), s')))"

section \<open>What a started process relies on\<close>

lemma load_orgs_Inr:
  "load_orgs k ps = Done (Inr orgs) \<Longrightarrow> map (Some \<circ> org_Config) orgs = ps"
proof (induction ps arbitrary: orgs)
  case (Cons p ps)
  then show ?case by (cases p) (auto simp: go_inversions deref_eq_Done)
qed simp

lemma load_orderers_Inr: "load_orderers k ps = Done (Inr os) \<Longrightarrow> map Some os = ps"
proof (induction ps arbitrary: os)
  case (Cons p ps)
  then show ?case by (cases p) (auto simp: go_inversions deref_eq_Done)
qed simp

lemma server_init_Done:
  assumes "server_init k appConf = Done f"
  shows "map (Some \<circ> org_Config) (Orgs f) = app_OrgInfo appConf" "Orgs f \<noteq> []"
    "map Some (Orderers f) = app_OrderderInfo appConf"
proof -
  have "NewFabSdkProvider k appConf = Done (Inr f)"
    using assms by (cases "NewFabSdkProvider k appConf") (auto simp: server_init_def or_panic_def split: sum.splits)
  then obtain orgs orderers where o: "load_orgs k (app_OrgInfo appConf) = Done (Inr orgs)" "orgs \<noteq> []"
    "load_orderers k (app_OrderderInfo appConf) = Done (Inr orderers)" "f = \<lparr>Orgs = orgs, Orderers = orderers\<rparr>"
    by (auto simp: NewFabSdkProvider_def go_inversions split: if_splits)
  show "map (Some \<circ> org_Config) (Orgs f) = app_OrgInfo appConf" "Orgs f \<noteq> []"
    "map Some (Orderers f) = app_OrderderInfo appConf"
    using load_orgs_Inr [OF o(1)] load_orderers_Inr [OF o(3)] o(2,4) by simp_all
qed

text \<open>
  What is relied on of the file system: a directory just made and a file just written are there,
  and writing a file takes no directory away.
\<close>

definition files_behave :: "'f filesystem \<Rightarrow> bool" where
  "files_behave fs \<longleftrightarrow>
     (\<forall>s p s'. fs_mkdirAll fs s p = (s', None) \<longrightarrow> fs_stat fs s' p = Inr True) \<and>
     (\<forall>s p b s'. fs_write fs s p b = (s', None) \<longrightarrow>
        fs_stat fs s' p = Inr False \<and> (\<forall>q. fs_stat fs s q = Inr True \<longrightarrow> fs_stat fs s' q = Inr True))"

lemma logger_init_Done:
  assumes "files_behave fs" "logger_init fs setLogger appConf s = (Done lg, s')"
  shows "fs_stat fs s' (log_dir appConf) = Inr True" "\<exists>isDir. fs_stat fs s' (log_file appConf) = Inr isDir"
    "(''file'', log_config appConf) \<in> set (lg_adapters lg)"
proof -
  obtain s1 where s1: "ensure_dir fs (log_dir appConf) s = (Done (), s1)"
    "ensure_file fs (log_file appConf) s1 = (Done (), s')" "set_adapters setLogger (log_config appConf) = Done lg"
    using assms(2) by (auto simp: logger_init_def split: prod.splits outcome.splits)
  have dir: "fs_stat fs s1 (log_dir appConf) = Inr True"
    using s1(1) assms(1) by (auto simp: ensure_dir_def files_behave_def split: sum.splits prod.splits option.splits if_splits)
  show "fs_stat fs s' (log_dir appConf) = Inr True" "\<exists>isDir. fs_stat fs s' (log_file appConf) = Inr isDir"
    using s1(2) dir assms(1) by (auto simp: ensure_file_def files_behave_def split: sum.splits prod.splits option.splits)
  show "(''file'', log_config appConf) \<in> set (lg_adapters lg)"
    using s1(3) by (auto simp: set_adapters_def split: option.splits)
qed

lemma start_up_Done:
  assumes "start_up u fs drv d s = (Done p, s')"
  shows "appconf_init (su_gopath u) (su_read u) (su_yaml u) AppConf_zero = Done \<lparr>Conf = sd_conf p\<rparr>"
    "logger_init fs (su_setLogger u) (sd_conf p) s = (Done (sd_logger p), s')"
    "NewDBMgr drv d (app_DB (sd_conf p)) = Done (sd_db p)" "server_init (su_sdk u) (sd_conf p) = Done (sd_provider p)"
proof -
  obtain conf where conf: "appconf_init (su_gopath u) (su_read u) (su_yaml u) AppConf_zero = Done conf"
    using assms by (auto simp: start_up_def split: outcome.splits)
  have "conf = \<lparr>Conf = Conf conf\<rparr>" by simp
  moreover have "sd_conf p = Conf conf" "logger_init fs (su_setLogger u) (sd_conf p) s = (Done (sd_logger p), s')"
    "NewDBMgr drv d (app_DB (sd_conf p)) = Done (sd_db p)" "server_init (su_sdk u) (sd_conf p) = Done (sd_provider p)"
    using assms by (auto simp: start_up_def conf go_inversions split: outcome.splits prod.splits)
  ultimately show "appconf_init (su_gopath u) (su_read u) (su_yaml u) AppConf_zero = Done \<lparr>Conf = sd_conf p\<rparr>"
    "logger_init fs (su_setLogger u) (sd_conf p) s = (Done (sd_logger p), s')"
    "NewDBMgr drv d (app_DB (sd_conf p)) = Done (sd_db p)" "server_init (su_sdk u) (sd_conf p) = Done (sd_provider p)"
    using conf by simp_all
qed

end
