(* ===== verification/Web_Properties.thy ===== *)
theory Web_Properties
  imports Process_Properties Start_Up
begin

text \<open>
  The properties of the web front and of the start: which handler a request reaches, that the
  demonstration page reads its address back, and what a process that has started relies on.
\<close>

section \<open>Routes\<close>

text \<open>
  C29: The registrations of \<open>main\<close> do not panic, and no request is lost: a clean path goes to the
  handler registered for it, or to the demonstration page when there is none (so no path is ever
  answered with 404); any other path is redirected to its clean form, which is clean, so that
  one redirect is enough.
\<close>

theorem requests_reach_handlers:
  assumes "verb \<noteq> ''CONNECT''"
  shows "handle_all main_routes [] = Done main_mux \<and>
    dispatch main_mux verb path =
      (if clean_path path = path
       then Handled (case map_of main_routes path of Some h \<Rightarrow> h | None \<Rightarrow> Rhome)
       else Redirected (clean_path path)) \<and>
    clean_path (clean_path path) = clean_path path"
proof -
  have "dispatch main_mux verb path = Handled (case map_of main_routes path of Some h \<Rightarrow> h | None \<Rightarrow> Rhome)"
    if "clean_path path = path"
    using dispatch_clean [of verb path] that by simp
  then show ?thesis using assms by (simp add: main_mux_eq clean_path_idem) (simp add: dispatch_def)
qed

theorem requests_reach_handlers_witness:
  "dispatch main_mux ''GET'' ''/block//../peers'' = Redirected ''/peers'' \<and>
   dispatch main_mux ''GET'' ''/peers'' = Handled RpeerList \<and> dispatch main_mux ''GET'' ''/peers/'' = Handled Rhome"
proof -
  have "clean_path ''/block//../peers'' = ''/peers''" "clean_path ''/peers'' = ''/peers''" "clean_path ''/peers/'' = ''/peers/''"
    "map_of main_routes ''/peers'' = Some RpeerList" "map_of main_routes ''/peers/'' = None"
    by code_simp+
  then show ?thesis
    using requests_reach_handlers [of "''GET''" "''/block//../peers''"] requests_reach_handlers [of "''GET''" "''/peers''"]
      requests_reach_handlers [of "''GET''" "''/peers/''"]
    by simp
qed

section \<open>The demonstration page\<close>

lemma home_page_quotes: "last home_before = quote_char" "home_after = quote_char # tl home_after"
  by code_simp+

text \<open>
  C39: Whatever bytes the host of a request is, the script of the page opens the socket at exactly
  \<open>ws://host/echo\<close>: reading the string literal in the page gives this address back and ends where
  the template goes on, and nothing in between could end the literal, the line or the script.
\<close>

theorem home_page_reads_back:
  "last home_before = quote_char \<and>
   js_literal (drop (length home_before) (hp_body (home host))) = Some (''ws://'' @ host @ ''/echo'', tl home_after) \<and>
   list_all js_safe (js_escape (''ws://'' @ host @ ''/echo''))"
proof -
  have "js_literal (js_escape (echo_address host) @ quote_char # tl home_after) = Some (echo_address host, tl home_after)"
    by (simp add: js_literal_escape js_literal.simps(2))
  then have "js_literal (drop (length home_before) (hp_body (home host))) = Some (echo_address host, tl home_after)"
    by (simp add: home_def home_template_def home_page_quotes(2) [symmetric])
  then show ?thesis using home_page_quotes(1) js_escape_safe unfolding echo_address_def by blast
qed

section \<open>A started process\<close>

text \<open>
  C40: When the packages have been initialised without a panic, the configuration is what the
  YAML parser made of the file in the GOPATH, the log directory and the log file exist and the
  file adapter writes there, the database was opened and answers, both statements prepare, and
  the provider has an instance of every configured organisation, in order, and at least one.
\<close>

theorem started_process:
  assumes "files_behave fs" and "start_up u fs drv d s = (Done p, s')"
  shows "(\<exists>path yamlFile. GetConfigPath (su_gopath u) ''app.yaml'' = Done path \<and> su_read u path = Inr yamlFile \<and>
      su_yaml u yamlFile AppConf_zero = (\<lparr>Conf = sd_conf p\<rparr>, None)) \<and>
    fs_stat fs s' (log_dir (sd_conf p)) = Inr True \<and> (\<exists>isDir. fs_stat fs s' (log_file (sd_conf p)) = Inr isDir) \<and>
    (''file'', log_config (sd_conf p)) \<in> set (lg_adapters (sd_logger p)) \<and>
    (\<exists>c. app_DB (sd_conf p) = Some c \<and> drv_open drv (dsn_of c) = None \<and> mgr_dsn (sd_db p) = dsn_of c) \<and>
    drv_ping drv = None \<and> drv_prepare drv d blockSQL = None \<and> drv_prepare drv d txSQL = None \<and>
    map (Some \<circ> org_Config) (Orgs (sd_provider p)) = app_OrgInfo (sd_conf p) \<and> Orgs (sd_provider p) \<noteq> []"
proof -
  note parts = start_up_Done [OF assms(2)]
  have conf: "\<exists>path yamlFile. GetConfigPath (su_gopath u) ''app.yaml'' = Done path \<and> su_read u path = Inr yamlFile \<and>
      su_yaml u yamlFile AppConf_zero = (\<lparr>Conf = sd_conf p\<rparr>, None)"
  proof -
    obtain path where path: "GetConfigPath (su_gopath u) ''app.yaml'' = Done path"
      using parts(1) by (cases "GetConfigPath (su_gopath u) ''app.yaml''") (auto simp: appconf_init_def)
    obtain yamlFile where rd: "su_read u path = Inr yamlFile"
      using parts(1) path by (cases "su_read u path") (auto simp: appconf_init_def)
    obtain c err where yaml: "su_yaml u yamlFile AppConf_zero = (c, err)" by fastforce
    have "err = None \<and> c = \<lparr>Conf = sd_conf p\<rparr>"
      using parts(1) path rd yaml by (cases err) (auto simp: appconf_init_def)
    then show ?thesis using path rd yaml by blast
  qed
  have panic: "panic_on e = Done x \<longleftrightarrow> e = None" for e and x :: unit
    by (cases e) (simp_all add: panic_on_def)
  have db: "\<exists>c. app_DB (sd_conf p) = Some c \<and> drv_open drv (dsn_of c) = None \<and> mgr_dsn (sd_db p) = dsn_of c"
    "drv_ping drv = None" "drv_prepare drv d blockSQL = None" "drv_prepare drv d txSQL = None"
    using parts(3) by (auto simp: NewDBMgr_def go_inversions deref_eq_Done panic eq_commute [of _ "sd_db p"])
  show ?thesis
    using conf db logger_init_Done [OF assms(1) parts(2)] server_init_Done [OF parts(4)] by simp
qed

text \<open>A small machine: a map of paths, a configuration with one organisation, everything else works.\<close>

definition small_files :: "(string \<rightharpoonup> bool) filesystem" where
  "small_files = \<lparr>fs_stat = (\<lambda>s p. case s p of None \<Rightarrow> Inl (EText ''not found'') | Some d \<Rightarrow> Inr d),
     fs_mkdirAll = (\<lambda>s p. (s(p \<mapsto> True), None)),
     fs_write = (\<lambda>s p b. if s p = Some True then (s, Some (EText ''is a directory'')) else (s(p \<mapsto> False), None))\<rparr>"

definition small_conf :: Application where
  "small_conf = tiny_conf\<lparr>app_OrgInfo := [Some \<lparr>oi_Name = ''Org1'', oi_Admin = ''Admin'', oi_User = ''User1''\<rparr>],
     app_DB := Some \<lparr>db_User = ''root'', db_Password = ''pw'', db_Name = ''explore'', db_Host = ''localhost'',
       db_Port = ''3306'', db_MaxOpenConns = 10, db_MaxIdleConns = 5\<rparr>\<rparr>"

definition small_machine :: surroundings where
  "small_machine = \<lparr>su_gopath = ''/go'', su_read = (\<lambda>_. Inr []), su_yaml = (\<lambda>_ _. (\<lparr>Conf = small_conf\<rparr>, None)),
     su_setLogger = (\<lambda>a c. if a = ''console'' then Some (EText ''no console'') else None),
     su_sdk = demo_sdk\<lparr>sdk_peers_config := (\<lambda>_. Some [''p0''])\<rparr>\<rparr>"

lemma small_files_behave: "files_behave small_files"
  by (auto simp: files_behave_def small_files_def split: if_splits option.splits)

theorem started_process_witness:
  "\<exists>p s'. start_up small_machine small_files log_driver [] Map.empty = (Done p, s') \<and>
    s' ''logs'' = Some True \<and> s' (log_file (sd_conf p)) \<noteq> None \<and> sd_conf p = small_conf \<and>
    map (Some \<circ> org_Config) (Orgs (sd_provider p)) = app_OrgInfo small_conf"
proof -
  have path: "GetConfigPath ''/go'' ''app.yaml'' = Done ''/go/src/fabric-byzantine/conf/app.yaml''"
    "log_dir small_conf = ''logs''" "log_file small_conf = ''logs/logagent.log''"
    by code_simp+
  have log: "\<exists>lg. logger_init small_files (su_setLogger small_machine) small_conf Map.empty =
      (Done lg, [''logs'' \<mapsto> True, ''logs/logagent.log'' \<mapsto> False])"
    by (simp add: logger_init_def ensure_dir_def ensure_file_def path small_files_def set_adapters_def small_machine_def)
  have db: "\<exists>mgr. NewDBMgr log_driver [] (app_DB small_conf) = Done mgr"
    by (simp add: NewDBMgr_def small_conf_def log_driver_def panic_on_def)
  have server: "\<exists>f. server_init (su_sdk small_machine) small_conf = Done f"
    by (simp add: server_init_def NewFabSdkProvider_def loadOrgPeers_def small_machine_def small_conf_def
        tiny_conf_def demo_sdk_def ok_unit_def)
  have "appconf_init (su_gopath small_machine) (su_read small_machine) (su_yaml small_machine) AppConf_zero =
      Done \<lparr>Conf = small_conf\<rparr>"
    by (simp add: appconf_init_def small_machine_def path)
  then obtain p s' where run: "start_up small_machine small_files log_driver [] Map.empty = (Done p, s')"
    "sd_conf p = small_conf"
    using log db server by (auto simp: start_up_def)
  show ?thesis
    using started_process [OF small_files_behave run(1)] run path
    by (auto simp: small_files_def split: option.splits)
qed

end
