(* ===== verification/Spec2Isabelle.thy ===== *)
theory Spec2Isabelle
  imports
    Token_Properties
    Example_Properties
    Protoutil_Properties
    Block_Properties
    Server_Properties
    Invoke_Properties
    Submission_Properties
    Web_Properties
begin

text \<open>
  A model of fabric-byzantine: a Hyperledger Fabric network whose peers can be declared byzantine,
  a token chaincode that runs on it, and a web server that submits transfers, follows the ledger
  and shows what happened.

  \<^bold>\<open>The program.\<close> Two chaincodes (\<open>src/chaincode/src/token/token.go\<close>, \<open>example_cc/go/example_cc.go\<close>)
  keep their state as bytes under keys of the ledger, through the chaincode shim. The server
  (\<open>src/main.go\<close>, \<open>src/server\<close>) queries and invokes them through the Fabric SDK (\<open>fabsdk.go\<close>): an
  invocation first asks the token chaincode which peers are byzantine and sends its proposal to
  the group that has at least seven members, remembers who submitted it under its transaction id,
  and counts it (\<open>statistics.go\<close>). The block listener (\<open>block_listener.go\<close>) turns every block into
  rows of a database (\<open>mysql/\<close>) and into messages to websocket subscribers, looking the remembered
  submitter up by the transaction id in the envelope. The package \<open>server/protoutil\<close> builds and takes
  apart the protobuf messages of proposals, transactions and blocks.

  \<^bold>\<open>Foundations.\<close> \<open>Prelude\<close> has Go's errors, panics, machine integers, slices and the sequencing
  combinators with their inversions. \<open>Go_Strconv\<close>, \<open>Go_Map\<close>, \<open>Go_Json\<close>, \<open>Json_Roundtrip\<close> and \<open>Go_Hash\<close>
  model what the sources use of \<open>strconv\<close>, maps, \<open>encoding/json\<close> and SHA-256; \<open>Codec\<close> is the contract
  of an encoder and its decoder, interpreted for decimal numbers, JSON and the token document.
  \<open>Step_System\<close> holds runs, reachability and invariants of step functions, and the contract of a
  system whose steps use up work, interpreted for the goroutines of the statistics and for the
  broadcasts.

  \<^bold>\<open>Chaincodes.\<close> \<open>Shim\<close> is the stub as the chaincodes see it, with a peer that may fail any call
  (contract \<open>kv_stub\<close>: reads see the committed state only). \<open>Token_Chaincode\<close> has the struct, its JSON
  document and every handler of \<open>token.go\<close>; \<open>Token_Document\<close>, \<open>Token_Contract\<close>, \<open>Token_Ledger\<close> and
  \<open>Token_Handlers\<close> prove the round trip of the document, the abstract transfer on unbounded integers,
  the invariant of reachable ledgers and what each handler may write; \<open>Token_Properties\<close> states the
  results. \<open>Example_CC\<close> and \<open>Example_Properties\<close> do the same for the example chaincode.

  \<^bold>\<open>Protobuf utilities.\<close> \<open>Proto_Wire\<close> is the wire format as the vendored \<open>golang/protobuf\<close> reads and
  writes it, \<open>Proto_Roundtrip\<close> its round trip, \<open>Proto_Messages\<close> the generated structs, \<open>Message_Facts\<close>
  their instances of the round trip. \<open>Unmarshalers\<close>, \<open>Common_Utils\<close>, \<open>Block_Utils\<close>, \<open>Prop_Utils\<close>,
  \<open>Tx_Utils\<close>, \<open>Tx_Id\<close> and \<open>Signed_Data\<close> are the files of \<open>server/protoutil\<close>, function by function.
  \<open>Endorsement_Flow\<close> inverts their results and composes proposal, endorsement, transaction and
  commit; \<open>Flow_Example\<close> is a concrete run; \<open>Protoutil_Properties\<close> and \<open>Block_Properties\<close> state the results.

  \<^bold>\<open>Server.\<close> \<open>Server_Config\<close> is \<open>helpers/appconf.go\<close>, \<open>metadata.go\<close> and \<open>utils.go\<close>. \<open>Statistics\<close> is the
  table of pointers with the updates \<open>InvokeCC\<close> makes, \<open>Statistics_Race\<close> the same updates as single
  memory accesses that goroutines interleave. \<open>Mysql_DB\<close> is \<open>mysql/db.go\<close> and \<open>handler.go\<close>. \<open>Fabsdk\<close> has the
  process state (\<open>server\<close>: the global variables of the packages \<open>server\<close> and \<open>main\<close>, and the messages
  sent), the provider and \<open>QueryCC\<close>; \<open>Fabsdk_Invoke\<close> has \<open>InvokeCC\<close>; \<open>Block_Listener\<close> has \<open>updateBlock\<close>,
  the event loop and the catch-up; \<open>Http_Handlers\<close> the handlers of \<open>main.go\<close>; \<open>Broadcast\<close> the senders
  and websocket handlers over unbuffered channels. Operations on the process state are functions
  from the state to an outcome (a result or a panic) and the new state, which is kept at a panic.
  \<open>Server_Properties\<close>, \<open>Invoke_Properties\<close> and \<open>Listener_Properties\<close> state the results, and
  \<open>Submission_Properties\<close> joins the three: an invocation, the transaction \<open>protoutil\<close> makes of it, and
  the row the listener writes for it.

  \<^bold>\<open>The process.\<close> \<open>Start_Up\<close> is what the packages do before \<open>main\<close> runs, in the order of their imports:
  the configuration, \<open>helpers/logger.go\<close> over an abstract file system, the database, the provider, with
  every panic. \<open>Home_Page\<close> is \<open>home\<close> and its template, with the escaping \<open>html/template\<close> applies inside
  a JavaScript string, and a reader of such strings. \<open>Http_Routes\<close> is the table \<open>main\<close> registers and how
  \<open>net/http\<close>'s \<open>ServeMux\<close> looks a path up in it. \<open>Server_Process\<close> composes all handlers, the timer and the
  listener into one step function on the process state: an event is a request, a tick, a block or
  a closed websocket, and comes with its own circumstances (what the SDK answers, the clock, the
  orders of map iterations). \<open>Process_Properties\<close> proves that its runs refine an abstract office that
  knows only the pending transactions, the counters and the timer; \<open>Web_Properties\<close> states the results
  about routes, the page and the start.

  \<^bold>\<open>What the theorems show.\<close> For the token: the supply is conserved over every reachable ledger, a
  transfer refines the abstract one, the document round-trips, every invocation returns and writes
  only what it names, the result is independent of Go's map order; and where it fails its purpose
  (silent overdrafts, names that are no UTF-8). For the protobuf utilities: a proposal carries its
  id, what endorsers signed is what a committer reads and hashes, a signed transaction exists only
  for agreeing successful responses, honest parties always complete. For the server: an invocation
  goes to exactly the peers the ledger calls for and is remembered under the id the header carries,
  so that its row in the database names the peer that submitted it,
  blocks become exactly the rows of their transactions, pages are exact windows, the statistics are
  exact sequentially and never exceed the truth concurrently, broadcasts end when writes succeed.
  For the process as a whole: every run acts on pending transactions, counters and timer as the
  office does, a transaction stays pending until a block carries it, every request reaches its
  handler after at most one redirect, the page's script opens exactly the address it was given, and
  a process that started has its configuration, log file, database and organisations. Row keys of
  transactions are unique up to the configured number per block, and collide beyond.
  Also what goes wrong: lost counts, senders stranded by a failed write, transactions attributed to
  their predecessor, a block between catch-up and live events lost, byzantine marks never removed,
  transactions no block ever carries remembered for ever.

  \<^bold>\<open>Integers, loops and bounds.\<close> Go's \<open>int\<close>, \<open>int64\<close> and \<open>uint64\<close> are 64-bit words, \<open>int32\<close> and \<open>int8\<close>
  words of their width, so that wrap-around is the code's. No fuel is used: every loop is a total
  function. The readers of the wire format recurse on strictly shorter input; the catch-up loop on
  the distance to the ledger height; a broadcast and the goroutines of the statistics decrease an
  explicit measure (\<open>hub_work\<close>, the instructions left).

  \<^bold>\<open>Parameters.\<close> Code that is not in the repository's own sources, or that depends on the outside, is
  an argument: the Fabric SDK (\<open>sdk\<close>), the SQL driver (\<open>driver\<close>), the clock, the random source, the
  signing identities, the YAML parser, the text of errors and times, the order in which Go
  iterates over maps (any reordering), the file system and the log adapters. Theorems name what they assume of them
  (\<open>serves_ledger\<close>, \<open>signing\<close>, \<open>updates_peers\<close>, \<open>network_ok\<close>), and each has a concrete witness.

  \<^bold>\<open>Not modelled.\<close> Log output; flag parsing, listening on the port and the exit of \<open>main\<close>; the
  \<open>main\<close> functions of the chaincodes, which only hand the process to the shim; \<open>configtxutils.go\<close> (one
  constructor of a struct with three empty maps, never called); the JavaScript example chaincode;
  scripts, compose files and the SQL schema; the vendored packages beyond the shim, the wire format
  and the message structs. An event of \<open>Server_Process\<close> is one step, and \<open>InvokeCC\<close> and \<open>updateBlock\<close> hand
  messages over without waiting there: goroutines that interleave are modelled in \<open>Statistics_Race\<close>
  and \<open>Broadcast\<close> only. The abort the Go runtime may raise on concurrent map access is not modelled.
\<close>

end
